(* ===== verification/Prelude.thy ===== *)
theory Prelude
  imports Complex_Main "HOL-Library.Product_Lexorder"
begin

text \<open>
  Shared vocabulary of the development: times and durations as Python's \<^verbatim>\<open>datetime\<close> and
  \<^verbatim>\<open>timedelta\<close> have them, the errors the application raises as values, SQL comparisons on
  nullable columns, and the generic lemmas on tables (lists of rows) that every component uses.
\<close>

named_theorems table_simps \<open>reading tables after inserts, updates and deletes\<close>
named_theorems result_simps \<open>unfolding of the error monad\<close>
named_theorems frame_simps \<open>columns and tables an operation does not write\<close>

subsection \<open>Time\<close>

text \<open>
  A \<^verbatim>\<open>datetime\<close> has microsecond resolution. Every value the code compares passes through
  \<^verbatim>\<open>aware\<close> (a naive value read back from SQLite is taken as UTC), so an instant is the number
  of microseconds since the epoch, in UTC.  Python floats are modelled by exact rationals.
\<close>

type_synonym datetime = int
type_synonym bytes = string

text \<open>\<^verbatim>\<open>timedelta(seconds=n)\<close> for an integer number of seconds.\<close>

definition seconds :: "int \<Rightarrow> int" where
  "seconds n = n * 1000000"

definition days :: "int \<Rightarrow> int" where
  "days n = n * 86400 * 1000000"

definition hours :: "int \<Rightarrow> int" where
  "hours n = n * 3600 * 1000000"

text \<open>
  \<^verbatim>\<open>timedelta(seconds=x)\<close> for a float: the number of microseconds is rounded to the nearest
  integer, ties to even.
\<close>

definition round_half_even :: "rat \<Rightarrow> int" where
  "round_half_even x =
     (let f = \<lfloor>x\<rfloor>; d = x - of_int f
      in if d < 1 / 2 then f
         else if d > 1 / 2 then f + 1
         else if even f then f else f + 1)"

definition seconds_float :: "rat \<Rightarrow> int" where
  "seconds_float x = round_half_even (x * 1000000)"

text \<open>\<^verbatim>\<open>timedelta.total_seconds()\<close>.\<close>

definition total_seconds :: "int \<Rightarrow> rat" where
  "total_seconds d = of_int d / 1000000"

lemma seconds_mono [simp]: "seconds m \<le> seconds n \<longleftrightarrow> m \<le> n"
  by (simp add: seconds_def)

lemma seconds_strict_mono [simp]: "seconds m < seconds n \<longleftrightarrow> m < n"
  by (simp add: seconds_def)

lemma seconds_nonneg [simp]: "0 \<le> seconds n \<longleftrightarrow> 0 \<le> n"
  by (simp add: seconds_def)

lemma seconds_pos [simp]: "0 < seconds n \<longleftrightarrow> 0 < n"
  by (simp add: seconds_def)

lemma total_seconds_mono [simp]: "total_seconds a \<le> total_seconds b \<longleftrightarrow> a \<le> b"
  by (simp add: total_seconds_def divide_le_cancel)

lemma total_seconds_nonneg [simp]: "0 \<le> total_seconds a \<longleftrightarrow> 0 \<le> a"
  by (simp add: total_seconds_def)

lemma total_seconds_zero [simp]: "total_seconds 0 = 0"
  by (simp add: total_seconds_def)

lemma total_seconds_add: "total_seconds (a + b) = total_seconds a + total_seconds b"
  by (simp add: total_seconds_def add_divide_distrib)

lemma total_seconds_seconds [simp]: "total_seconds (seconds n) = of_int n"
  by (simp add: total_seconds_def seconds_def)

lemma round_half_even_near: "\<bar>of_int (round_half_even x) - x\<bar> \<le> 1 / 2"
proof -
  have "of_int \<lfloor>x\<rfloor> \<le> x" and "x < of_int \<lfloor>x\<rfloor> + 1"
    using floor_correct [of x] by simp_all
  then show ?thesis
    by (auto simp: round_half_even_def Let_def abs_le_iff)
qed

lemma round_half_even_of_int [simp]: "round_half_even (of_int n) = n"
  by (simp add: round_half_even_def)

lemma round_half_even_nonneg: "0 \<le> x \<Longrightarrow> 0 \<le> round_half_even x"
  by (auto simp: round_half_even_def Let_def)

lemma round_half_even_le_int:
  assumes "x \<le> of_int n"
  shows "round_half_even x \<le> n"
proof (rule ccontr)
  assume "\<not> round_half_even x \<le> n"
  then have "of_int (n + 1) \<le> (of_int (round_half_even x) :: rat)"
    by (simp only: of_int_le_iff)
  with round_half_even_near [of x] assms have "x = of_int n \<and> False"
    by (auto simp: abs_le_iff)
  then show False by simp
qed

lemma round_half_even_mono:
  assumes "x \<le> y"
  shows "round_half_even x \<le> round_half_even y"
proof (cases "\<lfloor>x\<rfloor> = \<lfloor>y\<rfloor>")
  case True
  with assms show ?thesis by (auto simp: round_half_even_def Let_def)
next
  case False
  then have "\<lfloor>x\<rfloor> + 1 \<le> \<lfloor>y\<rfloor>" using floor_mono [OF assms] by simp
  moreover have "round_half_even x \<le> \<lfloor>x\<rfloor> + 1" "\<lfloor>y\<rfloor> \<le> round_half_even y"
    by (simp_all add: round_half_even_def Let_def)
  ultimately show ?thesis by linarith
qed

lemma seconds_float_nonneg: "0 \<le> x \<Longrightarrow> 0 \<le> seconds_float x"
  by (simp add: seconds_float_def round_half_even_nonneg)

lemma seconds_float_le: "x \<le> of_int n \<Longrightarrow> seconds_float x \<le> seconds n"
  unfolding seconds_float_def seconds_def by (rule round_half_even_le_int) simp

subsection \<open>Errors as values\<close>

text \<open>
  The exceptions of \<^verbatim>\<open>app/exceptions.py\<close> with the arguments their constructors take, and the
  Python exceptions the modelled code raises or lets escape.
\<close>

datatype app_error =
    NotFoundError string string
  | AlreadyExistsError string string string
  | ConflictError string
  | ValidationError string "string option"
  | UnauthorizedError string string
  | ForbiddenError string
  | QuotaExceededError string int
  | SaturationError string
  | RuntimeError string
  | ValueError string
  | KeyError
  | IndexError
  | AttributeError string
  | TypeError string
  | DataError string
  | IntegrityError string

type_synonym 'a result = "app_error + 'a"

definition bindr :: "'a result \<Rightarrow> ('a \<Rightarrow> 'b result) \<Rightarrow> 'b result" where
  "bindr m f = (case m of Inl e \<Rightarrow> Inl e | Inr x \<Rightarrow> f x)"

lemma bindr_simps [simp, result_simps]:
  "bindr (Inl e) f = Inl e"
  "bindr (Inr x) f = f x"
  by (simp_all add: bindr_def)

lemma bindr_Inr_iff [result_simps]:
  "bindr m f = Inr y \<longleftrightarrow> (\<exists>x. m = Inr x \<and> f x = Inr y)"
  by (cases m) auto

lemma bindr_Inl_iff [result_simps]:
  "bindr m f = Inl e \<longleftrightarrow> m = Inl e \<or> (\<exists>x. m = Inr x \<and> f x = Inl e)"
  by (cases m) auto

lemma bindr_InrE:
  assumes "bindr m f = Inr y"
  obtains x where "m = Inr x" and "f x = Inr y"
  using assms by (auto simp: bindr_Inr_iff)

lemma bindr_cong [fundef_cong]:
  "m = m' \<Longrightarrow> (\<And>x. m' = Inr x \<Longrightarrow> f x = g x) \<Longrightarrow> bindr m f = bindr m' g"
  by (cases m') auto

text \<open>A row that must be there, or the error the code raises when it is not.\<close>

definition some_or :: "app_error \<Rightarrow> 'a option \<Rightarrow> 'a result" where
  "some_or e x = (case x of None \<Rightarrow> Inl e | Some y \<Rightarrow> Inr y)"

lemma some_or_simps [simp, result_simps]:
  "some_or e None = Inl e"
  "some_or e (Some x) = Inr x"
  by (simp_all add: some_or_def)

lemma some_or_Inr_iff [result_simps]: "some_or e x = Inr y \<longleftrightarrow> x = Some y"
  by (cases x) auto

lemma if_Inl_Inr_iff [result_simps]:
  "(if b then Inl e else r) = Inr y \<longleftrightarrow> \<not> b \<and> r = Inr y"
  by simp

subsection \<open>Nullable columns\<close>

text \<open>A comparison with a NULL column is not true, so the row is not selected.\<close>

definition opt_le :: "int option \<Rightarrow> int \<Rightarrow> bool" where
  "opt_le c n = (case c of None \<Rightarrow> False | Some t \<Rightarrow> t \<le> n)"

definition opt_gt :: "int option \<Rightarrow> int \<Rightarrow> bool" where
  "opt_gt c n = (case c of None \<Rightarrow> False | Some t \<Rightarrow> n < t)"

lemma opt_le_simps [simp]: "opt_le None n = False" "opt_le (Some t) n = (t \<le> n)"
  by (simp_all add: opt_le_def)

lemma opt_gt_simps [simp]: "opt_gt None n = False" "opt_gt (Some t) n = (n < t)"
  by (simp_all add: opt_gt_def)

lemma opt_le_not_gt: "opt_le c n \<Longrightarrow> \<not> opt_gt c n"
  by (cases c) auto

lemma opt_le_iff: "opt_le c n \<longleftrightarrow> (\<exists>t. c = Some t \<and> t \<le> n)"
  by (cases c) auto

lemma opt_gt_iff: "opt_gt c n \<longleftrightarrow> (\<exists>t. c = Some t \<and> n < t)"
  by (cases c) auto

subsection \<open>Tables\<close>

text \<open>
  A table is the list of its rows in primary-key order.  \<open>update_where\<close> is the effect of
  assigning to the rows a query returned; \<open>delete_where\<close> that of a DELETE.
\<close>

definition update_where :: "('r \<Rightarrow> bool) \<Rightarrow> ('r \<Rightarrow> 'r) \<Rightarrow> 'r list \<Rightarrow> 'r list" where
  "update_where p f rows = map (\<lambda>r. if p r then f r else r) rows"

definition delete_where :: "('r \<Rightarrow> bool) \<Rightarrow> 'r list \<Rightarrow> 'r list" where
  "delete_where p rows = filter (\<lambda>r. \<not> p r) rows"

definition count_where :: "('r \<Rightarrow> bool) \<Rightarrow> 'r list \<Rightarrow> int" where
  "count_where p rows = int (length (filter p rows))"

lemma count_where_nonneg [simp]: "0 \<le> count_where p rows"
  by (simp add: count_where_def)

lemma count_where_Nil [simp]: "count_where p [] = 0"
  by (simp add: count_where_def)

lemma count_where_Cons [simp]:
  "count_where p (r # rows) = (if p r then 1 else 0) + count_where p rows"
  by (simp add: count_where_def)

lemma count_where_append [simp]:
  "count_where p (xs @ ys) = count_where p xs + count_where p ys"
  by (simp add: count_where_def)

lemma count_where_cong:
  "(\<And>r. r \<in> set rows \<Longrightarrow> p r = q r) \<Longrightarrow> count_where p rows = count_where q rows"
  unfolding count_where_def by (metis (mono_tags, lifting) filter_cong)

lemma update_where_Nil [simp]: "update_where p f [] = []"
  by (simp add: update_where_def)

lemma update_where_Cons [simp]:
  "update_where p f (r # rows) = (if p r then f r else r) # update_where p f rows"
  by (simp add: update_where_def)

lemma length_update_where [simp]: "length (update_where p f rows) = length rows"
  by (simp add: update_where_def)

lemma set_update_where:
  "set (update_where p f rows) = {f r | r. r \<in> set rows \<and> p r} \<union> {r \<in> set rows. \<not> p r}"
  by (auto simp: update_where_def)

lemma map_update_where [table_simps]:
  "(\<And>r. g (f r) = g r) \<Longrightarrow> map g (update_where p f rows) = map g rows"
  by (induction rows) auto

lemma update_where_none:
  "(\<And>r. r \<in> set rows \<Longrightarrow> \<not> p r) \<Longrightarrow> update_where p f rows = rows"
  by (induction rows) auto

lemma find_Some_set: "List.find p rows = Some r \<Longrightarrow> r \<in> set rows \<and> p r"
  by (induction rows) (auto split: if_splits)

lemma find_None_set: "List.find p rows = None \<longleftrightarrow> (\<forall>r \<in> set rows. \<not> p r)"
  by (induction rows) auto

lemma find_append:
  "List.find p (xs @ ys) = (case List.find p xs of Some r \<Rightarrow> Some r | None \<Rightarrow> List.find p ys)"
  by (induction xs) auto

lemma find_filter: "List.find p (filter q xs) = List.find (\<lambda>r. q r \<and> p r) xs"
  by (induction xs) auto

text \<open>
  The primary key: two rows of a table with the same key are the same row.  These lemmas say what
  reading by key gives after the operations the components use.
\<close>

lemma row_unique:
  "distinct (map key rows) \<Longrightarrow> r \<in> set rows \<Longrightarrow> s \<in> set rows \<Longrightarrow> key r = key s \<Longrightarrow> r = s"
  by (auto simp: distinct_map dest: inj_onD)

lemma find_key:
  "distinct (map key rows) \<Longrightarrow> r \<in> set rows \<Longrightarrow>
   List.find (\<lambda>s. key s = key r) rows = Some r"
  by (induction rows) (auto simp: image_iff)

lemma find_key_iff:
  assumes "distinct (map key rows)"
  shows "List.find (\<lambda>s. key s = k) rows = Some r \<longleftrightarrow> r \<in> set rows \<and> key r = k"
  using find_key [OF assms, of r] by (auto dest: find_Some_set)

lemma find_key_update:
  assumes "\<And>r. key (f r) = key r"
  shows "List.find (\<lambda>s. key s = k) (update_where (\<lambda>s. key s = k') f rows) =
    (if k = k' then map_option f (List.find (\<lambda>s. key s = k) rows)
     else List.find (\<lambda>s. key s = k) rows)"
  using assms by (induction rows) auto

lemma find_key_put:
  "key q = k \<Longrightarrow> List.find (\<lambda>s. key s = k') (update_where (\<lambda>s. key s = k) (\<lambda>_. q) rows) =
    (if k' = k then map_option (\<lambda>_. q) (List.find (\<lambda>s. key s = k) rows)
     else List.find (\<lambda>s. key s = k') rows)"
  by (induction rows) auto

lemma distinct_put:
  "distinct (map key rows) \<Longrightarrow>
   distinct (map key (update_where (\<lambda>s. key s = key q) (\<lambda>_. q) rows))"
proof -
  have "map key (update_where (\<lambda>s. key s = key q) (\<lambda>_. q) rows) = map key rows"
    by (induction rows) auto
  then show "distinct (map key rows) \<Longrightarrow> ?thesis" by simp
qed

lemma distinct_update:
  assumes "\<And>r. key (f r) = key r" and "distinct (map key rows)"
  shows "distinct (map key (update_where p f rows))"
  using assms by (simp add: map_update_where)

lemma count_update_one:
  assumes "distinct (map key rows)" and "r \<in> set rows" and "\<And>r. key (f r) = key r"
  shows "count_where p (update_where (\<lambda>s. key s = key r) f rows) =
    count_where p rows - (if p r then 1 else 0) + (if p (f r) then 1 else 0)"
  using assms
proof (induction rows)
  case Nil
  then show ?case by simp
next
  case (Cons x rows)
  show ?case
  proof (cases "x = r")
    case True
    with Cons.prems have "\<And>s. s \<in> set rows \<Longrightarrow> key s \<noteq> key r"
      by (auto simp: image_iff)
    then have "update_where (\<lambda>s. key s = key r) f rows = rows"
      by (intro update_where_none) auto
    with True show ?thesis by simp
  next
    case False
    with Cons.prems have "key x \<noteq> key r" and "r \<in> set rows"
      by (auto simp: image_iff)
    with Cons False show ?thesis by simp
  qed
qed

subsection \<open>ORDER BY, OFFSET and LIMIT\<close>

definition page_rows :: "nat \<Rightarrow> nat \<Rightarrow> 'r list \<Rightarrow> 'r list" where
  "page_rows offset limit rows = take limit (drop offset rows)"

lemma set_page_rows: "set (page_rows offset limit rows) \<subseteq> set rows"
  unfolding page_rows_def by (meson in_set_dropD in_set_takeD subsetI)

lemma length_page_rows: "length (page_rows offset limit rows) \<le> limit"
  by (simp add: page_rows_def)

subsection \<open>Numbering of list elements\<close>

text \<open>\<open>occurrences\<close> counts the elements of a list with a given key.\<close>

definition occurrences :: "('a \<Rightarrow> 'k) \<Rightarrow> 'k \<Rightarrow> 'a list \<Rightarrow> int" where
  "occurrences g k xs = count_where (\<lambda>x. g x = k) xs"

lemma occurrences_simps [simp]:
  "occurrences g k [] = 0"
  "occurrences g k (x # xs) = (if g x = k then 1 else 0) + occurrences g k xs"
  "occurrences g k (xs @ ys) = occurrences g k xs + occurrences g k ys"
  by (simp_all add: occurrences_def)

lemma occurrences_nonneg [simp]: "0 \<le> occurrences g k xs"
  by (simp add: occurrences_def)

lemma occurrences_pos_iff: "0 < occurrences g k xs \<longleftrightarrow> (\<exists>x \<in> set xs. g x = k)"
  by (induction xs) (auto simp: add_pos_nonneg)

subsection \<open>Step relations\<close>

text \<open>What every step keeps, every sequence of steps keeps.\<close>

locale step_invariant =
  fixes step :: "'p \<Rightarrow> 'p \<Rightarrow> bool" and inv :: "'p \<Rightarrow> bool"
  assumes step_keeps: "step p p' \<Longrightarrow> inv p \<Longrightarrow> inv p'"
begin

lemma steps_keep: "step\<^sup>*\<^sup>* p p' \<Longrightarrow> inv p \<Longrightarrow> inv p'"
  by (induction rule: rtranclp_induct) (auto intro: step_keeps)

end

end
