(* ===== verification/Models.thy ===== *)
theory Models
  imports Prelude
begin

text \<open>
  The data model of \<^verbatim>\<open>app/models.py\<close>: one record per mapped class, with a field per column, the
  string columns that a CHECK constraint restricts to a fixed set as datatypes, and the database
  as the record of its tables.  Field names carry a prefix per class (\<open>dl_\<close> for \<^verbatim>\<open>Delivery\<close>,
  \<open>eq_\<close> for \<^verbatim>\<open>EndpointQuotaState\<close>, and so on) because Isabelle's field names are global.
\<close>

subsection \<open>Values of JSON columns\<close>

text \<open>
  A float is given by whether it is finite and by its \<^verbatim>\<open>repr\<close>, which is what \<^verbatim>\<open>json.dumps\<close> prints.
  A Python string is the list of its code points, over the first 256 of them.
\<close>

datatype json =
    JNull
  | JBool bool
  | JInt int
  | JFloat bool string
  | JString string
  | JArray "json list"
  | JObject "(string \<times> json) list"

datatype audit_scalar =
    AuNone
  | AuBool bool
  | AuInt int
  | AuFloat bool string
  | AuStr string
  | AuOther

datatype audit_value = AuScalar audit_scalar | AuList "audit_scalar list"

type_synonym audit_metadata = "(string \<times> audit_value) list"

subsection \<open>Enumerated columns\<close>

datatype delivery_status = Pending | Processing | Retry_scheduled | Succeeded | Dead | Canceled

datatype circuit_state = Closed | Open | Half_open

datatype lifecycle_state = Active | Deletion_pending

datatype plan = Free | Standard_plan | Enterprise

datatype organization_role = OWNER | ADMIN | MEMBER

datatype project_role = PROJECT_ADMIN | OPERATOR | VIEWER

datatype signature_scheme = Legacy | Standard

datatype envelope_mode = Native | Cloudevents

datatype operation_status = Op_pending | Op_running | Op_completed | Op_canceled | Op_failed

datatype replay_mode = Single | Bulk

subsection \<open>Rows\<close>

record user =
  u_id :: int
  u_email :: string
  u_name :: string
  u_hashed_password :: string
  u_is_active :: bool
  u_created_at :: datetime

record organization =
  org_id :: int
  org_public_id :: string
  org_name :: string
  org_lifecycle_state :: lifecycle_state
  org_deletion_requested_at :: "datetime option"
  org_deletion_scheduled_at :: "datetime option"
  org_created_at :: datetime

record organization_policy =
  pol_organization_id :: int
  pol_plan :: plan
  pol_payload_retention_days :: int
  pol_response_retention_days :: int
  pol_created_at :: datetime
  pol_updated_at :: datetime

record organization_member =
  om_id :: int
  om_organization_id :: int
  om_user_id :: int
  om_role :: organization_role
  om_created_at :: datetime

record project =
  prj_id :: int
  prj_public_id :: string
  prj_organization_id :: int
  prj_name :: string
  prj_is_active :: bool
  prj_created_at :: datetime

record project_member =
  pm_id :: int
  pm_project_id :: int
  pm_user_id :: int
  pm_role :: project_role
  pm_created_at :: datetime

record api_key =
  ak_id :: int
  ak_public_id :: string
  ak_project_id :: int
  ak_name :: string
  ak_key_prefix :: string
  ak_key_digest :: string
  ak_scopes :: "string list"
  ak_expires_at :: "datetime option"
  ak_rotation_family_id :: string
  ak_rotated_from_id :: "int option"
  ak_is_active :: bool
  ak_created_at :: datetime
  ak_last_used_at :: "datetime option"
  ak_revoked_at :: "datetime option"

record global_control_state =
  gc_id :: int
  gc_tenant_cursor_organization_id :: "int option"
  gc_created_at :: datetime
  gc_updated_at :: datetime

record tenant_quota_state =
  tq_organization_id :: int
  tq_event_tokens :: rat
  tq_event_refilled_at :: datetime
  tq_delivery_tokens :: rat
  tq_delivery_refilled_at :: datetime
  tq_replay_tokens :: rat
  tq_replay_refilled_at :: datetime
  tq_endpoint_cursor_id :: "int option"
  tq_updated_at :: datetime

record endpoint_quota_state =
  eq_endpoint_id :: int
  eq_delivery_tokens :: rat
  eq_refilled_at :: datetime
  eq_retry_tokens :: rat
  eq_retry_refilled_at :: datetime
  eq_circuit_state :: circuit_state
  eq_consecutive_failures :: int
  eq_circuit_open_until :: "datetime option"
  eq_half_open_probe_delivery_id :: "int option"
  eq_paused_at :: "datetime option"
  eq_pause_reason :: "string option"
  eq_updated_at :: datetime

record webhook_endpoint =
  ep_id :: int
  ep_public_id :: string
  ep_project_id :: int
  ep_url :: string
  ep_description :: "string option"
  ep_event_types :: "string list option"
  ep_signature_scheme :: signature_scheme
  ep_is_active :: bool
  ep_secret_version :: int
  ep_created_at :: datetime
  ep_updated_at :: datetime

record endpoint_signing_secret_version =
  sv_id :: int
  sv_endpoint_id :: int
  sv_version :: int
  sv_activated_at :: datetime
  sv_retire_at :: "datetime option"

record event =
  ev_id :: int
  ev_public_id :: string
  ev_project_id :: int
  ev_idempotency_key :: string
  ev_event_type :: string
  ev_envelope_mode :: envelope_mode
  ev_payload :: "json option"
  ev_payload_hash :: string
  ev_canonical_envelope :: "bytes option"
  ev_payload_purged_at :: "datetime option"
  ev_traceparent :: "string option"
  ev_tracestate :: "string option"
  ev_created_at :: datetime

record delivery =
  dl_id :: int
  dl_public_id :: string
  dl_organization_id :: int
  dl_event_id :: int
  dl_endpoint_id :: int
  dl_replay_of_delivery_id :: "int option"
  dl_endpoint_public_id_snapshot :: string
  dl_endpoint_url_snapshot :: string
  dl_endpoint_active_snapshot :: bool
  dl_signing_secret_version_snapshot :: int
  dl_signature_scheme_snapshot :: signature_scheme
  dl_status :: delivery_status
  dl_attempt_count :: int
  dl_next_attempt_at :: datetime
  dl_lease_token :: "string option"
  dl_lease_expires_at :: "datetime option"
  dl_last_http_status :: "int option"
  dl_last_error :: "string option"
  dl_created_at :: datetime
  dl_updated_at :: datetime
  dl_succeeded_at :: "datetime option"
  dl_dead_at :: "datetime option"
  dl_dead_reason :: "string option"
  dl_canceled_at :: "datetime option"
  dl_canceled_reason :: "string option"

record replay_operation =
  ro_id :: int
  ro_public_id :: string
  ro_organization_id :: int
  ro_project_id :: int
  ro_actor_user_id :: "int option"
  ro_idempotency_key :: string
  ro_mode :: replay_mode
  ro_requested_count :: int
  ro_created_count :: int
  ro_source_delivery_ids :: "string list"
  ro_created_delivery_ids :: "string list"
  ro_created_at :: datetime

record organization_lifecycle_operation =
  lo_id :: int
  lo_public_id :: string
  lo_organization_id :: int
  lo_requested_by_user_id :: "int option"
  lo_kind :: string
  lo_status :: operation_status
  lo_scheduled_at :: datetime
  lo_created_at :: datetime
  lo_completed_at :: "datetime option"
  lo_error :: "string option"

record administrative_audit_event =
  au_id :: int
  au_public_id :: string
  au_organization_public_id :: string
  au_project_public_id :: "string option"
  au_actor_user_id :: "int option"
  au_action :: string
  au_resource_type :: string
  au_resource_public_id :: "string option"
  au_sanitized_metadata :: audit_metadata
  au_created_at :: datetime

record delivery_attempt =
  at_id :: int
  at_delivery_id :: int
  at_attempt_number :: int
  at_started_at :: datetime
  at_finished_at :: datetime
  at_outcome :: string
  at_http_status :: "int option"
  at_error :: "string option"
  at_response_body :: "string option"
  at_response_purged_at :: "datetime option"

record login_throttle =
  lt_scope :: string
  lt_failure_count :: int
  lt_window_started_at :: datetime
  lt_locked_until :: "datetime option"
  lt_updated_at :: datetime

subsection \<open>The database\<close>

text \<open>
  The tables, each the list of its rows, and the sequences that hand out integer primary keys:
  \<open>db_seq t\<close> is the next key of table \<open>t\<close>.
\<close>

datatype tbl =
    T_users | T_organizations | T_organization_members | T_projects | T_project_members
  | T_api_keys | T_endpoints | T_secret_versions | T_events | T_deliveries | T_replay_operations
  | T_lifecycle_operations | T_audit_events | T_attempts

datatype dialect = Postgresql | Sqlite

record db =
  db_users :: "user list"
  db_organizations :: "organization list"
  db_policies :: "organization_policy list"
  db_org_members :: "organization_member list"
  db_projects :: "project list"
  db_project_members :: "project_member list"
  db_api_keys :: "api_key list"
  db_global_control :: "global_control_state list"
  db_tenant_quotas :: "tenant_quota_state list"
  db_endpoint_quotas :: "endpoint_quota_state list"
  db_endpoints :: "webhook_endpoint list"
  db_secret_versions :: "endpoint_signing_secret_version list"
  db_events :: "event list"
  db_deliveries :: "delivery list"
  db_replay_operations :: "replay_operation list"
  db_lifecycle_operations :: "organization_lifecycle_operation list"
  db_audit_events :: "administrative_audit_event list"
  db_attempts :: "delivery_attempt list"
  db_login_throttles :: "login_throttle list"
  db_seq :: "tbl \<Rightarrow> int"

definition bump_seq :: "tbl \<Rightarrow> int \<Rightarrow> db \<Rightarrow> db" where
  "bump_seq t n s = s\<lparr>db_seq := (db_seq s)(t := db_seq s t + n)\<rparr>"

definition empty_db :: db where
  "empty_db =
     \<lparr>db_users = [], db_organizations = [], db_policies = [], db_org_members = [],
      db_projects = [], db_project_members = [], db_api_keys = [], db_global_control = [],
      db_tenant_quotas = [], db_endpoint_quotas = [], db_endpoints = [],
      db_secret_versions = [], db_events = [], db_deliveries = [], db_replay_operations = [],
      db_lifecycle_operations = [], db_audit_events = [], db_attempts = [],
      db_login_throttles = [], db_seq = (\<lambda>_. 1)\<rparr>"

lemma bump_seq_frame [simp, frame_simps]:
  "db_users (bump_seq t n s) = db_users s"
  "db_organizations (bump_seq t n s) = db_organizations s"
  "db_policies (bump_seq t n s) = db_policies s"
  "db_org_members (bump_seq t n s) = db_org_members s"
  "db_projects (bump_seq t n s) = db_projects s"
  "db_project_members (bump_seq t n s) = db_project_members s"
  "db_api_keys (bump_seq t n s) = db_api_keys s"
  "db_global_control (bump_seq t n s) = db_global_control s"
  "db_tenant_quotas (bump_seq t n s) = db_tenant_quotas s"
  "db_endpoint_quotas (bump_seq t n s) = db_endpoint_quotas s"
  "db_endpoints (bump_seq t n s) = db_endpoints s"
  "db_secret_versions (bump_seq t n s) = db_secret_versions s"
  "db_events (bump_seq t n s) = db_events s"
  "db_deliveries (bump_seq t n s) = db_deliveries s"
  "db_replay_operations (bump_seq t n s) = db_replay_operations s"
  "db_lifecycle_operations (bump_seq t n s) = db_lifecycle_operations s"
  "db_audit_events (bump_seq t n s) = db_audit_events s"
  "db_attempts (bump_seq t n s) = db_attempts s"
  "db_login_throttles (bump_seq t n s) = db_login_throttles s"
  "db_seq (bump_seq t n s) = (db_seq s)(t := db_seq s t + n)"
  by (simp_all add: bump_seq_def)

subsection \<open>Statuses\<close>

text \<open>The status groups the code spells out in its queries.\<close>

definition queued_status :: "delivery_status \<Rightarrow> bool" where
  "queued_status st \<longleftrightarrow> st = Pending \<or> st = Retry_scheduled"

definition terminal_status :: "delivery_status \<Rightarrow> bool" where
  "terminal_status st \<longleftrightarrow> st = Succeeded \<or> st = Dead \<or> st = Canceled"

definition nonterminal_status :: "delivery_status \<Rightarrow> bool" where
  "nonterminal_status st \<longleftrightarrow> st = Pending \<or> st = Processing \<or> st = Retry_scheduled"

lemma nonterminal_iff: "nonterminal_status st \<longleftrightarrow> \<not> terminal_status st"
  by (cases st) (simp_all add: nonterminal_status_def terminal_status_def)

lemma queued_status_simps [simp]:
  "queued_status Pending" "queued_status Retry_scheduled" "\<not> queued_status Processing"
  "\<not> queued_status Succeeded" "\<not> queued_status Dead" "\<not> queued_status Canceled"
  by (simp_all add: queued_status_def)

lemma terminal_status_simps [simp]:
  "terminal_status Succeeded" "terminal_status Dead" "terminal_status Canceled"
  "\<not> terminal_status Pending" "\<not> terminal_status Processing"
  "\<not> terminal_status Retry_scheduled"
  by (simp_all add: terminal_status_def)

lemma nonterminal_status_simps [simp]:
  "nonterminal_status Pending" "nonterminal_status Processing"
  "nonterminal_status Retry_scheduled" "\<not> nonterminal_status Succeeded"
  "\<not> nonterminal_status Dead" "\<not> nonterminal_status Canceled"
  by (simp_all add: nonterminal_status_def)

text \<open>
  The condition that recurs in the scheduler, in admission control and in the metrics: the
  delivery can be claimed now, because it is queued and its time has come, or because the lease
  of the worker that had it has run out.
\<close>

definition is_due :: "datetime \<Rightarrow> delivery \<Rightarrow> bool" where
  "is_due now d \<longleftrightarrow>
     (queued_status (dl_status d) \<and> dl_next_attempt_at d \<le> now)
     \<or> (dl_status d = Processing \<and> opt_le (dl_lease_expires_at d) now)"

definition is_live :: "datetime \<Rightarrow> delivery \<Rightarrow> bool" where
  "is_live now d \<longleftrightarrow> dl_status d = Processing \<and> opt_gt (dl_lease_expires_at d) now"

lemma due_not_live: "is_due now d \<Longrightarrow> \<not> is_live now d"
  by (auto simp: is_due_def is_live_def opt_le_iff opt_gt_iff)

lemma due_nonterminal: "is_due now d \<Longrightarrow> nonterminal_status (dl_status d)"
  by (cases "dl_status d") (auto simp: is_due_def)

end
