(* ===== verification/Py_Strings.thy ===== *)
theory Py_Strings
  imports Prelude
begin

text \<open>
  The string methods the program uses, on Python strings whose code points lie in the first 256
  (one \<open>char\<close> per code point, so \<^verbatim>\<open>len\<close> is \<open>length\<close>), and the record that
  \<^verbatim>\<open>urllib.parse.urlsplit\<close> returns.
\<close>

abbreviation cp :: "char \<Rightarrow> nat" where
  "cp c \<equiv> of_char c"

definition char_lower :: "char \<Rightarrow> char" where
  "char_lower c =
     (let n = cp c
      in if 65 \<le> n \<and> n \<le> 90 \<or> 192 \<le> n \<and> n \<le> 222 \<and> n \<noteq> 215 then char_of (n + 32) else c)"

definition lower :: "string \<Rightarrow> string" where
  "lower s = map char_lower s"

definition is_space :: "char \<Rightarrow> bool" where
  "is_space c \<longleftrightarrow> (let n = cp c in 9 \<le> n \<and> n \<le> 13 \<or> 28 \<le> n \<and> n \<le> 32 \<or> n = 133 \<or> n = 160)"

definition is_ascii_digit :: "char \<Rightarrow> bool" where
  "is_ascii_digit c \<longleftrightarrow> 48 \<le> cp c \<and> cp c \<le> 57"

definition is_digit_char :: "char \<Rightarrow> bool" where
  "is_digit_char c \<longleftrightarrow> is_ascii_digit c \<or> cp c \<in> {178, 179, 185}"

definition is_alnum :: "char \<Rightarrow> bool" where
  "is_alnum c \<longleftrightarrow>
     (let n = cp c
      in 48 \<le> n \<and> n \<le> 57 \<or> 65 \<le> n \<and> n \<le> 90 \<or> 97 \<le> n \<and> n \<le> 122
         \<or> n \<in> {170, 178, 179, 181, 185, 186, 188, 189, 190}
         \<or> 192 \<le> n \<and> n \<noteq> 215 \<and> n \<noteq> 247)"

definition is_ascii :: "string \<Rightarrow> bool" where
  "is_ascii s \<longleftrightarrow> list_all (\<lambda>c. cp c < 128) s"

text \<open>\<^verbatim>\<open>str.isdigit\<close> is false on the empty string.\<close>

definition is_digits :: "string \<Rightarrow> bool" where
  "is_digits s \<longleftrightarrow> s \<noteq> [] \<and> list_all is_digit_char s"

definition strip :: "string \<Rightarrow> string" where
  "strip s = rev (dropWhile is_space (rev (dropWhile is_space s)))"

definition rstrip_char :: "char \<Rightarrow> string \<Rightarrow> string" where
  "rstrip_char c s = rev (dropWhile (\<lambda>x. x = c) (rev s))"

definition startswith :: "string \<Rightarrow> string \<Rightarrow> bool" where
  "startswith s p \<longleftrightarrow> take (length p) s = p"

definition endswith :: "string \<Rightarrow> string \<Rightarrow> bool" where
  "endswith s p \<longleftrightarrow> length p \<le> length s \<and> drop (length s - length p) s = p"

text \<open>\<^verbatim>\<open>p in s\<close> for strings.\<close>

fun contains :: "string \<Rightarrow> string \<Rightarrow> bool" where
  "contains [] p = (p = [])"
| "contains (c # s) p = (startswith (c # s) p \<or> contains s p)"

text \<open>\<^verbatim>\<open>int(s)\<close> on a string of ASCII digits.\<close>

definition int_of_digits :: "string \<Rightarrow> int" where
  "int_of_digits s = foldl (\<lambda>n c. 10 * n + int (cp c - 48)) 0 s"

text \<open>\<^verbatim>\<open>str(n)\<close> for an integer.\<close>

fun digits_of_nat :: "nat \<Rightarrow> string" where
  "digits_of_nat n =
     (if n < 10 then [char_of (48 + n)] else digits_of_nat (n div 10) @ [char_of (48 + n mod 10)])"

declare digits_of_nat.simps [simp del]

definition str_of_int :: "int \<Rightarrow> string" where
  "str_of_int n = (if n < 0 then ''-'' @ digits_of_nat (nat (- n)) else digits_of_nat (nat n))"

text \<open>\<^verbatim>\<open>s.encode("utf-8")\<close>.\<close>

definition utf8_char :: "char \<Rightarrow> bytes" where
  "utf8_char c =
     (if cp c < 128 then [c] else [char_of (192 + cp c div 64), char_of (128 + cp c mod 64)])"

definition utf8_encode :: "string \<Rightarrow> bytes" where
  "utf8_encode s = concat (map utf8_char s)"

text \<open>
  The fields of \<^verbatim>\<open>urlsplit(url)\<close> the program reads.  Reading \<^verbatim>\<open>.port\<close> raises ValueError on a
  malformed port: \<open>su_port\<close> is then \<open>None\<close>, and \<open>Some None\<close> when the URL has no port.
\<close>

record split_url =
  su_scheme :: string
  su_hostname :: "string option"
  su_username :: "string option"
  su_password :: "string option"
  su_path :: string
  su_query :: string
  su_fragment :: string
  su_port :: "int option option"

text \<open>Truth of an optional string: \<^verbatim>\<open>None\<close> and the empty string are false.\<close>

definition truthy :: "string option \<Rightarrow> bool" where
  "truthy x \<longleftrightarrow> (case x of None \<Rightarrow> False | Some s \<Rightarrow> s \<noteq> [])"

lemma truthy_simps [simp]: "truthy None = False" "truthy (Some s) = (s \<noteq> [])"
  by (simp_all add: truthy_def)

subsection \<open>Facts about the string methods\<close>

lemma startswith_append [simp]: "startswith (p @ s) p"
  by (simp add: startswith_def)

lemma startswith_iff: "startswith s p \<longleftrightarrow> (\<exists>t. s = p @ t)"
  by (metis append_take_drop_id startswith_append startswith_def)

lemma endswith_iff: "endswith s p \<longleftrightarrow> (\<exists>t. s = t @ p)"
proof
  assume "endswith s p"
  then have "s = take (length s - length p) s @ p"
    unfolding endswith_def by (metis append_take_drop_id)
  then show "\<exists>t. s = t @ p" by blast
next
  assume "\<exists>t. s = t @ p"
  then show "endswith s p" by (auto simp: endswith_def)
qed

lemma contains_iff: "contains s p \<longleftrightarrow> (\<exists>a b. s = a @ p @ b)"
proof (induction s)
  case Nil
  then show ?case by auto
next
  case (Cons c s)
  have "(\<exists>a b. c # s = a @ p @ b) \<longleftrightarrow> (\<exists>b. c # s = p @ b) \<or> (\<exists>a b. s = a @ p @ b)"
    by (metis append_Cons append_Nil neq_Nil_conv list.inject)
  with Cons show ?case by (simp add: startswith_iff)
qed

lemma length_lower [simp]: "length (lower s) = length s"
  by (simp add: lower_def)

lemma char_lower_idem [simp]: "char_lower (char_lower c) = char_lower c"
proof (cases "65 \<le> cp c \<and> cp c \<le> 90 \<or> 192 \<le> cp c \<and> cp c \<le> 222 \<and> cp c \<noteq> 215")
  case True
  then have low: "char_lower c = char_of (cp c + 32)"
    by (simp add: char_lower_def Let_def)
  from True have "cp (char_of (cp c + 32) :: char) = cp c + 32"
    by (auto simp: of_char_of)
  with True low show ?thesis
    by (auto simp: char_lower_def Let_def)
next
  case False
  then have "char_lower c = c" by (auto simp: char_lower_def Let_def)
  then show ?thesis by simp
qed

lemma lower_idem [simp]: "lower (lower s) = lower s"
  by (simp add: lower_def)

end
