(* ===== verification/Config.thy ===== *)
theory Config
  imports Py_Strings
begin

text \<open>
  The configuration of \<^verbatim>\<open>app/config.py\<close>: the fields of \<^verbatim>\<open>Settings\<close> with their defaults, the bounds
  their \<^verbatim>\<open>Field\<close> declarations impose, and \<^verbatim>\<open>validate_deployment_settings\<close>, which refuses to start a
  process whose limits do not fit together.  The lemmas give the relations between limits that the
  other components rely on.
\<close>

datatype environment = Development | Test | Staging | Production

record settings =
  app_name :: string
  app_version :: string
  environment :: environment
  debug :: bool
  docs_enabled :: bool
  portal_enabled :: bool
  example_items_enabled :: bool
  database_url :: string
  auto_create_schema :: bool
  database_health_timeout_seconds :: rat
  api_db_pool_size :: int
  api_db_max_overflow :: int
  api_db_pool_timeout_seconds :: rat
  worker_db_pool_size :: int
  worker_db_max_overflow :: int
  worker_db_pool_timeout_seconds :: rat
  api_replica_count :: int
  worker_replica_count :: int
  database_connection_budget :: int
  secret_key :: string
  api_key_pepper :: string
  webhook_signing_key :: string
  access_token_expire_minutes :: int
  allow_http_webhooks :: "bool option"
  allow_private_webhooks :: bool
  allowed_hosts :: "string list"
  cors_origins :: "string list"
  registration_enabled :: bool
  rate_limit_requests :: int
  rate_limit_window_seconds :: int
  rate_limit_max_entries :: int
  login_throttle_max_failures :: int
  login_throttle_window_seconds :: int
  login_throttle_lockout_seconds :: int
  worker_poll_seconds :: rat
  worker_batch_size :: int
  worker_concurrency :: int
  worker_global_concurrency :: int
  worker_egress_connection_budget :: int
  worker_candidate_scan_limit :: int
  worker_lease_seconds :: int
  worker_heartbeat_seconds :: rat
  worker_attempt_timeout_seconds :: rat
  worker_finalization_margin_seconds :: rat
  worker_shutdown_grace_seconds :: rat
  worker_egress_proxy_url :: "string option"
  http_connect_timeout_seconds :: rat
  http_read_timeout_seconds :: rat
  http_write_timeout_seconds :: rat
  http_pool_timeout_seconds :: rat
  webhook_payload_max_bytes :: int
  tenant_event_rate_per_second :: rat
  tenant_event_burst :: int
  tenant_delivery_rate_per_second :: rat
  tenant_delivery_burst :: int
  tenant_replay_rate_per_second :: rat
  tenant_replay_burst :: int
  tenant_endpoints_per_project :: int
  tenant_fanout_per_event :: int
  tenant_in_flight_deliveries :: int
  tenant_retained_bytes :: int
  endpoint_concurrency :: int
  endpoint_rate_per_second :: rat
  endpoint_rate_burst :: int
  global_max_backlog :: int
  global_oldest_due_admission_seconds :: rat
  quota_retry_after_max_seconds :: int
  webhook_response_max_bytes :: int
  idempotency_key_max_length :: int
  webhook_max_attempts :: int
  webhook_backoff_base_seconds :: rat
  webhook_backoff_cap_seconds :: rat
  webhook_retry_after_max_seconds :: int
  webhook_max_delivery_age_seconds :: int
  endpoint_retry_rate_per_second :: rat
  endpoint_retry_burst :: int
  endpoint_retry_success_refill :: int
  endpoint_circuit_failure_threshold :: int
  endpoint_circuit_open_seconds :: int
  bulk_replay_max_deliveries :: int
  delivery_retention_days :: int
  delivery_purge_batch_size :: int
  api_key_default_ttl_days :: int
  api_key_rotation_overlap_seconds :: int
  endpoint_secret_overlap_seconds :: int
  organization_deletion_grace_hours :: int
  lifecycle_cleanup_interval_seconds :: rat
  lifecycle_cleanup_batch_size :: int
  default_payload_retention_days :: int
  default_response_retention_days :: int
  api_key_usage_flush_seconds :: rat
  api_key_usage_max_entries :: int
  observability_enabled :: bool
  metrics_path :: string
  worker_metrics_host :: string
  worker_metrics_port :: int
  observability_collection_seconds :: rat
  tracing_enabled :: bool
  otel_service_name :: string
  otel_exporter_otlp_endpoint :: "string option"
  otel_exporter_otlp_insecure :: bool
  trace_sample_ratio :: rat
  autoscaling_min_worker_replicas :: int
  autoscaling_max_worker_replicas :: int
  nat_connection_budget :: int

definition default_settings :: settings where
  "default_settings =
     \<lparr>app_name = ''FastAPI Webhook Platform'',
      app_version = ''4.0.0'',
      environment = Development,
      debug = False,
      docs_enabled = True,
      portal_enabled = True,
      example_items_enabled = False,
      database_url = ''sqlite+aiosqlite:///./app.db'',
      auto_create_schema = True,
      database_health_timeout_seconds = 3,
      api_db_pool_size = 5,
      api_db_max_overflow = 5,
      api_db_pool_timeout_seconds = 5,
      worker_db_pool_size = 5,
      worker_db_max_overflow = 5,
      worker_db_pool_timeout_seconds = 5,
      api_replica_count = 1,
      worker_replica_count = 1,
      database_connection_budget = 20,
      secret_key = [],
      api_key_pepper = [],
      webhook_signing_key = [],
      access_token_expire_minutes = 30,
      allow_http_webhooks = None,
      allow_private_webhooks = False,
      allowed_hosts = [''localhost'', ''127.0.0.1'', ''test'', ''testserver''],
      cors_origins = [],
      registration_enabled = True,
      rate_limit_requests = 20,
      rate_limit_window_seconds = 60,
      rate_limit_max_entries = 10000,
      login_throttle_max_failures = 10,
      login_throttle_window_seconds = 900,
      login_throttle_lockout_seconds = 300,
      worker_poll_seconds = 1,
      worker_batch_size = 50,
      worker_concurrency = 10,
      worker_global_concurrency = 10,
      worker_egress_connection_budget = 10,
      worker_candidate_scan_limit = 5000,
      worker_lease_seconds = 60,
      worker_heartbeat_seconds = 10,
      worker_attempt_timeout_seconds = 30,
      worker_finalization_margin_seconds = 5,
      worker_shutdown_grace_seconds = 45,
      worker_egress_proxy_url = None,
      http_connect_timeout_seconds = 5,
      http_read_timeout_seconds = 10,
      http_write_timeout_seconds = 10,
      http_pool_timeout_seconds = 5,
      webhook_payload_max_bytes = 262144,
      tenant_event_rate_per_second = 100,
      tenant_event_burst = 200,
      tenant_delivery_rate_per_second = 500,
      tenant_delivery_burst = 1000,
      tenant_replay_rate_per_second = 10,
      tenant_replay_burst = 20,
      tenant_endpoints_per_project = 100,
      tenant_fanout_per_event = 100,
      tenant_in_flight_deliveries = 10,
      tenant_retained_bytes = 1073741824,
      endpoint_concurrency = 10,
      endpoint_rate_per_second = 50,
      endpoint_rate_burst = 100,
      global_max_backlog = 100000,
      global_oldest_due_admission_seconds = 300,
      quota_retry_after_max_seconds = 60,
      webhook_response_max_bytes = 16384,
      idempotency_key_max_length = 255,
      webhook_max_attempts = 8,
      webhook_backoff_base_seconds = 1,
      webhook_backoff_cap_seconds = 3600,
      webhook_retry_after_max_seconds = 3600,
      webhook_max_delivery_age_seconds = 86400,
      endpoint_retry_rate_per_second = 1 / 10,
      endpoint_retry_burst = 10,
      endpoint_retry_success_refill = 1,
      endpoint_circuit_failure_threshold = 5,
      endpoint_circuit_open_seconds = 60,
      bulk_replay_max_deliveries = 100,
      delivery_retention_days = 30,
      delivery_purge_batch_size = 500,
      api_key_default_ttl_days = 90,
      api_key_rotation_overlap_seconds = 300,
      endpoint_secret_overlap_seconds = 86405,
      organization_deletion_grace_hours = 72,
      lifecycle_cleanup_interval_seconds = 60,
      lifecycle_cleanup_batch_size = 100,
      default_payload_retention_days = 30,
      default_response_retention_days = 30,
      api_key_usage_flush_seconds = 30,
      api_key_usage_max_entries = 10000,
      observability_enabled = True,
      metrics_path = ''/metrics'',
      worker_metrics_host = ''127.0.0.1'',
      worker_metrics_port = 9100,
      observability_collection_seconds = 15,
      tracing_enabled = True,
      otel_service_name = ''webhook-platform'',
      otel_exporter_otlp_endpoint = None,
      otel_exporter_otlp_insecure = False,
      trace_sample_ratio = 1 / 10,
      autoscaling_min_worker_replicas = 1,
      autoscaling_max_worker_replicas = 1,
      nat_connection_budget = 10\<rparr>"

definition field_bounds :: "settings \<Rightarrow> bool" where
  "field_bounds c \<longleftrightarrow>
     0 < database_health_timeout_seconds c \<and> database_health_timeout_seconds c \<le> 30
     \<and> 1 \<le> api_db_pool_size c \<and> api_db_pool_size c \<le> 100
     \<and> 0 \<le> api_db_max_overflow c \<and> api_db_max_overflow c \<le> 100
     \<and> 0 < api_db_pool_timeout_seconds c \<and> api_db_pool_timeout_seconds c \<le> 60
     \<and> 1 \<le> worker_db_pool_size c \<and> worker_db_pool_size c \<le> 100
     \<and> 0 \<le> worker_db_max_overflow c \<and> worker_db_max_overflow c \<le> 100
     \<and> 0 < worker_db_pool_timeout_seconds c \<and> worker_db_pool_timeout_seconds c \<le> 60
     \<and> 1 \<le> api_replica_count c \<and> api_replica_count c \<le> 100
     \<and> 1 \<le> worker_replica_count c \<and> worker_replica_count c \<le> 100
     \<and> 2 \<le> database_connection_budget c \<and> database_connection_budget c \<le> 10000
     \<and> 1 \<le> access_token_expire_minutes c \<and> access_token_expire_minutes c \<le> 1440
     \<and> 1 \<le> rate_limit_requests c \<and> rate_limit_requests c \<le> 10000
     \<and> 1 \<le> rate_limit_window_seconds c \<and> rate_limit_window_seconds c \<le> 86400
     \<and> 100 \<le> rate_limit_max_entries c \<and> rate_limit_max_entries c \<le> 1000000
     \<and> 1 \<le> login_throttle_max_failures c \<and> login_throttle_max_failures c \<le> 1000
     \<and> 60 \<le> login_throttle_window_seconds c \<and> login_throttle_window_seconds c \<le> 86400
     \<and> 1 \<le> login_throttle_lockout_seconds c \<and> login_throttle_lockout_seconds c \<le> 86400
     \<and> 1 / 20 \<le> worker_poll_seconds c \<and> worker_poll_seconds c \<le> 60
     \<and> 1 \<le> worker_batch_size c \<and> worker_batch_size c \<le> 500
     \<and> 1 \<le> worker_concurrency c \<and> worker_concurrency c \<le> 100
     \<and> 1 \<le> worker_global_concurrency c \<and> worker_global_concurrency c \<le> 10000
     \<and> 1 \<le> worker_egress_connection_budget c \<and> worker_egress_connection_budget c \<le> 10000
     \<and> 100 \<le> worker_candidate_scan_limit c \<and> worker_candidate_scan_limit c \<le> 50000
     \<and> 5 \<le> worker_lease_seconds c \<and> worker_lease_seconds c \<le> 3600
     \<and> 0 < worker_heartbeat_seconds c \<and> worker_heartbeat_seconds c \<le> 600
     \<and> 0 < worker_attempt_timeout_seconds c \<and> worker_attempt_timeout_seconds c \<le> 600
     \<and> 0 < worker_finalization_margin_seconds c \<and> worker_finalization_margin_seconds c \<le> 60
     \<and> 0 < worker_shutdown_grace_seconds c \<and> worker_shutdown_grace_seconds c \<le> 600
     \<and> 0 < http_connect_timeout_seconds c \<and> http_connect_timeout_seconds c \<le> 60
     \<and> 0 < http_read_timeout_seconds c \<and> http_read_timeout_seconds c \<le> 120
     \<and> 0 < http_write_timeout_seconds c \<and> http_write_timeout_seconds c \<le> 120
     \<and> 0 < http_pool_timeout_seconds c \<and> http_pool_timeout_seconds c \<le> 60
     \<and> 1 \<le> webhook_payload_max_bytes c \<and> webhook_payload_max_bytes c \<le> 10485760
     \<and> 0 < tenant_event_rate_per_second c \<and> tenant_event_rate_per_second c \<le> 100000
     \<and> 1 \<le> tenant_event_burst c \<and> tenant_event_burst c \<le> 1000000
     \<and> 0 < tenant_delivery_rate_per_second c \<and> tenant_delivery_rate_per_second c \<le> 1000000
     \<and> 1 \<le> tenant_delivery_burst c \<and> tenant_delivery_burst c \<le> 10000000
     \<and> 0 < tenant_replay_rate_per_second c \<and> tenant_replay_rate_per_second c \<le> 10000
     \<and> 1 \<le> tenant_replay_burst c \<and> tenant_replay_burst c \<le> 100000
     \<and> 1 \<le> tenant_endpoints_per_project c \<and> tenant_endpoints_per_project c \<le> 100000
     \<and> 1 \<le> tenant_fanout_per_event c \<and> tenant_fanout_per_event c \<le> 100000
     \<and> 1 \<le> tenant_in_flight_deliveries c \<and> tenant_in_flight_deliveries c \<le> 100000
     \<and> 1024 \<le> tenant_retained_bytes c \<and> tenant_retained_bytes c \<le> 1099511627776
     \<and> 1 \<le> endpoint_concurrency c \<and> endpoint_concurrency c \<le> 10000
     \<and> 0 < endpoint_rate_per_second c \<and> endpoint_rate_per_second c \<le> 100000
     \<and> 1 \<le> endpoint_rate_burst c \<and> endpoint_rate_burst c \<le> 1000000
     \<and> 1 \<le> global_max_backlog c \<and> global_max_backlog c \<le> 100000000
     \<and> 0 < global_oldest_due_admission_seconds c \<and> global_oldest_due_admission_seconds c \<le> 86400
     \<and> 1 \<le> quota_retry_after_max_seconds c \<and> quota_retry_after_max_seconds c \<le> 3600
     \<and> 0 \<le> webhook_response_max_bytes c \<and> webhook_response_max_bytes c \<le> 1048576
     \<and> 8 \<le> idempotency_key_max_length c \<and> idempotency_key_max_length c \<le> 1024
     \<and> 1 \<le> webhook_max_attempts c \<and> webhook_max_attempts c \<le> 50
     \<and> 0 < webhook_backoff_base_seconds c \<and> webhook_backoff_base_seconds c \<le> 3600
     \<and> 0 < webhook_backoff_cap_seconds c \<and> webhook_backoff_cap_seconds c \<le> 86400
     \<and> 1 \<le> webhook_retry_after_max_seconds c \<and> webhook_retry_after_max_seconds c \<le> 86400
     \<and> 60 \<le> webhook_max_delivery_age_seconds c \<and> webhook_max_delivery_age_seconds c \<le> 2592000
     \<and> 0 < endpoint_retry_rate_per_second c \<and> endpoint_retry_rate_per_second c \<le> 10000
     \<and> 1 \<le> endpoint_retry_burst c \<and> endpoint_retry_burst c \<le> 100000
     \<and> 1 \<le> endpoint_retry_success_refill c \<and> endpoint_retry_success_refill c \<le> 100000
     \<and> 1 \<le> endpoint_circuit_failure_threshold c \<and> endpoint_circuit_failure_threshold c \<le> 10000
     \<and> 1 \<le> endpoint_circuit_open_seconds c \<and> endpoint_circuit_open_seconds c \<le> 86400
     \<and> 1 \<le> bulk_replay_max_deliveries c \<and> bulk_replay_max_deliveries c \<le> 1000
     \<and> 1 \<le> delivery_retention_days c \<and> delivery_retention_days c \<le> 3650
     \<and> 1 \<le> delivery_purge_batch_size c \<and> delivery_purge_batch_size c \<le> 10000
     \<and> 1 \<le> api_key_default_ttl_days c \<and> api_key_default_ttl_days c \<le> 3650
     \<and> 1 \<le> api_key_rotation_overlap_seconds c \<and> api_key_rotation_overlap_seconds c \<le> 86400
     \<and> 1 \<le> endpoint_secret_overlap_seconds c \<and> endpoint_secret_overlap_seconds c \<le> 2592060
     \<and> 1 \<le> organization_deletion_grace_hours c \<and> organization_deletion_grace_hours c \<le> 8760
     \<and> 0 < lifecycle_cleanup_interval_seconds c \<and> lifecycle_cleanup_interval_seconds c \<le> 86400
     \<and> 1 \<le> lifecycle_cleanup_batch_size c \<and> lifecycle_cleanup_batch_size c \<le> 10000
     \<and> 1 \<le> default_payload_retention_days c \<and> default_payload_retention_days c \<le> 3650
     \<and> 1 \<le> default_response_retention_days c \<and> default_response_retention_days c \<le> 3650
     \<and> 0 < api_key_usage_flush_seconds c \<and> api_key_usage_flush_seconds c \<le> 600
     \<and> 100 \<le> api_key_usage_max_entries c \<and> api_key_usage_max_entries c \<le> 1000000
     \<and> 1 \<le> worker_metrics_port c \<and> worker_metrics_port c \<le> 65535
     \<and> 1 \<le> observability_collection_seconds c \<and> observability_collection_seconds c \<le> 300
     \<and> 0 \<le> trace_sample_ratio c \<and> trace_sample_ratio c \<le> 1
     \<and> 1 \<le> autoscaling_min_worker_replicas c \<and> autoscaling_min_worker_replicas c \<le> 1000
     \<and> 1 \<le> autoscaling_max_worker_replicas c \<and> autoscaling_max_worker_replicas c \<le> 1000
     \<and> 1 \<le> nat_connection_budget c \<and> nat_connection_budget c \<le> 1000000"

subsection \<open>Validation when a process starts\<close>

text \<open>
  A sequence of \<^verbatim>\<open>if condition: raise ValueError(message)\<close> statements: the first condition that holds
  decides the error.
\<close>

fun run_checks :: "(bool \<times> string) list \<Rightarrow> unit result" where
  "run_checks [] = Inr ()"
| "run_checks ((bad, msg) # cs) = (if bad then Inl (ValueError msg) else run_checks cs)"

definition deployed :: "settings \<Rightarrow> bool" where
  "deployed c \<longleftrightarrow> environment c = Staging \<or> environment c = Production"

text \<open>
  One of the three shared secrets; \<open>generated\<close> is the value of \<^verbatim>\<open>secrets.token_urlsafe(32)\<close> a
  development process falls back to.
\<close>

definition validate_key :: "bool \<Rightarrow> string \<Rightarrow> string \<Rightarrow> string \<Rightarrow> string result" where
  "validate_key dep label value generated =
     (if value = [] then
        (if dep then Inl (ValueError (label @ '' is required when deployed'')) else Inr generated)
      else if length value < 32 then
        Inl (ValueError (label @ '' must be at least 32 characters''))
      else Inr value)"

definition validate_keys :: "(nat \<Rightarrow> string) \<Rightarrow> settings \<Rightarrow> settings result" where
  "validate_keys gen c =
     bindr (validate_key (deployed c) ''SECRET_KEY'' (secret_key c) (gen 0)) (\<lambda>k0.
     bindr (validate_key (deployed c) ''API_KEY_PEPPER'' (api_key_pepper c) (gen 1)) (\<lambda>k1.
     bindr (validate_key (deployed c) ''WEBHOOK_SIGNING_KEY'' (webhook_signing_key c) (gen 2)) (\<lambda>k2.
     Inr (c\<lparr>secret_key := k0, api_key_pepper := k1, webhook_signing_key := k2\<rparr>))))"

definition validate_webhook_flags :: "settings \<Rightarrow> settings result" where
  "validate_webhook_flags c =
     bindr
       (case allow_http_webhooks c of
          None \<Rightarrow> Inr (c\<lparr>allow_http_webhooks := Some (environment c = Development)\<rparr>)
        | Some http \<Rightarrow>
            (if http \<and> environment c \<noteq> Development
             then Inl (ValueError ''ALLOW_HTTP_WEBHOOKS may be true only in development'')
             else Inr c))
       (\<lambda>c'. if allow_private_webhooks c' \<and> environment c' \<noteq> Development
             then Inl (ValueError ''ALLOW_PRIVATE_WEBHOOKS may be true only in development'')
             else Inr c')"

text \<open>\<open>urlsplit\<close> is \<^verbatim>\<open>urllib.parse.urlsplit\<close>, with the ValueError it may raise.\<close>

definition validate_proxy :: "(string \<Rightarrow> split_url result) \<Rightarrow> settings \<Rightarrow> unit result" where
  "validate_proxy urlsplit c =
     (if \<not> truthy (worker_egress_proxy_url c) then
        (if deployed c then Inl (ValueError ''WORKER_EGRESS_PROXY_URL is required when deployed'')
         else Inr ())
      else
        (case urlsplit (the (worker_egress_proxy_url c)) of
           Inl _ \<Rightarrow> Inl (ValueError ''WORKER_EGRESS_PROXY_URL is invalid'')
         | Inr proxy \<Rightarrow>
             (case su_port proxy of
                None \<Rightarrow> Inl (ValueError ''WORKER_EGRESS_PROXY_URL is invalid'')
              | Some proxy_port \<Rightarrow>
                  (if lower (su_scheme proxy) \<noteq> ''http''
                      \<or> \<not> truthy (su_hostname proxy)
                      \<or> truthy (su_username proxy)
                      \<or> truthy (su_password proxy)
                      \<or> su_query proxy \<noteq> []
                      \<or> su_fragment proxy \<noteq> []
                      \<or> su_path proxy \<notin> {[], ''/''}
                      \<or> proxy_port = None
                      \<or> lower (rstrip_char (CHR ''.'') (the (su_hostname proxy))) = ''localhost''
                   then Inl (ValueError
                     ''WORKER_EGRESS_PROXY_URL must be a credential-free internal http://host:port URL without a path, query, or fragment'')
                   else Inr ()))))"

definition validate_delivery_limits :: "settings \<Rightarrow> unit result" where
  "validate_delivery_limits c = run_checks
     [(webhook_backoff_cap_seconds c < webhook_backoff_base_seconds c,
       ''WEBHOOK_BACKOFF_CAP_SECONDS must be at least the base''),
      (webhook_retry_after_max_seconds c > webhook_max_delivery_age_seconds c,
       ''WEBHOOK_RETRY_AFTER_MAX_SECONDS must not exceed the maximum delivery age''),
      (of_int (endpoint_secret_overlap_seconds c)
         < of_int (webhook_max_delivery_age_seconds c) + worker_finalization_margin_seconds c,
       ''ENDPOINT_SECRET_OVERLAP_SECONDS must cover the maximum delivery age and worker finalization margin''),
      (endpoint_retry_success_refill c > endpoint_retry_burst c,
       ''ENDPOINT_RETRY_SUCCESS_REFILL exceeds retry burst'')]"

definition safe_worker_replicas :: "settings \<Rightarrow> int" where
  "safe_worker_replicas c =
     (let remaining = database_connection_budget c
        - api_replica_count c * (api_db_pool_size c + api_db_max_overflow c)
      in min (max 0 remaining div (worker_db_pool_size c + worker_db_max_overflow c))
           (min (worker_egress_connection_budget c div worker_concurrency c)
                (nat_connection_budget c div worker_concurrency c)))"

definition validate_resources :: "settings \<Rightarrow> unit result" where
  "validate_resources c = run_checks
     [(api_replica_count c * (api_db_pool_size c + api_db_max_overflow c)
         + worker_replica_count c * (worker_db_pool_size c + worker_db_max_overflow c)
         > database_connection_budget c,
       ''Replica database pools exceed DATABASE_CONNECTION_BUDGET''),
      (worker_global_concurrency c > worker_replica_count c * worker_concurrency c,
       ''WORKER_GLOBAL_CONCURRENCY exceeds configured worker slots''),
      (worker_global_concurrency c > worker_egress_connection_budget c,
       ''WORKER_GLOBAL_CONCURRENCY exceeds the egress budget''),
      (\<not> startswith (metrics_path c) ''/'' \<or> CHR 0x7B \<in> set (metrics_path c),
       ''METRICS_PATH must be a fixed absolute path''),
      (autoscaling_min_worker_replicas c > autoscaling_max_worker_replicas c,
       ''AUTOSCALING_MIN_WORKER_REPLICAS exceeds maximum''),
      (autoscaling_max_worker_replicas c > max 1 (safe_worker_replicas c),
       ''AUTOSCALING_MAX_WORKER_REPLICAS exceeds a resource budget'')]"

definition validate_otlp :: "(string \<Rightarrow> split_url result) \<Rightarrow> settings \<Rightarrow> unit result" where
  "validate_otlp urlsplit c =
     (if \<not> truthy (otel_exporter_otlp_endpoint c) then Inr ()
      else (case urlsplit (the (otel_exporter_otlp_endpoint c)) of
         Inl e \<Rightarrow> Inl e
       | Inr otlp \<Rightarrow> run_checks
           [(su_scheme otlp \<notin> {''http'', ''https''}
               \<or> \<not> truthy (su_hostname otlp)
               \<or> truthy (su_username otlp)
               \<or> truthy (su_password otlp)
               \<or> su_query otlp \<noteq> []
               \<or> su_fragment otlp \<noteq> [],
             ''OTEL_EXPORTER_OTLP_ENDPOINT must be a credential-free HTTP(S) base URL without query or fragment''),
            (su_scheme otlp = ''http'' \<and> deployed c, ''Deployed OTLP endpoints must use TLS''),
            (su_scheme otlp = ''http'' \<and> \<not> otel_exporter_otlp_insecure c,
             ''Set OTEL_EXPORTER_OTLP_INSECURE only for local HTTP'')]))"

definition validate_limits :: "settings \<Rightarrow> unit result" where
  "validate_limits c = run_checks
     [(tenant_in_flight_deliveries c > worker_global_concurrency c,
       ''TENANT_IN_FLIGHT_DELIVERIES exceeds global concurrency''),
      (endpoint_concurrency c > tenant_in_flight_deliveries c,
       ''ENDPOINT_CONCURRENCY exceeds tenant in-flight limit''),
      (tenant_fanout_per_event c > tenant_endpoints_per_project c,
       ''TENANT_FANOUT_PER_EVENT exceeds endpoint limit''),
      (tenant_fanout_per_event c > tenant_delivery_burst c,
       ''TENANT_FANOUT_PER_EVENT exceeds delivery burst''),
      (tenant_retained_bytes c \<le> webhook_payload_max_bytes c,
       ''TENANT_RETAINED_BYTES must exceed the payload limit''),
      (of_int (worker_lease_seconds c)
         \<le> worker_attempt_timeout_seconds c + worker_heartbeat_seconds c
           + worker_finalization_margin_seconds c,
       ''WORKER_LEASE_SECONDS must exceed the attempt deadline, heartbeat delay, and finalization margin''),
      (worker_shutdown_grace_seconds c
         < worker_attempt_timeout_seconds c + worker_finalization_margin_seconds c,
       ''WORKER_SHUTDOWN_GRACE_SECONDS must cover the attempt deadline and finalization margin''),
      (deployed c \<and> auto_create_schema c,
       ''AUTO_CREATE_SCHEMA must be false when deployed; run migrations''),
      (environment c = Production \<and> debug c, ''DEBUG must be false in production''),
      (deployed c \<and> allowed_hosts c = [],
       ''ALLOWED_HOSTS must not be empty when deployed'')]"

definition validate_deployment_settings ::
  "(nat \<Rightarrow> string) \<Rightarrow> (string \<Rightarrow> split_url result) \<Rightarrow> settings \<Rightarrow> settings result" where
  "validate_deployment_settings gen urlsplit c0 =
     bindr (validate_keys gen c0) (\<lambda>c1.
     bindr (validate_webhook_flags c1) (\<lambda>c.
     bindr (validate_proxy urlsplit c) (\<lambda>_.
     bindr (validate_delivery_limits c) (\<lambda>_.
     bindr (validate_resources c) (\<lambda>_.
     bindr (validate_otlp urlsplit c) (\<lambda>_.
     bindr (validate_limits c) (\<lambda>_.
     Inr c)))))))"

subsection \<open>What a running process may rely on\<close>

lemma run_checks_ok: "run_checks cs = Inr u \<longleftrightarrow> (\<forall>(bad, msg) \<in> set cs. \<not> bad)"
  by (induction cs rule: run_checks.induct) auto

text \<open>
  \<open>valid_settings c\<close>: \<open>c\<close> is the configuration of a running process, that is, within the field bounds
  and the outcome of a successful validation.
\<close>

definition valid_settings :: "settings \<Rightarrow> bool" where
  "valid_settings c \<longleftrightarrow>
     field_bounds c \<and> validate_delivery_limits c = Inr ()
     \<and> validate_resources c = Inr () \<and> validate_limits c = Inr ()"

named_theorems settings_dests \<open>bounds of a valid configuration\<close>

lemma valid_settings_bounds [settings_dests]:
  assumes "valid_settings c"
  shows "1 \<le> webhook_max_attempts c" "0 < webhook_backoff_base_seconds c"
    "1 \<le> webhook_retry_after_max_seconds c" "60 \<le> webhook_max_delivery_age_seconds c"
    "1 \<le> endpoint_retry_burst c" "1 \<le> endpoint_retry_success_refill c"
    "1 \<le> endpoint_circuit_failure_threshold c" "1 \<le> endpoint_circuit_open_seconds c"
    "1 \<le> endpoint_concurrency c" "1 \<le> tenant_in_flight_deliveries c"
    "1 \<le> worker_global_concurrency c" "5 \<le> worker_lease_seconds c"
    "0 < endpoint_rate_per_second c" "1 \<le> endpoint_rate_burst c"
    "0 < endpoint_retry_rate_per_second c"
    "0 < tenant_event_rate_per_second c" "1 \<le> tenant_event_burst c"
    "0 < tenant_delivery_rate_per_second c" "1 \<le> tenant_delivery_burst c"
    "0 < tenant_replay_rate_per_second c" "1 \<le> tenant_replay_burst c"
    "1 \<le> quota_retry_after_max_seconds c" "1 \<le> bulk_replay_max_deliveries c"
    "0 < worker_heartbeat_seconds c" "0 < worker_attempt_timeout_seconds c"
    "0 < worker_finalization_margin_seconds c" "1 \<le> lifecycle_cleanup_batch_size c"
    "1 \<le> login_throttle_max_failures c" "60 \<le> login_throttle_window_seconds c"
    "1 \<le> login_throttle_lockout_seconds c" "1 \<le> endpoint_secret_overlap_seconds c"
    "100 \<le> worker_candidate_scan_limit c" "1 \<le> global_max_backlog c"
    "0 < webhook_backoff_cap_seconds c"
  using assms unfolding valid_settings_def field_bounds_def by blast+

lemma valid_settings_relations [settings_dests]:
  assumes "valid_settings c"
  shows "webhook_backoff_base_seconds c \<le> webhook_backoff_cap_seconds c"
    "webhook_retry_after_max_seconds c \<le> webhook_max_delivery_age_seconds c"
    "of_int (webhook_max_delivery_age_seconds c) + worker_finalization_margin_seconds c
       \<le> of_int (endpoint_secret_overlap_seconds c)"
    "endpoint_retry_success_refill c \<le> endpoint_retry_burst c"
    "endpoint_concurrency c \<le> tenant_in_flight_deliveries c"
    "tenant_in_flight_deliveries c \<le> worker_global_concurrency c"
    "worker_global_concurrency c \<le> worker_replica_count c * worker_concurrency c"
    "worker_global_concurrency c \<le> worker_egress_connection_budget c"
    "tenant_fanout_per_event c \<le> tenant_delivery_burst c"
    "tenant_fanout_per_event c \<le> tenant_endpoints_per_project c"
    "worker_attempt_timeout_seconds c + worker_heartbeat_seconds c
       + worker_finalization_margin_seconds c < of_int (worker_lease_seconds c)"
  using assms
  unfolding valid_settings_def validate_delivery_limits_def validate_resources_def
    validate_limits_def run_checks_ok
  by auto

lemma validate_deployment_settings_valid:
  assumes "validate_deployment_settings gen urlsplit c0 = Inr c" and "field_bounds c"
  shows "valid_settings c"
  using assms by (auto simp: validate_deployment_settings_def valid_settings_def bindr_Inr_iff)

text \<open>The defaults are a valid configuration.\<close>

lemma default_settings_valid: "valid_settings default_settings"
  unfolding valid_settings_def
proof (intro conjI)
  show "field_bounds default_settings"
    unfolding field_bounds_def default_settings_def by simp
  show "validate_delivery_limits default_settings = Inr ()"
    unfolding validate_delivery_limits_def default_settings_def by simp
  show "validate_resources default_settings = Inr ()"
    unfolding validate_resources_def safe_worker_replicas_def default_settings_def
    by (simp add: startswith_def)
  show "validate_limits default_settings = Inr ()"
    unfolding validate_limits_def default_settings_def deployed_def by simp
qed

end
