(* ===== verification/Admission.thy ===== *)
theory Admission
  imports Models Config
begin

text \<open>
  Admission control, \<^verbatim>\<open>app/admission.py\<close>: the quota rows shared by all replicas, the token bucket
  \<^verbatim>\<open>consume_tokens\<close>, and the checks of \<^verbatim>\<open>AdmissionController\<close>.  The controller runs in the caller's
  transaction, so an operation takes the database and returns the new one, or the error, after
  which the caller's transaction is rolled back.  \<open>now\<close> is the value of \<^verbatim>\<open>database_now\<close>.
\<close>

subsection \<open>Quota rows\<close>

definition tenant_quota_values :: "int \<Rightarrow> settings \<Rightarrow> datetime \<Rightarrow> tenant_quota_state" where
  "tenant_quota_values organization_id cfg now =
     \<lparr>tq_organization_id = organization_id,
      tq_event_tokens = of_int (tenant_event_burst cfg),
      tq_event_refilled_at = now,
      tq_delivery_tokens = of_int (tenant_delivery_burst cfg),
      tq_delivery_refilled_at = now,
      tq_replay_tokens = of_int (tenant_replay_burst cfg),
      tq_replay_refilled_at = now,
      tq_endpoint_cursor_id = None,
      tq_updated_at = now\<rparr>"

definition endpoint_quota_values :: "int \<Rightarrow> settings \<Rightarrow> datetime \<Rightarrow> endpoint_quota_state" where
  "endpoint_quota_values endpoint_id cfg now =
     \<lparr>eq_endpoint_id = endpoint_id,
      eq_delivery_tokens = of_int (endpoint_rate_burst cfg),
      eq_refilled_at = now,
      eq_retry_tokens = of_int (endpoint_retry_burst cfg),
      eq_retry_refilled_at = now,
      eq_circuit_state = Closed,
      eq_consecutive_failures = 0,
      eq_circuit_open_until = None,
      eq_half_open_probe_delivery_id = None,
      eq_paused_at = None,
      eq_pause_reason = None,
      eq_updated_at = now\<rparr>"

text \<open>\<^verbatim>\<open>INSERT ... ON CONFLICT (key) DO NOTHING\<close>.\<close>

definition insert_do_nothing :: "('r \<Rightarrow> 'k) \<Rightarrow> 'r \<Rightarrow> 'r list \<Rightarrow> 'r list" where
  "insert_do_nothing key row rows =
     (if list_ex (\<lambda>r. key r = key row) rows then rows else rows @ [row])"

definition ensure_global_state :: "datetime \<Rightarrow> db \<Rightarrow> db" where
  "ensure_global_state now s =
     s\<lparr>db_global_control := insert_do_nothing gc_id
         \<lparr>gc_id = 1, gc_tenant_cursor_organization_id = None, gc_created_at = now,
          gc_updated_at = now\<rparr> (db_global_control s)\<rparr>"

definition ensure_tenant_state :: "int \<Rightarrow> settings \<Rightarrow> datetime \<Rightarrow> db \<Rightarrow> db" where
  "ensure_tenant_state organization_id cfg now s =
     s\<lparr>db_tenant_quotas := insert_do_nothing tq_organization_id
         (tenant_quota_values organization_id cfg now) (db_tenant_quotas s)\<rparr>"

definition ensure_endpoint_state :: "int \<Rightarrow> settings \<Rightarrow> datetime \<Rightarrow> db \<Rightarrow> db" where
  "ensure_endpoint_state endpoint_id cfg now s =
     s\<lparr>db_endpoint_quotas := insert_do_nothing eq_endpoint_id
         (endpoint_quota_values endpoint_id cfg now) (db_endpoint_quotas s)\<rparr>"

definition find_tenant_quota :: "int \<Rightarrow> db \<Rightarrow> tenant_quota_state option" where
  "find_tenant_quota oid s = List.find (\<lambda>q. tq_organization_id q = oid) (db_tenant_quotas s)"

definition find_endpoint_quota :: "int \<Rightarrow> db \<Rightarrow> endpoint_quota_state option" where
  "find_endpoint_quota eid s = List.find (\<lambda>q. eq_endpoint_id q = eid) (db_endpoint_quotas s)"

definition find_global :: "db \<Rightarrow> global_control_state option" where
  "find_global s = List.find (\<lambda>g. gc_id g = 1) (db_global_control s)"

text \<open>The flush of the changed row at the end of the transaction.\<close>

definition put_tenant_quota :: "tenant_quota_state \<Rightarrow> db \<Rightarrow> db" where
  "put_tenant_quota q s = s\<lparr>db_tenant_quotas :=
     update_where (\<lambda>r. tq_organization_id r = tq_organization_id q) (\<lambda>_. q)
       (db_tenant_quotas s)\<rparr>"

definition put_endpoint_quota :: "endpoint_quota_state \<Rightarrow> db \<Rightarrow> db" where
  "put_endpoint_quota q s = s\<lparr>db_endpoint_quotas :=
     update_where (\<lambda>r. eq_endpoint_id r = eq_endpoint_id q) (\<lambda>_. q) (db_endpoint_quotas s)\<rparr>"

subsection \<open>The token bucket\<close>

record token_balance =
  tb_tokens :: rat
  tb_refilled_at :: datetime
  tb_retry_after :: "int option"

definition consume_tokens ::
  "rat \<Rightarrow> datetime \<Rightarrow> rat \<Rightarrow> int \<Rightarrow> int \<Rightarrow> datetime \<Rightarrow> int \<Rightarrow> token_balance" where
  "consume_tokens tokens refilled_at rate capacity cost now retry_cap =
     (let elapsed = max 0 (total_seconds (now - refilled_at));
          available = min (of_int capacity) (tokens + elapsed * rate)
      in if available \<ge> of_int cost then
           \<lparr>tb_tokens = available - of_int cost, tb_refilled_at = now, tb_retry_after = None\<rparr>
         else
           (let wait = \<lceil>(of_int cost - available) / rate\<rceil>
            in \<lparr>tb_tokens = available, tb_refilled_at = now,
                tb_retry_after = Some (min retry_cap (max 1 wait))\<rparr>))"

subsection \<open>The admission controller\<close>

definition lock_global_tenant ::
  "settings \<Rightarrow> datetime \<Rightarrow> int \<Rightarrow> db
   \<Rightarrow> (global_control_state \<times> tenant_quota_state \<times> db) result" where
  "lock_global_tenant cfg now organization_id s =
     (let s1 = ensure_tenant_state organization_id cfg now (ensure_global_state now s)
      in case (find_global s1, find_tenant_quota organization_id s1) of
           (Some g, Some q) \<Rightarrow> Inr (g, q, s1)
         | _ \<Rightarrow> Inl (RuntimeError ''Admission control state is unavailable''))"

definition due_at :: "datetime \<Rightarrow> delivery \<Rightarrow> datetime option" where
  "due_at now d =
     (if queued_status (dl_status d) \<and> dl_next_attempt_at d \<le> now then Some (dl_next_attempt_at d)
      else if dl_status d = Processing \<and> opt_le (dl_lease_expires_at d) now
      then dl_lease_expires_at d
      else None)"

definition oldest_due :: "datetime \<Rightarrow> db \<Rightarrow> datetime option" where
  "oldest_due now s =
     (case map the (filter (\<lambda>t. t \<noteq> None)
             (map (due_at now) (filter (is_due now) (db_deliveries s)))) of
        [] \<Rightarrow> None
      | t # ts \<Rightarrow> Some (fold min ts t))"

definition check_saturation :: "settings \<Rightarrow> datetime \<Rightarrow> int \<Rightarrow> db \<Rightarrow> unit result" where
  "check_saturation cfg now additional_deliveries s =
     (let backlog = count_where (\<lambda>d. nonterminal_status (dl_status d)) (db_deliveries s)
      in if backlog + additional_deliveries > global_max_backlog cfg
         then Inl (SaturationError ''global_backlog'')
         else (case oldest_due now s of
                 None \<Rightarrow> Inr ()
               | Some t \<Rightarrow>
                   (if total_seconds (now - t) \<ge> global_oldest_due_admission_seconds cfg
                    then Inl (SaturationError ''oldest_due_age'') else Inr ())))"

definition event_balance :: "settings \<Rightarrow> tenant_quota_state \<Rightarrow> datetime \<Rightarrow> token_balance" where
  "event_balance cfg state now =
     consume_tokens (tq_event_tokens state) (tq_event_refilled_at state)
       (tenant_event_rate_per_second cfg) (tenant_event_burst cfg) 1 now
       (quota_retry_after_max_seconds cfg)"

definition delivery_balance ::
  "settings \<Rightarrow> tenant_quota_state \<Rightarrow> int \<Rightarrow> datetime \<Rightarrow> token_balance" where
  "delivery_balance cfg state n now =
     consume_tokens (tq_delivery_tokens state) (tq_delivery_refilled_at state)
       (tenant_delivery_rate_per_second cfg) (tenant_delivery_burst cfg) n now
       (quota_retry_after_max_seconds cfg)"

definition replay_balance ::
  "settings \<Rightarrow> tenant_quota_state \<Rightarrow> int \<Rightarrow> datetime \<Rightarrow> token_balance" where
  "replay_balance cfg state n now =
     consume_tokens (tq_replay_tokens state) (tq_replay_refilled_at state)
       (tenant_replay_rate_per_second cfg) (tenant_replay_burst cfg) n now
       (quota_retry_after_max_seconds cfg)"

text \<open>
  The bytes an organization's retained events take: the sum of the lengths of the envelopes of the
  events of its projects; a purged envelope is NULL and does not count.
\<close>

definition org_owns_project :: "int \<Rightarrow> int \<Rightarrow> db \<Rightarrow> bool" where
  "org_owns_project organization_id project_id s \<longleftrightarrow>
     list_ex (\<lambda>p. prj_id p = project_id \<and> prj_organization_id p = organization_id) (db_projects s)"

definition retained_bytes :: "int \<Rightarrow> db \<Rightarrow> int" where
  "retained_bytes organization_id s =
     sum_list (map (\<lambda>e. case ev_canonical_envelope e of None \<Rightarrow> 0 | Some b \<Rightarrow> int (length b))
       (filter (\<lambda>e. org_owns_project organization_id (ev_project_id e) s) (db_events s)))"

definition admit_event_locked ::
  "settings \<Rightarrow> tenant_quota_state \<Rightarrow> datetime \<Rightarrow> int \<Rightarrow> int \<Rightarrow> int \<Rightarrow> db \<Rightarrow> db result" where
  "admit_event_locked cfg state now organization_id delivery_count envelope_size s =
     (if delivery_count > tenant_fanout_per_event cfg
      then Inl (QuotaExceededError ''fanout_per_event'' (quota_retry_after_max_seconds cfg))
      else bindr (check_saturation cfg now delivery_count s) (\<lambda>_.
        if retained_bytes organization_id s + envelope_size > tenant_retained_bytes cfg
        then Inl (QuotaExceededError ''retained_bytes'' (quota_retry_after_max_seconds cfg))
        else
          (let ebal = event_balance cfg state now;
               dbal = delivery_balance cfg state delivery_count now
           in case tb_retry_after ebal of
                Some r \<Rightarrow> Inl (QuotaExceededError ''event_rate'' r)
              | None \<Rightarrow>
                  (case tb_retry_after dbal of
                     Some r \<Rightarrow> Inl (QuotaExceededError ''delivery_rate'' r)
                   | None \<Rightarrow> Inr (put_tenant_quota
                       (state\<lparr>tq_event_tokens := tb_tokens ebal,
                              tq_event_refilled_at := tb_refilled_at ebal,
                              tq_delivery_tokens := tb_tokens dbal,
                              tq_delivery_refilled_at := tb_refilled_at dbal,
                              tq_updated_at := now\<rparr>) s)))))"

definition admit_event ::
  "settings \<Rightarrow> datetime \<Rightarrow> int \<Rightarrow> int \<Rightarrow> int \<Rightarrow> db \<Rightarrow> db result" where
  "admit_event cfg now organization_id delivery_count envelope_size s =
     bindr (lock_global_tenant cfg now organization_id s) (\<lambda>(_, state, s1).
       admit_event_locked cfg state now organization_id delivery_count envelope_size s1)"

definition admit_replays_locked ::
  "settings \<Rightarrow> tenant_quota_state \<Rightarrow> datetime \<Rightarrow> int \<Rightarrow> db \<Rightarrow> db result" where
  "admit_replays_locked cfg state now n s =
     (if n < 1 \<or> n > bulk_replay_max_deliveries cfg
      then Inl (QuotaExceededError ''bulk_replay_size'' (quota_retry_after_max_seconds cfg))
      else bindr (check_saturation cfg now n s) (\<lambda>_.
        (let rbal = replay_balance cfg state n now;
             dbal = delivery_balance cfg state n now
         in case tb_retry_after rbal of
              Some r \<Rightarrow> Inl (QuotaExceededError ''replay_rate'' r)
            | None \<Rightarrow>
                (case tb_retry_after dbal of
                   Some r \<Rightarrow> Inl (QuotaExceededError ''delivery_rate'' r)
                 | None \<Rightarrow> Inr (put_tenant_quota
                     (state\<lparr>tq_replay_tokens := tb_tokens rbal,
                            tq_replay_refilled_at := tb_refilled_at rbal,
                            tq_delivery_tokens := tb_tokens dbal,
                            tq_delivery_refilled_at := tb_refilled_at dbal,
                            tq_updated_at := now\<rparr>) s)))))"

definition admit_replays :: "settings \<Rightarrow> datetime \<Rightarrow> int \<Rightarrow> int \<Rightarrow> db \<Rightarrow> db result" where
  "admit_replays cfg now organization_id n s =
     bindr (lock_global_tenant cfg now organization_id s) (\<lambda>(_, state, s1).
       admit_replays_locked cfg state now n s1)"

definition admit_replay :: "settings \<Rightarrow> datetime \<Rightarrow> int \<Rightarrow> db \<Rightarrow> db result" where
  "admit_replay cfg now organization_id s = admit_replays cfg now organization_id 1 s"

definition check_endpoint_limit ::
  "settings \<Rightarrow> datetime \<Rightarrow> int \<Rightarrow> int \<Rightarrow> int option \<Rightarrow> db \<Rightarrow> db result" where
  "check_endpoint_limit cfg now organization_id project_id exclude_endpoint_id s =
     (let s1 = ensure_tenant_state organization_id cfg now s
      in case find_tenant_quota organization_id s1 of
           None \<Rightarrow> Inl (RuntimeError ''Tenant quota state is unavailable'')
         | Some _ \<Rightarrow>
             (let endpoint_count = count_where
                (\<lambda>e. ep_project_id e = project_id \<and> ep_is_active e
                     \<and> (case exclude_endpoint_id of None \<Rightarrow> True | Some x \<Rightarrow> ep_id e \<noteq> x))
                (db_endpoints s1)
              in if endpoint_count \<ge> tenant_endpoints_per_project cfg
                 then Inl (QuotaExceededError ''endpoints_per_project''
                        (quota_retry_after_max_seconds cfg))
                 else Inr s1))"

subsection \<open>Laws of the token bucket\<close>

text \<open>
  What a user of a bucket relies on: the balance never leaves the range from zero to the capacity,
  a granted request is paid for from the balance and the refill since the last one, and a refusal
  happens only when the cost is not covered.
\<close>

locale token_bucket =
  fixes consume :: "rat \<Rightarrow> datetime \<Rightarrow> int \<Rightarrow> datetime \<Rightarrow> token_balance"
    and rate :: rat and capacity :: int
  assumes granted_pays: "tb_retry_after (consume tok t0 cost now) = None \<Longrightarrow>
      tb_tokens (consume tok t0 cost now) + of_int cost
        = min (of_int capacity) (tok + max 0 (total_seconds (now - t0)) * rate)"
    and granted_nonneg: "tb_retry_after (consume tok t0 cost now) = None \<Longrightarrow>
      0 \<le> tb_tokens (consume tok t0 cost now)"
    and refused_uncovered: "tb_retry_after (consume tok t0 cost now) \<noteq> None \<Longrightarrow>
      min (of_int capacity) (tok + max 0 (total_seconds (now - t0)) * rate) < of_int cost"
    and refill_time: "tb_refilled_at (consume tok t0 cost now) = now"

text \<open>
  A history of requests against one stored balance: a granted request stores the new balance, a
  refused one raises and the rollback leaves the balance as it was.  The result is the total cost
  granted and the final balance.
\<close>

fun grant_run ::
  "(rat \<Rightarrow> datetime \<Rightarrow> int \<Rightarrow> datetime \<Rightarrow> token_balance) \<Rightarrow> rat \<Rightarrow> datetime
   \<Rightarrow> (int \<times> datetime) list \<Rightarrow> int \<times> rat \<times> datetime" where
  "grant_run consume tok t0 [] = (0, tok, t0)"
| "grant_run consume tok t0 ((cost, now) # rs) =
     (let b = consume tok t0 cost now
      in if tb_retry_after b = None
         then (let (total, rest) = grant_run consume (tb_tokens b) (tb_refilled_at b) rs
               in (cost + total, rest))
         else grant_run consume tok t0 rs)"

context token_bucket
begin

lemma granted_le_capacity:
  "tb_retry_after (consume tok t0 cost now) = None \<Longrightarrow>
   tb_tokens (consume tok t0 cost now) \<le> of_int capacity - of_int cost"
  using granted_pays [of tok t0 cost now] by linarith

lemma granted_cost_bound:
  assumes "tb_retry_after (consume tok t0 cost now) = None"
  shows "cost \<le> capacity"
proof -
  have "of_int cost \<le> (of_int capacity :: rat)"
    using granted_nonneg [OF assms] granted_le_capacity [OF assms] by linarith
  then show ?thesis by simp
qed

lemma grant_run_bound:
  assumes "sorted (t0 # map snd rs)" and "0 \<le> rate" and "0 \<le> tok"
  shows "of_int (fst (grant_run consume tok t0 rs))
    \<le> tok + rate * total_seconds (last (t0 # map snd rs) - t0)"
  using assms
proof (induction rs arbitrary: tok t0)
  case Nil
  then show ?case by simp
next
  case (Cons r rs)
  obtain cost now where r: "r = (cost, now)" by fastforce
  let ?b = "consume tok t0 cost now"
  let ?z = "last (now # map snd rs)"
  have at_now: "t0 \<le> now" and sorted: "sorted (now # map snd rs)"
    using Cons.prems(1) r by auto
  have now_z: "now \<le> ?z" using sorted
    by (metis last_in_set list.distinct(1) list.set_intros(1) set_ConsD sorted_simps(2) order_refl)
  have split: "rate * total_seconds (?z - t0)
      = rate * total_seconds (?z - now) + rate * total_seconds (now - t0)"
    using total_seconds_add [of "?z - now" "now - t0"] by (simp add: algebra_simps)
  show ?case
  proof (cases "tb_retry_after ?b = None")
    case True
    have "of_int (fst (grant_run consume (tb_tokens ?b) now rs))
        \<le> tb_tokens ?b + rate * total_seconds (?z - now)"
      using Cons.IH [OF sorted Cons.prems(2) granted_nonneg [OF True]] .
    moreover have "tb_tokens ?b + of_int cost \<le> tok + rate * total_seconds (now - t0)"
      using granted_pays [OF True] at_now by (simp add: mult.commute min_le_iff_disj)
    ultimately show ?thesis
      using True r split by (simp add: Let_def split_beta refill_time)
  next
    case False
    have "sorted (t0 # map snd rs)"
      using sorted at_now by (auto intro: order_trans)
    from Cons.IH [OF this Cons.prems(2,3)]
    have "of_int (fst (grant_run consume tok t0 rs))
        \<le> tok + rate * total_seconds (last (t0 # map snd rs) - t0)" .
    moreover have "last (t0 # map snd rs) \<le> ?z"
      using at_now by simp
    then have "rate * total_seconds (last (t0 # map snd rs) - t0) \<le> rate * total_seconds (?z - t0)"
      using Cons.prems(2) by (intro mult_left_mono) simp_all
    ultimately have "of_int (fst (grant_run consume tok t0 rs)) \<le> tok + rate * total_seconds (?z - t0)"
      by linarith
    moreover have "grant_run consume tok t0 (r # rs) = grant_run consume tok t0 rs"
      using False r by (auto simp add: Let_def)
    moreover have "last (t0 # map snd (r # rs)) = ?z"
      using r by simp
    ultimately show ?thesis by simp
  qed
qed

end

text \<open>The balance a request is measured against.\<close>

abbreviation bucket_level :: "rat \<Rightarrow> datetime \<Rightarrow> rat \<Rightarrow> int \<Rightarrow> datetime \<Rightarrow> rat" where
  "bucket_level tok t0 rate capacity now \<equiv>
     min (of_int capacity) (tok + max 0 (total_seconds (now - t0)) * rate)"

lemma consume_tokens_granted:
  "of_int cost \<le> bucket_level tok t0 rate capacity now \<Longrightarrow>
   consume_tokens tok t0 rate capacity cost now retry_cap =
     \<lparr>tb_tokens = bucket_level tok t0 rate capacity now - of_int cost, tb_refilled_at = now,
      tb_retry_after = None\<rparr>"
  by (simp only: consume_tokens_def Let_def if_True)

lemma consume_tokens_refused:
  "bucket_level tok t0 rate capacity now < of_int cost \<Longrightarrow>
   consume_tokens tok t0 rate capacity cost now retry_cap =
     \<lparr>tb_tokens = bucket_level tok t0 rate capacity now, tb_refilled_at = now,
      tb_retry_after = Some (min retry_cap
        (max 1 \<lceil>(of_int cost - bucket_level tok t0 rate capacity now) / rate\<rceil>))\<rparr>"
  by (simp only: consume_tokens_def Let_def if_False not_le [symmetric])

lemma consume_tokens_cases:
  obtains (granted) "of_int cost \<le> bucket_level tok t0 rate capacity now"
      "consume_tokens tok t0 rate capacity cost now retry_cap =
       \<lparr>tb_tokens = bucket_level tok t0 rate capacity now - of_int cost, tb_refilled_at = now,
        tb_retry_after = None\<rparr>"
    | (refused) "bucket_level tok t0 rate capacity now < of_int cost"
      "consume_tokens tok t0 rate capacity cost now retry_cap =
       \<lparr>tb_tokens = bucket_level tok t0 rate capacity now, tb_refilled_at = now,
        tb_retry_after = Some (min retry_cap
          (max 1 \<lceil>(of_int cost - bucket_level tok t0 rate capacity now) / rate\<rceil>))\<rparr>"
  by (metis consume_tokens_granted consume_tokens_refused linorder_not_le)

lemma consume_tokens_granted_iff:
  "tb_retry_after (consume_tokens tok t0 rate capacity cost now retry_cap) = None \<longleftrightarrow>
   of_int cost \<le> bucket_level tok t0 rate capacity now"
  by (cases rule: consume_tokens_cases [of cost capacity tok now t0 rate retry_cap]) auto

lemma consume_tokens_refilled_at [simp]:
  "tb_refilled_at (consume_tokens tok t0 rate capacity cost now retry_cap) = now"
  by (cases rule: consume_tokens_cases [of cost capacity tok now t0 rate retry_cap]) auto

interpretation consume: token_bucket
  "\<lambda>tok t0 cost now. consume_tokens tok t0 rate capacity cost now retry_cap" rate capacity
  for rate capacity retry_cap
proof (unfold_locales, goal_cases)
  case (1 tok t0 cost now)
  then show ?case
    by (cases rule: consume_tokens_cases [of cost capacity tok now t0 rate retry_cap]) auto
next
  case (2 tok t0 cost now)
  then show ?case
    by (cases rule: consume_tokens_cases [of cost capacity tok now t0 rate retry_cap]) auto
next
  case (3 tok t0 cost now)
  then show ?case
    by (cases rule: consume_tokens_cases [of cost capacity tok now t0 rate retry_cap]) auto
qed simp

lemma consume_tokens_range:
  assumes "0 \<le> tok" and "0 \<le> rate" and "0 \<le> capacity" and "0 \<le> cost"
  shows "0 \<le> tb_tokens (consume_tokens tok t0 rate capacity cost now retry_cap)
    \<and> tb_tokens (consume_tokens tok t0 rate capacity cost now retry_cap) \<le> of_int capacity"
proof -
  have "0 \<le> bucket_level tok t0 rate capacity now"
    using assms by (simp add: add_nonneg_nonneg)
  moreover have "bucket_level tok t0 rate capacity now \<le> of_int capacity"
    by simp
  ultimately show ?thesis
    using assms(4) by (cases rule: consume_tokens_cases [of cost capacity tok now t0 rate retry_cap]) auto
qed

lemma consume_tokens_retry_after:
  assumes "tb_retry_after (consume_tokens tok t0 rate capacity cost now retry_cap) = Some r"
    and "1 \<le> retry_cap"
  shows "1 \<le> r \<and> r \<le> retry_cap"
  using assms by (cases rule: consume_tokens_cases [of cost capacity tok now t0 rate retry_cap]) auto

text \<open>
  Waiting for the announced time is enough: unless the cost is beyond the capacity or the wait was
  cut to the configured maximum, the same request is granted after it.
\<close>

lemma consume_tokens_wait_enough:
  assumes refused: "tb_retry_after (consume_tokens tok t0 rate capacity cost now retry_cap) = Some r"
    and r: "r < retry_cap" and rate: "0 < rate" and cost: "cost \<le> capacity" and t0: "t0 \<le> now"
    and later: "now + seconds r \<le> later"
  shows "tb_retry_after (consume_tokens tok t0 rate capacity cost later retry_cap) = None"
proof -
  let ?lv = "bucket_level tok t0 rate capacity now"
  have nb: "?lv < of_int cost"
    using refused consume_tokens_granted_iff by (metis option.distinct(1) not_le)
  then have short: "?lv = tok + total_seconds (now - t0) * rate"
    using cost t0 by (auto simp: min_def)
  have "\<lceil>(of_int cost - ?lv) / rate\<rceil> \<le> r"
    using refused r unfolding consume_tokens_refused [OF nb] by auto
  then have "(of_int cost - ?lv) / rate \<le> of_int r"
    by (simp only: ceiling_le_iff)
  then have "of_int cost - ?lv \<le> of_int r * rate"
    using rate by (simp only: pos_divide_le_eq)
  moreover have "of_int r * rate + total_seconds (now - t0) * rate \<le> total_seconds (later - t0) * rate"
  proof -
    have "total_seconds (seconds r + (now - t0)) \<le> total_seconds (later - t0)"
      using later by simp
    then have "of_int r + total_seconds (now - t0) \<le> total_seconds (later - t0)"
      by (simp only: total_seconds_add total_seconds_seconds)
    then have "(of_int r + total_seconds (now - t0)) * rate \<le> total_seconds (later - t0) * rate"
      using rate by (intro mult_right_mono) simp_all
    then show ?thesis by (simp only: distrib_right)
  qed
  ultimately have "of_int cost \<le> tok + total_seconds (later - t0) * rate"
    using short by linarith
  also have "\<dots> \<le> tok + max 0 (total_seconds (later - t0)) * rate"
    using rate by (simp add: mult_right_mono)
  finally have "of_int cost \<le> bucket_level tok t0 rate capacity later"
    using cost by simp
  then show ?thesis by (simp only: consume_tokens_granted_iff)
qed

subsection \<open>Quota rows exist and stay in range\<close>

lemma insert_do_nothing_ex: "\<exists>r \<in> set (insert_do_nothing key row rows). key r = key row"
  by (auto simp: insert_do_nothing_def list_ex_iff)

lemma set_insert_do_nothing:
  "set (insert_do_nothing key row rows) \<subseteq> insert row (set rows)"
  by (auto simp: insert_do_nothing_def)

lemma insert_do_nothing_mono: "set rows \<subseteq> set (insert_do_nothing key row rows)"
  by (auto simp: insert_do_nothing_def)

lemma distinct_insert_do_nothing:
  "distinct (map key rows) \<Longrightarrow> distinct (map key (insert_do_nothing key row rows))"
  by (auto simp: insert_do_nothing_def list_ex_iff)

lemma find_insert_do_nothing:
  "List.find (\<lambda>r. key r = k) (insert_do_nothing key row rows) =
     (case List.find (\<lambda>r. key r = k) rows of
        Some r \<Rightarrow> Some r
      | None \<Rightarrow> if key row = k then Some row else None)"
  by (auto simp: insert_do_nothing_def list_ex_iff find_append find_None_set
      split: option.splits dest: find_Some_set)

lemma ensure_frame [simp, frame_simps]:
  "db_deliveries (ensure_global_state now s) = db_deliveries s"
  "db_deliveries (ensure_tenant_state oid cfg now s) = db_deliveries s"
  "db_deliveries (ensure_endpoint_state eid cfg now s) = db_deliveries s"
  "db_events (ensure_global_state now s) = db_events s"
  "db_events (ensure_tenant_state oid cfg now s) = db_events s"
  "db_events (ensure_endpoint_state eid cfg now s) = db_events s"
  "db_tenant_quotas (ensure_global_state now s) = db_tenant_quotas s"
  "db_tenant_quotas (ensure_endpoint_state eid cfg now s) = db_tenant_quotas s"
  "db_endpoint_quotas (ensure_global_state now s) = db_endpoint_quotas s"
  "db_endpoint_quotas (ensure_tenant_state oid cfg now s) = db_endpoint_quotas s"
  "db_global_control (ensure_tenant_state oid cfg now s) = db_global_control s"
  "db_global_control (ensure_endpoint_state eid cfg now s) = db_global_control s"
  "db_attempts (ensure_global_state now s) = db_attempts s"
  "db_attempts (ensure_tenant_state oid cfg now s) = db_attempts s"
  "db_attempts (ensure_endpoint_state eid cfg now s) = db_attempts s"
  by (simp_all add: ensure_global_state_def ensure_tenant_state_def ensure_endpoint_state_def)

lemma put_quota_frame [simp, frame_simps]:
  "db_deliveries (put_tenant_quota q s) = db_deliveries s"
  "db_events (put_tenant_quota q s) = db_events s"
  "db_endpoint_quotas (put_tenant_quota q s) = db_endpoint_quotas s"
  "db_global_control (put_tenant_quota q s) = db_global_control s"
  "db_attempts (put_tenant_quota q s) = db_attempts s"
  "db_deliveries (put_endpoint_quota e s) = db_deliveries s"
  "db_events (put_endpoint_quota e s) = db_events s"
  "db_tenant_quotas (put_endpoint_quota e s) = db_tenant_quotas s"
  "db_global_control (put_endpoint_quota e s) = db_global_control s"
  "db_attempts (put_endpoint_quota e s) = db_attempts s"
  by (simp_all add: put_tenant_quota_def put_endpoint_quota_def)

lemma find_global_ensure: "find_global (ensure_global_state now s) \<noteq> None"
  by (simp add: find_global_def ensure_global_state_def find_insert_do_nothing split: option.splits)

lemma find_tenant_quota_ensure:
  "find_tenant_quota oid' (ensure_tenant_state oid cfg now s) =
     (case find_tenant_quota oid' s of
        Some q \<Rightarrow> Some q
      | None \<Rightarrow> if oid = oid' then Some (tenant_quota_values oid cfg now) else None)"
  by (simp add: find_tenant_quota_def ensure_tenant_state_def find_insert_do_nothing
      tenant_quota_values_def split: option.splits)

lemma find_endpoint_quota_ensure:
  "find_endpoint_quota eid' (ensure_endpoint_state eid cfg now s) =
     (case find_endpoint_quota eid' s of
        Some q \<Rightarrow> Some q
      | None \<Rightarrow> if eid = eid' then Some (endpoint_quota_values eid cfg now) else None)"
  by (simp add: find_endpoint_quota_def ensure_endpoint_state_def find_insert_do_nothing
      endpoint_quota_values_def split: option.splits)

lemma find_tenant_quota_put:
  "tq_organization_id q = oid \<Longrightarrow>
   find_tenant_quota oid' (put_tenant_quota q s) =
     (if oid' = oid then map_option (\<lambda>_. q) (find_tenant_quota oid s)
      else find_tenant_quota oid' s)"
  by (simp add: find_tenant_quota_def put_tenant_quota_def find_key_put)

lemma find_endpoint_quota_put:
  "find_endpoint_quota eid (put_endpoint_quota q s) =
     (if eid = eq_endpoint_id q then map_option (\<lambda>_. q) (find_endpoint_quota eid s)
      else find_endpoint_quota eid s)"
  by (simp add: find_endpoint_quota_def put_endpoint_quota_def find_key_put)

lemma lock_global_tenant_ok:
  "\<exists>g q. lock_global_tenant cfg now oid s
     = Inr (g, q, ensure_tenant_state oid cfg now (ensure_global_state now s))"
proof -
  let ?s = "ensure_tenant_state oid cfg now (ensure_global_state now s)"
  obtain g where g: "find_global ?s = Some g"
    using find_global_ensure [of now s] by (auto simp: find_global_def)
  obtain q where q: "find_tenant_quota oid ?s = Some q"
    by (cases "find_tenant_quota oid (ensure_global_state now s)")
       (auto simp: find_tenant_quota_ensure)
  from g q show ?thesis by (simp add: lock_global_tenant_def Let_def)
qed

lemma lock_global_tenant_InrD:
  assumes "lock_global_tenant cfg now oid s = Inr (g, q, s1)"
  shows "s1 = ensure_tenant_state oid cfg now (ensure_global_state now s)"
    and "find_tenant_quota oid s1 = Some q" and "tq_organization_id q = oid"
  using assms
  by (auto simp: lock_global_tenant_def Let_def find_tenant_quota_def split: option.splits
      dest: find_Some_set)

text \<open>The balances of a tenant lie between zero and the configured burst.\<close>

definition tenant_quota_ok :: "settings \<Rightarrow> tenant_quota_state \<Rightarrow> bool" where
  "tenant_quota_ok cfg q \<longleftrightarrow>
     0 \<le> tq_event_tokens q \<and> tq_event_tokens q \<le> of_int (tenant_event_burst cfg)
     \<and> 0 \<le> tq_delivery_tokens q \<and> tq_delivery_tokens q \<le> of_int (tenant_delivery_burst cfg)
     \<and> 0 \<le> tq_replay_tokens q \<and> tq_replay_tokens q \<le> of_int (tenant_replay_burst cfg)"

definition tenant_quotas_ok :: "settings \<Rightarrow> db \<Rightarrow> bool" where
  "tenant_quotas_ok cfg s \<longleftrightarrow> list_all (tenant_quota_ok cfg) (db_tenant_quotas s)"

lemma tenant_quota_values_ok: "valid_settings cfg \<Longrightarrow> tenant_quota_ok cfg (tenant_quota_values oid cfg now)"
  using valid_settings_bounds [of cfg] by (simp add: tenant_quota_ok_def tenant_quota_values_def)

lemma tenant_quotas_ok_find:
  "tenant_quotas_ok cfg s \<Longrightarrow> find_tenant_quota oid s = Some q \<Longrightarrow> tenant_quota_ok cfg q"
  by (auto simp: tenant_quotas_ok_def find_tenant_quota_def list_all_iff dest: find_Some_set)

lemma tenant_quotas_ok_ensure:
  assumes "valid_settings cfg" and "tenant_quotas_ok cfg s"
  shows "tenant_quotas_ok cfg (ensure_tenant_state oid cfg now s)"
  using assms set_insert_do_nothing [of tq_organization_id "tenant_quota_values oid cfg now"
      "db_tenant_quotas s"]
  by (auto simp: tenant_quotas_ok_def ensure_tenant_state_def list_all_iff tenant_quota_values_ok)

lemma tenant_quotas_ok_put:
  "tenant_quota_ok cfg q \<Longrightarrow> tenant_quotas_ok cfg s \<Longrightarrow> tenant_quotas_ok cfg (put_tenant_quota q s)"
  by (auto simp: tenant_quotas_ok_def put_tenant_quota_def list_all_iff set_update_where)

lemma balances_ok:
  assumes "valid_settings cfg" and "tenant_quota_ok cfg q" and "0 \<le> n"
  shows "0 \<le> tb_tokens (event_balance cfg q now)
      \<and> tb_tokens (event_balance cfg q now) \<le> of_int (tenant_event_burst cfg)"
    and "0 \<le> tb_tokens (delivery_balance cfg q n now)
      \<and> tb_tokens (delivery_balance cfg q n now) \<le> of_int (tenant_delivery_burst cfg)"
    and "0 \<le> tb_tokens (replay_balance cfg q n now)
      \<and> tb_tokens (replay_balance cfg q n now) \<le> of_int (tenant_replay_burst cfg)"
  using assms(2,3) valid_settings_bounds(16-21) [OF assms(1)]
  unfolding event_balance_def delivery_balance_def replay_balance_def tenant_quota_ok_def
  by (intro consume_tokens_range; simp)+

subsection \<open>Admission decisions\<close>

lemma check_saturation_ok_iff:
  "check_saturation cfg now n s = Inr () \<longleftrightarrow>
     count_where (\<lambda>d. nonterminal_status (dl_status d)) (db_deliveries s) + n
       \<le> global_max_backlog cfg
     \<and> (\<forall>t. oldest_due now s = Some t
          \<longrightarrow> total_seconds (now - t) < global_oldest_due_admission_seconds cfg)"
  by (auto simp: check_saturation_def Let_def not_le split: option.splits)

lemma check_saturation_unit: "check_saturation cfg now n s = Inr u \<longleftrightarrow> check_saturation cfg now n s = Inr ()"
  by simp

lemma oldest_due_bound:
  assumes "d \<in> set (db_deliveries s)" and "is_due now d"
  shows "\<exists>t t'. oldest_due now s = Some t \<and> due_at now d = Some t' \<and> t \<le> t' \<and> t' \<le> now"
proof -
  have min_le: "fold min ts t \<le> x" if "x \<in> set (t # ts)" for x t :: int and ts
    using that by (simp only: Min.set_eq_fold [symmetric]) (rule Min_le, simp_all)
  obtain t' where t': "due_at now d = Some t'" "t' \<le> now"
    using assms(2) by (auto simp: due_at_def is_due_def opt_le_iff)
  let ?ts = "map the (filter (\<lambda>t. t \<noteq> None) (map (due_at now) (filter (is_due now) (db_deliveries s))))"
  have "t' \<in> set ?ts"
    using assms t'(1) by (force simp: image_iff)
  then obtain t ts where ts: "?ts = t # ts" and "t' \<in> set (t # ts)"
    by (metis empty_iff list.exhaust list.set(1))
  then have "oldest_due now s = Some (fold min ts t)" and "fold min ts t \<le> t'"
    using min_le by (auto simp: oldest_due_def)
  with t' show ?thesis by blast
qed

lemma admit_event_locked_Inr_iff:
  "admit_event_locked cfg q now oid n sz s = Inr s' \<longleftrightarrow>
     n \<le> tenant_fanout_per_event cfg
     \<and> check_saturation cfg now n s = Inr ()
     \<and> retained_bytes oid s + sz \<le> tenant_retained_bytes cfg
     \<and> tb_retry_after (event_balance cfg q now) = None
     \<and> tb_retry_after (delivery_balance cfg q n now) = None
     \<and> s' = put_tenant_quota
         (q\<lparr>tq_event_tokens := tb_tokens (event_balance cfg q now),
            tq_event_refilled_at := now,
            tq_delivery_tokens := tb_tokens (delivery_balance cfg q n now),
            tq_delivery_refilled_at := now,
            tq_updated_at := now\<rparr>) s"
  by (auto simp: admit_event_locked_def bindr_Inr_iff Let_def not_less event_balance_def
      delivery_balance_def split: option.splits)

lemma admit_replays_locked_Inr_iff:
  "admit_replays_locked cfg q now n s = Inr s' \<longleftrightarrow>
     1 \<le> n \<and> n \<le> bulk_replay_max_deliveries cfg
     \<and> check_saturation cfg now n s = Inr ()
     \<and> tb_retry_after (replay_balance cfg q n now) = None
     \<and> tb_retry_after (delivery_balance cfg q n now) = None
     \<and> s' = put_tenant_quota
         (q\<lparr>tq_replay_tokens := tb_tokens (replay_balance cfg q n now),
            tq_replay_refilled_at := now,
            tq_delivery_tokens := tb_tokens (delivery_balance cfg q n now),
            tq_delivery_refilled_at := now,
            tq_updated_at := now\<rparr>) s"
  by (auto simp: admit_replays_locked_def bindr_Inr_iff Let_def not_less replay_balance_def
      delivery_balance_def split: option.splits if_splits)

lemma admit_event_InrD:
  assumes "admit_event cfg now oid n sz s = Inr s'"
  obtains q where "find_tenant_quota oid (ensure_tenant_state oid cfg now s) = Some q"
    and "admit_event_locked cfg q now oid n sz
           (ensure_tenant_state oid cfg now (ensure_global_state now s)) = Inr s'"
proof -
  from assms obtain g q s1 where l: "lock_global_tenant cfg now oid s = Inr (g, q, s1)"
    and a: "admit_event_locked cfg q now oid n sz s1 = Inr s'"
    by (auto simp: admit_event_def bindr_Inr_iff)
  have "find_tenant_quota oid (ensure_tenant_state oid cfg now s) = find_tenant_quota oid s1"
    using lock_global_tenant_InrD(1) [OF l]
    by (simp add: find_tenant_quota_ensure) (simp add: find_tenant_quota_def)
  with l a show thesis
    using lock_global_tenant_InrD [OF l] that by simp
qed

end
