(* ===== verification/Scheduling.thy ===== *)
theory Scheduling
  imports Admission
begin

text \<open>
  Fair claiming, \<^verbatim>\<open>app/scheduling.py\<close>: the candidate query with its two window functions, and the
  selection loop that visits tenants and endpoints in rotation and respects the deployment, tenant
  and endpoint caps, the token buckets, pauses and the circuit breaker.
\<close>

subsection \<open>Rotation and candidates\<close>

definition rotate_after :: "int list \<Rightarrow> int option \<Rightarrow> int list" where
  "rotate_after values cursor =
     (case cursor of
        None \<Rightarrow> values
      | Some c \<Rightarrow>
          (let index = length (takeWhile (\<lambda>v. \<not> v > c) values)
           in if index < length values then drop index values @ take index values else values))"

text \<open>
  \<^verbatim>\<open>row_number() over (partition by organization, endpoint order by next_attempt_at, id)\<close>, and the
  second ranking within the organization.
\<close>

definition endpoint_rank :: "delivery list \<Rightarrow> delivery \<Rightarrow> int" where
  "endpoint_rank due d = 1 + count_where
     (\<lambda>e. dl_organization_id e = dl_organization_id d \<and> dl_endpoint_id e = dl_endpoint_id d
          \<and> (dl_next_attempt_at e, dl_id e) < (dl_next_attempt_at d, dl_id d)) due"

definition tenant_rank :: "delivery list \<Rightarrow> delivery \<Rightarrow> int" where
  "tenant_rank due d = 1 + count_where
     (\<lambda>e. dl_organization_id e = dl_organization_id d
          \<and> (endpoint_rank due e, dl_next_attempt_at e, dl_id e)
            < (endpoint_rank due d, dl_next_attempt_at d, dl_id d)) due"

definition fair_candidate_ids :: "db \<Rightarrow> datetime \<Rightarrow> int \<Rightarrow> int \<Rightarrow> int list" where
  "fair_candidate_ids s now scan_limit per_tenant_limit =
     (let due = filter (is_due now) (db_deliveries s)
      in take (nat scan_limit) (map dl_id
           (sort_key (\<lambda>d. (tenant_rank due d, dl_next_attempt_at d, dl_id d))
             (filter (\<lambda>d. tenant_rank due d \<le> per_tenant_limit) due))))"

subsection \<open>The selection loop\<close>

text \<open>
  The local variables of \<^verbatim>\<open>select_fair_deliveries\<close> that its loop changes.  The quota rows are the
  objects the session holds; their changes are flushed when the transaction commits.
\<close>

record sched =
  sc_selected :: "delivery list"
  sc_grouped :: "int \<Rightarrow> int \<Rightarrow> delivery list"
  sc_endpoint_order :: "int \<Rightarrow> int list"
  sc_endpoints :: "int \<rightharpoonup> endpoint_quota_state"
  sc_tenants :: "int \<rightharpoonup> tenant_quota_state"
  sc_global :: global_control_state
  sc_endpoint_counts :: "int \<Rightarrow> int"
  sc_tenant_counts :: "int \<Rightarrow> int"
  sc_balances :: "int \<rightharpoonup> rat"
  sc_retry_balances :: "int \<rightharpoonup> rat"

text \<open>An open circuit whose time has passed lets one probe through.\<close>

definition half_open_if_elapsed :: "endpoint_quota_state \<Rightarrow> endpoint_quota_state" where
  "half_open_if_elapsed state =
     (if eq_circuit_state state = Open
      then state\<lparr>eq_circuit_state := Half_open, eq_circuit_open_until := None,
                 eq_half_open_probe_delivery_id := None\<rparr>
      else state)"

text \<open>The statements after the guards: take the head of the queue and account for it.\<close>

definition take_delivery ::
  "datetime \<Rightarrow> int \<Rightarrow> int \<Rightarrow> delivery \<Rightarrow> delivery list \<Rightarrow> endpoint_quota_state \<Rightarrow> rat \<Rightarrow> rat
   \<Rightarrow> tenant_quota_state \<Rightarrow> sched \<Rightarrow> sched" where
  "take_delivery now org eid d queue state balance retry_balance tenant st =
     (let is_retry = dl_attempt_count d > 0;
          state1 = (if is_retry then state\<lparr>eq_retry_tokens := retry_balance - 1\<rparr> else state);
          state2 = (if eq_circuit_state state1 = Half_open
                    then state1\<lparr>eq_half_open_probe_delivery_id := Some (dl_id d)\<rparr> else state1);
          state3 = state2\<lparr>eq_delivery_tokens := balance - 1\<rparr>
      in st\<lparr>sc_selected := sc_selected st @ [d],
            sc_grouped := (sc_grouped st)(org := (sc_grouped st org)(eid := queue)),
            sc_balances := (sc_balances st)(eid \<mapsto> balance - 1),
            sc_retry_balances := (if is_retry then (sc_retry_balances st)(eid \<mapsto> retry_balance - 1)
                                  else sc_retry_balances st),
            sc_endpoint_counts := (sc_endpoint_counts st)(eid := sc_endpoint_counts st eid + 1),
            sc_tenant_counts := (sc_tenant_counts st)(org := sc_tenant_counts st org + 1),
            sc_endpoints := (sc_endpoints st)(eid \<mapsto> state3),
            sc_tenants := (sc_tenants st)(org \<mapsto>
              tenant\<lparr>tq_endpoint_cursor_id := Some eid, tq_updated_at := now\<rparr>),
            sc_global := (sc_global st)\<lparr>gc_tenant_cursor_organization_id := Some org,
                                        gc_updated_at := now\<rparr>\<rparr>)"

definition visit_endpoint ::
  "settings \<Rightarrow> datetime \<Rightarrow> int \<Rightarrow> int \<Rightarrow> sched \<Rightarrow> (bool \<times> sched) result" where
  "visit_endpoint cfg now org eid st =
     (case sc_grouped st org eid of
        [] \<Rightarrow> Inr (False, st)
      | d # queue \<Rightarrow>
          bindr (some_or KeyError (sc_endpoints st eid)) (\<lambda>state0.
          if eq_paused_at state0 \<noteq> None then Inr (False, st)
          else if eq_circuit_state state0 = Open \<and> \<not> opt_le (eq_circuit_open_until state0) now
          then Inr (False, st)
          else
            (let state = half_open_if_elapsed state0;
                 st1 = st\<lparr>sc_endpoints := (sc_endpoints st)(eid \<mapsto> state)\<rparr>
             in if eq_circuit_state state = Half_open
                   \<and> eq_half_open_probe_delivery_id state \<notin> {None, Some (dl_id d)}
                then Inr (False, st1)
                else if sc_endpoint_counts st eid \<ge> endpoint_concurrency cfg
                then Inr (False, st1)
                else bindr (some_or KeyError (sc_balances st eid)) (\<lambda>balance.
                  if balance < 1 then Inr (False, st1)
                  else bindr (if dl_attempt_count d > 0
                              then some_or KeyError (sc_retry_balances st eid) else Inr 1)
                    (\<lambda>retry_balance.
                    if dl_attempt_count d > 0 \<and> retry_balance < 1 then Inr (False, st1)
                    else bindr (some_or KeyError (sc_tenants st org)) (\<lambda>tenant.
                      Inr (True, take_delivery now org eid d queue state balance retry_balance
                                   tenant st1)))))))"

text \<open>\<^verbatim>\<open>for _ in range(len(endpoints))\<close>: rotate the deque, try its endpoint, stop at the first taken.\<close>

fun visit_endpoints ::
  "settings \<Rightarrow> datetime \<Rightarrow> int \<Rightarrow> nat \<Rightarrow> sched \<Rightarrow> (bool \<times> sched) result" where
  "visit_endpoints cfg now org 0 st = Inr (False, st)"
| "visit_endpoints cfg now org (Suc n) st =
     (case sc_endpoint_order st org of
        [] \<Rightarrow> Inl IndexError
      | eid # rest \<Rightarrow>
          bindr (visit_endpoint cfg now org eid
                  (st\<lparr>sc_endpoint_order := (sc_endpoint_order st)(org := rest @ [eid])\<rparr>))
            (\<lambda>(taken, st'). if taken then Inr (True, st')
                            else visit_endpoints cfg now org n st'))"

fun visit_organizations ::
  "settings \<Rightarrow> datetime \<Rightarrow> int \<Rightarrow> int list \<Rightarrow> bool \<Rightarrow> sched \<Rightarrow> (bool \<times> sched) result" where
  "visit_organizations cfg now available [] made_progress st = Inr (made_progress, st)"
| "visit_organizations cfg now available (org # orgs) made_progress st =
     (if int (length (sc_selected st)) \<ge> available then Inr (made_progress, st)
      else if sc_tenant_counts st org \<ge> tenant_in_flight_deliveries cfg
      then visit_organizations cfg now available orgs made_progress st
      else bindr (visit_endpoints cfg now org (length (sc_endpoint_order st org)) st)
        (\<lambda>(taken, st'). visit_organizations cfg now available orgs (made_progress \<or> taken) st'))"

subsection \<open>Progress of the loop\<close>

lemma visit_endpoint_selected:
  assumes "visit_endpoint cfg now org eid st = Inr (taken, st')"
  shows "\<exists>ds. sc_selected st' = sc_selected st @ ds \<and> length ds = (if taken then 1 else 0)"
  using assms
  by (auto simp: visit_endpoint_def take_delivery_def Let_def bindr_Inr_iff
      split: list.splits if_splits)

lemma visit_endpoints_selected:
  assumes "visit_endpoints cfg now org n st = Inr (taken, st')"
  shows "\<exists>ds. sc_selected st' = sc_selected st @ ds \<and> length ds = (if taken then 1 else 0)"
  using assms
proof (induction cfg now org n st rule: visit_endpoints.induct)
  case (2 cfg now org n st)
  then show ?case
    by (fastforce simp: bindr_Inr_iff split: list.splits if_splits
        dest: visit_endpoint_selected)
qed simp

lemma visit_organizations_selected:
  assumes "visit_organizations cfg now available orgs p st = Inr (p', st')"
  shows "\<exists>ds. sc_selected st' = sc_selected st @ ds \<and> (p' \<longleftrightarrow> p \<or> ds \<noteq> [])
    \<and> int (length (sc_selected st')) \<le> max available (int (length (sc_selected st)))"
  using assms
proof (induction cfg now available orgs p st rule: visit_organizations.induct)
  case (2 cfg now available org orgs p st)
  show ?case
  proof (cases "int (length (sc_selected st)) \<ge> available
      \<or> sc_tenant_counts st org \<ge> tenant_in_flight_deliveries cfg")
    case True
    with 2 show ?thesis by (auto split: if_splits)
  next
    case False
    with 2(3) obtain taken st1 where
      v: "visit_endpoints cfg now org (length (sc_endpoint_order st org)) st = Inr (taken, st1)"
      and r: "visit_organizations cfg now available orgs (p \<or> taken) st1 = Inr (p', st')"
      by (auto simp: bindr_Inr_iff)
    obtain ds where ds: "sc_selected st1 = sc_selected st @ ds" "length ds = (if taken then 1 else 0)"
      using visit_endpoints_selected [OF v] by auto
    obtain es where es: "sc_selected st' = sc_selected st1 @ es" "p' \<longleftrightarrow> (p \<or> taken) \<or> es \<noteq> []"
      "int (length (sc_selected st')) \<le> max available (int (length (sc_selected st1)))"
      using 2(2) [OF _ _ v refl r] False by auto
    show ?thesis
      using ds es False by (intro exI [of _ "ds @ es"]) (auto split: if_splits)
  qed
qed auto

function select_loop ::
  "settings \<Rightarrow> datetime \<Rightarrow> int \<Rightarrow> int list \<Rightarrow> sched \<Rightarrow> sched result" where
  "select_loop cfg now available orgs st =
     (if int (length (sc_selected st)) < available
      then bindr (visit_organizations cfg now available orgs False st) (\<lambda>(made_progress, st').
             if made_progress then select_loop cfg now available orgs st' else Inr st')
      else Inr st)"
  by pat_completeness auto
termination
proof (relation "measure (\<lambda>(cfg, now, available, orgs, st). nat (available - int (length (sc_selected st))))",
    goal_cases)
  case (2 cfg now available orgs st x p st')
  then have "visit_organizations cfg now available orgs False st = Inr (p, st')" and p: p
    by simp_all
  from visit_organizations_selected [OF this(1)] p 2(1) show ?case
    by auto
qed simp

declare select_loop.simps [simp del]

subsection \<open>Selecting work\<close>

text \<open>Refill an endpoint's two buckets to the present; the cost of a refill is zero.\<close>

definition refill_endpoint :: "settings \<Rightarrow> datetime \<Rightarrow> endpoint_quota_state \<Rightarrow> endpoint_quota_state" where
  "refill_endpoint cfg now q =
     (let balance = consume_tokens (eq_delivery_tokens q) (eq_refilled_at q)
            (endpoint_rate_per_second cfg) (endpoint_rate_burst cfg) 0 now
            (quota_retry_after_max_seconds cfg);
          retry_balance = consume_tokens (eq_retry_tokens q) (eq_retry_refilled_at q)
            (endpoint_retry_rate_per_second cfg) (endpoint_retry_burst cfg) 0 now
            (quota_retry_after_max_seconds cfg)
      in q\<lparr>eq_delivery_tokens := tb_tokens balance, eq_refilled_at := tb_refilled_at balance,
           eq_retry_tokens := tb_tokens retry_balance,
           eq_retry_refilled_at := tb_refilled_at retry_balance, eq_updated_at := now\<rparr>)"

definition sorted_ids :: "int list \<Rightarrow> int list" where
  "sorted_ids xs = sort (remdups xs)"

definition init_sched ::
  "settings \<Rightarrow> datetime \<Rightarrow> global_control_state \<Rightarrow> delivery list \<Rightarrow> db \<Rightarrow> sched" where
  "init_sched cfg now g candidates s =
     (let endpoint_ids = map dl_endpoint_id candidates;
          organization_ids = map dl_organization_id candidates;
          endpoints = (\<lambda>e. if e \<in> set endpoint_ids
                           then map_option (refill_endpoint cfg now) (find_endpoint_quota e s) else None);
          tenants = (\<lambda>o'. if o' \<in> set organization_ids then find_tenant_quota o' s else None)
      in \<lparr>sc_selected = [],
          sc_grouped = (\<lambda>o' e. filter (\<lambda>d. dl_organization_id d = o' \<and> dl_endpoint_id d = e) candidates),
          sc_endpoint_order = (\<lambda>o'. rotate_after
            (sorted_ids (map dl_endpoint_id (filter (\<lambda>d. dl_organization_id d = o') candidates)))
            (case tenants o' of None \<Rightarrow> None | Some t \<Rightarrow> tq_endpoint_cursor_id t)),
          sc_endpoints = endpoints,
          sc_tenants = tenants,
          sc_global = g,
          sc_endpoint_counts = (\<lambda>e. count_where
            (\<lambda>d. is_live now d \<and> dl_endpoint_id d = e) (db_deliveries s)),
          sc_tenant_counts = (\<lambda>o'. count_where
            (\<lambda>d. is_live now d \<and> dl_organization_id d = o') (db_deliveries s)),
          sc_balances = (\<lambda>e. map_option eq_delivery_tokens (endpoints e)),
          sc_retry_balances = (\<lambda>e. map_option eq_retry_tokens (endpoints e))\<rparr>)"

text \<open>The flush of the quota rows the loop changed.\<close>

definition flush_sched :: "sched \<Rightarrow> db \<Rightarrow> db" where
  "flush_sched st s = s\<lparr>
     db_endpoint_quotas := map (\<lambda>q. case sc_endpoints st (eq_endpoint_id q) of
        None \<Rightarrow> q | Some q' \<Rightarrow> q') (db_endpoint_quotas s),
     db_tenant_quotas := map (\<lambda>q. case sc_tenants st (tq_organization_id q) of
        None \<Rightarrow> q | Some q' \<Rightarrow> q') (db_tenant_quotas s),
     db_global_control := update_where (\<lambda>g. gc_id g = 1) (\<lambda>_. sc_global st)
        (db_global_control s)\<rparr>"

text \<open>
  The candidate rows that could be locked.  \<open>skip\<close> are the rows other transactions hold locks on
  (\<^verbatim>\<open>SKIP LOCKED\<close>).
\<close>

definition lock_candidates :: "(int \<Rightarrow> bool) \<Rightarrow> int list \<Rightarrow> db \<Rightarrow> delivery list" where
  "lock_candidates skip candidate_ids s =
     (let locked = filter (\<lambda>d. dl_id d \<in> set candidate_ids \<and> \<not> skip (dl_id d)) (db_deliveries s)
      in List.map_filter (\<lambda>i. List.find (\<lambda>d. dl_id d = i) locked) candidate_ids)"

definition ensure_states :: "settings \<Rightarrow> datetime \<Rightarrow> delivery list \<Rightarrow> db \<Rightarrow> db" where
  "ensure_states cfg now candidates s =
     (let s2 = fold (\<lambda>o'. ensure_tenant_state o' cfg now)
                 (sorted_ids (map dl_organization_id candidates)) s
      in fold (\<lambda>e. ensure_endpoint_state e cfg now) (sorted_ids (map dl_endpoint_id candidates)) s2)"

text \<open>
  \<open>scan\<close> is the database the candidate query saw and \<open>s\<close> the one the following statements see: the
  transaction runs at READ COMMITTED, where every statement has its own snapshot.  When nothing
  commits in between, they are the same.
\<close>

definition select_fair_deliveries ::
  "settings \<Rightarrow> datetime \<Rightarrow> int \<Rightarrow> (int \<Rightarrow> bool) \<Rightarrow> db \<Rightarrow> db \<Rightarrow> (delivery list \<times> db) result" where
  "select_fair_deliveries cfg now requested skip scan s =
     (let s1 = ensure_global_state now s
      in case find_global s1 of
           None \<Rightarrow> Inl (RuntimeError ''Global scheduler state is unavailable'')
         | Some g \<Rightarrow>
             (let live_total = count_where (is_live now) (db_deliveries s1);
                  available = min requested (worker_global_concurrency cfg - live_total)
              in if available \<le> 0 then Inr ([], s1)
                 else
                   (let per_tenant_scan = max (available * 2) (endpoint_concurrency cfg);
                        candidate_ids = fair_candidate_ids scan now
                          (worker_candidate_scan_limit cfg) per_tenant_scan;
                        candidates = lock_candidates skip candidate_ids s1
                    in if candidates = [] then Inr ([], s1)
                       else
                         (let organization_ids = sorted_ids (map dl_organization_id candidates);
                              s3 = ensure_states cfg now candidates s1;
                              st0 = init_sched cfg now g candidates s3;
                              organization_order = rotate_after organization_ids
                                (gc_tenant_cursor_organization_id g)
                          in if list_ex (\<lambda>o'. sc_tenants st0 o' = None) organization_order
                             then Inl KeyError
                             else bindr (select_loop cfg now available organization_order st0)
                               (\<lambda>st. Inr (sc_selected st, flush_sched st s3))))))"

subsection \<open>Invariants of the selection loop\<close>

text \<open>
  The guards under which the loop takes the delivery \<open>d\<close> at the head of the queue of endpoint
  \<open>eid\<close> of organization \<open>org\<close>, for the endpoint row \<open>q\<close> after a possible half-open transition.
\<close>

definition can_take ::
  "settings \<Rightarrow> int \<Rightarrow> int \<Rightarrow> int \<Rightarrow> delivery \<Rightarrow> delivery list \<Rightarrow> endpoint_quota_state \<Rightarrow> rat \<Rightarrow> rat
   \<Rightarrow> tenant_quota_state \<Rightarrow> sched \<Rightarrow> bool" where
  "can_take cfg available org eid d queue q bal rbal tenant st \<longleftrightarrow>
     sc_grouped st org eid = d # queue
     \<and> sc_endpoints st eid = Some q \<and> eq_paused_at q = None \<and> eq_circuit_state q \<noteq> Open
     \<and> (eq_circuit_state q = Half_open
          \<longrightarrow> eq_half_open_probe_delivery_id q \<in> {None, Some (dl_id d)})
     \<and> sc_endpoint_counts st eid < endpoint_concurrency cfg
     \<and> sc_tenant_counts st org < tenant_in_flight_deliveries cfg
     \<and> sc_balances st eid = Some bal \<and> 1 \<le> bal
     \<and> (dl_attempt_count d > 0 \<longrightarrow> sc_retry_balances st eid = Some rbal \<and> 1 \<le> rbal)
     \<and> sc_tenants st org = Some tenant
     \<and> int (length (sc_selected st)) < available"

lemma half_open_if_elapsed_simps [simp]:
  "eq_circuit_state (half_open_if_elapsed q) \<noteq> Open"
  "eq_paused_at (half_open_if_elapsed q) = eq_paused_at q"
  "eq_delivery_tokens (half_open_if_elapsed q) = eq_delivery_tokens q"
  "eq_retry_tokens (half_open_if_elapsed q) = eq_retry_tokens q"
  "eq_endpoint_id (half_open_if_elapsed q) = eq_endpoint_id q"
  "half_open_if_elapsed (half_open_if_elapsed q) = half_open_if_elapsed q"
  by (simp_all add: half_open_if_elapsed_def)

lemma visit_endpoint_cases:
  assumes "visit_endpoint cfg now org eid st = Inr (taken, st')"
  obtains (skip) "\<not> taken" "st' = st"
    | (flip) q where "\<not> taken" "sc_endpoints st eid = Some q" "eq_paused_at q = None"
        "eq_circuit_state q = Open \<longrightarrow> opt_le (eq_circuit_open_until q) now"
        "st' = st\<lparr>sc_endpoints := (sc_endpoints st)(eid \<mapsto> half_open_if_elapsed q)\<rparr>"
    | (take) q d queue bal rbal tenant st1 where "taken" "sc_endpoints st eid = Some q"
        "eq_paused_at q = None"
        "eq_circuit_state q = Open \<longrightarrow> opt_le (eq_circuit_open_until q) now"
        "st1 = st\<lparr>sc_endpoints := (sc_endpoints st)(eid \<mapsto> half_open_if_elapsed q)\<rparr>"
        "sc_tenant_counts st org < tenant_in_flight_deliveries cfg \<Longrightarrow>
         int (length (sc_selected st)) < available \<Longrightarrow>
         can_take cfg available org eid d queue (half_open_if_elapsed q) bal rbal tenant st1"
        "st' = take_delivery now org eid d queue (half_open_if_elapsed q) bal rbal tenant st1"
proof -
  note r = assms [unfolded visit_endpoint_def]
  show thesis
  proof (cases "sc_grouped st org eid")
    case Nil
    with r skip show ?thesis by auto
  next
    case (Cons d queue)
    with r obtain q where q: "sc_endpoints st eid = Some q"
      by (auto simp: bindr_Inr_iff some_or_Inr_iff)
    show ?thesis
    proof (cases "eq_paused_at q = None
        \<and> (eq_circuit_state q = Open \<longrightarrow> opt_le (eq_circuit_open_until q) now)")
      case False
      with r Cons q skip show ?thesis by (auto split: if_splits)
    next
      case ok: True
      let ?st1 = "st\<lparr>sc_endpoints := (sc_endpoints st)(eid \<mapsto> half_open_if_elapsed q)\<rparr>"
      show ?thesis
      proof (cases taken)
        case False
        with r Cons q ok have "st' = ?st1"
          by (auto simp: Let_def bindr_Inr_iff some_or_Inr_iff split: if_splits)
        with False q ok flip show ?thesis by blast
      next
        case True
        with r Cons q ok obtain bal rbal tenant where
          "eq_circuit_state (half_open_if_elapsed q) = Half_open
             \<longrightarrow> eq_half_open_probe_delivery_id (half_open_if_elapsed q) \<in> {None, Some (dl_id d)}"
          "sc_endpoint_counts st eid < endpoint_concurrency cfg"
          "sc_balances st eid = Some bal" "1 \<le> bal"
          "dl_attempt_count d > 0 \<longrightarrow> sc_retry_balances st eid = Some rbal \<and> 1 \<le> rbal"
          "sc_tenants st org = Some tenant"
          "st' = take_delivery now org eid d queue (half_open_if_elapsed q) bal rbal tenant ?st1"
          by (auto simp: Let_def bindr_Inr_iff some_or_Inr_iff not_less split: if_splits)
        with True q ok Cons show ?thesis
          by (intro take [of q ?st1 d queue bal rbal tenant]) (auto simp: can_take_def)
      qed
    qed
  qed
qed

lemma not_taken_frame:
  assumes "visit_endpoint cfg now org eid st = Inr (False, st')"
  shows "sc_tenant_counts st' = sc_tenant_counts st" "sc_selected st' = sc_selected st"
    "sc_endpoint_counts st' = sc_endpoint_counts st" "sc_grouped st' = sc_grouped st"
    "sc_endpoint_order st' = sc_endpoint_order st"
  using assms by (auto elim!: visit_endpoint_cases [where available = 0])

text \<open>
  A property of the loop's variables that rotating a deque, letting a circuit go half-open and
  taking a delivery all keep, is kept by the whole loop.
\<close>

locale sched_invariant =
  fixes cfg :: settings and now :: datetime and available :: int and inv :: "sched \<Rightarrow> bool"
  assumes keep_rotate: "inv st \<Longrightarrow> sc_endpoint_order st org = eid # rest \<Longrightarrow>
      inv (st\<lparr>sc_endpoint_order := (sc_endpoint_order st)(org := rest @ [eid])\<rparr>)"
    and keep_flip: "inv st \<Longrightarrow> sc_endpoints st eid = Some q \<Longrightarrow> eq_paused_at q = None \<Longrightarrow>
      eq_circuit_state q = Open \<longrightarrow> opt_le (eq_circuit_open_until q) now \<Longrightarrow>
      inv (st\<lparr>sc_endpoints := (sc_endpoints st)(eid \<mapsto> half_open_if_elapsed q)\<rparr>)"
    and keep_take: "inv st \<Longrightarrow> can_take cfg available org eid d queue q bal rbal tenant st \<Longrightarrow>
      inv (take_delivery now org eid d queue q bal rbal tenant st)"
begin

lemma visit_endpoint_inv:
  assumes "visit_endpoint cfg now org eid st = Inr (taken, st')" and "inv st"
    and "sc_tenant_counts st org < tenant_in_flight_deliveries cfg"
    and "int (length (sc_selected st)) < available"
  shows "inv st'"
  using assms(1)
proof (cases rule: visit_endpoint_cases [where available = available])
  case skip
  with assms(2) show ?thesis by simp
next
  case (flip q)
  with assms(2) show ?thesis by (simp add: keep_flip)
next
  case (take q d queue bal rbal tenant st1)
  then have "inv st1" using assms(2) by (simp add: keep_flip)
  with take assms show ?thesis by (simp add: keep_take)
qed

lemma visit_endpoints_inv:
  assumes "visit_endpoints cfg now org n st = Inr (taken, st')" and "inv st"
    and "sc_tenant_counts st org < tenant_in_flight_deliveries cfg"
    and "int (length (sc_selected st)) < available"
  shows "inv st'"
  using assms
proof (induction n arbitrary: st)
  case 0
  then show ?case by simp
next
  case (Suc n)
  from Suc.prems(1) obtain eid rest t1 st1 where
    o: "sc_endpoint_order st org = eid # rest" and v: "visit_endpoint cfg now org eid
         (st\<lparr>sc_endpoint_order := (sc_endpoint_order st)(org := rest @ [eid])\<rparr>) = Inr (t1, st1)"
    and k: "(if t1 then Inr (True, st1) else visit_endpoints cfg now org n st1) = Inr (taken, st')"
    by (auto simp: bindr_Inr_iff split: list.splits)
  have i: "inv st1"
    using visit_endpoint_inv [OF v] Suc.prems by (simp add: keep_rotate [OF _ o])
  show ?case
  proof (cases t1)
    case True
    with k i show ?thesis by simp
  next
    case False
    with v have "sc_tenant_counts st1 = sc_tenant_counts st" "sc_selected st1 = sc_selected st"
      by (auto dest: not_taken_frame)
    with False Suc.prems i k show ?thesis by (intro Suc.IH [of st1]) auto
  qed
qed

lemma visit_organizations_inv:
  assumes "visit_organizations cfg now available orgs p st = Inr (p', st')" and "inv st"
  shows "inv st'"
  using assms
proof (induction orgs arbitrary: p st)
  case Nil
  then show ?case by simp
next
  case (Cons org orgs)
  then show ?case
    by (auto simp: bindr_Inr_iff not_le split: if_splits
        intro: Cons.IH visit_endpoints_inv)
qed

lemma select_loop_inv:
  assumes "select_loop cfg now available orgs st = Inr st'" and "inv st"
  shows "inv st'"
  using assms
proof (induction "nat (available - int (length (sc_selected st)))" arbitrary: st rule: less_induct)
  case less
  show ?case
  proof (cases "int (length (sc_selected st)) < available")
    case False
    with less.prems show ?thesis by (simp add: select_loop.simps [of cfg now available orgs st])
  next
    case True
    with less.prems(1) obtain p st1 where
      v: "visit_organizations cfg now available orgs False st = Inr (p, st1)"
      and k: "(if p then select_loop cfg now available orgs st1 else Inr st1) = Inr st'"
      by (auto simp: select_loop.simps [of cfg now available orgs st] bindr_Inr_iff)
    have i: "inv st1" using visit_organizations_inv [OF v less.prems(2)] .
    show ?thesis
    proof (cases p)
      case False
      with k i show ?thesis by simp
    next
      case p: True
      then have "length (sc_selected st) < length (sc_selected st1)"
        using visit_organizations_selected [OF v] by auto
      with p k i True show ?thesis by (intro less.hyps [of st1]) auto
    qed
  qed
qed

end

text \<open>
  The invariant of the loop, relative to the \<open>candidates\<close> it started with and the variables \<open>st0\<close>
  at its start.  \<open>queue_inv\<close>: each queue is what remains of the candidates of its endpoint after
  the selected ones, in order.
\<close>

definition of_queue :: "int \<Rightarrow> int \<Rightarrow> delivery \<Rightarrow> bool" where
  "of_queue org eid d \<longleftrightarrow> dl_organization_id d = org \<and> dl_endpoint_id d = eid"

definition queue_inv :: "delivery list \<Rightarrow> sched \<Rightarrow> bool" where
  "queue_inv candidates st \<longleftrightarrow>
     (\<forall>org eid. filter (of_queue org eid) candidates
        = filter (of_queue org eid) (sc_selected st) @ sc_grouped st org eid)"

definition count_inv :: "settings \<Rightarrow> int \<Rightarrow> sched \<Rightarrow> sched \<Rightarrow> bool" where
  "count_inv cfg available st0 st \<longleftrightarrow>
     (\<forall>e. sc_endpoint_counts st e
        = sc_endpoint_counts st0 e + occurrences dl_endpoint_id e (sc_selected st))
     \<and> (\<forall>e. 0 < occurrences dl_endpoint_id e (sc_selected st)
          \<longrightarrow> sc_endpoint_counts st e \<le> endpoint_concurrency cfg)
     \<and> (\<forall>o'. sc_tenant_counts st o'
        = sc_tenant_counts st0 o' + occurrences dl_organization_id o' (sc_selected st))
     \<and> (\<forall>o'. 0 < occurrences dl_organization_id o' (sc_selected st)
          \<longrightarrow> sc_tenant_counts st o' \<le> tenant_in_flight_deliveries cfg)
     \<and> int (length (sc_selected st)) \<le> max 0 available"

text \<open>Each delivery an endpoint was given has paid for itself, a retry from both buckets.\<close>

definition token_step ::
  "delivery list \<Rightarrow> endpoint_quota_state \<Rightarrow> endpoint_quota_state \<Rightarrow> bool" where
  "token_step mine q0 q \<longleftrightarrow>
     (let retries = filter (\<lambda>d. dl_attempt_count d > 0) mine
      in eq_delivery_tokens q = eq_delivery_tokens q0 - of_nat (length mine)
         \<and> eq_retry_tokens q = eq_retry_tokens q0 - of_nat (length retries)
         \<and> (mine \<noteq> [] \<longrightarrow> 0 \<le> eq_delivery_tokens q)
         \<and> (retries \<noteq> [] \<longrightarrow> 0 \<le> eq_retry_tokens q))"

text \<open>
  What a row of the start may become: its pause and its identity stay, a closed circuit stays
  closed, and a circuit that is not closed lets one probe through and remembers it.
\<close>

definition circuit_step ::
  "datetime \<Rightarrow> delivery list \<Rightarrow> endpoint_quota_state \<Rightarrow> endpoint_quota_state \<Rightarrow> bool" where
  "circuit_step now mine q0 q \<longleftrightarrow>
     eq_endpoint_id q = eq_endpoint_id q0
     \<and> eq_paused_at q = eq_paused_at q0
     \<and> (mine \<noteq> [] \<longrightarrow> eq_paused_at q0 = None
          \<and> (eq_circuit_state q0 = Open \<longrightarrow> opt_le (eq_circuit_open_until q0) now))
     \<and> (eq_circuit_state q = Closed \<longleftrightarrow> eq_circuit_state q0 = Closed)
     \<and> (eq_circuit_state q0 = Open \<and> eq_circuit_state q \<noteq> Open
          \<longrightarrow> opt_le (eq_circuit_open_until q0) now)
     \<and> (eq_circuit_state q = Open \<longrightarrow> q = q0 \<and> mine = [])
     \<and> (eq_circuit_state q = Half_open
          \<longrightarrow> (\<forall>d \<in> set mine. eq_half_open_probe_delivery_id q = Some (dl_id d)))
     \<and> (\<forall>p. eq_circuit_state q0 = Half_open \<and> eq_half_open_probe_delivery_id q0 = Some p
          \<longrightarrow> eq_half_open_probe_delivery_id q = Some p)"

definition endpoint_inv :: "datetime \<Rightarrow> sched \<Rightarrow> sched \<Rightarrow> bool" where
  "endpoint_inv now st0 st \<longleftrightarrow>
     (\<forall>e. sc_balances st e = map_option eq_delivery_tokens (sc_endpoints st e))
     \<and> (\<forall>e. sc_retry_balances st e = map_option eq_retry_tokens (sc_endpoints st e))
     \<and> (\<forall>e. rel_option (\<lambda>q0 q.
            token_step (filter (\<lambda>d. dl_endpoint_id d = e) (sc_selected st)) q0 q
            \<and> circuit_step now (filter (\<lambda>d. dl_endpoint_id d = e) (sc_selected st)) q0 q)
          (sc_endpoints st0 e) (sc_endpoints st e))"

definition order_inv :: "sched \<Rightarrow> sched \<Rightarrow> bool" where
  "order_inv st0 st \<longleftrightarrow>
     (\<forall>o'. set (sc_endpoint_order st o') = set (sc_endpoint_order st0 o'))
     \<and> dom (sc_tenants st) = dom (sc_tenants st0)"

definition loop_inv ::
  "settings \<Rightarrow> datetime \<Rightarrow> int \<Rightarrow> delivery list \<Rightarrow> sched \<Rightarrow> sched \<Rightarrow> bool" where
  "loop_inv cfg now available candidates st0 st \<longleftrightarrow>
     queue_inv candidates st \<and> count_inv cfg available st0 st
     \<and> endpoint_inv now st0 st \<and> order_inv st0 st"

lemma queue_head:
  assumes "queue_inv candidates st" and "sc_grouped st org eid = d # queue"
  shows "dl_organization_id d = org" and "dl_endpoint_id d = eid" and "d \<in> set candidates"
proof -
  have "filter (of_queue org eid) candidates
      = filter (of_queue org eid) (sc_selected st) @ d # queue"
    using assms by (simp add: queue_inv_def)
  then have "d \<in> set (filter (of_queue org eid) candidates)" by simp
  then show "dl_organization_id d = org" and "dl_endpoint_id d = eid" and "d \<in> set candidates"
    by (auto simp: of_queue_def)
qed

lemma queue_inv_take:
  assumes "queue_inv candidates st" and "can_take cfg available org eid d queue q bal rbal tenant st"
  shows "queue_inv candidates (take_delivery now org eid d queue q bal rbal tenant st)"
  using assms queue_head [OF assms(1), of org eid d queue]
  by (auto simp: queue_inv_def take_delivery_def can_take_def Let_def of_queue_def)

lemma count_inv_take:
  assumes "count_inv cfg available st0 st"
    and "can_take cfg available org eid d queue q bal rbal tenant st"
    and "dl_organization_id d = org" and "dl_endpoint_id d = eid"
  shows "count_inv cfg available st0 (take_delivery now org eid d queue q bal rbal tenant st)"
  using assms by (auto simp: count_inv_def take_delivery_def can_take_def Let_def)

text \<open>The endpoint row after its delivery was taken.\<close>

definition taken_row ::
  "delivery \<Rightarrow> endpoint_quota_state \<Rightarrow> rat \<Rightarrow> rat \<Rightarrow> endpoint_quota_state" where
  "taken_row d q bal rbal = q\<lparr>eq_delivery_tokens := bal - 1,
     eq_retry_tokens := (if dl_attempt_count d > 0 then rbal - 1 else eq_retry_tokens q),
     eq_half_open_probe_delivery_id := (if eq_circuit_state q = Half_open then Some (dl_id d)
       else eq_half_open_probe_delivery_id q)\<rparr>"

lemma take_delivery_simps [simp]:
  "sc_endpoints (take_delivery now org eid d queue q bal rbal tenant st)
     = (sc_endpoints st)(eid \<mapsto> taken_row d q bal rbal)"
  "sc_selected (take_delivery now org eid d queue q bal rbal tenant st) = sc_selected st @ [d]"
  "sc_balances (take_delivery now org eid d queue q bal rbal tenant st)
     = (sc_balances st)(eid \<mapsto> bal - 1)"
  "sc_retry_balances (take_delivery now org eid d queue q bal rbal tenant st)
     = (if dl_attempt_count d > 0 then (sc_retry_balances st)(eid \<mapsto> rbal - 1)
        else sc_retry_balances st)"
  by (cases q; simp add: take_delivery_def taken_row_def Let_def)+

lemma token_step_take:
  assumes "token_step mine q0 q" and "1 \<le> eq_delivery_tokens q"
    and "dl_attempt_count d > 0 \<longrightarrow> rbal = eq_retry_tokens q \<and> 1 \<le> rbal"
  shows "token_step (mine @ [d]) q0 (taken_row d q (eq_delivery_tokens q) rbal)"
  using assms by (auto simp: token_step_def taken_row_def Let_def)

lemma circuit_step_take:
  assumes "circuit_step now mine q0 q" and "eq_paused_at q = None" and "eq_circuit_state q \<noteq> Open"
    and "eq_circuit_state q = Half_open
          \<longrightarrow> eq_half_open_probe_delivery_id q \<in> {None, Some (dl_id d)}"
  shows "circuit_step now (mine @ [d]) q0 (taken_row d q bal rbal)"
  using assms by (cases "eq_circuit_state q") (auto simp: circuit_step_def taken_row_def)

lemma endpoint_inv_row:
  assumes "endpoint_inv now st0 st" and "sc_endpoints st e = Some q"
  obtains q0 where "sc_endpoints st0 e = Some q0"
    and "token_step (filter (\<lambda>d. dl_endpoint_id d = e) (sc_selected st)) q0 q"
    and "circuit_step now (filter (\<lambda>d. dl_endpoint_id d = e) (sc_selected st)) q0 q"
proof -
  have "rel_option (\<lambda>q0 q.
      token_step (filter (\<lambda>d. dl_endpoint_id d = e) (sc_selected st)) q0 q
      \<and> circuit_step now (filter (\<lambda>d. dl_endpoint_id d = e) (sc_selected st)) q0 q)
    (sc_endpoints st0 e) (sc_endpoints st e)"
    using assms(1) by (simp add: endpoint_inv_def)
  with assms(2) that show thesis by (auto simp: option_rel_Some2)
qed

lemma endpoint_inv_take:
  assumes "endpoint_inv now st0 st"
    and "can_take cfg available org eid d queue q bal rbal tenant st"
    and "dl_endpoint_id d = eid"
  shows "endpoint_inv now st0 (take_delivery now org eid d queue q bal rbal tenant st)"
proof -
  have q: "sc_endpoints st eid = Some q" "bal = eq_delivery_tokens q" "1 \<le> bal"
    "dl_attempt_count d > 0 \<longrightarrow> rbal = eq_retry_tokens q \<and> 1 \<le> rbal"
    using assms(1,2) by (auto simp: can_take_def endpoint_inv_def)
  from endpoint_inv_row [OF assms(1) q(1)] obtain q0 where "sc_endpoints st0 eid = Some q0"
    and "token_step (filter (\<lambda>d. dl_endpoint_id d = eid) (sc_selected st)) q0 q"
    and "circuit_step now (filter (\<lambda>d. dl_endpoint_id d = eid) (sc_selected st)) q0 q" .
  with q assms(2,3) have
    "rel_option (\<lambda>q0 q.
        token_step (filter (\<lambda>d. dl_endpoint_id d = eid) (sc_selected st) @ [d]) q0 q
        \<and> circuit_step now (filter (\<lambda>d. dl_endpoint_id d = eid) (sc_selected st) @ [d]) q0 q)
      (sc_endpoints st0 eid) (Some (taken_row d q bal rbal))"
    by (simp add: can_take_def token_step_take circuit_step_take)
  with assms(1,3) q show ?thesis
    unfolding endpoint_inv_def by (auto simp: taken_row_def)
qed

lemma circuit_step_flip:
  assumes "circuit_step now mine q0 q"
    and "eq_circuit_state q = Open \<longrightarrow> opt_le (eq_circuit_open_until q) now"
  shows "circuit_step now mine q0 (half_open_if_elapsed q)"
proof (cases "eq_circuit_state q = Open")
  case True
  with assms have "q = q0" and "mine = []" by (simp_all add: circuit_step_def)
  with True assms(2) show ?thesis by (simp add: circuit_step_def half_open_if_elapsed_def)
next
  case False
  with assms(1) show ?thesis by (simp add: half_open_if_elapsed_def)
qed

lemma token_step_flip [simp]:
  "token_step mine q0 (half_open_if_elapsed q) = token_step mine q0 q"
  by (simp add: token_step_def)

lemma loop_inv_flip:
  assumes "loop_inv cfg now available candidates st0 st" and "sc_endpoints st eid = Some q"
    and "eq_circuit_state q = Open \<longrightarrow> opt_le (eq_circuit_open_until q) now"
  shows "loop_inv cfg now available candidates st0
    (st\<lparr>sc_endpoints := (sc_endpoints st)(eid \<mapsto> half_open_if_elapsed q)\<rparr>)"
proof -
  have e: "endpoint_inv now st0 st" using assms(1) by (simp add: loop_inv_def)
  from endpoint_inv_row [OF this assms(2)] obtain q0 where "sc_endpoints st0 eid = Some q0"
    and "token_step (filter (\<lambda>d. dl_endpoint_id d = eid) (sc_selected st)) q0 q"
    and "circuit_step now (filter (\<lambda>d. dl_endpoint_id d = eid) (sc_selected st)) q0 q" .
  with e assms have "endpoint_inv now st0
      (st\<lparr>sc_endpoints := (sc_endpoints st)(eid \<mapsto> half_open_if_elapsed q)\<rparr>)"
    unfolding endpoint_inv_def by (auto simp: circuit_step_flip)
  with assms(1) show ?thesis
    by (auto simp: loop_inv_def queue_inv_def count_inv_def order_inv_def)
qed

lemma order_inv_take:
  assumes "order_inv st0 st" and "sc_tenants st org = Some tenant"
  shows "order_inv st0 (take_delivery now org eid d queue q bal rbal tenant st)"
proof -
  have "insert org (dom (sc_tenants st)) = dom (sc_tenants st)"
    using assms(2) by auto
  with assms(1) show ?thesis
    by (simp add: order_inv_def take_delivery_def Let_def)
qed

interpretation fair_loop: sched_invariant cfg now available
    "loop_inv cfg now available candidates st0"
  for cfg now available candidates st0
proof unfold_locales
  fix st org eid rest
  assume i: "loop_inv cfg now available candidates st0 st" and o: "sc_endpoint_order st org = eid # rest"
  then have "set (rest @ [eid]) = set (sc_endpoint_order st0 org)"
    by (metis loop_inv_def order_inv_def rotate1.simps(2) set_rotate1)
  with i show "loop_inv cfg now available candidates st0
      (st\<lparr>sc_endpoint_order := (sc_endpoint_order st)(org := rest @ [eid])\<rparr>)"
    by (auto simp: loop_inv_def queue_inv_def count_inv_def endpoint_inv_def order_inv_def)
next
  fix st org eid d queue q bal rbal tenant
  assume i: "loop_inv cfg now available candidates st0 st"
    and t: "can_take cfg available org eid d queue q bal rbal tenant st"
  then have "queue_inv candidates st" and "sc_grouped st org eid = d # queue"
    by (simp_all add: loop_inv_def can_take_def)
  note h = queue_head [OF this]
  have "order_inv st0 (take_delivery now org eid d queue q bal rbal tenant st)"
    using i t order_inv_take by (simp add: loop_inv_def can_take_def)
  with i t h show "loop_inv cfg now available candidates st0
      (take_delivery now org eid d queue q bal rbal tenant st)"
    by (simp add: loop_inv_def queue_inv_take count_inv_take endpoint_inv_take)
qed (rule loop_inv_flip)

subsection \<open>The loop raises nothing and leaves no work behind\<close>

locale sched_total = sched_invariant +
  assumes rows: "inv st \<Longrightarrow> sc_grouped st org eid = d # queue \<Longrightarrow>
    sc_endpoints st eid \<noteq> None \<and> sc_balances st eid \<noteq> None \<and> sc_retry_balances st eid \<noteq> None
    \<and> sc_tenants st org \<noteq> None"
begin

lemma visit_endpoint_total:
  assumes "inv st"
  shows "\<exists>r. visit_endpoint cfg now org eid st = Inr r"
proof (cases "sc_grouped st org eid")
  case Nil
  then show ?thesis by (intro exI [of _ "(False, st)"]) (simp add: visit_endpoint_def)
next
  case (Cons d queue)
  from rows [OF assms Cons] show ?thesis
    by (auto simp: visit_endpoint_def Cons Let_def)
qed

lemma visit_endpoints_total:
  assumes "inv st" and "n \<le> length (sc_endpoint_order st org)"
    and "sc_tenant_counts st org < tenant_in_flight_deliveries cfg"
    and "int (length (sc_selected st)) < available"
  shows "\<exists>r. visit_endpoints cfg now org n st = Inr r"
  using assms
proof (induction n arbitrary: st)
  case 0
  show ?case by (intro exI [of _ "(False, st)"]) simp
next
  case (Suc n)
  then obtain eid rest where o: "sc_endpoint_order st org = eid # rest"
    by (cases "sc_endpoint_order st org") auto
  let ?st = "st\<lparr>sc_endpoint_order := (sc_endpoint_order st)(org := rest @ [eid])\<rparr>"
  have i: "inv ?st" by (rule keep_rotate [OF Suc.prems(1) o])
  obtain taken st1 where v: "visit_endpoint cfg now org eid ?st = Inr (taken, st1)"
    using visit_endpoint_total [OF i, of org eid] by (metis surj_pair)
  show ?case
  proof (cases taken)
    case True
    with o v show ?thesis by (intro exI [of _ "(True, st1)"]) simp
  next
    case False
    have "inv st1" using visit_endpoint_inv [OF v i] Suc.prems by simp
    moreover have "sc_tenant_counts st1 = sc_tenant_counts st" "sc_selected st1 = sc_selected st"
      "sc_endpoint_order st1 org = rest @ [eid]"
      using not_taken_frame [of cfg now org eid ?st st1] v False by auto
    ultimately obtain r where "visit_endpoints cfg now org n st1 = Inr r"
      using Suc.IH [of st1] Suc.prems o by auto
    with o v False show ?thesis by simp
  qed
qed

lemma visit_organizations_total:
  assumes "inv st"
  shows "\<exists>r. visit_organizations cfg now available orgs p st = Inr r"
  using assms
proof (induction orgs arbitrary: p st)
  case Nil
  then show ?case by simp
next
  case (Cons org orgs)
  show ?case
  proof (cases "int (length (sc_selected st)) < available
      \<and> sc_tenant_counts st org < tenant_in_flight_deliveries cfg")
    case False
    with Cons show ?thesis by (auto simp: not_less)
  next
    case True
    then obtain taken st1 where
      v: "visit_endpoints cfg now org (length (sc_endpoint_order st org)) st = Inr (taken, st1)"
      using visit_endpoints_total [OF Cons.prems order_refl, of org] by (metis surj_pair)
    have "inv st1" using visit_endpoints_inv [OF v Cons.prems] True by simp
    from Cons.IH [OF this, of "p \<or> taken"] v True show ?thesis by auto
  qed
qed

lemma select_loop_total:
  assumes "inv st"
  shows "\<exists>st'. select_loop cfg now available orgs st = Inr st'"
  using assms
proof (induction "nat (available - int (length (sc_selected st)))" arbitrary: st rule: less_induct)
  case less
  obtain p st1 where v: "visit_organizations cfg now available orgs False st = Inr (p, st1)"
    using visit_organizations_total [OF less.prems, of orgs False] by (metis surj_pair)
  have "inv st1" by (rule visit_organizations_inv [OF v less.prems])
  with less.hyps [of st1] v visit_organizations_selected [OF v] show ?case
    by (auto simp: select_loop.simps [of cfg now available orgs st])
qed

end

definition rows_present :: "delivery list \<Rightarrow> sched \<Rightarrow> bool" where
  "rows_present candidates st0 \<longleftrightarrow>
     (\<forall>d \<in> set candidates. sc_endpoints st0 (dl_endpoint_id d) \<noteq> None
        \<and> sc_tenants st0 (dl_organization_id d) \<noteq> None)"

interpretation fair_total: sched_total cfg now available
    "\<lambda>st. loop_inv cfg now available candidates st0 st \<and> rows_present candidates st0"
  for cfg now available candidates st0
proof unfold_locales
  fix st org eid d queue
  assume i: "loop_inv cfg now available candidates st0 st \<and> rows_present candidates st0"
    and g: "sc_grouped st org eid = d # queue"
  then have h: "dl_organization_id d = org" "dl_endpoint_id d = eid" "d \<in> set candidates"
    using queue_head [of candidates st org eid d queue] by (simp_all add: loop_inv_def)
  have "rel_option (\<lambda>_ _. True) (sc_endpoints st0 eid) (sc_endpoints st eid)"
    using i by (auto simp: loop_inv_def endpoint_inv_def elim!: option.rel_mono_strong)
  moreover have "dom (sc_tenants st) = dom (sc_tenants st0)"
    using i by (simp add: loop_inv_def order_inv_def)
  ultimately show "sc_endpoints st eid \<noteq> None \<and> sc_balances st eid \<noteq> None
      \<and> sc_retry_balances st eid \<noteq> None \<and> sc_tenants st org \<noteq> None"
    using i h by (auto simp: rows_present_def loop_inv_def endpoint_inv_def option_rel_Some1 dest!: bspec)
qed (auto intro: fair_loop.keep_rotate fair_loop.keep_flip fair_loop.keep_take)

text \<open>The head of an endpoint's queue may be sent now: no guard of the loop stops it.\<close>

definition takeable :: "settings \<Rightarrow> datetime \<Rightarrow> int \<Rightarrow> int \<Rightarrow> sched \<Rightarrow> bool" where
  "takeable cfg now org eid st =
     (case (sc_grouped st org eid, sc_endpoints st eid) of
        (d # queue, Some q) \<Rightarrow>
          eq_paused_at q = None
          \<and> (eq_circuit_state q = Open \<longrightarrow> opt_le (eq_circuit_open_until q) now)
          \<and> (eq_circuit_state q = Half_open
               \<longrightarrow> eq_half_open_probe_delivery_id q \<in> {None, Some (dl_id d)})
          \<and> sc_endpoint_counts st eid < endpoint_concurrency cfg
          \<and> (case sc_balances st eid of None \<Rightarrow> False | Some b \<Rightarrow> 1 \<le> b)
          \<and> (dl_attempt_count d > 0
               \<longrightarrow> (case sc_retry_balances st eid of None \<Rightarrow> False | Some b \<Rightarrow> 1 \<le> b))
      | _ \<Rightarrow> False)"

definition same_work :: "settings \<Rightarrow> datetime \<Rightarrow> sched \<Rightarrow> sched \<Rightarrow> bool" where
  "same_work cfg now st st' \<longleftrightarrow>
     sc_selected st' = sc_selected st \<and> sc_tenant_counts st' = sc_tenant_counts st
     \<and> (\<forall>org eid. takeable cfg now org eid st' = takeable cfg now org eid st)
     \<and> (\<forall>org. set (sc_endpoint_order st' org) = set (sc_endpoint_order st org))"

lemma same_work_refl [simp]: "same_work cfg now st st"
  by (simp add: same_work_def)

lemma same_work_trans: "same_work cfg now a b \<Longrightarrow> same_work cfg now b c \<Longrightarrow> same_work cfg now a c"
  by (simp add: same_work_def)

lemma same_work_flip:
  assumes "sc_endpoints st eid = Some q"
    and "eq_circuit_state q = Open \<longrightarrow> opt_le (eq_circuit_open_until q) now"
  shows "same_work cfg now st
    (st\<lparr>sc_endpoints := (sc_endpoints st)(eid \<mapsto> half_open_if_elapsed q)\<rparr>)"
  using assms
  by (auto simp: same_work_def takeable_def half_open_if_elapsed_def split: list.splits option.splits)

lemma same_work_rotate:
  assumes "sc_endpoint_order st org = eid # rest"
  shows "same_work cfg now st
    (st\<lparr>sc_endpoint_order := (sc_endpoint_order st)(org := rest @ [eid])\<rparr>)"
  using assms by (simp add: same_work_def takeable_def cong: list.case_cong option.case_cong)

lemma visit_endpoint_idle:
  assumes "visit_endpoint cfg now org eid st = Inr (False, st')"
  shows "same_work cfg now st st' \<and> \<not> takeable cfg now org eid st"
proof
  show "same_work cfg now st st'"
    using assms by (cases rule: visit_endpoint_cases [where available = 0])
      (auto intro: same_work_flip)
  show "\<not> takeable cfg now org eid st"
    using assms by (cases "sc_grouped st org eid"; cases "sc_endpoints st eid")
      (auto simp: visit_endpoint_def takeable_def half_open_if_elapsed_def Let_def
        bindr_Inr_iff some_or_Inr_iff split: if_splits)
qed

lemma visit_endpoints_idle:
  assumes "visit_endpoints cfg now org n st = Inr (False, st')"
    and "n \<le> length (sc_endpoint_order st org)"
  shows "same_work cfg now st st'
    \<and> (\<forall>eid \<in> set (take n (sc_endpoint_order st org)). \<not> takeable cfg now org eid st)"
  using assms
proof (induction n arbitrary: st)
  case 0
  then show ?case by simp
next
  case (Suc n)
  then obtain eid rest where o: "sc_endpoint_order st org = eid # rest"
    by (cases "sc_endpoint_order st org") auto
  let ?st = "st\<lparr>sc_endpoint_order := (sc_endpoint_order st)(org := rest @ [eid])\<rparr>"
  from Suc.prems o obtain st1 where v: "visit_endpoint cfg now org eid ?st = Inr (False, st1)"
    and r: "visit_endpoints cfg now org n st1 = Inr (False, st')"
    by (auto simp: bindr_Inr_iff split: if_splits)
  have o1: "sc_endpoint_order st1 org = rest @ [eid]" using not_taken_frame [OF v] by simp
  have s1: "same_work cfg now st st1" "\<not> takeable cfg now org eid st"
    using same_work_rotate [OF o] visit_endpoint_idle [OF v]
    by (auto intro: same_work_trans simp: same_work_def)
  have "same_work cfg now st1 st'
      \<and> (\<forall>e \<in> set (take n (sc_endpoint_order st1 org)). \<not> takeable cfg now org e st1)"
    using Suc.IH [OF r] o1 o Suc.prems(2) by simp
  with s1 o1 o Suc.prems(2) show ?case
    by (auto simp: same_work_def)
qed

lemma visit_organizations_idle:
  assumes "visit_organizations cfg now available orgs p st = Inr (False, st')"
  shows "same_work cfg now st st' \<and> (int (length (sc_selected st)) < available \<longrightarrow>
    (\<forall>org \<in> set orgs. sc_tenant_counts st org < tenant_in_flight_deliveries cfg \<longrightarrow>
       (\<forall>eid \<in> set (sc_endpoint_order st org). \<not> takeable cfg now org eid st)))"
  using assms
proof (induction orgs arbitrary: p st)
  case Nil
  then show ?case by simp
next
  case (Cons org orgs)
  consider "available \<le> int (length (sc_selected st))"
    | "int (length (sc_selected st)) < available"
      "tenant_in_flight_deliveries cfg \<le> sc_tenant_counts st org"
    | "int (length (sc_selected st)) < available"
      "sc_tenant_counts st org < tenant_in_flight_deliveries cfg"
    by linarith
  then show ?case
  proof cases
    case 1
    with Cons.prems show ?thesis by simp
  next
    case 2
    with Cons.prems have "visit_organizations cfg now available orgs p st = Inr (False, st')" by simp
    from Cons.IH [OF this] 2 show ?thesis by simp
  next
    case 3
    with Cons.prems obtain taken st1 where
      v: "visit_endpoints cfg now org (length (sc_endpoint_order st org)) st = Inr (taken, st1)"
      and r: "visit_organizations cfg now available orgs (p \<or> taken) st1 = Inr (False, st')"
      by (auto simp: bindr_Inr_iff)
    have "\<not> taken" using visit_organizations_selected [OF r] by auto
    with visit_endpoints_idle [of cfg now org _ st st1] v Cons.IH [OF r] show ?thesis
      by (auto simp: same_work_def)
  qed
qed

lemma select_loop_exhausts:
  assumes "select_loop cfg now available orgs st = Inr st'"
    and "int (length (sc_selected st')) < available"
    and "org \<in> set orgs" and "sc_tenant_counts st' org < tenant_in_flight_deliveries cfg"
    and "eid \<in> set (sc_endpoint_order st' org)"
  shows "\<not> takeable cfg now org eid st'"
  using assms(1)
proof (induction "nat (available - int (length (sc_selected st)))" arbitrary: st rule: less_induct)
  case less
  show ?case
  proof (cases "int (length (sc_selected st)) < available")
    case False
    with less.prems assms(2) show ?thesis by (simp add: select_loop.simps [of cfg now available orgs st])
  next
    case True
    with less.prems obtain p st1 where
      v: "visit_organizations cfg now available orgs False st = Inr (p, st1)"
      and k: "(if p then select_loop cfg now available orgs st1 else Inr st1) = Inr st'"
      by (auto simp: select_loop.simps [of cfg now available orgs st] bindr_Inr_iff)
    show ?thesis
    proof (cases p)
      case False
      with v k visit_organizations_idle [of cfg now available orgs False st st1] assms(2-5) True
      show ?thesis by (auto simp: same_work_def)
    next
      case p: True
      then have "length (sc_selected st) < length (sc_selected st1)"
        using visit_organizations_selected [OF v] by auto
      with p k True show ?thesis by (intro less.hyps [of st1]) auto
    qed
  qed
qed

end
