(* ===== verification/Samples.thy ===== *)
theory Samples
  imports Models Config
begin

text \<open>Sample rows on which the witnesses of the properties are evaluated.\<close>

definition sample_delivery :: "int \<Rightarrow> int \<Rightarrow> int \<Rightarrow> delivery_status \<Rightarrow> int \<Rightarrow> datetime \<Rightarrow> delivery" where
  "sample_delivery i org e status attempts due =
     \<lparr>dl_id = i, dl_public_id = ''d'', dl_organization_id = org, dl_event_id = 1, dl_endpoint_id = e,
      dl_replay_of_delivery_id = None, dl_endpoint_public_id_snapshot = ''e'',
      dl_endpoint_url_snapshot = ''u'', dl_endpoint_active_snapshot = True,
      dl_signing_secret_version_snapshot = 1, dl_signature_scheme_snapshot = Standard,
      dl_status = status, dl_attempt_count = attempts, dl_next_attempt_at = due,
      dl_lease_token = None, dl_lease_expires_at = None, dl_last_http_status = None,
      dl_last_error = None, dl_created_at = 0, dl_updated_at = 0, dl_succeeded_at = None,
      dl_dead_at = None, dl_dead_reason = None, dl_canceled_at = None, dl_canceled_reason = None\<rparr>"

definition sample_endpoint_quota :: "int \<Rightarrow> rat \<Rightarrow> rat \<Rightarrow> circuit_state \<Rightarrow> endpoint_quota_state" where
  "sample_endpoint_quota e tokens retry_tokens circuit =
     \<lparr>eq_endpoint_id = e, eq_delivery_tokens = tokens, eq_refilled_at = 0,
      eq_retry_tokens = retry_tokens, eq_retry_refilled_at = 0, eq_circuit_state = circuit,
      eq_consecutive_failures = 0, eq_circuit_open_until = (if circuit = Open then Some 0 else None),
      eq_half_open_probe_delivery_id = None, eq_paused_at = None, eq_pause_reason = None,
      eq_updated_at = 0\<rparr>"

definition sample_event :: event where
  "sample_event = \<lparr>ev_id = 1, ev_public_id = ''v'', ev_project_id = 1, ev_idempotency_key = ''k'',
     ev_event_type = ''t'', ev_envelope_mode = Native, ev_payload = Some (JInt 0), ev_payload_hash = ''h'',
     ev_canonical_envelope = Some ''b'', ev_payload_purged_at = None, ev_traceparent = None,
     ev_tracestate = None, ev_created_at = 0\<rparr>"

text \<open>A first attempt and a retry wait for endpoint 1; endpoint 2 has an elapsed open circuit.\<close>

definition sample_db :: db where
  "sample_db = empty_db\<lparr>
     db_events := [sample_event],
     db_deliveries := [sample_delivery 1 1 1 Pending 0 0, sample_delivery 2 1 1 Retry_scheduled 1 0,
       sample_delivery 3 1 2 Pending 0 0, sample_delivery 4 1 2 Pending 0 5],
     db_endpoint_quotas := [sample_endpoint_quota 2 5 5 Open]\<rparr>"

definition sample_selection :: "delivery list" where
  "sample_selection = [sample_delivery 1 1 1 Pending 0 0, sample_delivery 3 1 2 Pending 0 0,
     sample_delivery 2 1 1 Retry_scheduled 1 0]"

end
