(* ===== verification/Fair_Selection.thy ===== *)
theory Fair_Selection
  imports Scheduling Samples "HOL-Library.Multiset"
begin

text \<open>
  What \<^verbatim>\<open>select_fair_deliveries\<close> of \<^verbatim>\<open>app/scheduling.py\<close> promises to its caller: it always
  completes, respects every limit, takes the due deliveries of an endpoint first in first out, charges
  the endpoint's buckets and obeys its circuit breaker.
\<close>

subsection \<open>The selection as a whole\<close>

lemma set_rotate_after [simp]: "set (rotate_after xs c) = set xs"
  by (auto simp: rotate_after_def Let_def split: option.splits)
    (metis append_take_drop_id in_set_conv_decomp set_append Un_iff)+

lemma distinct_rotate_after [simp]: "distinct (rotate_after xs c) = distinct xs"
proof -
  have "distinct (drop n xs @ take n xs) = distinct (take n xs @ drop n xs)" for n
    unfolding distinct_append by auto
  then show ?thesis
    by (auto simp: rotate_after_def Let_def split: option.splits)
qed

lemma sorted_ids_simps [simp]:
  "set (sorted_ids xs) = set xs" "distinct (sorted_ids xs)" "sorted (sorted_ids xs)"
  by (simp_all add: sorted_ids_def)

lemma fold_ensure_frame [simp, frame_simps]:
  "db_deliveries (fold (\<lambda>o'. ensure_tenant_state o' cfg now) xs s) = db_deliveries s"
  "db_deliveries (fold (\<lambda>e. ensure_endpoint_state e cfg now) xs s) = db_deliveries s"
  "db_endpoint_quotas (fold (\<lambda>o'. ensure_tenant_state o' cfg now) xs s) = db_endpoint_quotas s"
  "db_tenant_quotas (fold (\<lambda>e. ensure_endpoint_state e cfg now) xs s) = db_tenant_quotas s"
  "db_events (fold (\<lambda>o'. ensure_tenant_state o' cfg now) xs s) = db_events s"
  "db_events (fold (\<lambda>e. ensure_endpoint_state e cfg now) xs s) = db_events s"
  "db_attempts (fold (\<lambda>o'. ensure_tenant_state o' cfg now) xs s) = db_attempts s"
  "db_attempts (fold (\<lambda>e. ensure_endpoint_state e cfg now) xs s) = db_attempts s"
  by (induction xs arbitrary: s) auto

lemma find_quota_frame:
  "find_endpoint_quota e (fold (\<lambda>o'. ensure_tenant_state o' cfg now) xs s) = find_endpoint_quota e s"
  "find_tenant_quota t (fold (\<lambda>e. ensure_endpoint_state e cfg now) ys s) = find_tenant_quota t s"
  "find_endpoint_quota e (ensure_global_state now s) = find_endpoint_quota e s"
  "find_tenant_quota t (ensure_global_state now s) = find_tenant_quota t s"
  by (simp_all add: find_endpoint_quota_def find_tenant_quota_def)

lemma find_fold_tenant:
  "find_tenant_quota t (fold (\<lambda>o'. ensure_tenant_state o' cfg now) xs s) =
    (case find_tenant_quota t s of Some q \<Rightarrow> Some q
     | None \<Rightarrow> if t \<in> set xs then Some (tenant_quota_values t cfg now) else None)"
  by (induction xs arbitrary: s) (auto simp: find_tenant_quota_ensure split: option.splits)

lemma find_fold_endpoint:
  "find_endpoint_quota e (fold (\<lambda>e. ensure_endpoint_state e cfg now) xs s) =
    (case find_endpoint_quota e s of Some q \<Rightarrow> Some q
     | None \<Rightarrow> if e \<in> set xs then Some (endpoint_quota_values e cfg now) else None)"
  by (induction xs arbitrary: s) (auto simp: find_endpoint_quota_ensure split: option.splits)

lemma ensure_states_frame [simp, frame_simps]:
  "db_deliveries (ensure_states cfg now candidates s) = db_deliveries s"
  "db_events (ensure_states cfg now candidates s) = db_events s"
  "db_attempts (ensure_states cfg now candidates s) = db_attempts s"
  by (simp_all add: ensure_states_def)

text \<open>The endpoint row the loop starts from: the stored one, or a fresh one.\<close>

definition endpoint_row :: "settings \<Rightarrow> datetime \<Rightarrow> int \<Rightarrow> db \<Rightarrow> endpoint_quota_state" where
  "endpoint_row cfg now e s =
     (case find_endpoint_quota e s of Some q \<Rightarrow> q | None \<Rightarrow> endpoint_quota_values e cfg now)"

lemma ensure_states_endpoint:
  "d \<in> set candidates \<Longrightarrow>
   find_endpoint_quota (dl_endpoint_id d) (ensure_states cfg now candidates s)
     = Some (endpoint_row cfg now (dl_endpoint_id d) s)"
  by (auto simp: ensure_states_def Let_def find_fold_endpoint find_quota_frame endpoint_row_def
      split: option.splits)

lemma ensure_states_tenant:
  "d \<in> set candidates \<Longrightarrow>
   find_tenant_quota (dl_organization_id d) (ensure_states cfg now candidates s) \<noteq> None"
  by (auto simp: ensure_states_def Let_def find_quota_frame find_fold_tenant split: option.splits)

lemma init_sched_inv:
  "loop_inv cfg now available candidates (init_sched cfg now g candidates s)
     (init_sched cfg now g candidates s)"
  by (auto simp: loop_inv_def queue_inv_def count_inv_def endpoint_inv_def order_inv_def
      init_sched_def Let_def of_queue_def [abs_def] token_step_def circuit_step_def option.rel_refl_strong
      cong: conj_cong intro!: option.rel_refl)

lemma init_sched_rows:
  "rows_present candidates
     (init_sched cfg now g candidates (ensure_states cfg now candidates s))"
  using ensure_states_tenant
  by (fastforce simp: rows_present_def init_sched_def Let_def ensure_states_endpoint)

lemma lock_candidates_cong:
  "db_deliveries s = db_deliveries s' \<Longrightarrow> lock_candidates skip ids s = lock_candidates skip ids s'"
  by (simp add: lock_candidates_def)

lemma ensure_states_global [simp]:
  "db_global_control (ensure_states cfg now candidates s) = db_global_control s"
proof -
  have "db_global_control (fold (\<lambda>e. ensure_endpoint_state e cfg now) xs t) = db_global_control t"
    for xs and t :: db by (induction xs arbitrary: t) auto
  moreover have "db_global_control (fold (\<lambda>e. ensure_tenant_state e cfg now) xs t) = db_global_control t"
    for xs and t :: db by (induction xs arbitrary: t) auto
  ultimately show ?thesis by (simp add: ensure_states_def)
qed

definition capacity_left :: "settings \<Rightarrow> datetime \<Rightarrow> int \<Rightarrow> db \<Rightarrow> int" where
  "capacity_left cfg now requested s =
     min requested (worker_global_concurrency cfg - count_where (is_live now) (db_deliveries s))"

definition candidates_of ::
  "settings \<Rightarrow> datetime \<Rightarrow> int \<Rightarrow> (int \<Rightarrow> bool) \<Rightarrow> db \<Rightarrow> db \<Rightarrow> delivery list" where
  "candidates_of cfg now requested skip scan s =
     lock_candidates skip (fair_candidate_ids scan now (worker_candidate_scan_limit cfg)
       (max (capacity_left cfg now requested s * 2) (endpoint_concurrency cfg))) s"

definition start_sched ::
  "settings \<Rightarrow> datetime \<Rightarrow> global_control_state \<Rightarrow> delivery list \<Rightarrow> db \<Rightarrow> sched" where
  "start_sched cfg now g candidates s =
     init_sched cfg now g candidates (ensure_states cfg now candidates (ensure_global_state now s))"

lemma select_fair_deliveries_eq:
  obtains (none) "capacity_left cfg now requested s \<le> 0
        \<or> candidates_of cfg now requested skip scan s = []"
      "select_fair_deliveries cfg now requested skip scan s = Inr ([], ensure_global_state now s)"
  | (some) g orgs st where
      "0 < capacity_left cfg now requested s"
      "candidates_of cfg now requested skip scan s \<noteq> []"
      "set orgs = dl_organization_id ` set (candidates_of cfg now requested skip scan s)"
      "select_loop cfg now (capacity_left cfg now requested s) orgs
         (start_sched cfg now g (candidates_of cfg now requested skip scan s) s) = Inr st"
      "loop_inv cfg now (capacity_left cfg now requested s)
         (candidates_of cfg now requested skip scan s)
         (start_sched cfg now g (candidates_of cfg now requested skip scan s) s) st"
      "select_fair_deliveries cfg now requested skip scan s =
         Inr (sc_selected st, flush_sched st (ensure_states cfg now
            (candidates_of cfg now requested skip scan s) (ensure_global_state now s)))"
proof -
  let ?c = "candidates_of cfg now requested skip scan s"
  let ?a = "capacity_left cfg now requested s"
  obtain g where g: "find_global (ensure_global_state now s) = Some g"
    using find_global_ensure by blast
  let ?orgs = "rotate_after (sorted_ids (map dl_organization_id ?c))
    (gc_tenant_cursor_organization_id g)"
  have eq: "select_fair_deliveries cfg now requested skip scan s =
    (if ?a \<le> 0 \<or> ?c = [] then Inr ([], ensure_global_state now s)
     else if list_ex (\<lambda>o'. sc_tenants (start_sched cfg now g ?c s) o' = None) ?orgs then Inl KeyError
     else bindr (select_loop cfg now ?a ?orgs (start_sched cfg now g ?c s))
       (\<lambda>st. Inr (sc_selected st, flush_sched st (ensure_states cfg now ?c (ensure_global_state now s)))))"
    by (simp add: select_fair_deliveries_def g Let_def candidates_of_def capacity_left_def
        start_sched_def lock_candidates_cong [of "ensure_global_state now s" s])
  show thesis
  proof (cases "?a \<le> 0 \<or> ?c = []")
    case True
    with eq none show thesis by simp
  next
    case False
    have i: "loop_inv cfg now ?a ?c (start_sched cfg now g ?c s) (start_sched cfg now g ?c s)
        \<and> rows_present ?c (start_sched cfg now g ?c s)"
      unfolding start_sched_def by (simp add: init_sched_inv init_sched_rows)
    then obtain st where l: "select_loop cfg now ?a ?orgs (start_sched cfg now g ?c s) = Inr st"
      using fair_total.select_loop_total by blast
    moreover have "\<not> list_ex (\<lambda>o'. sc_tenants (start_sched cfg now g ?c s) o' = None) ?orgs"
      using i by (auto simp: list_ex_iff rows_present_def)
    moreover have "loop_inv cfg now ?a ?c (start_sched cfg now g ?c s) st"
      using fair_loop.select_loop_inv [OF l] i by blast
    ultimately show thesis
      using False eq by (intro some [of ?orgs g st]) auto
  qed
qed


text \<open>What the candidate rows are.\<close>

lemma lock_candidates_set:
  assumes "d \<in> set (lock_candidates skip ids s)"
  shows "d \<in> set (db_deliveries s) \<and> dl_id d \<in> set ids \<and> \<not> skip (dl_id d)"
proof -
  obtain i where "List.find (\<lambda>d. dl_id d = i)
      (filter (\<lambda>d. dl_id d \<in> set ids \<and> \<not> skip (dl_id d)) (db_deliveries s)) = Some d"
    using assms by (auto simp: lock_candidates_def Let_def List.map_filter_def)
  from find_Some_set [OF this] show ?thesis by auto
qed

lemma lock_candidates_ids:
  "map dl_id (lock_candidates skip ids s)
     = filter (\<lambda>i. \<exists>d \<in> set (db_deliveries s). dl_id d = i \<and> \<not> skip i) ids"
proof -
  let ?locked = "filter (\<lambda>d. dl_id d \<in> set ids \<and> \<not> skip (dl_id d)) (db_deliveries s)"
  have "map dl_id (List.map_filter (\<lambda>i. List.find (\<lambda>d. dl_id d = i) ?locked) is)
      = filter (\<lambda>i. \<exists>d \<in> set (db_deliveries s). dl_id d = i \<and> \<not> skip i) is"
    if "set is \<subseteq> set ids" for "is"
    using that
  proof (induction "is")
    case Nil
    then show ?case by (simp add: List.map_filter_simps)
  next
    case (Cons i "is")
    then show ?case
    proof (cases "List.find (\<lambda>d. dl_id d = i) ?locked")
      case None
      then have "\<not> (\<exists>d \<in> set (db_deliveries s). dl_id d = i \<and> \<not> skip i)"
        using Cons.prems by (auto simp: find_None_set)
      with Cons None show ?thesis by (simp add: List.map_filter_simps)
    next
      case (Some d)
      then have "d \<in> set (db_deliveries s)" "dl_id d = i" "\<not> skip i"
        using find_Some_set [OF Some] by auto
      with Cons Some show ?thesis by (auto simp: List.map_filter_simps)
    qed
  qed
  then show ?thesis by (simp add: lock_candidates_def Let_def)
qed

lemma fair_candidate_ids_due:
  "i \<in> set (fair_candidate_ids s now scan_limit per_tenant) \<Longrightarrow>
   \<exists>d \<in> set (db_deliveries s). dl_id d = i \<and> is_due now d"
  by (auto simp: fair_candidate_ids_def Let_def dest!: in_set_takeD)

lemma fair_candidate_ids_distinct:
  "distinct (map dl_id (db_deliveries s)) \<Longrightarrow>
   distinct (fair_candidate_ids s now scan_limit per_tenant)"
  by (simp add: fair_candidate_ids_def Let_def distinct_map inj_on_subset)
    (auto simp: distinct_map intro!: distinct_take intro: inj_on_subset)

lemma candidates_of_distinct:
  assumes "distinct (map dl_id (db_deliveries scan))"
  shows "distinct (map dl_id (candidates_of cfg now requested skip scan s))"
  using assms by (simp add: candidates_of_def lock_candidates_ids fair_candidate_ids_distinct)

lemma candidates_of_due:
  assumes "distinct (map dl_id (db_deliveries s))"
    and "d \<in> set (candidates_of cfg now requested skip s s)"
  shows "d \<in> set (db_deliveries s) \<and> is_due now d \<and> \<not> skip (dl_id d)"
proof -
  have d: "d \<in> set (db_deliveries s)" "\<not> skip (dl_id d)"
    using lock_candidates_set assms(2) unfolding candidates_of_def by blast+
  moreover obtain d' where "d' \<in> set (db_deliveries s)" "dl_id d' = dl_id d" "is_due now d'"
    using lock_candidates_set fair_candidate_ids_due assms(2) unfolding candidates_of_def by meson
  ultimately show ?thesis using row_unique [OF assms(1)] by metis
qed

lemma queue_inv_mset:
  assumes "queue_inv candidates st"
  shows "mset (sc_selected st) \<subseteq># mset candidates"
proof (rule mset_subset_eqI)
  fix d :: delivery
  let ?p = "of_queue (dl_organization_id d) (dl_endpoint_id d)"
  have c: "count (mset (filter ?p xs)) d = count (mset xs) d" for xs
    by (simp add: of_queue_def)
  have "filter ?p candidates = filter ?p (sc_selected st)
      @ sc_grouped st (dl_organization_id d) (dl_endpoint_id d)"
    using assms by (simp add: queue_inv_def)
  from arg_cong [OF this, of "\<lambda>xs. count (mset xs) d"]
  show "count (mset (sc_selected st)) d \<le> count (mset candidates) d"
    using c [of candidates] c [of "sc_selected st"] by simp
qed

lemma distinct_map_submset:
  assumes "mset ys \<subseteq># mset xs" and "distinct (map f xs)"
  shows "distinct (map f ys)"
proof -
  obtain zs where "mset xs = mset (ys @ zs)"
    using assms(1) by (metis ex_mset mset_append subset_mset.le_iff_add)
  then have "mset (map f xs) = mset (map f (ys @ zs))" by simp
  then have "distinct (map f (ys @ zs))" using assms(2) mset_eq_imp_distinct_iff by metis
  then show ?thesis by simp
qed

text \<open>First in, first out: the order of an endpoint's queue is that of the due times.\<close>

definition due_key :: "delivery \<Rightarrow> datetime \<times> int" where
  "due_key d = (dl_next_attempt_at d, dl_id d)"

lemma count_where_less:
  assumes "\<And>r. r \<in> set rows \<Longrightarrow> p r \<Longrightarrow> q r" and "x \<in> set rows" and "q x" and "\<not> p x"
  shows "count_where p rows < count_where q rows"
proof -
  obtain xs ys where r: "rows = xs @ x # ys" using assms(2) split_list by metis
  have "count_where p zs \<le> count_where q zs" if "set zs \<subseteq> set rows" for zs
    using that assms(1) by (induction zs) auto
  then have "count_where p xs \<le> count_where q xs" "count_where p ys \<le> count_where q ys"
    using r by auto
  with r assms(3,4) show ?thesis by simp
qed

lemma tenant_rank_mono:
  assumes "e \<in> set due" "dl_organization_id e = dl_organization_id d"
    and "dl_endpoint_id e = dl_endpoint_id d" "due_key e < due_key d"
  shows "tenant_rank due e < tenant_rank due d"
proof -
  have "endpoint_rank due e < endpoint_rank due d"
    unfolding endpoint_rank_def add_less_cancel_left
    using assms by (intro count_where_less [where x = e]) (auto simp: due_key_def)
  then show ?thesis
    unfolding tenant_rank_def add_less_cancel_left
    using assms(1,2) by (intro count_where_less [where x = e]) auto
qed

definition ranked_rows :: "datetime \<Rightarrow> int \<Rightarrow> db \<Rightarrow> delivery list" where
  "ranked_rows now per_tenant s =
     (let due = filter (is_due now) (db_deliveries s)
      in sort_key (\<lambda>d. (tenant_rank due d, dl_next_attempt_at d, dl_id d))
           (filter (\<lambda>d. tenant_rank due d \<le> per_tenant) due))"

lemma lock_candidates_rows:
  assumes "distinct (map dl_id (db_deliveries s))" and "set rows \<subseteq> set (db_deliveries s)"
  shows "lock_candidates skip (map dl_id rows) s = filter (\<lambda>d. \<not> skip (dl_id d)) rows"
proof -
  let ?locked = "filter (\<lambda>d. dl_id d \<in> set (map dl_id rows) \<and> \<not> skip (dl_id d)) (db_deliveries s)"
  have "List.map_filter (\<lambda>i. List.find (\<lambda>d. dl_id d = i) ?locked) (map dl_id rs)
      = filter (\<lambda>d. \<not> skip (dl_id d)) rs" if "set rs \<subseteq> set rows" for rs
    using that
  proof (induction rs)
    case Nil
    then show ?case by (simp add: List.map_filter_simps)
  next
    case (Cons r rs)
    then have r: "r \<in> set (db_deliveries s)" "r \<in> set rows" using assms(2) by auto
    have dl: "distinct (map dl_id ?locked)" using assms(1) by (simp add: distinct_map_filter)
    have "List.find (\<lambda>d. dl_id d = dl_id r) ?locked = (if skip (dl_id r) then None else Some r)"
      using r find_key_iff [OF dl, of "dl_id r" r] by (auto simp: find_None_set)
    with Cons show ?case by (simp add: List.map_filter_simps)
  qed
  then show ?thesis by (simp add: lock_candidates_def Let_def)
qed

lemma candidates_of_rows:
  assumes "distinct (map dl_id (db_deliveries s))"
  shows "candidates_of cfg now requested skip s s =
    filter (\<lambda>d. \<not> skip (dl_id d)) (take (nat (worker_candidate_scan_limit cfg))
      (ranked_rows now (max (capacity_left cfg now requested s * 2) (endpoint_concurrency cfg)) s))"
proof -
  have "fair_candidate_ids s now n m = map dl_id (take (nat n) (ranked_rows now m s))" for n m
    by (simp add: fair_candidate_ids_def ranked_rows_def Let_def take_map)
  moreover have "set (take k (ranked_rows now m s)) \<subseteq> set (db_deliveries s)" for k m
    by (auto simp: ranked_rows_def Let_def dest: in_set_takeD)
  ultimately show ?thesis
    unfolding candidates_of_def by (simp add: lock_candidates_rows [OF assms])
qed

lemma sorted_take_closed:
  fixes k :: "'a \<Rightarrow> 'b :: linorder"
  assumes "sorted (map k xs)" and "x \<in> set (take n xs)" and "y \<in> set xs" and "k y < k x"
  shows "y \<in> set (take n xs)"
proof (rule ccontr)
  assume "y \<notin> set (take n xs)"
  then have "y \<in> set (drop n xs)" using assms(3) by (metis append_take_drop_id in_set_conv_decomp set_append Un_iff)
  moreover have "sorted (map k (take n xs @ drop n xs))" using assms(1) by simp
  ultimately have "k x \<le> k y" using assms(2) by (simp add: sorted_append del: append_take_drop_id)
  with assms(4) show False by simp
qed

lemma candidates_of_closed:
  assumes "distinct (map dl_id (db_deliveries s))"
    and "d \<in> set (candidates_of cfg now requested skip s s)"
    and "e \<in> set (db_deliveries s)" "is_due now e" "\<not> skip (dl_id e)"
    and "dl_organization_id e = dl_organization_id d" "dl_endpoint_id e = dl_endpoint_id d"
    and "due_key e < due_key d"
  shows "e \<in> set (candidates_of cfg now requested skip s s)"
proof -
  let ?due = "filter (is_due now) (db_deliveries s)"
  let ?m = "max (capacity_left cfg now requested s * 2) (endpoint_concurrency cfg)"
  let ?n = "nat (worker_candidate_scan_limit cfg)"
  have r: "tenant_rank ?due e < tenant_rank ?due d"
    using assms by (intro tenant_rank_mono) auto
  have d: "d \<in> set (take ?n (ranked_rows now ?m s))"
    using assms(2) by (auto simp: candidates_of_rows [OF assms(1)])
  then have "tenant_rank ?due d \<le> ?m"
    by (auto simp: ranked_rows_def Let_def dest!: in_set_takeD)
  with r assms(3,4) have "e \<in> set (ranked_rows now ?m s)"
    by (simp add: ranked_rows_def Let_def)
  moreover have "sorted (map (\<lambda>d. (tenant_rank ?due d, dl_next_attempt_at d, dl_id d))
      (ranked_rows now ?m s))"
    unfolding ranked_rows_def Let_def by (rule sorted_sort_key)
  ultimately have "e \<in> set (take ?n (ranked_rows now ?m s))"
    using r by (intro sorted_take_closed
        [where k = "\<lambda>d. (tenant_rank ?due d, dl_next_attempt_at d, dl_id d)", OF _ d]) auto
  with assms(5) show ?thesis by (simp add: candidates_of_rows [OF assms(1)])
qed

lemma candidates_of_sorted:
  assumes "distinct (map dl_id (db_deliveries s))"
  shows "sorted_wrt (\<lambda>d e. due_key d < due_key e)
    (filter (of_queue org eid) (candidates_of cfg now requested skip s s))"
proof -
  let ?due = "filter (is_due now) (db_deliveries s)"
  let ?k = "\<lambda>d. (tenant_rank ?due d, dl_next_attempt_at d, dl_id d)"
  let ?c = "filter (of_queue org eid) (candidates_of cfg now requested skip s s)"
  have "sorted_wrt (\<lambda>d e. ?k d \<le> ?k e) (ranked_rows now m s)" for m
    unfolding ranked_rows_def Let_def using sorted_sort_key [of ?k] by (simp add: sorted_map)
  then have s: "sorted_wrt (\<lambda>d e. ?k d \<le> ?k e) ?c"
    unfolding candidates_of_rows [OF assms] by (intro sorted_wrt_filter sorted_wrt_take)
  have dc: "distinct (map dl_id ?c)"
    using candidates_of_distinct [OF assms] by (rule distinct_map_filter)
  have "due_key (?c ! i) < due_key (?c ! j)" if ij: "i < j" "j < length ?c" for i j
  proof (rule ccontr)
    assume n: "\<not> due_key (?c ! i) < due_key (?c ! j)"
    have m: "?c ! i \<in> set ?c" "?c ! j \<in> set ?c"
      using ij nth_mem [of i ?c] nth_mem [of j ?c] by (simp_all del: set_filter)
    have "dl_id (?c ! i) \<noteq> dl_id (?c ! j)"
      using ij nth_eq_iff_index_eq [OF dc, of i j] by simp
    with n have "due_key (?c ! j) < due_key (?c ! i)"
      by (auto simp: due_key_def)
    then have "tenant_rank ?due (?c ! j) < tenant_rank ?due (?c ! i)"
      using m candidates_of_due [OF assms] by (intro tenant_rank_mono) (auto simp: of_queue_def)
    moreover have "?k (?c ! i) \<le> ?k (?c ! j)"
      using sorted_wrt_nth_less [OF s ij] .
    ultimately show False by auto
  qed
  then show ?thesis by (simp add: sorted_wrt_iff_nth_less)
qed

subsection \<open>What the selection promises\<close>

lemma find_flush:
  assumes "\<And>q. sc_endpoints st e = Some q \<Longrightarrow> eq_endpoint_id q = e"
    and "\<And>k q. sc_endpoints st k = Some q \<Longrightarrow> eq_endpoint_id q = k"
  shows "find_endpoint_quota e (flush_sched st s) =
    map_option (\<lambda>q. case sc_endpoints st e of None \<Rightarrow> q | Some q' \<Rightarrow> q') (find_endpoint_quota e s)"
proof -
  let ?f = "\<lambda>q. case sc_endpoints st (eq_endpoint_id q) of None \<Rightarrow> q | Some q' \<Rightarrow> q'"
  have k: "eq_endpoint_id (?f q) = eq_endpoint_id q" for q
    using assms(2) by (cases "sc_endpoints st (eq_endpoint_id q)") auto
  have "List.find (\<lambda>q. eq_endpoint_id q = e) (map ?f rows)
      = map_option (\<lambda>q. case sc_endpoints st e of None \<Rightarrow> q | Some q' \<Rightarrow> q')
          (List.find (\<lambda>q. eq_endpoint_id q = e) rows)" for rows
    using k by (induction rows) auto
  then show ?thesis by (simp add: find_endpoint_quota_def flush_sched_def)
qed

lemma flush_frame [simp, frame_simps]:
  "db_deliveries (flush_sched st s) = db_deliveries s"
  "db_events (flush_sched st s) = db_events s"
  "db_attempts (flush_sched st s) = db_attempts s"
  by (simp_all add: flush_sched_def)

lemma start_sched_simps:
  "sc_selected (start_sched cfg now g c s) = []"
  "sc_endpoint_counts (start_sched cfg now g c s) e
     = count_where (\<lambda>d. is_live now d \<and> dl_endpoint_id d = e) (db_deliveries s)"
  "sc_tenant_counts (start_sched cfg now g c s) t
     = count_where (\<lambda>d. is_live now d \<and> dl_organization_id d = t) (db_deliveries s)"
  by (simp_all add: start_sched_def init_sched_def Let_def)

lemma start_sched_row:
  "d \<in> set c \<Longrightarrow> sc_endpoints (start_sched cfg now g c s) (dl_endpoint_id d)
     = Some (refill_endpoint cfg now (endpoint_row cfg now (dl_endpoint_id d) s))"
  by (auto simp: start_sched_def init_sched_def Let_def ensure_states_endpoint endpoint_row_def
      find_quota_frame)

lemma endpoint_row_id [simp]: "eq_endpoint_id (endpoint_row cfg now e s) = e"
  by (auto simp: endpoint_row_def find_endpoint_quota_def endpoint_quota_values_def
      split: option.splits dest!: find_Some_set)

lemma refill_endpoint_simps [simp]:
  "eq_endpoint_id (refill_endpoint cfg now q) = eq_endpoint_id q"
  "eq_paused_at (refill_endpoint cfg now q) = eq_paused_at q"
  "eq_circuit_state (refill_endpoint cfg now q) = eq_circuit_state q"
  "eq_circuit_open_until (refill_endpoint cfg now q) = eq_circuit_open_until q"
  "eq_half_open_probe_delivery_id (refill_endpoint cfg now q) = eq_half_open_probe_delivery_id q"
  by (simp_all add: refill_endpoint_def Let_def)

lemma start_sched_dom:
  "sc_endpoints (start_sched cfg now g c s) e \<noteq> None \<longleftrightarrow> e \<in> dl_endpoint_id ` set c"
proof
  show "e \<in> dl_endpoint_id ` set c \<Longrightarrow> sc_endpoints (start_sched cfg now g c s) e \<noteq> None"
    by (auto simp: start_sched_row)
qed (auto simp: start_sched_def init_sched_def Let_def split: if_splits)

lemma selected_endpoint_row:
  assumes "loop_inv cfg now available c (start_sched cfg now g c s) st" and "d \<in> set c"
  obtains q where
    "sc_endpoints st (dl_endpoint_id d) = Some q"
    "find_endpoint_quota (dl_endpoint_id d)
       (flush_sched st (ensure_states cfg now c (ensure_global_state now s))) = Some q"
    "token_step (filter (\<lambda>e. dl_endpoint_id e = dl_endpoint_id d) (sc_selected st))
       (refill_endpoint cfg now (endpoint_row cfg now (dl_endpoint_id d) s)) q"
    "circuit_step now (filter (\<lambda>e. dl_endpoint_id e = dl_endpoint_id d) (sc_selected st))
       (refill_endpoint cfg now (endpoint_row cfg now (dl_endpoint_id d) s)) q"
proof -
  let ?e = "dl_endpoint_id d"
  have inv: "endpoint_inv now (start_sched cfg now g c s) st"
    using assms(1) by (simp add: loop_inv_def)
  have key: "eq_endpoint_id q = k" if kq: "sc_endpoints st k = Some q" for k q
  proof -
    obtain q0 where q0: "sc_endpoints (start_sched cfg now g c s) k = Some q0"
      and c: "eq_endpoint_id q = eq_endpoint_id q0"
      using endpoint_inv_row [OF inv kq] by (metis circuit_step_def)
    then have "k \<in> dl_endpoint_id ` set c"
      using start_sched_dom [of cfg now g c s k] by simp
    then show ?thesis using q0 c by (auto simp: start_sched_row)
  qed
  have "rel_option (\<lambda>_ _. True) (sc_endpoints (start_sched cfg now g c s) ?e) (sc_endpoints st ?e)"
    using inv by (auto simp: endpoint_inv_def elim!: option.rel_mono_strong)
  then obtain q where q: "sc_endpoints st ?e = Some q"
    by (auto simp: start_sched_row [OF assms(2)] option_rel_Some1)
  have f: "find_endpoint_quota ?e (flush_sched st (ensure_states cfg now c (ensure_global_state now s)))
      = Some q"
    using key by (subst find_flush) (auto simp: q ensure_states_endpoint [OF assms(2)])
  from endpoint_inv_row [OF inv q] that [OF q f] show thesis
    by (auto simp: start_sched_row [OF assms(2)])
qed

lemma loop_inv_selected:
  "loop_inv cfg now available c st0 st \<Longrightarrow> set (sc_selected st) \<subseteq> set c"
  unfolding loop_inv_def using queue_inv_mset set_mset_mono set_mset_mset by metis

lemma unselected_head:
  assumes "queue_inv c st"
    and "sorted_wrt (\<lambda>d e. due_key d < due_key e)
      (filter (of_queue (dl_organization_id d) (dl_endpoint_id d)) c)"
    and "d \<in> set c" and "d \<notin> set (sc_selected st)"
    and "\<forall>e \<in> set c. of_queue (dl_organization_id d) (dl_endpoint_id d) e \<and> due_key e < due_key d
      \<longrightarrow> e \<in> set (sc_selected st)"
  shows "\<exists>queue. sc_grouped st (dl_organization_id d) (dl_endpoint_id d) = d # queue"
proof -
  let ?q = "of_queue (dl_organization_id d) (dl_endpoint_id d)"
  let ?g = "sc_grouped st (dl_organization_id d) (dl_endpoint_id d)"
  have eq: "filter ?q c = filter ?q (sc_selected st) @ ?g"
    using assms(1) by (simp add: queue_inv_def)
  have "d \<in> set (filter ?q c)" using assms(3) by (simp add: of_queue_def)
  then have "d \<in> set ?g" using eq assms(4) by auto
  then obtain e queue where g: "?g = e # queue" by (cases ?g) auto
  have "e = d"
  proof (rule ccontr)
    assume "e \<noteq> d"
    with \<open>d \<in> set ?g\<close> g assms(2) eq have "due_key e < due_key d"
      by (auto simp: sorted_wrt_append)
    moreover have e: "e \<in> set (filter ?q c)" unfolding eq g by simp
    ultimately have "e \<in> set (sc_selected st)" using assms(5) by auto
    with e have "e \<in> set (filter ?q (sc_selected st))" by simp
    with assms(2) eq g show False by (auto simp: sorted_wrt_append)
  qed
  with g show ?thesis by blast
qed

lemma sample_selects:
  "\<exists>s'. select_fair_deliveries default_settings 10 5 (\<lambda>_. False) sample_db sample_db
     = Inr (sample_selection, s')"
proof -
  have "case select_fair_deliveries default_settings 10 5 (\<lambda>_. False) sample_db sample_db of
      Inl _ \<Rightarrow> False | Inr (ds, s') \<Rightarrow> ds = sample_selection"
    by code_simp
  then show ?thesis by (auto split: sum.splits)
qed

lemma sample_candidates:
  "candidates_of default_settings 10 5 (\<lambda>_. False) sample_db sample_db
     = sample_selection @ [sample_delivery 4 1 2 Pending 0 5]"
  by code_simp

lemma sample_distinct: "distinct (map dl_id (db_deliveries sample_db))"
  by (simp add: sample_db_def sample_delivery_def)

text \<open>
  (C12) A selection always completes.  It never gives the workers more
  than they asked for, and together with the deliveries whose lease is live it never takes the
  deployment, a tenant or an endpoint above its concurrency limit: a count that was within its
  limit stays within it, and one that was not does not grow.
\<close>

theorem select_fair_deliveries_caps:
  "\<exists>ds s'. select_fair_deliveries cfg now requested skip scan s = Inr (ds, s')
    \<and> int (length ds) \<le> max 0 requested
    \<and> count_where (is_live now) (db_deliveries s) + int (length ds)
        \<le> max (count_where (is_live now) (db_deliveries s)) (worker_global_concurrency cfg)
    \<and> (\<forall>e. count_where (\<lambda>d. is_live now d \<and> dl_endpoint_id d = e) (db_deliveries s)
             + occurrences dl_endpoint_id e ds
        \<le> max (count_where (\<lambda>d. is_live now d \<and> dl_endpoint_id d = e) (db_deliveries s))
              (endpoint_concurrency cfg))
    \<and> (\<forall>t. count_where (\<lambda>d. is_live now d \<and> dl_organization_id d = t) (db_deliveries s)
             + occurrences dl_organization_id t ds
        \<le> max (count_where (\<lambda>d. is_live now d \<and> dl_organization_id d = t) (db_deliveries s))
              (tenant_in_flight_deliveries cfg))"
proof (cases rule: select_fair_deliveries_eq [of cfg now requested s skip scan])
  case none
  then show ?thesis by simp
next
  case (some g orgs st)
  then have c: "count_inv cfg (capacity_left cfg now requested s)
      (start_sched cfg now g (candidates_of cfg now requested skip scan s) s) st"
    by (simp add: loop_inv_def)
  have *: "a + n \<le> max a b" if "0 < n \<Longrightarrow> a + n \<le> b" "0 \<le> n" for a b n :: int
    using that by (cases "n = 0") auto
  have "int (length (sc_selected st)) \<le> capacity_left cfg now requested s"
    using c some(1) by (simp add: count_inv_def)
  with c some(6) show ?thesis
    by (auto simp: count_inv_def start_sched_simps capacity_left_def intro!: *)
qed

lemma selected_rows:
  assumes "distinct (map dl_id (db_deliveries s))"
    and "select_fair_deliveries cfg now requested skip s s = Inr (ds, s')"
  shows "distinct (map dl_id ds) \<and> db_deliveries s' = db_deliveries s
    \<and> (\<forall>d \<in> set ds. d \<in> set (db_deliveries s) \<and> is_due now d \<and> \<not> is_live now d \<and> \<not> skip (dl_id d))"
proof (cases rule: select_fair_deliveries_eq [of cfg now requested s skip s])
  case none
  with assms(2) show ?thesis by auto
next
  case (some g orgs st)
  let ?c = "candidates_of cfg now requested skip s s"
  have ds: "ds = sc_selected st" "db_deliveries s' = db_deliveries s"
    using some(6) assms(2) by auto
  have "mset ds \<subseteq># mset ?c"
    using some(5) ds queue_inv_mset by (auto simp: loop_inv_def)
  then have "distinct (map dl_id ds)" "set ds \<subseteq> set ?c"
    using distinct_map_submset candidates_of_distinct [OF assms(1)] set_mset_mono by fastforce+
  with ds candidates_of_due [OF assms(1)] due_not_live show ?thesis by blast
qed

text \<open>
  (C13) Within an endpoint the selection is first in, first out by due
  time: the selected deliveries come in the order of \<open>(next_attempt_at, id)\<close>, and no delivery is
  selected while an earlier due delivery of the same endpoint, whose lock could be taken, is left.
\<close>

theorem select_fair_deliveries_fifo:
  assumes "distinct (map dl_id (db_deliveries s))"
    and "select_fair_deliveries cfg now requested skip s s = Inr (ds, s')"
  shows "sorted_wrt (\<lambda>d e. due_key d < due_key e) (filter (of_queue org eid) ds)
    \<and> (\<forall>d \<in> set ds. \<forall>e \<in> set (db_deliveries s).
          is_due now e \<and> \<not> skip (dl_id e) \<and> dl_organization_id e = dl_organization_id d
          \<and> dl_endpoint_id e = dl_endpoint_id d \<and> due_key e < due_key d \<longrightarrow> e \<in> set ds)"
proof (cases rule: select_fair_deliveries_eq [of cfg now requested s skip s])
  case none
  with assms(2) show ?thesis by auto
next
  case (some g orgs st)
  let ?c = "candidates_of cfg now requested skip s s"
  have ds: "ds = sc_selected st" using some(6) assms(2) by auto
  have q: "filter (of_queue o' e') ?c = filter (of_queue o' e') ds @ sc_grouped st o' e'" for o' e'
    using some(5) ds by (simp add: loop_inv_def queue_inv_def)
  have sorted: "sorted_wrt (\<lambda>d e. due_key d < due_key e)
      (filter (of_queue o' e') ds @ sc_grouped st o' e')" for o' e'
    using candidates_of_sorted [OF assms(1)] q by metis
  have "e \<in> set ds" if d: "d \<in> set ds" and e: "e \<in> set (db_deliveries s)" "is_due now e"
    "\<not> skip (dl_id e)" "dl_organization_id e = dl_organization_id d"
    "dl_endpoint_id e = dl_endpoint_id d" "due_key e < due_key d" for d e
  proof (rule ccontr)
    let ?q = "of_queue (dl_organization_id d) (dl_endpoint_id d)"
    assume n: "e \<notin> set ds"
    have "d \<in> set ?c" using loop_inv_selected [OF some(5)] ds d by auto
    then have "e \<in> set (filter ?q ?c)"
      using candidates_of_closed [OF assms(1)] e by (simp add: of_queue_def)
    with n have "e \<in> set (sc_grouped st (dl_organization_id d) (dl_endpoint_id d))"
      by (simp add: q)
    moreover have "d \<in> set (filter ?q ds)" using d by (simp add: of_queue_def)
    ultimately have "due_key d < due_key e"
      using sorted [of "dl_organization_id d" "dl_endpoint_id d"] by (simp add: sorted_wrt_append)
    with e(6) show False by simp
  qed
  moreover have "sorted_wrt (\<lambda>d e. due_key d < due_key e) (filter (of_queue org eid) ds)"
    using sorted by (simp add: sorted_wrt_append)
  ultimately show ?thesis by blast
qed

theorem select_fair_deliveries_fifo_witness:
  "\<exists>s'. select_fair_deliveries default_settings 10 5 (\<lambda>_. False) sample_db sample_db
      = Inr (sample_selection, s')
    \<and> sorted_wrt (\<lambda>d e. due_key d < due_key e) (filter (of_queue 1 1) sample_selection)"
  using sample_selects select_fair_deliveries_fifo [OF sample_distinct] by blast

text \<open>
  (C16) Every selected delivery has paid one token of its endpoint's rate
  bucket, and a retry one more of the retry bucket: the stored balances are the refilled ones less
  what was selected, and they are not negative.
\<close>

theorem select_fair_deliveries_paid:
  assumes "select_fair_deliveries cfg now requested skip scan s = Inr (ds, s')" and "d \<in> set ds"
  shows "\<exists>q'. find_endpoint_quota (dl_endpoint_id d) s' = Some q'
    \<and> (let q = refill_endpoint cfg now (endpoint_row cfg now (dl_endpoint_id d) s);
           mine = filter (\<lambda>e. dl_endpoint_id e = dl_endpoint_id d) ds;
           retries = filter (\<lambda>e. dl_attempt_count e > 0) mine
       in eq_delivery_tokens q' = eq_delivery_tokens q - of_nat (length mine)
          \<and> 0 \<le> eq_delivery_tokens q'
          \<and> eq_retry_tokens q' = eq_retry_tokens q - of_nat (length retries)
          \<and> (retries \<noteq> [] \<longrightarrow> 0 \<le> eq_retry_tokens q'))"
proof (cases rule: select_fair_deliveries_eq [of cfg now requested s skip scan])
  case none
  with assms show ?thesis by auto
next
  case (some g orgs st)
  with assms have ds: "ds = sc_selected st"
    and s': "s' = flush_sched st (ensure_states cfg now
      (candidates_of cfg now requested skip scan s) (ensure_global_state now s))" by auto
  have "d \<in> set (candidates_of cfg now requested skip scan s)"
    using loop_inv_selected [OF some(5)] ds assms(2) by auto
  from selected_endpoint_row [OF some(5) this] obtain q where
    "find_endpoint_quota (dl_endpoint_id d) s' = Some q"
    "token_step (filter (\<lambda>e. dl_endpoint_id e = dl_endpoint_id d) ds)
       (refill_endpoint cfg now (endpoint_row cfg now (dl_endpoint_id d) s)) q"
    unfolding s' ds by blast
  moreover have "filter (\<lambda>e. dl_endpoint_id e = dl_endpoint_id d) ds \<noteq> []"
    using assms(2) by (auto simp: filter_empty_conv)
  ultimately show ?thesis by (auto simp: token_step_def Let_def)
qed

theorem select_fair_deliveries_paid_witness:
  "\<exists>s' q'. select_fair_deliveries default_settings 10 5 (\<lambda>_. False) sample_db sample_db
      = Inr (sample_selection, s')
    \<and> find_endpoint_quota 1 s' = Some q' \<and> 0 \<le> eq_delivery_tokens q'"
proof -
  let ?d = "sample_delivery 1 1 1 Pending 0 0"
  have d: "?d \<in> set sample_selection" "dl_endpoint_id ?d = 1"
    by (simp_all add: sample_selection_def sample_delivery_def)
  from sample_selects obtain s' where
    s: "select_fair_deliveries default_settings 10 5 (\<lambda>_. False) sample_db sample_db
      = Inr (sample_selection, s')" ..
  from select_fair_deliveries_paid [OF s d(1)] d(2) s show ?thesis
    unfolding Let_def by metis
qed

text \<open>
  (C15) The circuit breaker stands between an endpoint and the
  workers: nothing is selected for a paused endpoint or while its circuit is open, and an endpoint
  whose circuit is not closed gets one delivery at most, which becomes its half-open probe; a probe
  that is already under way is not replaced.
\<close>

theorem select_fair_deliveries_circuit:
  assumes "distinct (map dl_id (db_deliveries s))"
    and "select_fair_deliveries cfg now requested skip s s = Inr (ds, s')" and "d \<in> set ds"
    and "q = endpoint_row cfg now (dl_endpoint_id d) s"
  shows "eq_paused_at q = None
    \<and> (eq_circuit_state q = Open \<longrightarrow> opt_le (eq_circuit_open_until q) now)
    \<and> (eq_circuit_state q \<noteq> Closed \<longrightarrow>
         filter (\<lambda>e. dl_endpoint_id e = dl_endpoint_id d) ds = [d]
         \<and> (\<exists>q'. find_endpoint_quota (dl_endpoint_id d) s' = Some q'
              \<and> eq_circuit_state q' = Half_open
              \<and> eq_half_open_probe_delivery_id q' = Some (dl_id d)))
    \<and> (eq_circuit_state q = Half_open \<longrightarrow>
         eq_half_open_probe_delivery_id q \<in> {None, Some (dl_id d)})"
proof (cases rule: select_fair_deliveries_eq [of cfg now requested s skip s])
  case none
  with assms show ?thesis by auto
next
  case (some g orgs st)
  let ?c = "candidates_of cfg now requested skip s s"
  let ?mine = "filter (\<lambda>e. dl_endpoint_id e = dl_endpoint_id d) ds"
  from some(6) assms(2) have ds: "ds = sc_selected st"
    and s': "s' = flush_sched st (ensure_states cfg now ?c (ensure_global_state now s))" by auto
  have "d \<in> set ?c" using loop_inv_selected [OF some(5)] ds assms(3) by auto
  from selected_endpoint_row [OF some(5) this] obtain q' where
    q': "find_endpoint_quota (dl_endpoint_id d) s' = Some q'"
    and c: "circuit_step now ?mine (refill_endpoint cfg now q) q'"
    unfolding s' ds assms(4) by blast
  have d: "d \<in> set ?mine" using assms(3) by simp
  then have ne: "?mine \<noteq> []" by force
  have "distinct (map dl_id ?c)" by (rule candidates_of_distinct [OF assms(1)])
  moreover have "mset ds \<subseteq># mset ?c"
    using some(5) ds queue_inv_mset by (auto simp: loop_inv_def)
  ultimately have dist: "distinct (map dl_id ?mine)"
    using distinct_map_submset distinct_map_filter by blast
  have half: "eq_circuit_state q' = Half_open" if "eq_circuit_state q \<noteq> Closed"
    using that c ne by (cases "eq_circuit_state q'") (auto simp: circuit_step_def)
  have probe: "eq_half_open_probe_delivery_id q' = Some (dl_id e)"
    if "eq_circuit_state q \<noteq> Closed" "e \<in> set ?mine" for e
    using half [OF that(1)] c that(2) by (auto simp: circuit_step_def)
  have one: "?mine = [d]" if n: "eq_circuit_state q \<noteq> Closed"
  proof -
    have "e = d" if "e \<in> set ?mine" for e
      using probe [OF n that] probe [OF n d] row_unique [OF dist that d] by simp
    then have "set ?mine = {d}" using d by blast
    moreover have "distinct ?mine" using dist by (simp add: distinct_map)
    ultimately show ?thesis by (metis distinct_card card.empty card_insert_disjoint
          empty_iff finite.emptyI length_0_conv length_Suc_conv list.set_intros(1) singletonD)
  qed
  have "eq_half_open_probe_delivery_id q \<in> {None, Some (dl_id d)}"
    if h: "eq_circuit_state q = Half_open"
  proof -
    have "eq_half_open_probe_delivery_id q' = Some p"
      if "eq_half_open_probe_delivery_id q = Some p" for p
      using c h that by (simp add: circuit_step_def)
    with probe [of d] h d show ?thesis by (cases "eq_half_open_probe_delivery_id q") auto
  qed
  with c ne half probe [OF _ d] one q' show ?thesis
    by (auto simp: circuit_step_def)
qed

theorem select_fair_deliveries_circuit_witness:
  "\<exists>s' q'. select_fair_deliveries default_settings 10 5 (\<lambda>_. False) sample_db sample_db
      = Inr (sample_selection, s')
    \<and> find_endpoint_quota 2 s' = Some q' \<and> eq_circuit_state q' = Half_open
    \<and> eq_half_open_probe_delivery_id q' = Some 3"
proof -
  let ?d = "sample_delivery 3 1 2 Pending 0 0"
  have d: "?d \<in> set sample_selection" "dl_endpoint_id ?d = 2" "dl_id ?d = 3"
    by (simp_all add: sample_selection_def sample_delivery_def)
  have "eq_circuit_state (endpoint_row default_settings 10 2 sample_db) = Open"
    by (simp add: endpoint_row_def find_endpoint_quota_def sample_db_def sample_endpoint_quota_def)
  moreover from sample_selects obtain s' where
    s: "select_fair_deliveries default_settings 10 5 (\<lambda>_. False) sample_db sample_db
      = Inr (sample_selection, s')" ..
  ultimately show ?thesis
    using select_fair_deliveries_circuit [OF sample_distinct s d(1) refl] d(2,3) s by auto
qed



end
