(* ===== verification/Retry_Policy.thy ===== *)
theory Retry_Policy
  imports Py_Strings
begin

text \<open>
  The retry policy of \<^verbatim>\<open>app/retry_policy.py\<close>: which HTTP statuses are retried, how a
  \<^verbatim>\<open>Retry-After\<close> header is read and clamped, and the capped exponential backoff with full jitter.
\<close>

definition is_retryable_status :: "int option \<Rightarrow> bool" where
  "is_retryable_status code \<longleftrightarrow>
     (case code of
        None \<Rightarrow> False
      | Some n \<Rightarrow> n \<in> {408, 425, 429} \<or> 500 \<le> n \<and> n \<le> 599)"

text \<open>
  \<^verbatim>\<open>float(int(candidate))\<close>: CPython refuses to convert more than 4300 digits, and an integer
  that rounds beyond the largest double overflows.  Both are caught and give no delay.
\<close>

definition float_of_digits :: "string \<Rightarrow> rat option" where
  "float_of_digits s =
     (if length s > 4300 \<or> int_of_digits s \<ge> 2 ^ 1024 - 2 ^ 970 then None
      else Some (of_int (int_of_digits s)))"

text \<open>
  \<open>parsedate\<close> is \<^verbatim>\<open>email.utils.parsedate_to_datetime\<close>, \<open>None\<close> where it raises.
\<close>

definition parse_retry_after ::
  "(string \<Rightarrow> datetime option) \<Rightarrow> string option \<Rightarrow> datetime \<Rightarrow> int \<Rightarrow> rat option" where
  "parse_retry_after parsedate value now maximum_seconds =
     (case value of
        None \<Rightarrow> None
      | Some v \<Rightarrow>
          (let candidate = strip v
           in if candidate = [] then None
              else map_option (\<lambda>delay. min (of_int maximum_seconds) delay)
                (if is_ascii candidate \<and> is_digits candidate then float_of_digits candidate
                 else map_option (\<lambda>target. max 0 (total_seconds (target - now)))
                        (parsedate candidate))))"

text \<open>
  \<^verbatim>\<open>random.uniform(0.0, ceiling)\<close> is \<open>ceiling * r\<close> for the value \<open>r\<close> that
  \<^verbatim>\<open>random.random()\<close> drew from \<open>[0, 1)\<close>.
\<close>

definition backoff_ceiling :: "int \<Rightarrow> rat \<Rightarrow> rat \<Rightarrow> rat" where
  "backoff_ceiling attempt_number base_seconds cap_seconds =
     min cap_seconds (base_seconds * 2 ^ nat (max 0 (attempt_number - 1)))"

definition jittered_backoff :: "rat \<Rightarrow> int \<Rightarrow> rat \<Rightarrow> rat \<Rightarrow> rat" where
  "jittered_backoff r attempt_number base_seconds cap_seconds =
     0 + (backoff_ceiling attempt_number base_seconds cap_seconds - 0) * r"

definition is_random :: "rat \<Rightarrow> bool" where
  "is_random r \<longleftrightarrow> 0 \<le> r \<and> r < 1"

subsection \<open>Bounds\<close>

lemma retryable_not_success:
  "is_retryable_status (Some n) \<Longrightarrow> \<not> (200 \<le> n \<and> n < 300)"
  by (auto simp: is_retryable_status_def)

lemma int_of_digits_nonneg: "0 \<le> int_of_digits s"
proof -
  have "0 \<le> n \<Longrightarrow> 0 \<le> foldl (\<lambda>n c. 10 * n + int (cp c - 48)) n s" for n
    by (induction s arbitrary: n) auto
  then show ?thesis by (simp add: int_of_digits_def)
qed

lemma parse_retry_after_bounds:
  assumes "parse_retry_after parsedate v now m = Some delay" and "0 \<le> m"
  shows "0 \<le> delay \<and> delay \<le> of_int m"
  using assms int_of_digits_nonneg
  by (auto simp: parse_retry_after_def float_of_digits_def Let_def split: option.splits if_splits)

lemma backoff_ceiling_nonneg:
  "0 \<le> base \<Longrightarrow> 0 \<le> cap \<Longrightarrow> 0 \<le> backoff_ceiling n base cap"
  by (simp add: backoff_ceiling_def)

lemma backoff_ceiling_le_cap: "backoff_ceiling n base cap \<le> cap"
  by (simp add: backoff_ceiling_def)

lemma backoff_ceiling_mono:
  assumes "0 \<le> base" and "m \<le> n"
  shows "backoff_ceiling m base cap \<le> backoff_ceiling n base cap"
proof -
  have "(2::rat) ^ nat (max 0 (m - 1)) \<le> 2 ^ nat (max 0 (n - 1))"
    using assms(2) by (intro power_increasing) auto
  then have "base * 2 ^ nat (max 0 (m - 1)) \<le> base * 2 ^ nat (max 0 (n - 1))"
    using assms(1) by (rule mult_left_mono)
  then show ?thesis by (auto simp: backoff_ceiling_def)
qed

lemma jittered_backoff_bounds:
  assumes "is_random r" and "0 \<le> base" and "0 \<le> cap"
  shows "0 \<le> jittered_backoff r n base cap"
    and "jittered_backoff r n base cap \<le> backoff_ceiling n base cap"
proof -
  have c: "0 \<le> backoff_ceiling n base cap"
    using assms by (simp add: backoff_ceiling_nonneg)
  with assms(1) show "0 \<le> jittered_backoff r n base cap"
    by (simp add: jittered_backoff_def is_random_def)
  from c assms(1) have "backoff_ceiling n base cap * r \<le> backoff_ceiling n base cap * 1"
    by (intro mult_left_mono) (auto simp: is_random_def)
  then show "jittered_backoff r n base cap \<le> backoff_ceiling n base cap"
    by (simp add: jittered_backoff_def)
qed

end
