(* ===== verification/Hashing.thy ===== *)
theory Hashing
  imports Py_Strings "HOL-Library.Word"
begin

text \<open>
  The parts of \<^verbatim>\<open>hashlib\<close>, \<^verbatim>\<open>hmac\<close> and \<^verbatim>\<open>base64\<close> that the program uses: SHA-256, HMAC-SHA-256,
  hexadecimal digests and the two base-64 alphabets.  A byte string is a list of characters with
  codes below 256.
\<close>

unbundle bit_operations_syntax

subsection \<open>SHA-256\<close>

type_synonym w32 = "32 word"

definition sha_constants :: "w32 list" where
  "sha_constants =
     [0x428A2F98, 0x71374491, 0xB5C0FBCF, 0xE9B5DBA5, 0x3956C25B, 0x59F111F1,
      0x923F82A4, 0xAB1C5ED5, 0xD807AA98, 0x12835B01, 0x243185BE, 0x550C7DC3,
      0x72BE5D74, 0x80DEB1FE, 0x9BDC06A7, 0xC19BF174, 0xE49B69C1, 0xEFBE4786,
      0x0FC19DC6, 0x240CA1CC, 0x2DE92C6F, 0x4A7484AA, 0x5CB0A9DC, 0x76F988DA,
      0x983E5152, 0xA831C66D, 0xB00327C8, 0xBF597FC7, 0xC6E00BF3, 0xD5A79147,
      0x06CA6351, 0x14292967, 0x27B70A85, 0x2E1B2138, 0x4D2C6DFC, 0x53380D13,
      0x650A7354, 0x766A0ABB, 0x81C2C92E, 0x92722C85, 0xA2BFE8A1, 0xA81A664B,
      0xC24B8B70, 0xC76C51A3, 0xD192E819, 0xD6990624, 0xF40E3585, 0x106AA070,
      0x19A4C116, 0x1E376C08, 0x2748774C, 0x34B0BCB5, 0x391C0CB3, 0x4ED8AA4A,
      0x5B9CCA4F, 0x682E6FF3, 0x748F82EE, 0x78A5636F, 0x84C87814, 0x8CC70208,
      0x90BEFFFA, 0xA4506CEB, 0xBEF9A3F7, 0xC67178F2]"

definition sha_initial :: "w32 list" where
  "sha_initial =
     [0x6A09E667, 0xBB67AE85, 0x3C6EF372, 0xA54FF53A, 0x510E527F, 0x9B05688C,
      0x1F83D9AB, 0x5BE0CD19]"

definition big_sigma0 :: "w32 \<Rightarrow> w32" where
  "big_sigma0 x = word_rotr 2 x XOR word_rotr 13 x XOR word_rotr 22 x"

definition big_sigma1 :: "w32 \<Rightarrow> w32" where
  "big_sigma1 x = word_rotr 6 x XOR word_rotr 11 x XOR word_rotr 25 x"

definition small_sigma0 :: "w32 \<Rightarrow> w32" where
  "small_sigma0 x = word_rotr 7 x XOR word_rotr 18 x XOR drop_bit 3 x"

definition small_sigma1 :: "w32 \<Rightarrow> w32" where
  "small_sigma1 x = word_rotr 17 x XOR word_rotr 19 x XOR drop_bit 10 x"

definition sha_ch :: "w32 \<Rightarrow> w32 \<Rightarrow> w32 \<Rightarrow> w32" where
  "sha_ch x y z = (x AND y) XOR (NOT x AND z)"

definition sha_maj :: "w32 \<Rightarrow> w32 \<Rightarrow> w32 \<Rightarrow> w32" where
  "sha_maj x y z = (x AND y) XOR (x AND z) XOR (y AND z)"

text \<open>The message schedule is built with its newest word first.\<close>

fun sha_schedule :: "nat \<Rightarrow> w32 list \<Rightarrow> w32 list" where
  "sha_schedule 0 ws = ws"
| "sha_schedule (Suc n) ws =
     sha_schedule n ((small_sigma1 (ws ! 1) + ws ! 6 + small_sigma0 (ws ! 14) + ws ! 15) # ws)"

definition sha_round :: "w32 \<times> w32 \<Rightarrow> w32 list \<Rightarrow> w32 list" where
  "sha_round kw v =
     (case (kw, v) of
        ((k, w), [a, b, c, d, e, f, g, h]) \<Rightarrow>
          (let t1 = h + big_sigma1 e + sha_ch e f g + k + w;
               t2 = big_sigma0 a + sha_maj a b c
           in [t1 + t2, a, b, c, d + t1, e, f, g])
      | _ \<Rightarrow> v)"

definition byte_word :: "char \<Rightarrow> w32" where
  "byte_word c = of_nat (of_char c)"

fun words_of_bytes :: "string \<Rightarrow> w32 list" where
  "words_of_bytes (a # b # c # d # rest) =
     (push_bit 24 (byte_word a) OR push_bit 16 (byte_word b) OR push_bit 8 (byte_word c) OR byte_word d)
       # words_of_bytes rest"
| "words_of_bytes _ = []"

definition bytes_of_word :: "w32 \<Rightarrow> string" where
  "bytes_of_word w = map (\<lambda>n. char_of (unat (drop_bit n w AND 0xFF))) [24, 16, 8, 0]"

definition sha_compress :: "w32 list \<Rightarrow> w32 list \<Rightarrow> w32 list" where
  "sha_compress hash block =
     (let ws = rev (sha_schedule 48 (rev block))
      in map2 (+) hash (fold sha_round (zip sha_constants ws) hash))"

fun sha_blocks :: "nat \<Rightarrow> w32 list \<Rightarrow> w32 list \<Rightarrow> w32 list" where
  "sha_blocks 0 ws hash = hash"
| "sha_blocks (Suc n) ws hash = sha_blocks n (drop 16 ws) (sha_compress hash (take 16 ws))"

definition sha_pad :: "string \<Rightarrow> string" where
  "sha_pad msg =
     (let bits = 8 * length msg;
          zeros = (119 - length msg mod 64) mod 64
      in msg @ [CHR 0x80] @ replicate zeros (CHR 0x00)
         @ map (\<lambda>i. char_of (bits div 256 ^ i mod 256)) [7, 6, 5, 4, 3, 2, 1, 0])"

definition sha256 :: "string \<Rightarrow> string" where
  "sha256 msg =
     (let ws = words_of_bytes (sha_pad msg)
      in concat (map bytes_of_word (sha_blocks (length ws div 16) ws sha_initial)))"

subsection \<open>HMAC\<close>

definition xor_bytes :: "nat \<Rightarrow> string \<Rightarrow> string" where
  "xor_bytes n bs = map (\<lambda>c. char_of ((of_char c :: nat) XOR n)) bs"

definition hmac_sha256 :: "string \<Rightarrow> string \<Rightarrow> string" where
  "hmac_sha256 key msg =
     (let k0 = (if length key > 64 then sha256 key else key);
          k = k0 @ replicate (64 - length k0) (CHR 0x00)
      in sha256 (xor_bytes 0x5C k @ sha256 (xor_bytes 0x36 k @ msg)))"

subsection \<open>Encodings\<close>

definition hex_digit :: "nat \<Rightarrow> char" where
  "hex_digit n = ''0123456789abcdef'' ! n"

definition hexdigest :: "string \<Rightarrow> string" where
  "hexdigest bs = concat (map (\<lambda>c. [hex_digit (of_char c div 16), hex_digit (of_char c mod 16)]) bs)"

definition b64_alphabet :: string where
  "b64_alphabet = ''ABCDEFGHIJKLMNOPQRSTUVWXYZabcdefghijklmnopqrstuvwxyz0123456789+/''"

definition b64_digit :: "nat \<Rightarrow> char" where
  "b64_digit n = b64_alphabet ! (n mod 64)"

fun b64encode :: "string \<Rightarrow> string" where
  "b64encode [] = []"
| "b64encode [a] =
     (let n = of_char a * 16 in [b64_digit (n div 64), b64_digit n, CHR ''='', CHR ''=''])"
| "b64encode [a, b] =
     (let n = (of_char a * 256 + of_char b) * 4
      in [b64_digit (n div 4096), b64_digit (n div 64), b64_digit n, CHR ''=''])"
| "b64encode (a # b # c # rest) =
     (let n = (of_char a * 256 + of_char b) * 256 + of_char c
      in [b64_digit (n div 262144), b64_digit (n div 4096), b64_digit (n div 64), b64_digit n]
         @ b64encode rest)"

text \<open>\<^verbatim>\<open>urlsafe_b64encode\<close> replaces the last two characters of the alphabet.\<close>

definition urlsafe_b64encode :: "string \<Rightarrow> string" where
  "urlsafe_b64encode bs =
     map (\<lambda>c. if c = CHR ''+'' then CHR ''-'' else if c = CHR ''/'' then CHR ''_'' else c) (b64encode bs)"

text \<open>\<^verbatim>\<open>hmac.compare_digest\<close> on two strings.\<close>

definition compare_digest :: "string \<Rightarrow> string \<Rightarrow> bool" where
  "compare_digest a b \<longleftrightarrow> a = b"

end
