(* ===== verification/Webhook_Security.thy ===== *)
theory Webhook_Security
  imports Models Hashing "HOL-Library.Multiset" "HOL-Library.List_Lexorder" "HOL-Library.Char_ord"
begin

text \<open>
  \<^verbatim>\<open>app/webhook_security.py\<close>: credentials, canonical JSON, event-type filters, the two signature
  schemes and the egress check of webhook URLs.  The resolver, the URL splitter and the address
  parser are arguments.
\<close>

subsection \<open>Credentials\<close>

text \<open>\<open>prefix\<close> and \<open>secret\<close> are the values of \<^verbatim>\<open>secrets.token_hex(6)\<close> and \<^verbatim>\<open>token_urlsafe(32)\<close>.\<close>

definition generate_api_key :: "string \<Rightarrow> string \<Rightarrow> string \<times> string" where
  "generate_api_key prefix secret = (''whk_'' @ prefix @ ''_'' @ secret, prefix)"

definition digest_api_key :: "string \<Rightarrow> string \<Rightarrow> string" where
  "digest_api_key plaintext pepper = hexdigest (hmac_sha256 (utf8_encode pepper) (utf8_encode plaintext))"

definition verify_api_key :: "string \<Rightarrow> string \<Rightarrow> string \<Rightarrow> bool" where
  "verify_api_key plaintext expected_digest pepper =
     compare_digest (digest_api_key plaintext pepper) expected_digest"

definition secret_material :: "string \<Rightarrow> int \<Rightarrow> bytes" where
  "secret_material endpoint_public_id secret_version =
     utf8_encode (''endpoint:'' @ endpoint_public_id @ '':v'' @ str_of_int secret_version)"

definition endpoint_secret_digest :: "string \<Rightarrow> string \<Rightarrow> int \<Rightarrow> bytes" where
  "endpoint_secret_digest signing_key endpoint_public_id secret_version =
     hmac_sha256 (utf8_encode signing_key) (secret_material endpoint_public_id secret_version)"

definition endpoint_secret :: "string \<Rightarrow> string \<Rightarrow> int \<Rightarrow> string" where
  "endpoint_secret signing_key endpoint_public_id secret_version =
     ''whsec_'' @ rstrip_char (CHR ''='') (urlsafe_b64encode
       (hmac_sha256 (utf8_encode signing_key) (secret_material endpoint_public_id secret_version)))"

definition endpoint_secret_standard :: "string \<Rightarrow> string \<Rightarrow> int \<Rightarrow> string" where
  "endpoint_secret_standard signing_key endpoint_public_id secret_version =
     ''whsec_'' @ b64encode (endpoint_secret_digest signing_key endpoint_public_id secret_version)"

subsection \<open>Canonical JSON\<close>

text \<open>The \<^verbatim>\<open>json.dumps\<close> string escapes with \<^verbatim>\<open>ensure_ascii=False\<close>.\<close>

definition json_escape :: "char \<Rightarrow> string" where
  "json_escape c =
     (if c = CHR 0x22 then [CHR 0x5C, CHR 0x22]
      else if c = CHR 0x5C then [CHR 0x5C, CHR 0x5C]
      else if c = CHR 0x0A then [CHR 0x5C, CHR ''n'']
      else if c = CHR 0x0D then [CHR 0x5C, CHR ''r'']
      else if c = CHR 0x09 then [CHR 0x5C, CHR ''t'']
      else if c = CHR 0x0C then [CHR 0x5C, CHR ''f'']
      else if c = CHR 0x08 then [CHR 0x5C, CHR ''b'']
      else if cp c < 32 then [CHR 0x5C, CHR ''u'', CHR ''0'', CHR ''0'',
        hex_digit (cp c div 16), hex_digit (cp c mod 16)]
      else [c])"

definition json_quote :: "string \<Rightarrow> string" where
  "json_quote s = CHR 0x22 # concat (map json_escape s) @ [CHR 0x22]"

fun join_comma :: "string list \<Rightarrow> string" where
  "join_comma [] = []"
| "join_comma [x] = x"
| "join_comma (x # y # xs) = x @ [CHR '',''] @ join_comma (y # xs)"

fun json_dumps :: "json \<Rightarrow> string" where
  "json_dumps JNull = ''null''"
| "json_dumps (JBool b) = (if b then ''true'' else ''false'')"
| "json_dumps (JInt n) = str_of_int n"
| "json_dumps (JFloat fin r) = r"
| "json_dumps (JString s) = json_quote s"
| "json_dumps (JArray xs) = ''['' @ join_comma (map json_dumps xs) @ '']''"
| "json_dumps (JObject kvs) =
     ''{'' @ join_comma (map (\<lambda>(k, v). json_quote k @ '':'' @ json_dumps v) kvs) @ ''}''"

text \<open>\<^verbatim>\<open>sort_keys=True\<close>, at every depth; and what \<^verbatim>\<open>allow_nan=False\<close> rejects.\<close>

fun json_sort_keys :: "json \<Rightarrow> json" where
  "json_sort_keys (JArray xs) = JArray (map json_sort_keys xs)"
| "json_sort_keys (JObject kvs) =
     JObject (sort_key fst (map (\<lambda>(k, v). (k, json_sort_keys v)) kvs))"
| "json_sort_keys v = v"

fun json_all_finite :: "json \<Rightarrow> bool" where
  "json_all_finite (JFloat fin r) = fin"
| "json_all_finite (JArray xs) = list_all json_all_finite xs"
| "json_all_finite (JObject kvs) = list_all (\<lambda>(k, v). json_all_finite v) kvs"
| "json_all_finite v = True"

definition canonical_json :: "json \<Rightarrow> bytes result" where
  "canonical_json v =
     (if json_all_finite v then Inr (utf8_encode (json_dumps (json_sort_keys v)))
      else Inl (ValueError ''Out of range float values are not JSON compliant''))"

subsection \<open>Event-type filters\<close>

fun pattern_matches :: "string \<Rightarrow> json \<Rightarrow> bool" where
  "pattern_matches event_type (JString pattern) =
     (if endswith pattern ''.*'' then startswith event_type (butlast pattern)
      else event_type = pattern)"
| "pattern_matches event_type _ = False"

fun event_type_matches :: "string \<Rightarrow> json \<Rightarrow> bool" where
  "event_type_matches event_type JNull = True"
| "event_type_matches event_type (JArray patterns) = list_ex (pattern_matches event_type) patterns"
| "event_type_matches event_type _ = False"

text \<open>The stored filter column, as the value the JSON column type loads.\<close>

definition filter_json :: "string list option \<Rightarrow> json" where
  "filter_json f = (case f of None \<Rightarrow> JNull | Some ps \<Rightarrow> JArray (map JString ps))"

subsection \<open>Signatures\<close>

definition signed_legacy :: "int \<Rightarrow> bytes \<Rightarrow> bytes" where
  "signed_legacy timestamp payload = str_of_int timestamp @ ''.'' @ payload"

definition sign_payload :: "bytes \<Rightarrow> string \<Rightarrow> int \<Rightarrow> int \<times> string" where
  "sign_payload payload secret timestamp =
     (let digest = hexdigest (hmac_sha256 (utf8_encode secret) (signed_legacy timestamp payload))
      in (timestamp, ''t='' @ str_of_int timestamp @ '',v1='' @ digest))"

definition signed_standard :: "string \<Rightarrow> int \<Rightarrow> bytes \<Rightarrow> bytes" where
  "signed_standard event_id timestamp payload =
     event_id @ ''.'' @ str_of_int timestamp @ ''.'' @ payload"

text \<open>\<^verbatim>\<open>.encode("ascii")\<close> raises UnicodeEncodeError, a ValueError, on any other character.\<close>

definition sign_payload_standard ::
  "string \<Rightarrow> bytes \<Rightarrow> bytes \<Rightarrow> int \<Rightarrow> (int \<times> string) result" where
  "sign_payload_standard event_id payload key timestamp =
     (if \<not> is_ascii event_id then Inl (ValueError ''UnicodeEncodeError'')
      else Inr (timestamp, ''v1,'' @ b64encode (hmac_sha256 key (signed_standard event_id timestamp payload))))"

subsection \<open>Egress policy\<close>

datatype deny_reason =
    URL_TOO_LONG | INVALID_URL | SCHEME_NOT_ALLOWED | CREDENTIALS_FORBIDDEN | FRAGMENT_FORBIDDEN
  | PORT_NOT_ALLOWED | LOCALHOST_FORBIDDEN | DNS_UNRESOLVED | NON_GLOBAL_ADDRESS
  | PROXY_CONNECT_DENIED

primrec deny_value :: "deny_reason \<Rightarrow> string" where
  "deny_value URL_TOO_LONG = ''url_too_long''"
| "deny_value INVALID_URL = ''invalid_url''"
| "deny_value SCHEME_NOT_ALLOWED = ''scheme_not_allowed''"
| "deny_value CREDENTIALS_FORBIDDEN = ''credentials_forbidden''"
| "deny_value FRAGMENT_FORBIDDEN = ''fragment_forbidden''"
| "deny_value PORT_NOT_ALLOWED = ''port_not_allowed''"
| "deny_value LOCALHOST_FORBIDDEN = ''localhost_forbidden''"
| "deny_value DNS_UNRESOLVED = ''dns_unresolved''"
| "deny_value NON_GLOBAL_ADDRESS = ''non_global_address''"
| "deny_value PROXY_CONNECT_DENIED = ''proxy_connect_denied''"

text \<open>The exceptions of the check: \<^verbatim>\<open>UnsafeWebhookUrl\<close> with its message and reason,
  and the plain ValueError it subclasses.\<close>

datatype url_error = UnsafeWebhookUrl string deny_reason | Url_ValueError

text \<open>
  \<open>ip_address\<close> is \<^verbatim>\<open>ipaddress.ip_address\<close>, \<open>None\<close> where it raises ValueError: of an address it
  tells whether it is global and, for IPv6, whether it maps an IPv4 address and that is global.
\<close>

datatype ip_address = IPv4 bool | IPv6 "bool option" bool

fun ip_is_global :: "ip_address \<Rightarrow> bool" where
  "ip_is_global (IPv4 g) = g"
| "ip_is_global (IPv6 None g) = g"
| "ip_is_global (IPv6 (Some mapped) g) = mapped"

definition require_global :: "(string \<Rightarrow> ip_address option) \<Rightarrow> string \<Rightarrow> url_error + unit" where
  "require_global parse_ip address =
     (case parse_ip (takeWhile (\<lambda>c. c \<noteq> CHR ''%'') address) of
        None \<Rightarrow> Inl Url_ValueError
      | Some ip \<Rightarrow> 
          (if ip_is_global ip then Inr ()
           else Inl (UnsafeWebhookUrl ''Webhook host resolves to a non-global address''
                  NON_GLOBAL_ADDRESS)))"

fun require_all_global :: "(string \<Rightarrow> ip_address option) \<Rightarrow> string list \<Rightarrow> url_error + unit" where
  "require_all_global parse_ip [] = Inr ()"
| "require_all_global parse_ip (a # as) =
     (case require_global parse_ip a of Inl e \<Rightarrow> Inl e | Inr _ \<Rightarrow> require_all_global parse_ip as)"

text \<open>
  \<open>urlsplit\<close> is \<open>None\<close> where it raises ValueError; \<open>getaddrinfo\<close> gives the resolved addresses, or
  \<open>None\<close> on a resolver or IDNA error.
\<close>

definition validate_webhook_url ::
  "(string \<Rightarrow> split_url option) \<Rightarrow> (string \<Rightarrow> ip_address option) \<Rightarrow> (string \<Rightarrow> int \<Rightarrow> string list option)
   \<Rightarrow> string \<Rightarrow> bool \<Rightarrow> bool \<Rightarrow> url_error + string" where
  "validate_webhook_url urlsplit parse_ip getaddrinfo url allow_http allow_private =
     (if length url > 2048 then Inl (UnsafeWebhookUrl ''Webhook URL is too long'' URL_TOO_LONG)
      else case urlsplit url of
        None \<Rightarrow> Inl (UnsafeWebhookUrl ''Webhook URL is invalid'' INVALID_URL)
      | Some parsed \<Rightarrow>
      case su_port parsed of
        None \<Rightarrow> Inl (UnsafeWebhookUrl ''Webhook URL is invalid'' INVALID_URL)
      | Some port \<Rightarrow>
      if lower (su_scheme parsed) \<notin> {''https''} \<union> (if allow_http then {''http''} else {})
      then Inl (UnsafeWebhookUrl ''Webhook URL scheme is not allowed'' SCHEME_NOT_ALLOWED)
      else if \<not> truthy (su_hostname parsed)
      then Inl (UnsafeWebhookUrl ''Webhook URL must have a host'' INVALID_URL)
      else if truthy (su_username parsed) \<or> truthy (su_password parsed)
      then Inl (UnsafeWebhookUrl ''Webhook URL credentials are not allowed'' CREDENTIALS_FORBIDDEN)
      else if su_fragment parsed \<noteq> []
      then Inl (UnsafeWebhookUrl ''Webhook URL fragments are not allowed'' FRAGMENT_FORBIDDEN)
      else if \<not> allow_http \<and> (case port of None \<Rightarrow> 443 | Some p \<Rightarrow> if p = 0 then 443 else p) \<noteq> 443
      then Inl (UnsafeWebhookUrl ''Webhook URL port must be 443'' PORT_NOT_ALLOWED)
      else
        (let hostname = lower (rstrip_char (CHR ''.'') (the (su_hostname parsed)))
         in if \<not> allow_private \<and> (hostname = ''localhost'' \<or> endswith hostname ''.localhost'')
            then Inl (UnsafeWebhookUrl ''Localhost webhook targets are not allowed'' LOCALHOST_FORBIDDEN)
            else case require_global parse_ip hostname of
              Inr _ \<Rightarrow> Inr url
            | Inl (UnsafeWebhookUrl msg r) \<Rightarrow>
                (if allow_private then Inr url else Inl (UnsafeWebhookUrl msg r))
            | Inl Url_ValueError \<Rightarrow>
                (case getaddrinfo hostname
                        (case port of
                           None \<Rightarrow> if lower (su_scheme parsed) = ''https'' then 443 else 80
                         | Some p \<Rightarrow> if p \<noteq> 0 then p
                                     else if lower (su_scheme parsed) = ''https'' then 443 else 80) of
                   None \<Rightarrow> Inl (UnsafeWebhookUrl ''Webhook host could not be resolved'' DNS_UNRESOLVED)
                 | Some addresses \<Rightarrow>
                     if addresses = []
                     then Inl (UnsafeWebhookUrl ''Webhook host did not resolve'' DNS_UNRESOLVED)
                     else if allow_private then Inr url
                     else (case require_all_global parse_ip addresses of
                             Inl e \<Rightarrow> Inl e | Inr _ \<Rightarrow> Inr url))))"

subsection \<open>Properties\<close>

lemma require_all_global_iff:
  "require_all_global parse_ip as = Inr u \<longleftrightarrow> (\<forall>a \<in> set as. require_global parse_ip a = Inr ())"
  by (induction "as") (auto split: sum.splits)

lemma require_global_iff:
  "require_global parse_ip a = Inr u \<longleftrightarrow>
    (\<exists>ip. parse_ip (takeWhile (\<lambda>c. c \<noteq> CHR ''%'') a) = Some ip \<and> ip_is_global ip)"
  by (auto simp: require_global_def split: option.splits)

text \<open>
  (C20) A URL that passes the check with private targets forbidden is the
  URL itself, not too long, with an allowed scheme, no credentials, no fragment and, when plain
  HTTP is off, port 443; its host is either a literal global address or a name every one of whose
  resolved addresses, of which there is at least one, is global.
\<close>

theorem validate_webhook_url_safe:
  assumes "validate_webhook_url urlsplit parse_ip getaddrinfo url allow_http False = Inr url'"
  shows "url' = url \<and> length url \<le> 2048
    \<and> (\<exists>parsed host port. urlsplit url = Some parsed \<and> su_port parsed = Some port
        \<and> (lower (su_scheme parsed) = ''https'' \<or> allow_http \<and> lower (su_scheme parsed) = ''http'')
        \<and> \<not> truthy (su_username parsed) \<and> \<not> truthy (su_password parsed) \<and> su_fragment parsed = []
        \<and> (allow_http \<or> port \<in> {None, Some 0, Some 443})
        \<and> su_hostname parsed = Some host \<and> host \<noteq> []
        \<and> (let hostname = lower (rstrip_char (CHR ''.'') host)
           in hostname \<noteq> ''localhost'' \<and> \<not> endswith hostname ''.localhost''
              \<and> (require_global parse_ip hostname = Inr ()
                 \<or> (\<exists>p addresses. getaddrinfo hostname p = Some addresses \<and> addresses \<noteq> []
                      \<and> (\<forall>a \<in> set addresses. \<exists>ip. parse_ip (takeWhile (\<lambda>c. c \<noteq> CHR ''%'') a) = Some ip
                           \<and> ip_is_global ip)))))"
proof -
  note a = assms [unfolded validate_webhook_url_def]
  from a obtain parsed port where p: "length url \<le> 2048" "urlsplit url = Some parsed"
    "su_port parsed = Some port"
    by (auto split: if_splits option.splits)
  from a p obtain host where h:
    "lower (su_scheme parsed) = ''https'' \<or> allow_http \<and> lower (su_scheme parsed) = ''http''"
    "\<not> truthy (su_username parsed)" "\<not> truthy (su_password parsed)" "su_fragment parsed = []"
    "allow_http \<or> port \<in> {None, Some 0, Some 443}"
    "su_hostname parsed = Some host" "host \<noteq> []"
    by (cases "su_hostname parsed") (auto split: if_splits option.splits)
  let ?h = "lower (rstrip_char (CHR ''.'') host)"
  from a p h have l: "?h \<noteq> ''localhost''" "\<not> endswith ?h ''.localhost''"
    by (auto simp: Let_def split: if_splits)
  have "url' = url \<and> (require_global parse_ip ?h = Inr ()
      \<or> (\<exists>p addresses. getaddrinfo ?h p = Some addresses \<and> addresses \<noteq> []
            \<and> (\<forall>a \<in> set addresses. require_global parse_ip a = Inr ())))"
  proof (cases "require_global parse_ip ?h")
    case (Inr u)
    with a p h l show ?thesis by (auto simp: Let_def split: if_splits option.splits)
  next
    case (Inl e)
    with a p h l show ?thesis
      by (cases e) (auto simp: Let_def require_all_global_iff split: if_splits option.splits sum.splits)
  qed
  with p h l show ?thesis by (auto simp: Let_def require_global_iff)
qed

text \<open>A resolver that knows one name, and a splitter for one URL, to instantiate the check.\<close>

definition sample_split :: "string \<Rightarrow> split_url option" where
  "sample_split url =
     (if url = ''https://a.b/'' then
        Some \<lparr>su_scheme = ''https'', su_hostname = Some ''a.b'', su_username = None, su_password = None,
              su_path = ''/'', su_query = [], su_fragment = [], su_port = Some None\<rparr>
      else None)"

definition sample_ip :: "string \<Rightarrow> ip_address option" where
  "sample_ip a = (if a = ''8.8.8.8'' then Some (IPv4 True)
     else if a = ''10.0.0.1'' then Some (IPv4 False) else None)"

definition sample_dns :: "string list \<Rightarrow> string \<Rightarrow> int \<Rightarrow> string list option" where
  "sample_dns answer host port = (if host = ''a.b'' then Some answer else None)"

theorem validate_webhook_url_safe_witness:
  "validate_webhook_url sample_split sample_ip (sample_dns [''8.8.8.8'']) ''https://a.b/'' False False
     = Inr ''https://a.b/''
   \<and> validate_webhook_url sample_split sample_ip (sample_dns [''8.8.8.8'', ''10.0.0.1''])
       ''https://a.b/'' False False
     = Inl (UnsafeWebhookUrl ''Webhook host resolves to a non-global address'' NON_GLOBAL_ADDRESS)
   \<and> length ''https://a.b/'' \<le> (2048 :: nat)"
proof -
  have v: "validate_webhook_url sample_split sample_ip (sample_dns [''8.8.8.8'']) ''https://a.b/''
      False False = Inr ''https://a.b/''" by code_simp
  moreover have "validate_webhook_url sample_split sample_ip (sample_dns [''8.8.8.8'', ''10.0.0.1''])
      ''https://a.b/'' False False
     = Inl (UnsafeWebhookUrl ''Webhook host resolves to a non-global address'' NON_GLOBAL_ADDRESS)" by code_simp
  ultimately show ?thesis using validate_webhook_url_safe [OF v] by blast
qed

text \<open>
  The canonical form does not depend on the order of an object's
  keys: two objects with the same members have the same bytes, or are both rejected.
\<close>

theorem canonical_json_key_order:
  assumes "mset kvs = mset kvs'" and "distinct (map fst kvs)"
  shows "canonical_json (JObject kvs) = canonical_json (JObject kvs')"
proof -
  let ?f = "map (\<lambda>(k, v). (k, json_sort_keys v))"
  have m: "mset (?f kvs) = mset (sort_key fst (?f kvs'))" using assms(1) by simp
  have "map fst (?f kvs) = map fst kvs" by (simp add: comp_def case_prod_unfold)
  then have "distinct (map fst (?f kvs))" using assms(2) by (simp only:)
  then have "inj_on fst (set (?f kvs))" by (simp only: distinct_map)
  then have "sort_key fst (?f kvs) = sort_key fst (?f kvs')"
    by (rule sort_key_inj_key_eq [OF m]) (rule sorted_sort_key)
  moreover have "list_all (\<lambda>(k, v). json_all_finite v) kvs = list_all (\<lambda>(k, v). json_all_finite v) kvs'"
    using mset_eq_setD [OF assms(1)] by (simp add: list_all_iff)
  ultimately show ?thesis by (simp add: canonical_json_def)
qed

theorem canonical_json_key_order_witness:
  "canonical_json (JObject [(''b'', JInt 1), (''a'', JNull)])
     = canonical_json (JObject [(''a'', JNull), (''b'', JInt 1)])"
  using canonical_json_key_order [of "[(''b'', JInt 1), (''a'', JNull)]"
      "[(''a'', JNull), (''b'', JInt 1)]"] by (simp add: add_mset_commute)

lemma pattern_matches_iff:
  "pattern_matches t (JString p) \<longleftrightarrow>
    p = t \<and> \<not> endswith p ''.*'' \<or> (\<exists>q rest. p = q @ ''.*'' \<and> t = q @ ''.'' @ rest)"
proof (cases "endswith p ''.*''")
  case True
  then obtain q where "p = q @ ''.*''" by (auto simp: endswith_iff)
  with True show ?thesis by (simp add: startswith_iff butlast_append)
next
  case False
  then have "\<forall>q. p \<noteq> q @ ''.*''" by (auto simp: endswith_iff)
  with False show ?thesis by auto
qed

text \<open>
  A subscription without a filter accepts every event type.  A filter
  accepts a type exactly when one of its entries is that type, or is a wildcard \<open>p.*\<close> such that
  the type begins with \<open>p.\<close>.
\<close>

theorem event_type_matches_iff:
  "event_type_matches t (filter_json f) \<longleftrightarrow>
    (case f of None \<Rightarrow> True
     | Some patterns \<Rightarrow>
         (\<exists>p \<in> set patterns. p = t \<and> \<not> endswith p ''.*'')
         \<or> (\<exists>p rest. p @ ''.*'' \<in> set patterns \<and> t = p @ ''.'' @ rest))"
proof (cases f)
  case None
  then show ?thesis by (simp add: filter_json_def)
next
  case (Some patterns)
  then show ?thesis
    by (auto simp: filter_json_def list_ex_iff pattern_matches_iff simp del: pattern_matches.simps)
qed

lemma digits_of_nat_ascii: "c \<in> set (digits_of_nat n) \<Longrightarrow> 48 \<le> cp c \<and> cp c \<le> 57"
proof (induction n rule: digits_of_nat.induct)
  case (1 n)
  then show ?case
    by (cases "n < 10") (auto simp: digits_of_nat.simps [of n])
qed

lemma str_of_int_no_dot: "CHR ''.'' \<notin> set (str_of_int n)"
  by (auto simp: str_of_int_def dest: digits_of_nat_ascii)

lemma int_of_digits_append: "int_of_digits (xs @ [c]) = 10 * int_of_digits xs + int (cp c - 48)"
  by (simp add: int_of_digits_def)

lemma int_of_digits_of_nat [simp]: "int_of_digits (digits_of_nat n) = int n"
proof (induction n rule: digits_of_nat.induct)
  case (1 n)
  show ?case
  proof (cases "n < 10")
    case True
    then show ?thesis by (simp add: digits_of_nat.simps [of n] int_of_digits_def)
  next
    case False
    have "int n = int (n div 10) * 10 + int (n mod 10)"
      by (metis div_mult_mod_eq of_nat_add of_nat_mult of_nat_numeral)
    with False 1 show ?thesis
      by (simp add: digits_of_nat.simps [of n] int_of_digits_append)
  qed
qed

lemma str_of_int_inj: "str_of_int m = str_of_int n \<longleftrightarrow> m = n"
proof
  assume eq: "str_of_int m = str_of_int n"
  have minus: "CHR ''-'' \<notin> set (digits_of_nat k)" for k
    using digits_of_nat_ascii by fastforce
  have digits: "j = k" if "digits_of_nat j = digits_of_nat k" for j k
    using arg_cong [OF that, of int_of_digits] by simp
  have sign: "m < 0 \<longleftrightarrow> n < 0"
    using eq minus [of "nat m"] minus [of "nat n"]
    by (auto simp: str_of_int_def split: if_splits) (metis list.set_intros(1))+
  show "m = n"
    using eq sign digits [of "nat m" "nat n"] digits [of "nat (- m)" "nat (- n)"]
    by (auto simp: str_of_int_def split: if_splits)
qed simp

lemma split_at_dot:
  assumes "x @ CHR ''.'' # p = x' @ CHR ''.'' # p'" and "CHR ''.'' \<notin> set x" and "CHR ''.'' \<notin> set x'"
  shows "x = x' \<and> p = p'"
proof -
  have "takeWhile (\<lambda>c. c \<noteq> CHR ''.'') (z @ CHR ''.'' # q) = z" if "CHR ''.'' \<notin> set z" for z q
    using that by (induction z) auto
  with assms have "x = x'" by metis
  with assms(1) show ?thesis by simp
qed

text \<open>
  (C37) What the two schemes sign determines the message: the legacy
  content its timestamp and payload, and the standard content, for event identifiers without a
  dot, the identifier, the timestamp and the payload.  A signature of one message is therefore
  never that of another message with the same signed bytes.
\<close>


theorem signed_content_unambiguous:
  "(signed_legacy t p = signed_legacy t' p' \<longleftrightarrow> t = t' \<and> p = p')
   \<and> (CHR ''.'' \<notin> set i \<and> CHR ''.'' \<notin> set i' \<longrightarrow>
        (signed_standard i t p = signed_standard i' t' p' \<longleftrightarrow> i = i' \<and> t = t' \<and> p = p'))"
proof -
  have l: "signed_legacy t p = signed_legacy t' p' \<Longrightarrow> t = t' \<and> p = p'" for t t' p p'
    using split_at_dot [of "str_of_int t" p "str_of_int t'" p'] str_of_int_no_dot str_of_int_inj
    by (auto simp: signed_legacy_def)
  have "i = i' \<and> t = t' \<and> p = p'"
    if "CHR ''.'' \<notin> set i" "CHR ''.'' \<notin> set i'" "signed_standard i t p = signed_standard i' t' p'"
    using split_at_dot [of i "str_of_int t @ ''.'' @ p" i' "str_of_int t' @ ''.'' @ p'"] that
      l [of t p t' p'] by (simp add: signed_standard_def signed_legacy_def)
  with l show ?thesis by blast
qed

theorem signed_content_unambiguous_witness:
  "signed_standard ''a'' 1 ''x'' \<noteq> signed_standard ''a'' 2 ''x''"
  using signed_content_unambiguous [of 1 "''x''" 2 "''x''" "''a''" "''a''"] by simp

end
