(* ===== verification/Delivery_Service.thy ===== *)
theory Delivery_Service
  imports Fair_Selection Retry_Policy Webhook_Security
begin

text \<open>
  \<^verbatim>\<open>app/services/delivery_service.py\<close>: claiming due deliveries under a lease, renewing and releasing
  leases, performing an HTTP attempt, and recording its outcome.  Each operation is one transaction
  of the source, with the clock reading, the fresh lease tokens and the outcome of the network as
  arguments.
\<close>

subsection \<open>Claims\<close>

record claimed_delivery =
  cd_id :: int
  cd_public_id :: string
  cd_organization_id :: int
  cd_endpoint_id :: int
  cd_lease_token :: string
  cd_attempt_number :: int
  cd_endpoint_public_id :: string
  cd_endpoint_url :: string
  cd_endpoint_secret_version :: int
  cd_endpoint_active :: bool
  cd_event_public_id :: string
  cd_event_type :: string
  cd_canonical_envelope :: bytes
  cd_signature_scheme :: signature_scheme
  cd_envelope_mode :: envelope_mode
  cd_traceparent :: "string option"
  cd_tracestate :: "string option"
  cd_created_at :: datetime

record attempt_result =
  ar_succeeded :: bool
  ar_retryable :: bool
  ar_status_code :: "int option"
  ar_error :: "string option"
  ar_response_body :: "string option"
  ar_retry_after_seconds :: "rat option"

definition find_delivery :: "int \<Rightarrow> db \<Rightarrow> delivery option" where
  "find_delivery i s = List.find (\<lambda>d. dl_id d = i) (db_deliveries s)"

definition put_delivery :: "delivery \<Rightarrow> db \<Rightarrow> db" where
  "put_delivery d s = s\<lparr>db_deliveries :=
     update_where (\<lambda>r. dl_id r = dl_id d) (\<lambda>_. d) (db_deliveries s)\<rparr>"

definition find_event :: "int \<Rightarrow> db \<Rightarrow> event option" where
  "find_event i s = List.find (\<lambda>e. ev_id e = i) (db_events s)"

text \<open>The assignments to a claimed row.\<close>

definition claim_row :: "settings \<Rightarrow> datetime \<Rightarrow> string \<Rightarrow> delivery \<Rightarrow> delivery" where
  "claim_row cfg now token d = d\<lparr>
     dl_status := Processing,
     dl_attempt_count := dl_attempt_count d + 1,
     dl_lease_token := Some token,
     dl_lease_expires_at := Some (now + seconds (worker_lease_seconds cfg)),
     dl_updated_at := now\<rparr>"

text \<open>
  The \<^verbatim>\<open>ClaimedDelivery\<close> of a claimed row.  A missing event has no attributes, and
  \<^verbatim>\<open>bytes(None)\<close>, for a purged envelope, is a TypeError.
\<close>

definition claim_of :: "string \<Rightarrow> delivery \<Rightarrow> db \<Rightarrow> claimed_delivery result" where
  "claim_of token d s =
     (case find_event (dl_event_id d) s of
        None \<Rightarrow> Inl (AttributeError ''public_id'')
      | Some ev \<Rightarrow>
          bindr (some_or (TypeError ''canonical_envelope'') (ev_canonical_envelope ev)) (\<lambda>envelope.
          Inr \<lparr>cd_id = dl_id d,
               cd_public_id = dl_public_id d,
               cd_organization_id = dl_organization_id d,
               cd_endpoint_id = dl_endpoint_id d,
               cd_lease_token = token,
               cd_attempt_number = dl_attempt_count d,
               cd_endpoint_public_id = dl_endpoint_public_id_snapshot d,
               cd_endpoint_url = dl_endpoint_url_snapshot d,
               cd_endpoint_secret_version = dl_signing_secret_version_snapshot d,
               cd_endpoint_active = dl_endpoint_active_snapshot d,
               cd_event_public_id = ev_public_id ev,
               cd_event_type = ev_event_type ev,
               cd_canonical_envelope = envelope,
               cd_signature_scheme = dl_signature_scheme_snapshot d,
               cd_envelope_mode = ev_envelope_mode ev,
               cd_traceparent = ev_traceparent ev,
               cd_tracestate = ev_tracestate ev,
               cd_created_at = dl_created_at d\<rparr>))"

text \<open>The loop over the selected rows; \<open>tokens\<close> are the values \<^verbatim>\<open>uuid4\<close> returns, in order.\<close>

fun claim_rows ::
  "settings \<Rightarrow> datetime \<Rightarrow> (nat \<Rightarrow> string) \<Rightarrow> nat \<Rightarrow> delivery list \<Rightarrow> db
   \<Rightarrow> (claimed_delivery list \<times> db) result" where
  "claim_rows cfg now tokens i [] s = Inr ([], s)"
| "claim_rows cfg now tokens i (d # ds) s =
     (let d' = claim_row cfg now (tokens i) d
      in bindr (claim_of (tokens i) d' s) (\<lambda>c.
         bindr (claim_rows cfg now tokens (Suc i) ds (put_delivery d' s)) (\<lambda>(cs, s').
         Inr (c # cs, s'))))"

definition claim_due ::
  "settings \<Rightarrow> datetime \<Rightarrow> (nat \<Rightarrow> string) \<Rightarrow> int \<Rightarrow> (int \<Rightarrow> bool) \<Rightarrow> db \<Rightarrow> db
   \<Rightarrow> (claimed_delivery list \<times> db) result" where
  "claim_due cfg now tokens limit skip scan s =
     (if limit \<le> 0 then Inr ([], s)
      else bindr (select_fair_deliveries cfg now limit skip scan s) (\<lambda>(ds, s1).
           claim_rows cfg now tokens 0 ds s1))"

subsection \<open>Leases\<close>

text \<open>The row a claim still owns: \<^verbatim>\<open>processing\<close> under its token; \<open>leased\<close> adds the live lease.\<close>

definition owned :: "claimed_delivery \<Rightarrow> delivery \<Rightarrow> bool" where
  "owned claim d \<longleftrightarrow> dl_id d = cd_id claim \<and> dl_status d = Processing
     \<and> dl_lease_token d = Some (cd_lease_token claim)"

definition leased :: "claimed_delivery \<Rightarrow> datetime \<Rightarrow> delivery \<Rightarrow> bool" where
  "leased claim now d \<longleftrightarrow> owned claim d \<and> opt_gt (dl_lease_expires_at d) now"

definition renew_lease :: "settings \<Rightarrow> datetime \<Rightarrow> claimed_delivery \<Rightarrow> db \<Rightarrow> bool \<times> db" where
  "renew_lease cfg now claim s =
     (case List.find (leased claim now) (db_deliveries s) of
        None \<Rightarrow> (False, s)
      | Some d \<Rightarrow> (True, put_delivery (d\<lparr>
          dl_lease_expires_at := Some (now + seconds (worker_lease_seconds cfg)),
          dl_updated_at := now\<rparr>) s))"

definition release_claim :: "datetime \<Rightarrow> claimed_delivery \<Rightarrow> db \<Rightarrow> bool \<times> db" where
  "release_claim now claim s =
     (case List.find (owned claim) (db_deliveries s) of
        None \<Rightarrow> (False, s)
      | Some d \<Rightarrow> (True, put_delivery (d\<lparr>
          dl_status := Retry_scheduled,
          dl_next_attempt_at := now,
          dl_lease_token := None,
          dl_lease_expires_at := None,
          dl_updated_at := now\<rparr>) s))"

subsection \<open>The HTTP attempt\<close>

text \<open>
  The exceptions an attempt may meet, by the clause of the \<^verbatim>\<open>try\<close> statement that handles them, with
  the type name where the code records it; \<open>Escaping\<close> is any exception no clause handles.
\<close>

datatype attempt_exn =
    Attempt_timeout
  | Proxy_error
  | Httpx_error string
  | Unsafe_url deny_reason
  | Type_or_value_error string
  | Escaping string

record http_request =
  rq_url :: string
  rq_content :: bytes
  rq_headers :: "(string \<times> string) list"

text \<open>
  The response: its status, its \<^verbatim>\<open>Retry-After\<close> header, the chunks of the body, and the exception
  that ends the body, if one does.
\<close>

datatype http_event =
    Http_raise attempt_exn
  | Http_response int "string option" "bytes list" "attempt_exn option"

text \<open>
  The environment of an attempt: the two readings of the clock, the time of the signature, an
  exception raised while the URL is checked (the attempt's deadline may pass there), the HTTP
  client, and the library functions the attempt calls.
\<close>

record attempt_env =
  en_started :: datetime
  en_received :: datetime
  en_timestamp :: int
  en_interrupt :: "attempt_exn option"
  en_client :: "http_request \<Rightarrow> http_event"
  en_urlsplit :: "string \<Rightarrow> split_url option"
  en_parse_ip :: "string \<Rightarrow> ip_address option"
  en_getaddrinfo :: "string \<Rightarrow> int \<Rightarrow> string list option"
  en_parsedate :: "string \<Rightarrow> datetime option"
  en_decode :: "bytes \<Rightarrow> string"

fun read_body :: "int \<Rightarrow> bytes list \<Rightarrow> attempt_exn option \<Rightarrow> bytes \<times> attempt_exn option" where
  "read_body remaining [] end_exn = ([], end_exn)"
| "read_body remaining (chunk # chunks) end_exn =
     (if remaining \<le> 0 then ([], None)
      else let captured = take (nat remaining) chunk;
               (rest, e) = read_body (remaining - int (length captured)) chunks end_exn
           in (captured @ rest, e))"

definition sign_attempt :: "settings \<Rightarrow> claimed_delivery \<Rightarrow> int \<Rightarrow> (int \<times> string) result" where
  "sign_attempt cfg claim now_s =
     (if cd_signature_scheme claim = Standard
      then sign_payload_standard (cd_event_public_id claim) (cd_canonical_envelope claim)
             (endpoint_secret_digest (webhook_signing_key cfg) (cd_endpoint_public_id claim)
               (cd_endpoint_secret_version claim)) now_s
      else Inr (sign_payload (cd_canonical_envelope claim)
             (endpoint_secret (webhook_signing_key cfg) (cd_endpoint_public_id claim)
               (cd_endpoint_secret_version claim)) now_s))"

definition attempt_request :: "claimed_delivery \<Rightarrow> int \<Rightarrow> string \<Rightarrow> http_request" where
  "attempt_request claim timestamp signature =
     \<lparr>rq_url = cd_endpoint_url claim,
      rq_content = cd_canonical_envelope claim,
      rq_headers =
        [(''Content-Type'', if cd_envelope_mode claim = Cloudevents
            then ''application/cloudevents+json'' else ''application/json''),
         (''User-Agent'', ''webhook-platform/1.0''),
         (''Webhook-Id'', cd_event_public_id claim),
         (''Webhook-Timestamp'', str_of_int timestamp),
         (''Webhook-Signature'', signature),
         (''Webhook-Event'', cd_event_type claim),
         (''Webhook-Attempt'', str_of_int (cd_attempt_number claim))]\<rparr>"

text \<open>What an \<^verbatim>\<open>except\<close> clause records; an exception without a clause leaves the method.\<close>

definition handle_exn ::
  "attempt_exn \<Rightarrow> int option \<Rightarrow> rat option \<Rightarrow> string + attempt_result" where
  "handle_exn e status retry_after =
     (let result = (\<lambda>retryable err.
        \<lparr>ar_succeeded = (case status of None \<Rightarrow> False | Some n \<Rightarrow> 200 \<le> n \<and> n < 300),
         ar_retryable = retryable, ar_status_code = status, ar_error = Some err,
         ar_response_body = None, ar_retry_after_seconds = retry_after\<rparr>)
      in case e of
           Attempt_timeout \<Rightarrow> Inr (result True ''attempt_timeout'')
         | Proxy_error \<Rightarrow> Inr (result False ''egress_proxy_denied'')
         | Httpx_error name \<Rightarrow> Inr (result True name)
         | Unsafe_url r \<Rightarrow> Inr (result False (''unsafe_webhook_url:'' @ deny_value r))
         | Type_or_value_error name \<Rightarrow> Inr (result False name)
         | Escaping name \<Rightarrow> Inl name)"

definition attempt_send :: "settings \<Rightarrow> attempt_env \<Rightarrow> claimed_delivery \<Rightarrow> string + attempt_result" where
  "attempt_send cfg env claim =
     (case en_interrupt env of
        Some e \<Rightarrow> handle_exn e None None
      | None \<Rightarrow>
      case validate_webhook_url (en_urlsplit env) (en_parse_ip env) (en_getaddrinfo env)
             (cd_endpoint_url claim) (allow_http_webhooks cfg = Some True)
             (allow_private_webhooks cfg) of
        Inl (UnsafeWebhookUrl msg r) \<Rightarrow> handle_exn (Unsafe_url r) None None
      | Inl Url_ValueError \<Rightarrow> handle_exn (Type_or_value_error ''ValueError'') None None
      | Inr _ \<Rightarrow>
      case sign_attempt cfg claim (en_timestamp env) of
        Inl _ \<Rightarrow> handle_exn (Type_or_value_error ''UnicodeEncodeError'') None None
      | Inr (timestamp, signature) \<Rightarrow>
      case en_client env (attempt_request claim timestamp signature) of
        Http_raise e \<Rightarrow> handle_exn e None None
      | Http_response status header chunks end_exn \<Rightarrow>
          (let retry_after = parse_retry_after (en_parsedate env) header (en_received env)
                               (webhook_retry_after_max_seconds cfg);
               (body, e) = read_body (webhook_response_max_bytes cfg) chunks end_exn
           in case e of
                Some exn \<Rightarrow> handle_exn exn (Some status) retry_after
              | None \<Rightarrow>
                  (let retryable = is_retryable_status (Some status)
                   in Inr \<lparr>ar_succeeded = (200 \<le> status \<and> status < 300),
                           ar_retryable = retryable,
                           ar_status_code = Some status,
                           ar_error = (if 200 \<le> status \<and> status < 300 then None
                             else Some (if retryable then ''retryable_http_status'' else ''http_status'')),
                           ar_response_body = Some (en_decode env body),
                           ar_retry_after_seconds = retry_after\<rparr>)))"

definition perform_attempt :: "settings \<Rightarrow> attempt_env \<Rightarrow> claimed_delivery \<Rightarrow> string + attempt_result" where
  "perform_attempt cfg env claim =
     (let failed = (\<lambda>err. Inr \<lparr>ar_succeeded = False, ar_retryable = False, ar_status_code = None,
                                ar_error = Some err, ar_response_body = None,
                                ar_retry_after_seconds = None\<rparr>);
          age = total_seconds (en_started env - cd_created_at claim)
      in if age \<ge> of_int (webhook_max_delivery_age_seconds cfg) then failed ''max_delivery_age''
         else if \<not> cd_endpoint_active claim then failed ''endpoint_inactive_at_acceptance''
         else attempt_send cfg env claim)"

subsection \<open>Finalization\<close>

text \<open>The endpoint's retry budget and circuit breaker after an attempt.\<close>

definition finalize_endpoint ::
  "settings \<Rightarrow> datetime \<Rightarrow> int \<Rightarrow> attempt_result \<Rightarrow> endpoint_quota_state \<Rightarrow> endpoint_quota_state" where
  "finalize_endpoint cfg finished delivery_id res q =
     (let is_probe = (eq_half_open_probe_delivery_id q = Some delivery_id);
          aged = (ar_error res = Some ''max_delivery_age'');
          q1 =
            (if ar_succeeded res then
               q\<lparr>eq_retry_tokens := min (of_int (endpoint_retry_burst cfg))
                    (eq_retry_tokens q + of_int (endpoint_retry_success_refill cfg)),
                 eq_retry_refilled_at := finished,
                 eq_circuit_state := Closed,
                 eq_consecutive_failures := 0,
                 eq_circuit_open_until := None,
                 eq_half_open_probe_delivery_id := None\<rparr>
             else if ar_retryable res then
               (let q0 = q\<lparr>eq_consecutive_failures := eq_consecutive_failures q + 1\<rparr>
                in if is_probe \<or> eq_circuit_state q0 = Closed
                      \<and> eq_consecutive_failures q0 \<ge> endpoint_circuit_failure_threshold cfg
                   then q0\<lparr>eq_circuit_state := Open,
                           eq_circuit_open_until :=
                             Some (finished + seconds (endpoint_circuit_open_seconds cfg)),
                           eq_half_open_probe_delivery_id := None\<rparr>
                   else q0)
             else if is_probe \<and> aged then
               q\<lparr>eq_circuit_state := Open,
                 eq_circuit_open_until := Some finished,
                 eq_half_open_probe_delivery_id := None\<rparr>
             else if is_probe \<or> \<not> aged then
               q\<lparr>eq_circuit_state := Closed,
                 eq_consecutive_failures := 0,
                 eq_circuit_open_until := None,
                 eq_half_open_probe_delivery_id := None\<rparr>
             else q)
      in q1\<lparr>eq_updated_at := finished\<rparr>)"

definition retry_delay :: "settings \<Rightarrow> rat \<Rightarrow> int \<Rightarrow> attempt_result \<Rightarrow> rat" where
  "retry_delay cfg r attempt_number res =
     max (jittered_backoff r attempt_number (webhook_backoff_base_seconds cfg)
            (webhook_backoff_cap_seconds cfg))
         (case ar_retry_after_seconds res of None \<Rightarrow> 0 | Some x \<Rightarrow> x)"

definition dead_reason :: "settings \<Rightarrow> bool \<Rightarrow> int \<Rightarrow> attempt_result \<Rightarrow> string" where
  "dead_reason cfg age_expired attempt_number res =
     (if age_expired \<or> ar_error res = Some ''max_delivery_age'' then ''max_delivery_age''
      else if ar_retryable res \<and> attempt_number \<ge> webhook_max_attempts cfg then ''max_attempts''
      else if (case ar_status_code res of None \<Rightarrow> False | Some n \<Rightarrow> 400 \<le> n \<and> n < 500)
      then ''non_retryable_http''
      else if truthy (ar_error res) then the (ar_error res) else ''non_retryable_failure'')"

definition finalize_row ::
  "settings \<Rightarrow> datetime \<Rightarrow> rat \<Rightarrow> int \<Rightarrow> attempt_result \<Rightarrow> delivery \<Rightarrow> delivery" where
  "finalize_row cfg finished r attempt_number res d =
     (let deadline = dl_created_at d + seconds (webhook_max_delivery_age_seconds cfg);
          age_expired = (finished \<ge> deadline);
          next_attempt = finished + seconds_float (retry_delay cfg r attempt_number res);
          dead = (\<lambda>reason. d\<lparr>dl_status := Dead, dl_next_attempt_at := finished,
                     dl_dead_at := Some finished, dl_dead_reason := Some reason\<rparr>);
          d1 =
            (if ar_succeeded res then
               d\<lparr>dl_status := Succeeded, dl_succeeded_at := Some finished,
                 dl_next_attempt_at := finished, dl_dead_at := None, dl_dead_reason := None\<rparr>
             else if ar_retryable res \<and> attempt_number < webhook_max_attempts cfg \<and> \<not> age_expired
             then (if next_attempt < deadline
                   then d\<lparr>dl_status := Retry_scheduled, dl_next_attempt_at := next_attempt,
                          dl_dead_at := None, dl_dead_reason := None\<rparr>
                   else dead ''max_delivery_age'')
             else dead (take 64 (dead_reason cfg age_expired attempt_number res)))
      in d1\<lparr>dl_last_http_status := ar_status_code res, dl_last_error := ar_error res,
            dl_lease_token := None, dl_lease_expires_at := None, dl_updated_at := finished\<rparr>)"

primrec status_value :: "delivery_status \<Rightarrow> string" where
  "status_value Pending = ''pending''"
| "status_value Processing = ''processing''"
| "status_value Retry_scheduled = ''retry_scheduled''"
| "status_value Succeeded = ''succeeded''"
| "status_value Dead = ''dead''"
| "status_value Canceled = ''canceled''"

text \<open>
  The inserted attempt.  The table is unique on the delivery and the attempt number, and
  PostgreSQL refuses a text value with a NUL character.
\<close>

definition insert_attempt ::
  "dialect \<Rightarrow> int \<Rightarrow> int \<Rightarrow> datetime \<Rightarrow> datetime \<Rightarrow> string \<Rightarrow> attempt_result \<Rightarrow> db \<Rightarrow> db result" where
  "insert_attempt dia delivery_id attempt_number started finished outcome res s =
     (if dia = Postgresql \<and> (case ar_response_body res of None \<Rightarrow> False | Some b \<Rightarrow> CHR 0x00 \<in> set b)
      then Inl (DataError ''invalid byte sequence for encoding UTF8: 0x00'')
      else if list_ex (\<lambda>a. at_delivery_id a = delivery_id \<and> at_attempt_number a = attempt_number)
                (db_attempts s)
      then Inl (IntegrityError ''uq_attempts_delivery_number'')
      else Inr (bump_seq T_attempts 1 (s\<lparr>db_attempts := db_attempts s @
        [\<lparr>at_id = db_seq s T_attempts, at_delivery_id = delivery_id,
          at_attempt_number = attempt_number, at_started_at = started, at_finished_at = finished,
          at_outcome = outcome, at_http_status = ar_status_code res, at_error = ar_error res,
          at_response_body = ar_response_body res, at_response_purged_at = None\<rparr>]\<rparr>)))"

definition finalize ::
  "settings \<Rightarrow> dialect \<Rightarrow> datetime \<Rightarrow> rat \<Rightarrow> claimed_delivery \<Rightarrow> datetime \<Rightarrow> attempt_result \<Rightarrow> db
   \<Rightarrow> (bool \<times> db) result" where
  "finalize cfg dia finished r claim started res s =
     (case List.find (leased claim finished) (db_deliveries s) of
        None \<Rightarrow> Inr (False, s)
      | Some d \<Rightarrow>
          (case find_endpoint_quota (dl_endpoint_id d) s of
             None \<Rightarrow> Inl (RuntimeError ''Endpoint retry state is unavailable'')
           | Some q \<Rightarrow>
               (let d' = finalize_row cfg finished r (cd_attempt_number claim) res d
                in bindr (insert_attempt dia (dl_id d) (cd_attempt_number claim) started finished
                       (status_value (dl_status d')) res
                       (put_delivery d' (put_endpoint_quota
                          (finalize_endpoint cfg finished (dl_id d) res q) s)))
                     (\<lambda>s'. Inr (True, s')))))"

end
