(* ===== verification/Delivery_Safety.thy ===== *)
theory Delivery_Safety
  imports Delivery_Service
begin

text \<open>
  The properties of \<^verbatim>\<open>app/services/delivery_service.py\<close>: what a claim takes and leases, that only the
  holder of a live lease can renew it or record an outcome, the outcome table with its retry
  budget, and the transitions of the circuit breaker.
\<close>

subsection \<open>Reading rows after a transaction\<close>

lemma put_delivery_frame [simp, frame_simps]:
  "db_events (put_delivery d s) = db_events s"
  "db_attempts (put_delivery d s) = db_attempts s"
  "db_endpoint_quotas (put_delivery d s) = db_endpoint_quotas s"
  "db_seq (put_delivery d s) = db_seq s"
  by (simp_all add: put_delivery_def)

lemma find_delivery_put:
  "find_delivery i (put_delivery d s) =
    (if i = dl_id d then map_option (\<lambda>_. d) (find_delivery i s) else find_delivery i s)"
  by (simp add: find_delivery_def put_delivery_def find_key_put)

lemma distinct_put_delivery [simp]:
  "distinct (map dl_id (db_deliveries (put_delivery d s))) = distinct (map dl_id (db_deliveries s))"
proof -
  have "map dl_id (db_deliveries (put_delivery d s)) = map dl_id (db_deliveries s)"
    by (simp add: put_delivery_def update_where_def comp_def cong: map_cong)
  then show ?thesis by simp
qed

lemma find_delivery_iff:
  "distinct (map dl_id (db_deliveries s)) \<Longrightarrow>
   find_delivery i s = Some d \<longleftrightarrow> d \<in> set (db_deliveries s) \<and> dl_id d = i"
  unfolding find_delivery_def by (rule find_key_iff)

lemma find_leased:
  assumes "distinct (map dl_id (db_deliveries s))"
  shows "List.find (leased claim now) (db_deliveries s) =
    (case find_delivery (cd_id claim) s of
       None \<Rightarrow> None | Some d \<Rightarrow> if leased claim now d then Some d else None)"
proof (cases "List.find (leased claim now) (db_deliveries s)")
  case None
  then show ?thesis
    by (auto simp: find_None_set find_delivery_def split: option.splits dest!: find_Some_set)
next
  case (Some d)
  then have "d \<in> set (db_deliveries s)" "leased claim now d" using find_Some_set [OF Some] by auto
  then have "find_delivery (cd_id claim) s = Some d"
    using find_delivery_iff [OF assms] by (simp add: leased_def owned_def)
  with Some \<open>leased claim now d\<close> show ?thesis by simp
qed

lemma claim_row_simps [simp]:
  "dl_id (claim_row cfg now token d) = dl_id d"
  "dl_status (claim_row cfg now token d) = Processing"
  "dl_lease_token (claim_row cfg now token d) = Some token"
  "dl_lease_expires_at (claim_row cfg now token d) = Some (now + seconds (worker_lease_seconds cfg))"
  "dl_attempt_count (claim_row cfg now token d) = dl_attempt_count d + 1"
  "dl_endpoint_id (claim_row cfg now token d) = dl_endpoint_id d"
  "dl_organization_id (claim_row cfg now token d) = dl_organization_id d"
  "dl_event_id (claim_row cfg now token d) = dl_event_id d"
  "dl_created_at (claim_row cfg now token d) = dl_created_at d"
  "dl_next_attempt_at (claim_row cfg now token d) = dl_next_attempt_at d"
  by (simp_all add: claim_row_def)

lemma claim_of_InrD:
  "claim_of token d s = Inr c \<Longrightarrow>
   cd_id c = dl_id d \<and> cd_lease_token c = token \<and> cd_attempt_number c = dl_attempt_count d
   \<and> cd_endpoint_id c = dl_endpoint_id d \<and> cd_organization_id c = dl_organization_id d
   \<and> cd_endpoint_url c = dl_endpoint_url_snapshot d
   \<and> cd_endpoint_secret_version c = dl_signing_secret_version_snapshot d
   \<and> cd_created_at c = dl_created_at d
   \<and> (\<exists>ev. find_event (dl_event_id d) s = Some ev
        \<and> ev_canonical_envelope ev = Some (cd_canonical_envelope c)
        \<and> cd_event_public_id c = ev_public_id ev)"
  by (auto simp: claim_of_def some_or_def split: option.splits)

subsection \<open>Claiming\<close>

text \<open>The rows a loop over the selection writes: the \<open>k\<close>-th selected row under the \<open>k\<close>-th token.\<close>

lemma claim_rows_spec:
  assumes "claim_rows cfg now tokens i ds s = Inr (cs, s')" and "distinct (map dl_id ds)"
    and "\<And>d. d \<in> set ds \<Longrightarrow> find_delivery (dl_id d) s \<noteq> None"
  shows "length cs = length ds
    \<and> (\<forall>k < length ds. cd_id (cs ! k) = dl_id (ds ! k) \<and> cd_lease_token (cs ! k) = tokens (i + k)
         \<and> cd_attempt_number (cs ! k) = dl_attempt_count (ds ! k) + 1
         \<and> find_delivery (dl_id (ds ! k)) s' = Some (claim_row cfg now (tokens (i + k)) (ds ! k)))
    \<and> (\<forall>j. j \<notin> dl_id ` set ds \<longrightarrow> find_delivery j s' = find_delivery j s)
    \<and> map dl_id (db_deliveries s') = map dl_id (db_deliveries s)
    \<and> db_attempts s' = db_attempts s \<and> db_events s' = db_events s
    \<and> db_endpoint_quotas s' = db_endpoint_quotas s"
  using assms
proof (induction ds arbitrary: i s cs)
  case Nil
  then show ?case by simp
next
  case (Cons d ds)
  let ?d = "claim_row cfg now (tokens i) d"
  from Cons.prems(1) obtain c cs1 where c: "claim_of (tokens i) ?d s = Inr c"
    and r: "claim_rows cfg now tokens (Suc i) ds (put_delivery ?d s) = Inr (cs1, s')"
    and cs: "cs = c # cs1"
    by (auto simp: Let_def bindr_Inr_iff)
  have f: "find_delivery (dl_id e) (put_delivery ?d s) \<noteq> None" if "e \<in> set ds" for e
    using Cons.prems(3) [of e] that by (auto simp: find_delivery_put)
  have ids: "map dl_id (db_deliveries (put_delivery ?d s)) = map dl_id (db_deliveries s)"
    by (simp add: put_delivery_def update_where_def comp_def cong: map_cong)
  note IH = Cons.IH [OF r _ f] and c' = claim_of_InrD [OF c]
  have d: "find_delivery (dl_id d) s' = Some ?d"
    using IH Cons.prems(2,3) by (auto simp: find_delivery_put)
  have "cd_id (cs ! k) = dl_id ((d # ds) ! k) \<and> cd_lease_token (cs ! k) = tokens (i + k)
      \<and> cd_attempt_number (cs ! k) = dl_attempt_count ((d # ds) ! k) + 1
      \<and> find_delivery (dl_id ((d # ds) ! k)) s' = Some (claim_row cfg now (tokens (i + k)) ((d # ds) ! k))"
    if "k < length (d # ds)" for k
    using that IH Cons.prems(2) d c' by (cases k) (auto simp: cs)
  moreover have "find_delivery j s' = find_delivery j s" if "j \<notin> dl_id ` set (d # ds)" for j
    using that IH Cons.prems(2) by (auto simp: find_delivery_put)
  ultimately show ?case using IH Cons.prems(2) ids by (auto simp: cs)
qed

lemma claim_due_rows:
  assumes "distinct (map dl_id (db_deliveries s))"
    and "claim_due cfg now tokens limit skip s s = Inr (cs, s')"
  obtains (idle) "cs = []" "s' = s"
  | (claimed) ds s1 where
      "select_fair_deliveries cfg now limit skip s s = Inr (ds, s1)"
      "claim_rows cfg now tokens 0 ds s1 = Inr (cs, s')"
      "0 < limit" "distinct (map dl_id ds)" "db_deliveries s1 = db_deliveries s"
      "\<And>d. d \<in> set ds \<Longrightarrow> d \<in> set (db_deliveries s) \<and> is_due now d \<and> \<not> skip (dl_id d)"
proof (cases "limit \<le> 0")
  case True
  with assms(2) idle show thesis by (simp add: claim_due_def)
next
  case False
  with assms(2) obtain ds s1 where
    sel: "select_fair_deliveries cfg now limit skip s s = Inr (ds, s1)"
    and cl: "claim_rows cfg now tokens 0 ds s1 = Inr (cs, s')"
    by (auto simp: claim_due_def bindr_Inr_iff)
  with claimed False selected_rows [OF assms(1) sel] show thesis by auto
qed



subsection \<open>Ownership\<close>

lemma renew_lease_eq:
  assumes "distinct (map dl_id (db_deliveries s))"
  shows "renew_lease cfg now claim s =
    (case find_delivery (cd_id claim) s of
       None \<Rightarrow> (False, s)
     | Some d \<Rightarrow>
         if leased claim now d
         then (True, put_delivery (d\<lparr>dl_lease_expires_at := Some (now + seconds (worker_lease_seconds cfg)),
                dl_updated_at := now\<rparr>) s)
         else (False, s))"
  unfolding renew_lease_def find_leased [OF assms] by (auto split: option.splits)

text \<open>A claim, the leased row it owns and the result of an attempt that timed out.\<close>

definition sample_claim :: claimed_delivery where
  "sample_claim = \<lparr>cd_id = 1, cd_public_id = ''d'', cd_organization_id = 1, cd_endpoint_id = 1,
     cd_lease_token = ''t'', cd_attempt_number = 1, cd_endpoint_public_id = ''e'', cd_endpoint_url = ''u'',
     cd_endpoint_secret_version = 1, cd_endpoint_active = True, cd_event_public_id = ''v'',
     cd_event_type = ''t'', cd_canonical_envelope = ''b'', cd_signature_scheme = Legacy,
     cd_envelope_mode = Native, cd_traceparent = None, cd_tracestate = None, cd_created_at = 0\<rparr>"

definition sample_leased_db :: db where
  "sample_leased_db = empty_db\<lparr>
     db_events := [sample_event],
     db_deliveries := [(sample_delivery 1 1 1 Processing 1 0)\<lparr>dl_lease_token := Some ''t'',
       dl_lease_expires_at := Some 100\<rparr>],
     db_endpoint_quotas := [sample_endpoint_quota 1 5 5 Closed]\<rparr>"

definition sample_timeout :: attempt_result where
  "sample_timeout = \<lparr>ar_succeeded = False, ar_retryable = True, ar_status_code = None,
     ar_error = Some ''attempt_timeout'', ar_response_body = None, ar_retry_after_seconds = None\<rparr>"

definition sample_env :: attempt_env where
  "sample_env = \<lparr>en_started = 0, en_received = 0, en_timestamp = 0, en_interrupt = Some Attempt_timeout,
     en_client = (\<lambda>_. Http_raise Attempt_timeout), en_urlsplit = (\<lambda>_. None), en_parse_ip = (\<lambda>_. None),
     en_getaddrinfo = (\<lambda>_ _. None), en_parsedate = (\<lambda>_. None), en_decode = (\<lambda>b. b)\<rparr>"

lemma sample_leased_distinct: "distinct (map dl_id (db_deliveries sample_leased_db))"
  by (simp add: sample_leased_db_def)

lemma sample_attempt: "perform_attempt default_settings sample_env sample_claim = Inr sample_timeout"
  by (simp add: perform_attempt_def attempt_send_def handle_exn_def sample_env_def sample_claim_def
      sample_timeout_def default_settings_def)

text \<open>
  (C11) A worker that has lost its lease records nothing: if the row is gone, no longer
  \<open>processing\<close>, leased under another token, or its lease has run out, finalization reports that and
  leaves the database as it is.
\<close>

theorem finalize_stale:
  assumes "distinct (map dl_id (db_deliveries s))"
    and "\<forall>d. find_delivery (cd_id claim) s = Some d \<longrightarrow>
      dl_status d \<noteq> Processing \<or> dl_lease_token d \<noteq> Some (cd_lease_token claim)
      \<or> \<not> opt_gt (dl_lease_expires_at d) finished"
  shows "finalize cfg dia finished r claim started res s = Inr (False, s)"
proof -
  have "List.find (leased claim finished) (db_deliveries s) = None"
    using assms(2) by (auto simp: find_leased [OF assms(1)] leased_def owned_def split: option.splits)
  then show ?thesis by (simp add: finalize_def)
qed

theorem finalize_stale_witness:
  "finalize default_settings Postgresql 100 0 sample_claim 5 sample_timeout sample_leased_db
     = Inr (False, sample_leased_db)"
proof (rule finalize_stale [OF sample_leased_distinct])
  show "\<forall>d. find_delivery (cd_id sample_claim) sample_leased_db = Some d \<longrightarrow>
      dl_status d \<noteq> Processing \<or> dl_lease_token d \<noteq> Some (cd_lease_token sample_claim)
      \<or> \<not> opt_gt (dl_lease_expires_at d) 100"
    by (simp add: find_delivery_def sample_leased_db_def sample_claim_def)
qed

subsection \<open>The outcome of an attempt\<close>

lemma insert_attempt_InrD:
  assumes "insert_attempt dia i n started finished outcome res s = Inr s'"
  shows "db_deliveries s' = db_deliveries s \<and> db_endpoint_quotas s' = db_endpoint_quotas s
    \<and> db_events s' = db_events s
    \<and> (\<exists>a. db_attempts s' = db_attempts s @ [a] \<and> at_delivery_id a = i \<and> at_attempt_number a = n
          \<and> at_outcome a = outcome \<and> at_http_status a = ar_status_code res \<and> at_error a = ar_error res
          \<and> at_finished_at a = finished)
    \<and> \<not> (\<exists>a \<in> set (db_attempts s). at_delivery_id a = i \<and> at_attempt_number a = n)"
  using assms by (auto simp: insert_attempt_def bump_seq_def list_ex_iff split: if_splits)

lemma finalize_row_simps [simp]:
  "dl_id (finalize_row cfg finished r n res d) = dl_id d"
  "dl_lease_token (finalize_row cfg finished r n res d) = None"
  "dl_lease_expires_at (finalize_row cfg finished r n res d) = None"
  "dl_attempt_count (finalize_row cfg finished r n res d) = dl_attempt_count d"
  "dl_created_at (finalize_row cfg finished r n res d) = dl_created_at d"
  "dl_endpoint_id (finalize_row cfg finished r n res d) = dl_endpoint_id d"
  by (simp_all add: finalize_row_def Let_def)

lemma finalize_row_status:
  "dl_status (finalize_row cfg finished r n res d) =
    (if ar_succeeded res then Succeeded
     else if ar_retryable res \<and> n < webhook_max_attempts cfg
          \<and> finished < dl_created_at d + seconds (webhook_max_delivery_age_seconds cfg)
          \<and> finished + seconds_float (retry_delay cfg r n res)
              < dl_created_at d + seconds (webhook_max_delivery_age_seconds cfg)
     then Retry_scheduled else Dead)"
  by (simp add: finalize_row_def Let_def not_le)

lemma finalize_row_dead:
  "dl_status (finalize_row cfg finished r n res d) = Dead \<longleftrightarrow>
    (\<exists>reason. dl_dead_reason (finalize_row cfg finished r n res d) = Some reason \<and> length reason \<le> 64
       \<and> dl_dead_at (finalize_row cfg finished r n res d) = Some finished)"
  by (simp add: finalize_row_def Let_def)

lemma finalize_row_next:
  "dl_status (finalize_row cfg finished r n res d) = Retry_scheduled \<Longrightarrow>
   dl_next_attempt_at (finalize_row cfg finished r n res d)
     = finished + seconds_float (retry_delay cfg r n res)"
  by (auto simp: finalize_row_def Let_def split: if_splits)

lemma finalize_endpoint_id [simp]:
  "eq_endpoint_id (finalize_endpoint cfg finished i res q) = eq_endpoint_id q"
  by (simp add: finalize_endpoint_def Let_def)

lemma find_endpoint_quota_id: "find_endpoint_quota e s = Some q \<Longrightarrow> eq_endpoint_id q = e"
  unfolding find_endpoint_quota_def by (auto dest!: find_Some_set)

lemma finalize_cases:
  assumes "distinct (map dl_id (db_deliveries s))"
    and "finalize cfg dia finished r claim started res s = Inr (ok, s')"
  obtains (stale) "\<not> ok" "s' = s"
    "\<And>d. find_delivery (cd_id claim) s = Some d \<Longrightarrow> \<not> leased claim finished d"
  | (recorded) d q a where "ok" "find_delivery (cd_id claim) s = Some d" "leased claim finished d"
    "find_endpoint_quota (dl_endpoint_id d) s = Some q"
    "db_deliveries s' = db_deliveries (put_delivery
       (finalize_row cfg finished r (cd_attempt_number claim) res d) s)"
    "db_endpoint_quotas s' = db_endpoint_quotas (put_endpoint_quota
       (finalize_endpoint cfg finished (dl_id d) res q) s)"
    "db_events s' = db_events s"
    "db_attempts s' = db_attempts s @ [a]" "at_delivery_id a = cd_id claim"
    "at_attempt_number a = cd_attempt_number claim"
    "at_outcome a = status_value (dl_status (finalize_row cfg finished r (cd_attempt_number claim) res d))"
    "\<not> (\<exists>a \<in> set (db_attempts s). at_delivery_id a = cd_id claim
       \<and> at_attempt_number a = cd_attempt_number claim)"
proof (cases "List.find (leased claim finished) (db_deliveries s)")
  case None
  with assms stale show thesis
    by (auto simp: finalize_def find_leased [OF assms(1)] split: option.splits if_splits)
next
  case (Some d)
  then have d: "find_delivery (cd_id claim) s = Some d" "leased claim finished d"
    by (auto simp: find_leased [OF assms(1)] split: option.splits if_splits)
  then have id: "dl_id d = cd_id claim" by (simp add: leased_def owned_def)
  from assms(2) Some obtain q s1 where q: "find_endpoint_quota (dl_endpoint_id d) s = Some q" and "ok"
    and "s' = s1" and ins: "insert_attempt dia (dl_id d) (cd_attempt_number claim) started finished
      (status_value (dl_status (finalize_row cfg finished r (cd_attempt_number claim) res d))) res
      (put_delivery (finalize_row cfg finished r (cd_attempt_number claim) res d)
        (put_endpoint_quota (finalize_endpoint cfg finished (dl_id d) res q) s)) = Inr s1"
    by (auto simp: finalize_def Let_def bindr_Inr_iff split: option.splits)
  from insert_attempt_InrD [OF ins] recorded [OF \<open>ok\<close> d q] id \<open>s' = s1\<close> show thesis
    by (auto simp: put_delivery_def)
qed

text \<open>
  (C4) Recording an outcome is decided by the attempt and the retry budget alone.  A
  2xx answer makes the delivery \<open>succeeded\<close>; a retryable failure makes it \<open>retry_scheduled\<close> when
  attempts remain and the next one would start before the delivery's deadline; everything else
  makes it \<open>dead\<close> with a reason of at most 64 characters.  In each case the lease ends, exactly one
  attempt record with the claim's attempt number is appended, for which no record existed, and no
  other delivery changes.
\<close>

theorem finalize_outcome:
  assumes "distinct (map dl_id (db_deliveries s))"
    and "finalize cfg dia finished r claim started res s = Inr (True, s')"
  shows "\<exists>d d' a. find_delivery (cd_id claim) s = Some d \<and> leased claim finished d
    \<and> find_delivery (cd_id claim) s' = Some d'
    \<and> dl_status d' =
        (if ar_succeeded res then Succeeded
         else if ar_retryable res \<and> cd_attempt_number claim < webhook_max_attempts cfg
              \<and> finished < dl_created_at d + seconds (webhook_max_delivery_age_seconds cfg)
              \<and> finished + seconds_float (retry_delay cfg r (cd_attempt_number claim) res)
                  < dl_created_at d + seconds (webhook_max_delivery_age_seconds cfg)
         then Retry_scheduled else Dead)
    \<and> (dl_status d' = Dead \<longleftrightarrow> (\<exists>reason. dl_dead_reason d' = Some reason \<and> length reason \<le> 64
          \<and> dl_dead_at d' = Some finished))
    \<and> dl_lease_token d' = None \<and> dl_lease_expires_at d' = None
    \<and> dl_attempt_count d' = dl_attempt_count d
    \<and> db_attempts s' = db_attempts s @ [a] \<and> at_delivery_id a = cd_id claim
    \<and> at_attempt_number a = cd_attempt_number claim \<and> at_outcome a = status_value (dl_status d')
    \<and> \<not> (\<exists>b \<in> set (db_attempts s). at_delivery_id b = cd_id claim
          \<and> at_attempt_number b = cd_attempt_number claim)
    \<and> (\<forall>i. i \<noteq> cd_id claim \<longrightarrow> find_delivery i s' = find_delivery i s)"
  using assms
proof (cases rule: finalize_cases)
  case stale
  then show ?thesis by simp
next
  case (recorded d q a)
  let ?d = "finalize_row cfg finished r (cd_attempt_number claim) res d"
  have id: "dl_id d = cd_id claim" using recorded(3) by (simp add: leased_def owned_def)
  have f: "find_delivery i s' = (if i = cd_id claim then Some ?d else find_delivery i s)" for i
    using recorded(2,5) find_delivery_put [of i ?d s] id by (auto simp: find_delivery_def)
  show ?thesis
    by (rule exI [of _ d], rule exI [of _ ?d], rule exI [of _ a], intro conjI,
        (fact recorded | rule finalize_row_status finalize_row_dead | simp add: f recorded)+)
qed

theorem finalize_outcome_witness:
  "\<exists>s' d'. finalize default_settings Postgresql 10 0 sample_claim 5 sample_timeout sample_leased_db
      = Inr (True, s') \<and> find_delivery 1 s' = Some d' \<and> dl_status d' = Retry_scheduled
    \<and> length (db_attempts s') = 1"
proof -
  have "case finalize default_settings Postgresql 10 0 sample_claim 5 sample_timeout sample_leased_db
      of Inl _ \<Rightarrow> False
      | Inr (ok, s') \<Rightarrow> ok \<and> map_option dl_status (find_delivery 1 s') = Some Retry_scheduled"
    by code_simp
  then obtain s' where f: "finalize default_settings Postgresql 10 0 sample_claim 5 sample_timeout
      sample_leased_db = Inr (True, s')"
    and st: "map_option dl_status (find_delivery 1 s') = Some Retry_scheduled"
    by (auto split: sum.splits)
  have "db_attempts sample_leased_db = []" by (simp add: sample_leased_db_def empty_db_def)
  with finalize_outcome [OF sample_leased_distinct f] have "length (db_attempts s') = 1" by auto
  with f st show ?thesis by auto
qed

lemma attempt_retry_after:
  assumes "perform_attempt cfg env claim = Inr res" and "ar_retry_after_seconds res = Some x"
    and "0 \<le> webhook_retry_after_max_seconds cfg"
  shows "0 \<le> x \<and> x \<le> of_int (webhook_retry_after_max_seconds cfg)"
proof -
  have h: "ar_retry_after_seconds res' = ra" if "handle_exn e st ra = Inr res'" for e st ra res'
    using that by (auto simp: handle_exn_def Let_def split: attempt_exn.splits)
  have "\<exists>header t. parse_retry_after (en_parsedate env) header t
      (webhook_retry_after_max_seconds cfg) = Some x"
    using assms(1,2) h
    by (fastforce simp: perform_attempt_def attempt_send_def Let_def
        split: if_splits option.splits sum.splits url_error.splits http_event.splits prod.splits)
  then show ?thesis using parse_retry_after_bounds assms(3) by blast
qed

lemma seconds_float_mono: "x \<le> y \<Longrightarrow> seconds_float x \<le> seconds_float y"
  unfolding seconds_float_def by (rule round_half_even_mono) simp

text \<open>
  (C17) The retry budget holds for every attempt the worker performs under a
  valid configuration: a delivery is scheduled again only while attempts remain, never before now,
  never before the receiver's \<open>Retry-After\<close> has passed, never later than the larger of the backoff
  cap and the \<open>Retry-After\<close> maximum, and always before the delivery's deadline.
\<close>

theorem retry_schedule_bounds:
  assumes "valid_settings cfg" and "is_random r" and "perform_attempt cfg env claim = Inr res"
    and "d' = finalize_row cfg finished r (cd_attempt_number claim) res d"
    and "dl_status d' = Retry_scheduled"
  shows "cd_attempt_number claim < webhook_max_attempts cfg
    \<and> finished \<le> dl_next_attempt_at d'
    \<and> dl_next_attempt_at d' < dl_created_at d + seconds (webhook_max_delivery_age_seconds cfg)
    \<and> dl_next_attempt_at d' \<le> finished + max (seconds_float (webhook_backoff_cap_seconds cfg))
          (seconds (webhook_retry_after_max_seconds cfg))
    \<and> (case ar_retry_after_seconds res of None \<Rightarrow> True
       | Some x \<Rightarrow> finished + seconds_float x \<le> dl_next_attempt_at d')"
proof -
  let ?n = "cd_attempt_number claim"
  let ?j = "jittered_backoff r ?n (webhook_backoff_base_seconds cfg) (webhook_backoff_cap_seconds cfg)"
  let ?ra = "case ar_retry_after_seconds res of None \<Rightarrow> 0 | Some x \<Rightarrow> x"
  note b = valid_settings_bounds [OF assms(1)]
  have nxt: "dl_next_attempt_at d' = finished + seconds_float (retry_delay cfg r ?n res)"
    using finalize_row_next assms(4,5) by simp
  have j: "0 \<le> ?j" "?j \<le> webhook_backoff_cap_seconds cfg"
    using jittered_backoff_bounds [OF assms(2)] b backoff_ceiling_le_cap order_trans
    by (metis less_imp_le)+
  have ra: "0 \<le> ?ra" "?ra \<le> of_int (webhook_retry_after_max_seconds cfg)"
    using attempt_retry_after [OF assms(3)] b(3) by (auto split: option.splits)
  have "seconds_float ?ra \<le> seconds (webhook_retry_after_max_seconds cfg)"
    using ra(2) by (rule seconds_float_le)
  then have "seconds_float (retry_delay cfg r ?n res)
      \<le> max (seconds_float (webhook_backoff_cap_seconds cfg)) (seconds (webhook_retry_after_max_seconds cfg))"
    using seconds_float_mono [OF j(2)] by (auto simp: retry_delay_def max_def)
  moreover have "0 \<le> seconds_float (retry_delay cfg r ?n res)"
    using j(1) by (intro seconds_float_nonneg) (simp add: retry_delay_def)
  moreover have "seconds_float x \<le> seconds_float (retry_delay cfg r ?n res)"
    if "ar_retry_after_seconds res = Some x" for x
    using that by (intro seconds_float_mono) (simp add: retry_delay_def)
  ultimately show ?thesis
    using nxt assms(4,5) finalize_row_status [of cfg finished r ?n res d]
    by (auto split: if_splits option.splits)
qed

theorem retry_schedule_bounds_witness:
  "10 \<le> dl_next_attempt_at (finalize_row default_settings 10 (1 / 2) 1 sample_timeout
      (sample_delivery 1 1 1 Processing 1 0))"
proof -
  have "dl_status (finalize_row default_settings 10 (1 / 2) 1 sample_timeout
      (sample_delivery 1 1 1 Processing 1 0)) = Retry_scheduled"
    by code_simp
  then show ?thesis
    using retry_schedule_bounds [OF default_settings_valid _ sample_attempt refl, of "1 / 2" 10
        "sample_delivery 1 1 1 Processing 1 0"]
    by (simp add: is_random_def sample_claim_def)
qed

subsection \<open>The circuit breaker\<close>



text \<open>
  A terminal failure that is not an aged-out delivery closes the
  circuit and forgets the failures, whatever the circuit was and whether or not the attempt was its
  probe, and also when the receiver was never contacted.
\<close>

theorem terminal_failure_closes_circuit:
  assumes "\<not> ar_succeeded res" and "\<not> ar_retryable res" and "ar_error res \<noteq> Some ''max_delivery_age''"
  shows "eq_circuit_state (finalize_endpoint cfg finished i res q) = Closed
    \<and> eq_consecutive_failures (finalize_endpoint cfg finished i res q) = 0
    \<and> eq_circuit_open_until (finalize_endpoint cfg finished i res q) = None"
  using assms by (simp add: finalize_endpoint_def Let_def)

theorem terminal_failure_closes_circuit_witness:
  "eq_circuit_state (finalize_endpoint default_settings 10 1
     (sample_timeout\<lparr>ar_retryable := False, ar_error := Some ''egress_proxy_denied''\<rparr>)
     (sample_endpoint_quota 1 5 5 Open)) = Closed"
  using terminal_failure_closes_circuit [of
      "sample_timeout\<lparr>ar_retryable := False, ar_error := Some ''egress_proxy_denied''\<rparr>"]
  by (simp add: sample_timeout_def)

end
