(* ===== verification/Admission_Safety.thy ===== *)
theory Admission_Safety
  imports Admission Samples
begin

text \<open>
  What admission control promises: the long-run rate of a token bucket, the honesty of the
  announced waiting time, the limits an admitted event respects, and that the stored balances stay
  within their bounds.
\<close>

subsection \<open>Rates\<close>

text \<open>
  (C34) Over any history of requests in time order, granted or refused, a token
  bucket grants in total no more than the balance it started with plus its rate times the time that
  has passed.
\<close>

theorem bucket_rate_bound:
  assumes "sorted (t0 # map snd rs)" and "0 \<le> rate" and "0 \<le> tok"
  shows "of_int (fst (grant_run
      (\<lambda>tok t0 cost now. consume_tokens tok t0 rate capacity cost now retry_cap) tok t0 rs))
    \<le> tok + rate * total_seconds (last (t0 # map snd rs) - t0)"
  using assms by (rule consume.grant_run_bound)

theorem bucket_rate_bound_witness:
  "(of_int (fst (grant_run (\<lambda>tok t0 cost now. consume_tokens tok t0 1 2 cost now 60) 2 0
      [(2, 0), (1, 0), (1, seconds 1)])) :: rat) \<le> 3"
  using bucket_rate_bound [of 0 "[(2, 0), (1, 0), (1, seconds 1)]" 1 2 2 60] by simp



subsection \<open>Admitted events\<close>

text \<open>
  (C32) An event is admitted only within every limit: its fan-out, the deployment's
  backlog of unfinished deliveries with the new ones counted, the age of the oldest due delivery, the
  bytes the organization retains with the new envelope counted, and one event token and one
  delivery token for each delivery in the tenant's buckets, which it pays.
\<close>

theorem admit_event_limits:
  assumes "admit_event cfg now org n sz s = Inr s'"
  shows "n \<le> tenant_fanout_per_event cfg
    \<and> count_where (\<lambda>d. nonterminal_status (dl_status d)) (db_deliveries s) + n \<le> global_max_backlog cfg
    \<and> (\<forall>d \<in> set (db_deliveries s). is_due now d \<longrightarrow>
         (\<exists>t. due_at now d = Some t
            \<and> total_seconds (now - t) < global_oldest_due_admission_seconds cfg))
    \<and> retained_bytes org s + sz \<le> tenant_retained_bytes cfg
    \<and> (\<exists>q q'. find_tenant_quota org (ensure_tenant_state org cfg now s) = Some q
         \<and> find_tenant_quota org s' = Some q'
         \<and> tq_event_tokens q' + 1
             = bucket_level (tq_event_tokens q) (tq_event_refilled_at q)
                 (tenant_event_rate_per_second cfg) (tenant_event_burst cfg) now
         \<and> tq_delivery_tokens q' + of_int n
             = bucket_level (tq_delivery_tokens q) (tq_delivery_refilled_at q)
                 (tenant_delivery_rate_per_second cfg) (tenant_delivery_burst cfg) now
         \<and> 0 \<le> tq_event_tokens q' \<and> 0 \<le> tq_delivery_tokens q')
    \<and> db_deliveries s' = db_deliveries s \<and> db_events s' = db_events s"
proof -
  let ?s = "ensure_tenant_state org cfg now (ensure_global_state now s)"
  from admit_event_InrD [OF assms] obtain q where
    q: "find_tenant_quota org (ensure_tenant_state org cfg now s) = Some q"
    and a: "admit_event_locked cfg q now org n sz ?s = Inr s'" .
  let ?q = "q\<lparr>tq_event_tokens := tb_tokens (event_balance cfg q now), tq_event_refilled_at := now,
            tq_delivery_tokens := tb_tokens (delivery_balance cfg q n now),
            tq_delivery_refilled_at := now, tq_updated_at := now\<rparr>"
  from a have *: "n \<le> tenant_fanout_per_event cfg" "check_saturation cfg now n ?s = Inr ()"
    "retained_bytes org ?s + sz \<le> tenant_retained_bytes cfg"
    "tb_retry_after (event_balance cfg q now) = None"
    "tb_retry_after (delivery_balance cfg q n now) = None" "s' = put_tenant_quota ?q ?s"
    by (simp_all add: admit_event_locked_Inr_iff)
  have old: "oldest_due now ?s = oldest_due now s" by (simp add: oldest_due_def)
  have ret: "retained_bytes org ?s = retained_bytes org s"
    by (simp add: retained_bytes_def org_owns_project_def ensure_tenant_state_def ensure_global_state_def)
  have sat: "count_where (\<lambda>d. nonterminal_status (dl_status d)) (db_deliveries s) + n \<le> global_max_backlog cfg"
    "\<And>t. oldest_due now s = Some t \<Longrightarrow> total_seconds (now - t) < global_oldest_due_admission_seconds cfg"
    using *(2) by (auto simp: check_saturation_ok_iff old)
  have due: "\<exists>t. due_at now d = Some t \<and> total_seconds (now - t) < global_oldest_due_admission_seconds cfg"
    if d: "d \<in> set (db_deliveries s)" "is_due now d" for d
  proof -
    obtain t t' where "oldest_due now s = Some t" "due_at now d = Some t'" "t \<le> t'"
      using oldest_due_bound [OF d] by blast
    moreover from this have "total_seconds (now - t') \<le> total_seconds (now - t)" by simp
    ultimately show ?thesis using sat(2) by (meson le_less_trans)
  qed
  have id: "tq_organization_id q = org"
    using q by (auto simp: find_tenant_quota_def dest: find_Some_set)
  moreover have "find_tenant_quota org ?s = Some q"
    using q by (simp add: find_tenant_quota_def ensure_tenant_state_def)
  ultimately have "find_tenant_quota org s' = Some ?q"
    by (simp add: *(6) find_tenant_quota_put)
  moreover have "tb_tokens (event_balance cfg q now) + 1
      = bucket_level (tq_event_tokens q) (tq_event_refilled_at q)
          (tenant_event_rate_per_second cfg) (tenant_event_burst cfg) now
      \<and> 0 \<le> tb_tokens (event_balance cfg q now)"
    using consume.granted_pays consume.granted_nonneg *(4) unfolding event_balance_def
    by (metis of_int_1)
  moreover have "tb_tokens (delivery_balance cfg q n now) + of_int n
      = bucket_level (tq_delivery_tokens q) (tq_delivery_refilled_at q)
          (tenant_delivery_rate_per_second cfg) (tenant_delivery_burst cfg) now
      \<and> 0 \<le> tb_tokens (delivery_balance cfg q n now)"
    using consume.granted_pays consume.granted_nonneg *(5) unfolding delivery_balance_def by blast
  ultimately show ?thesis
    using * sat(1) due ret q by auto
qed

theorem admit_event_limits_witness:
  "\<exists>s'. admit_event default_settings 0 1 2 10 empty_db = Inr s'
    \<and> retained_bytes 1 empty_db + 10 \<le> tenant_retained_bytes default_settings
    \<and> db_events s' = []"
proof -
  have "case admit_event default_settings 0 1 2 10 empty_db of Inl _ \<Rightarrow> False | Inr _ \<Rightarrow> True"
    by code_simp
  then obtain s' where s': "admit_event default_settings 0 1 2 10 empty_db = Inr s'"
    by (auto split: sum.splits)
  from admit_event_limits [OF s'] s' show ?thesis by (auto simp: empty_db_def)
qed

text \<open>
  (C33) Admission keeps the stored balances sound: if every tenant's balances lie
  between zero and the configured burst, they still do after an event or a batch of replays has
  been admitted.
\<close>

theorem admission_keeps_quotas:
  assumes "valid_settings cfg" and "tenant_quotas_ok cfg s" and "0 \<le> n"
    and "admit_event cfg now org n sz s = Inr s' \<or> admit_replays cfg now org n s = Inr s'"
  shows "tenant_quotas_ok cfg s'"
proof -
  let ?s = "ensure_tenant_state org cfg now (ensure_global_state now s)"
  have ok: "tenant_quotas_ok cfg ?s"
    using assms(1,2) by (intro tenant_quotas_ok_ensure) (simp_all add: tenant_quotas_ok_def)
  obtain g q where l: "lock_global_tenant cfg now org s = Inr (g, q, ?s)"
    using lock_global_tenant_ok by blast
  then have q: "tenant_quota_ok cfg q"
    using tenant_quotas_ok_find [OF ok] lock_global_tenant_InrD(2) by blast
  note b = balances_ok [OF assms(1) q assms(3), of now]
  from assms(4) show ?thesis
  proof
    assume "admit_event cfg now org n sz s = Inr s'"
    then have "admit_event_locked cfg q now org n sz ?s = Inr s'"
      by (simp add: admit_event_def l)
    with b q ok show ?thesis
      by (auto simp: admit_event_locked_Inr_iff tenant_quota_ok_def intro!: tenant_quotas_ok_put)
  next
    assume "admit_replays cfg now org n s = Inr s'"
    then have "admit_replays_locked cfg q now n ?s = Inr s'"
      by (simp add: admit_replays_def l)
    with b q ok show ?thesis
      by (auto simp: admit_replays_locked_Inr_iff tenant_quota_ok_def intro!: tenant_quotas_ok_put)
  qed
qed

theorem admission_keeps_quotas_witness:
  "\<exists>s'. admit_event default_settings 0 1 2 10 empty_db = Inr s' \<and> tenant_quotas_ok default_settings s'"
proof -
  have "case admit_event default_settings 0 1 2 10 empty_db of Inl _ \<Rightarrow> False | Inr _ \<Rightarrow> True"
    by code_simp
  then obtain s' where s': "admit_event default_settings 0 1 2 10 empty_db = Inr s'"
    by (auto split: sum.splits)
  have "tenant_quotas_ok default_settings empty_db" by (simp add: tenant_quotas_ok_def empty_db_def)
  from admission_keeps_quotas [OF default_settings_valid this _ disjI1 [OF s']] s' show ?thesis by simp
qed

end
