(* ===== verification/Authorization.thy ===== *)
theory Authorization
  imports Models
begin

text \<open>
  \<^verbatim>\<open>app/authorization.py\<close>: permissions, the role tables and the two gates every management
  operation passes.  The sets of permissions are the lists of their elements.
\<close>

subsection \<open>Permissions and roles\<close>

datatype permission =
    ORG_READ | MEMBER_MANAGE | POLICY_MANAGE | ORG_EXPORT | ORG_DELETE | AUDIT_READ
  | PROJECT_READ | PROJECT_MANAGE | KEY_MANAGE | ENDPOINT_MANAGE | ENDPOINT_OPERATE | REPLAY
  | DELIVERY_CANCEL | DELIVERY_PURGE

definition all_permissions :: "permission list" where
  "all_permissions =
     [ORG_READ, MEMBER_MANAGE, POLICY_MANAGE, ORG_EXPORT, ORG_DELETE, AUDIT_READ,
      PROJECT_READ, PROJECT_MANAGE, KEY_MANAGE, ENDPOINT_MANAGE, ENDPOINT_OPERATE, REPLAY,
      DELIVERY_CANCEL, DELIVERY_PURGE]"

definition organization_admin_permissions :: "permission list" where
  "organization_admin_permissions = filter (\<lambda>p. p \<noteq> ORG_DELETE) all_permissions"

primrec organization_role_permissions :: "organization_role \<Rightarrow> permission list" where
  "organization_role_permissions OWNER = all_permissions"
| "organization_role_permissions ADMIN = organization_admin_permissions"
| "organization_role_permissions MEMBER = [ORG_READ]"

definition project_admin_permissions :: "permission list" where
  "project_admin_permissions =
     [PROJECT_READ, PROJECT_MANAGE, KEY_MANAGE, ENDPOINT_MANAGE, ENDPOINT_OPERATE, REPLAY,
      DELIVERY_CANCEL, DELIVERY_PURGE]"

primrec project_role_permissions :: "project_role \<Rightarrow> permission list" where
  "project_role_permissions PROJECT_ADMIN = project_admin_permissions"
| "project_role_permissions OPERATOR = [PROJECT_READ, ENDPOINT_OPERATE, REPLAY, DELIVERY_CANCEL]"
| "project_role_permissions VIEWER = [PROJECT_READ]"

definition organization_permissions :: "permission list" where
  "organization_permissions =
     [ORG_READ, MEMBER_MANAGE, POLICY_MANAGE, ORG_EXPORT, ORG_DELETE, AUDIT_READ]"

definition project_permissions :: "permission list" where
  "project_permissions = filter (\<lambda>p. p \<notin> set organization_permissions) all_permissions"

definition pending_read_permissions :: "permission list" where
  "pending_read_permissions = [ORG_READ, ORG_EXPORT, AUDIT_READ, PROJECT_READ]"

subsection \<open>The gates\<close>

definition ensure_lifecycle_allows :: "organization \<Rightarrow> permission \<Rightarrow> bool \<Rightarrow> unit result" where
  "ensure_lifecycle_allows organization permission allow_deletion_pending =
     (if org_lifecycle_state organization = Active then Inr ()
      else if permission \<in> set pending_read_permissions then Inr ()
      else if allow_deletion_pending \<and> permission = ORG_DELETE then Inr ()
      else Inl (ForbiddenError
             ''Organization mutations are disabled while deletion is pending''))"

text \<open>
  \<^verbatim>\<open>Result.one_or_none()\<close>: no row, the only row, or an exception when the join returned several.
\<close>

fun one_or_none :: "'r list \<Rightarrow> 'r option result" where
  "one_or_none [] = Inr None"
| "one_or_none [r] = Inr (Some r)"
| "one_or_none (_ # _ # _) = Inl (RuntimeError ''MultipleResultsFound'')"

definition organization_rows :: "int \<Rightarrow> string \<Rightarrow> db \<Rightarrow> (organization \<times> organization_role) list" where
  "organization_rows uid organization_public_id s =
     [(organization, om_role member).
        organization \<leftarrow> db_organizations s, member \<leftarrow> db_org_members s,
        om_organization_id member = org_id organization
        \<and> org_public_id organization = organization_public_id \<and> om_user_id member = uid]"

definition authorize_organization ::
  "int \<Rightarrow> string \<Rightarrow> permission \<Rightarrow> bool \<Rightarrow> db \<Rightarrow> organization result"
where
  "authorize_organization uid organization_public_id permission allow_deletion_pending s =
     bindr (one_or_none (organization_rows uid organization_public_id s)) (\<lambda>row.
     case row of
       None \<Rightarrow> Inl (NotFoundError ''Organization'' organization_public_id)
     | Some (organization, role) \<Rightarrow>
         if permission \<notin> set (organization_role_permissions role)
         then Inl (ForbiddenError ''Permission denied'')
         else bindr (ensure_lifecycle_allows organization permission allow_deletion_pending)
                (\<lambda>_. Inr organization))"

definition project_rows :: "int \<Rightarrow> string \<Rightarrow> db \<Rightarrow> (project \<times> organization \<times> organization_role) list" where
  "project_rows uid project_public_id s =
     [(project, organization, om_role member).
        project \<leftarrow> db_projects s, organization \<leftarrow> db_organizations s, member \<leftarrow> db_org_members s,
        org_id organization = prj_organization_id project
        \<and> om_organization_id member = org_id organization
        \<and> prj_public_id project = project_public_id \<and> om_user_id member = uid]"

definition find_project_member :: "int \<Rightarrow> int \<Rightarrow> db \<Rightarrow> project_member option" where
  "find_project_member project_id uid s =
     List.find (\<lambda>m. pm_project_id m = project_id \<and> pm_user_id m = uid) (db_project_members s)"

definition authorize_project ::
  "int \<Rightarrow> string \<Rightarrow> permission \<Rightarrow> bool \<Rightarrow> db \<Rightarrow> project result"
where
  "authorize_project uid project_public_id permission allow_deletion_pending s =
     bindr (one_or_none (project_rows uid project_public_id s)) (\<lambda>row.
     case row of
       None \<Rightarrow> Inl (NotFoundError ''Project'' project_public_id)
     | Some (project, organization, role) \<Rightarrow>
         if role = OWNER \<or> role = ADMIN then
           if permission \<notin> set project_permissions
           then Inl (ForbiddenError ''Permission denied'')
           else bindr (ensure_lifecycle_allows organization permission allow_deletion_pending)
                  (\<lambda>_. Inr project)
         else
           case find_project_member (prj_id project) uid s of
             None \<Rightarrow> Inl (NotFoundError ''Project'' project_public_id)
           | Some member \<Rightarrow>
               if permission \<notin> set (project_role_permissions (pm_role member))
               then Inl (ForbiddenError ''Permission denied'')
               else bindr (ensure_lifecycle_allows organization permission allow_deletion_pending)
                      (\<lambda>_. Inr project))"

subsection \<open>What the gates admit\<close>

lemma permission_sets [simp]:
  "p \<in> set all_permissions"
  "p \<in> set organization_admin_permissions \<longleftrightarrow> p \<noteq> ORG_DELETE"
  "p \<in> set project_permissions \<longleftrightarrow> p \<notin> set organization_permissions"
  by (cases p; simp add: all_permissions_def organization_admin_permissions_def
    project_permissions_def organization_permissions_def)+

lemma project_admin_eq: "set project_admin_permissions = set project_permissions"
  by (auto simp: project_admin_permissions_def project_permissions_def all_permissions_def
    organization_permissions_def)

lemma project_role_permissions_sub: "set (project_role_permissions r) \<subseteq> set project_permissions"
  by (cases r) (simp_all add: project_admin_permissions_def organization_permissions_def)

lemma one_or_none_Inr_iff:
  "one_or_none rows = Inr row \<longleftrightarrow>
   (rows = [] \<and> row = None) \<or> (\<exists>r. rows = [r] \<and> row = Some r)"
  by (cases rows rule: one_or_none.cases) auto

lemma set_organization_rows:
  "(org, role) \<in> set (organization_rows uid pid s) \<longleftrightarrow>
   org \<in> set (db_organizations s) \<and> org_public_id org = pid \<and>
   (\<exists>m \<in> set (db_org_members s). om_organization_id m = org_id org \<and> om_user_id m = uid
      \<and> om_role m = role)"
  by (auto simp: organization_rows_def)

lemma set_project_rows:
  "(project, org, role) \<in> set (project_rows uid pid s) \<longleftrightarrow>
   project \<in> set (db_projects s) \<and> prj_public_id project = pid \<and>
   org \<in> set (db_organizations s) \<and> org_id org = prj_organization_id project \<and>
   (\<exists>m \<in> set (db_org_members s). om_organization_id m = org_id org \<and> om_user_id m = uid
      \<and> om_role m = role)"
  by (auto simp: project_rows_def)

lemma ensure_lifecycle_allows_iff:
  "ensure_lifecycle_allows org p allow = Inr () \<longleftrightarrow>
   org_lifecycle_state org = Active \<or> p \<in> set pending_read_permissions
   \<or> allow \<and> p = ORG_DELETE"
  by (auto simp: ensure_lifecycle_allows_def)

lemma authorize_organization_Inr_iff:
  "authorize_organization uid pid p allow s = Inr org \<longleftrightarrow>
   (\<exists>role. organization_rows uid pid s = [(org, role)]
      \<and> p \<in> set (organization_role_permissions role)
      \<and> ensure_lifecycle_allows org p allow = Inr ())"
  unfolding authorize_organization_def
  by (auto simp: bindr_Inr_iff one_or_none_Inr_iff split: if_splits)

lemma authorize_organization_row:
  assumes "authorize_organization uid pid p allow s = Inr org"
  shows "org \<in> set (db_organizations s)" and "org_public_id org = pid"
    and "\<exists>m \<in> set (db_org_members s). om_organization_id m = org_id org \<and> om_user_id m = uid
      \<and> p \<in> set (organization_role_permissions (om_role m))"
    and "ensure_lifecycle_allows org p allow = Inr ()"
proof -
  from assms obtain role where rows: "organization_rows uid pid s = [(org, role)]"
    and p: "p \<in> set (organization_role_permissions role)"
    and lc: "ensure_lifecycle_allows org p allow = Inr ()"
    by (auto simp: authorize_organization_Inr_iff)
  from rows have "(org, role) \<in> set (organization_rows uid pid s)" by simp
  with p show "org \<in> set (db_organizations s)" "org_public_id org = pid"
    "\<exists>m \<in> set (db_org_members s). om_organization_id m = org_id org \<and> om_user_id m = uid
      \<and> p \<in> set (organization_role_permissions (om_role m))"
    by (auto simp: set_organization_rows)
  show "ensure_lifecycle_allows org p allow = Inr ()" by (rule lc)
qed

text \<open>
  Access to a project, as a specification: the user belongs to the organization that owns the
  project, and either administers that organization or holds a role on the project; the role
  grants the permission, and the organization's lifecycle admits it.
\<close>

definition project_access :: "int \<Rightarrow> project \<Rightarrow> organization \<Rightarrow> permission \<Rightarrow> bool \<Rightarrow> db \<Rightarrow> bool" where
  "project_access uid project org p allow s \<longleftrightarrow>
     (\<exists>m \<in> set (db_org_members s). om_organization_id m = prj_organization_id project
        \<and> om_user_id m = uid
        \<and> (om_role m \<in> {OWNER, ADMIN} \<and> p \<notin> set organization_permissions
           \<or> om_role m = MEMBER
             \<and> (\<exists>pm \<in> set (db_project_members s). pm_project_id pm = prj_id project
                  \<and> pm_user_id pm = uid \<and> p \<in> set (project_role_permissions (pm_role pm)))))
     \<and> ensure_lifecycle_allows org p allow = Inr ()"

lemma authorize_project_row:
  assumes "authorize_project uid pid p allow s = Inr project"
  shows "\<exists>org role. project_rows uid pid s = [(project, org, role)]
    \<and> ensure_lifecycle_allows org p allow = Inr ()
    \<and> (role \<noteq> MEMBER \<and> p \<notin> set organization_permissions
       \<or> role = MEMBER \<and> (\<exists>pm. find_project_member (prj_id project) uid s = Some pm
            \<and> p \<in> set (project_role_permissions (pm_role pm))))"
proof -
  from assms obtain pr org role where rows: "project_rows uid pid s = [(pr, org, role)]"
    unfolding authorize_project_def
    by (auto simp: bindr_Inr_iff one_or_none_Inr_iff)
  from assms rows show ?thesis
    unfolding authorize_project_def
    by (cases role) (auto simp: bindr_Inr_iff one_or_none_Inr_iff split: if_splits option.splits)
qed

lemma authorize_project_sound:
  assumes "authorize_project uid pid p allow s = Inr project"
  shows "project \<in> set (db_projects s)" and "prj_public_id project = pid"
    and "\<exists>org \<in> set (db_organizations s). org_id org = prj_organization_id project
      \<and> project_access uid project org p allow s"
proof -
  obtain org role where rows: "project_rows uid pid s = [(project, org, role)]"
    and lc: "ensure_lifecycle_allows org p allow = Inr ()"
    and role: "role \<noteq> MEMBER \<and> p \<notin> set organization_permissions
       \<or> role = MEMBER \<and> (\<exists>pm. find_project_member (prj_id project) uid s = Some pm
            \<and> p \<in> set (project_role_permissions (pm_role pm)))"
    using authorize_project_row [OF assms] by blast
  have "(project, org, role) \<in> set (project_rows uid pid s)" by (simp add: rows)
  then obtain m where m: "m \<in> set (db_org_members s)" "om_organization_id m = org_id org"
      "om_user_id m = uid" "om_role m = role"
    and pr: "project \<in> set (db_projects s)" "prj_public_id project = pid"
    and org: "org \<in> set (db_organizations s)" "org_id org = prj_organization_id project"
    by (auto simp: set_project_rows)
  show "project \<in> set (db_projects s)" "prj_public_id project = pid" by (rule pr)+
  have "project_access uid project org p allow s"
    using m org role lc unfolding project_access_def find_project_member_def
    by (cases role) (auto dest!: find_Some_set)
  with org show "\<exists>org \<in> set (db_organizations s). org_id org = prj_organization_id project
      \<and> project_access uid project org p allow s" by blast
qed

text \<open>A user outside the owning organization gets the answer a project that does not exist gives.\<close>

lemma authorize_project_outsider:
  assumes "\<And>project m. project \<in> set (db_projects s) \<Longrightarrow> prj_public_id project = pid \<Longrightarrow>
    m \<in> set (db_org_members s) \<Longrightarrow> om_organization_id m = prj_organization_id project \<Longrightarrow>
    om_user_id m \<noteq> uid"
  shows "authorize_project uid pid p allow s = Inl (NotFoundError ''Project'' pid)"
proof -
  have "project_rows uid pid s = []"
  proof (rule ccontr)
    assume "project_rows uid pid s \<noteq> []"
    then obtain pr org role where "(pr, org, role) \<in> set (project_rows uid pid s)"
      by (metis list.set_intros(1) neq_Nil_conv prod_cases3)
    with assms show False unfolding set_project_rows by metis
  qed
  then show ?thesis by (simp add: authorize_project_def)
qed

text \<open>
  The uniqueness constraints of the schema make the joins return at most one row.
\<close>

definition tenancy_keys :: "db \<Rightarrow> bool" where
  "tenancy_keys s \<longleftrightarrow>
     distinct (map org_id (db_organizations s)) \<and> distinct (map org_public_id (db_organizations s))
     \<and> distinct (map prj_id (db_projects s)) \<and> distinct (map prj_public_id (db_projects s))
     \<and> distinct (map (\<lambda>m. (om_organization_id m, om_user_id m)) (db_org_members s))
     \<and> distinct (map (\<lambda>m. (pm_project_id m, pm_user_id m)) (db_project_members s))"

lemma filter_unique:
  "distinct (map key rows) \<Longrightarrow> length (filter (\<lambda>r. key r = k \<and> q r) rows) \<le> 1"
proof (induction rows)
  case (Cons r rows)
  show ?case
  proof (cases "key r = k")
    case True
    with Cons.prems have "filter (\<lambda>r. key r = k \<and> q r) rows = []"
      by (auto simp: filter_empty_conv image_iff)
    then show ?thesis by simp
  next
    case False
    with Cons show ?thesis by simp
  qed
qed simp

lemma concat_map_if:
  "concat (map (\<lambda>x. if P x then [f x] else []) xs) = map f (filter P xs)"
  by (induction xs) auto

lemma concat_at_most_one:
  assumes "\<And>x. x \<in> set xs \<Longrightarrow> length (f x) \<le> 1"
    and "\<And>x y. x \<in> set xs \<Longrightarrow> y \<in> set xs \<Longrightarrow> f x \<noteq> [] \<Longrightarrow> f y \<noteq> [] \<Longrightarrow> key x = key y"
    and "distinct (map key xs)"
  shows "length (concat (map f xs)) \<le> 1"
  using assms
proof (induction xs)
  case (Cons x xs)
  show ?case
  proof (cases "f x = []")
    case True
    with Cons show ?thesis by simp
  next
    case False
    have none: "concat (map f xs) = []"
      using Cons.prems False by (auto simp: image_iff)
    show ?thesis
      using Cons.prems(1) [of x] unfolding list.map concat.simps none by simp
  qed
qed simp

lemma length_organization_rows:
  assumes "tenancy_keys s"
  shows "length (organization_rows uid pid s) \<le> 1"
  unfolding organization_rows_def
proof (rule concat_at_most_one [where key = org_public_id])
  show "distinct (map org_public_id (db_organizations s))"
    using assms by (simp add: tenancy_keys_def)
next
  fix x
  have "distinct (map (\<lambda>m. (om_organization_id m, om_user_id m)) (db_org_members s))"
    using assms by (simp add: tenancy_keys_def)
  from filter_unique [OF this, of "(org_id x, uid)" "\<lambda>m. org_public_id x = pid"]
  show "length (concat (map (\<lambda>member. if om_organization_id member = org_id x
      \<and> org_public_id x = pid \<and> om_user_id member = uid then [(x, om_role member)] else [])
      (db_org_members s))) \<le> 1"
    by (simp add: concat_map_if conj_ac)
qed (auto split: if_splits)

lemma length_project_rows:
  assumes "tenancy_keys s"
  shows "length (project_rows uid pid s) \<le> 1"
  unfolding project_rows_def
proof (rule concat_at_most_one [where key = prj_public_id])
  show "distinct (map prj_public_id (db_projects s))"
    using assms by (simp add: tenancy_keys_def)
next
  fix x
  show "length (concat (map (\<lambda>organization. concat (map (\<lambda>member.
      if org_id organization = prj_organization_id x \<and> om_organization_id member = org_id organization
        \<and> prj_public_id x = pid \<and> om_user_id member = uid
      then [(x, organization, om_role member)] else []) (db_org_members s)))
      (db_organizations s))) \<le> 1"
  proof (rule concat_at_most_one [where key = org_id])
    show "distinct (map org_id (db_organizations s))"
      using assms by (simp add: tenancy_keys_def)
  next
    fix y
    have "distinct (map (\<lambda>m. (om_organization_id m, om_user_id m)) (db_org_members s))"
      using assms by (simp add: tenancy_keys_def)
    from filter_unique [OF this, of "(org_id y, uid)"
        "\<lambda>m. org_id y = prj_organization_id x \<and> prj_public_id x = pid"]
    show "length (concat (map (\<lambda>member.
      if org_id y = prj_organization_id x \<and> om_organization_id member = org_id y
        \<and> prj_public_id x = pid \<and> om_user_id member = uid
      then [(x, y, om_role member)] else []) (db_org_members s))) \<le> 1"
      by (simp add: concat_map_if conj_ac)
  qed (auto split: if_splits)
qed (auto split: if_splits)

lemma singleton_of_member: "length rows \<le> 1 \<Longrightarrow> r \<in> set rows \<Longrightarrow> rows = [r]"
  by (cases rows) auto

lemma find_project_member_iff:
  assumes "tenancy_keys s"
  shows "find_project_member pid uid s = Some pm \<longleftrightarrow>
    pm \<in> set (db_project_members s) \<and> pm_project_id pm = pid \<and> pm_user_id pm = uid"
proof -
  have "distinct (map (\<lambda>m. (pm_project_id m, pm_user_id m)) (db_project_members s))"
    using assms by (simp add: tenancy_keys_def)
  from find_key_iff [OF this, of "(pid, uid)" pm] show ?thesis
    by (simp add: find_project_member_def)
qed

lemma authorize_project_complete:
  assumes keys: "tenancy_keys s" and pr: "project \<in> set (db_projects s)" "prj_public_id project = pid"
    and org: "org \<in> set (db_organizations s)" "org_id org = prj_organization_id project"
    and acc: "project_access uid project org p allow s"
  shows "authorize_project uid pid p allow s = Inr project"
proof -
  from acc obtain m where m: "m \<in> set (db_org_members s)"
      "om_organization_id m = prj_organization_id project" "om_user_id m = uid"
    and role: "om_role m \<in> {OWNER, ADMIN} \<and> p \<notin> set organization_permissions
       \<or> om_role m = MEMBER \<and> (\<exists>pm \<in> set (db_project_members s). pm_project_id pm = prj_id project
            \<and> pm_user_id pm = uid \<and> p \<in> set (project_role_permissions (pm_role pm)))"
    and lc: "ensure_lifecycle_allows org p allow = Inr ()"
    by (auto simp: project_access_def)
  have "(project, org, om_role m) \<in> set (project_rows uid pid s)"
    using pr org m by (auto simp: set_project_rows)
  then have rows: "project_rows uid pid s = [(project, org, om_role m)]"
    by (rule singleton_of_member [OF length_project_rows [OF keys]])
  show ?thesis
  proof (cases "om_role m = MEMBER")
    case True
    with role obtain pm where "find_project_member (prj_id project) uid s = Some pm"
      and "p \<in> set (project_role_permissions (pm_role pm))"
      using find_project_member_iff [OF keys] by auto
    with rows True lc show ?thesis by (simp add: authorize_project_def)
  next
    case False
    with role rows lc show ?thesis by (auto simp: authorize_project_def)
  qed
qed

subsection \<open>Properties\<close>

definition sample_tenancy :: db where
  "sample_tenancy = empty_db
     \<lparr>db_organizations := [\<lparr>org_id = 1, org_public_id = ''org-a'', org_name = ''A'',
         org_lifecycle_state = Active, org_deletion_requested_at = None,
         org_deletion_scheduled_at = None, org_created_at = 0\<rparr>,
        \<lparr>org_id = 2, org_public_id = ''org-b'', org_name = ''B'',
         org_lifecycle_state = Deletion_pending, org_deletion_requested_at = Some 5,
         org_deletion_scheduled_at = Some 9, org_created_at = 0\<rparr>],
      db_org_members := [\<lparr>om_id = 1, om_organization_id = 1, om_user_id = 10, om_role = OWNER,
         om_created_at = 0\<rparr>,
        \<lparr>om_id = 2, om_organization_id = 1, om_user_id = 11, om_role = MEMBER, om_created_at = 0\<rparr>,
        \<lparr>om_id = 3, om_organization_id = 2, om_user_id = 11, om_role = ADMIN, om_created_at = 0\<rparr>],
      db_projects := [\<lparr>prj_id = 5, prj_public_id = ''prj-a'', prj_organization_id = 1,
         prj_name = ''p'', prj_is_active = True, prj_created_at = 0\<rparr>,
        \<lparr>prj_id = 6, prj_public_id = ''prj-b'', prj_organization_id = 2,
         prj_name = ''p'', prj_is_active = True, prj_created_at = 0\<rparr>],
      db_project_members := [\<lparr>pm_id = 1, pm_project_id = 5, pm_user_id = 11, pm_role = OPERATOR,
         pm_created_at = 0\<rparr>]\<rparr>"

lemma sample_tenancy_keys: "tenancy_keys sample_tenancy"
  by (simp add: tenancy_keys_def sample_tenancy_def empty_db_def)

text \<open>
  C21: the project gate implements the access rules exactly.  With the
  schema's uniqueness constraints, \<^verbatim>\<open>authorize_project\<close> returns a project if and only if it is the
  project with that public id and the user has access: they belong to the organization that owns
  it, they administer that organization (and the permission is a project permission) or hold a
  project role that grants the permission, and an organization whose deletion is pending admits
  only reads.  Without a membership in the owning organization the answer is the NotFoundError of
  a project that does not exist, whatever the permission.
\<close>

theorem authorize_project_exact:
  assumes "tenancy_keys s"
  shows "(authorize_project uid pid p allow s = Inr project \<longleftrightarrow>
      project \<in> set (db_projects s) \<and> prj_public_id project = pid
      \<and> (\<exists>org \<in> set (db_organizations s). org_id org = prj_organization_id project
           \<and> project_access uid project org p allow s))
    \<and> ((\<nexists>project m. project \<in> set (db_projects s) \<and> prj_public_id project = pid
        \<and> m \<in> set (db_org_members s) \<and> om_organization_id m = prj_organization_id project
        \<and> om_user_id m = uid) \<longrightarrow>
      authorize_project uid pid p allow s = Inl (NotFoundError ''Project'' pid))"
proof (intro conjI impI)
  show "authorize_project uid pid p allow s = Inr project \<longleftrightarrow>
      project \<in> set (db_projects s) \<and> prj_public_id project = pid
      \<and> (\<exists>org \<in> set (db_organizations s). org_id org = prj_organization_id project
           \<and> project_access uid project org p allow s)"
    using authorize_project_sound [of uid pid p allow s project]
      authorize_project_complete [OF assms, of project pid _ uid p allow] by blast
qed (rule authorize_project_outsider, blast)

theorem authorize_project_exact_witness:
  "authorize_project 11 ''prj-a'' REPLAY False sample_tenancy = Inr (db_projects sample_tenancy ! 0)
   \<and> authorize_project 10 ''prj-b'' REPLAY False sample_tenancy
     = Inl (NotFoundError ''Project'' ''prj-b'')"
proof
  show "authorize_project 11 ''prj-a'' REPLAY False sample_tenancy
      = Inr (db_projects sample_tenancy ! 0)"
    unfolding authorize_project_exact [OF sample_tenancy_keys, THEN conjunct1]
    by (simp add: sample_tenancy_def empty_db_def project_access_def ensure_lifecycle_allows_def)
  show "authorize_project 10 ''prj-b'' REPLAY False sample_tenancy
     = Inl (NotFoundError ''Project'' ''prj-b'')"
    by (rule authorize_project_exact [OF sample_tenancy_keys, THEN conjunct2, THEN mp])
      (auto simp: sample_tenancy_def empty_db_def)
qed

text \<open>
  C25: while an organization's deletion is pending, the gates of the organization
  and of its projects admit reads, and nothing else but the deletion's own operations (which ask
  for \<^verbatim>\<open>allow_deletion_pending\<close> and for the permission only an owner has).
\<close>

theorem authorize_pending:
  assumes "distinct (map org_id (db_organizations s))" and "org \<in> set (db_organizations s)"
    and "org_lifecycle_state org = Deletion_pending"
  shows "(authorize_organization uid (org_public_id org) p allow s = Inr org \<longrightarrow>
      p \<in> {ORG_READ, ORG_EXPORT, AUDIT_READ, PROJECT_READ}
      \<or> allow \<and> p = ORG_DELETE \<and> (\<exists>m \<in> set (db_org_members s). om_organization_id m = org_id org
           \<and> om_user_id m = uid \<and> om_role m = OWNER))
    \<and> (authorize_project uid pid p allow s = Inr project \<longrightarrow>
      prj_organization_id project = org_id org \<longrightarrow> p = PROJECT_READ)"
proof -
  have owner: "ORG_DELETE \<in> set (organization_role_permissions r) \<longleftrightarrow> r = OWNER" for r
    by (cases r) simp_all
  have "p \<in> {ORG_READ, ORG_EXPORT, AUDIT_READ, PROJECT_READ}
      \<or> allow \<and> p = ORG_DELETE \<and> (\<exists>m \<in> set (db_org_members s). om_organization_id m = org_id org
           \<and> om_user_id m = uid \<and> om_role m = OWNER)"
    if "authorize_organization uid (org_public_id org) p allow s = Inr org"
    using authorize_organization_row(3, 4) [OF that] assms(3) owner
    by (auto simp: ensure_lifecycle_allows_iff pending_read_permissions_def)
  moreover have "p = PROJECT_READ" if a: "authorize_project uid pid p allow s = Inr project"
    and o: "prj_organization_id project = org_id org"
  proof -
    obtain org' where org': "org' \<in> set (db_organizations s)" "org_id org' = org_id org"
      and acc: "project_access uid project org' p allow s"
      using authorize_project_sound(3) [OF a] o by auto
    have "org' = org" by (rule row_unique [OF assms(1) org'(1) assms(2) org'(2)])
    moreover have "p \<notin> set organization_permissions"
      using acc project_role_permissions_sub unfolding project_access_def by fastforce
    ultimately show ?thesis
      using acc assms(3)
      by (auto simp: project_access_def ensure_lifecycle_allows_iff pending_read_permissions_def
        organization_permissions_def)
  qed
  ultimately show ?thesis by blast
qed

theorem authorize_pending_witness:
  "PROJECT_READ \<in> {ORG_READ, ORG_EXPORT, AUDIT_READ, PROJECT_READ}
     \<and> authorize_project 11 ''prj-b'' PROJECT_READ True sample_tenancy
         = Inr (db_projects sample_tenancy ! 1)
     \<and> authorize_project 11 ''prj-b'' PROJECT_MANAGE True sample_tenancy
         \<noteq> Inr (db_projects sample_tenancy ! 1)"
proof -
  have d: "distinct (map org_id (db_organizations sample_tenancy))"
    and m: "db_organizations sample_tenancy ! 1 \<in> set (db_organizations sample_tenancy)"
    and st: "org_lifecycle_state (db_organizations sample_tenancy ! 1) = Deletion_pending"
    and o: "prj_organization_id (db_projects sample_tenancy ! 1)
      = org_id (db_organizations sample_tenancy ! 1)"
    by (simp_all add: sample_tenancy_def empty_db_def)
  have "authorize_project 11 ''prj-b'' PROJECT_READ True sample_tenancy
         = Inr (db_projects sample_tenancy ! 1)"
    by code_simp
  moreover have "authorize_project 11 ''prj-b'' PROJECT_MANAGE True sample_tenancy
         \<noteq> Inr (db_projects sample_tenancy ! 1)"
    using authorize_pending [OF d m st, of 11 PROJECT_MANAGE True "''prj-b''"
      "db_projects sample_tenancy ! 1"] o by auto
  ultimately show ?thesis by simp
qed

end
