(* ===== verification/Audit_Log.thy ===== *)
theory Audit_Log
  imports Models Py_Strings "HOL-Library.Product_Lexorder"
begin

text \<open>
  \<^verbatim>\<open>app/audit.py\<close>: the sanitizer of audit metadata, the append to the audit log and its
  paged read.  \<open>AuOther\<close> stands for a value that is neither a scalar nor a list of scalars.
\<close>

subsection \<open>Sanitizing metadata\<close>

definition forbidden_key_parts :: "string list" where
  "forbidden_key_parts =
     [''secret'', ''token'', ''key'', ''digest'', ''payload'', ''body'', ''url'', ''authorization'']"

definition sensitive_value_parts :: "string list" where
  "sensitive_value_parts =
     [''authorization:'', ''bearer '', ''basic '', ''-----begin '', ''http://'', ''https://'',
      ''password'', ''secret'']"

definition normalize_key :: "string \<Rightarrow> string" where
  "normalize_key k = filter is_alnum (lower k)"

definition word_char :: "char \<Rightarrow> bool" where
  "word_char c \<longleftrightarrow>
     (let n = cp c in 48 \<le> n \<and> n \<le> 57 \<or> 65 \<le> n \<and> n \<le> 90 \<or> 97 \<le> n \<and> n \<le> 122
        \<or> c = CHR ''_'' \<or> c = CHR ''-'')"

text \<open>The regular expressions \<^verbatim>\<open>_CREDENTIAL_VALUE\<close> and \<^verbatim>\<open>_JWT_VALUE\<close>, on the whole string.\<close>

definition credential_value :: "string \<Rightarrow> bool" where
  "credential_value v \<longleftrightarrow>
     40 \<le> length v
     \<and> list_all (\<lambda>c. word_char c \<or> c = CHR ''+'' \<or> c = CHR ''/'' \<or> c = CHR ''='') v"

fun split_dots :: "string \<Rightarrow> string list" where
  "split_dots [] = [[]]"
| "split_dots (c # v) =
     (if c = CHR ''.'' then [] # split_dots v
      else case split_dots v of [] \<Rightarrow> [[c]] | w # ws \<Rightarrow> (c # w) # ws)"

definition jwt_value :: "string \<Rightarrow> bool" where
  "jwt_value v \<longleftrightarrow>
     length (split_dots v) = 3 \<and> list_all (\<lambda>w. w \<noteq> [] \<and> list_all word_char w) (split_dots v)"

fun sanitize_scalar :: "audit_scalar \<Rightarrow> audit_scalar result" where
  "sanitize_scalar AuNone = Inr AuNone"
| "sanitize_scalar (AuBool b) = Inr (AuBool b)"
| "sanitize_scalar (AuInt n) = Inr (AuInt n)"
| "sanitize_scalar (AuFloat fin r) =
     (if \<not> fin then Inl (ValueError ''Audit metadata numbers must be finite'')
      else Inr (AuFloat fin r))"
| "sanitize_scalar (AuStr v) =
     (if length v > 2048 then Inl (ValueError ''Audit metadata strings are too long'')
      else if list_ex (contains (lower v)) sensitive_value_parts
      then Inl (ValueError ''Audit metadata contains sensitive content'')
      else if jwt_value v \<or> credential_value v
      then Inl (ValueError ''Audit metadata contains a possible credential'')
      else Inr (AuStr v))"
| "sanitize_scalar AuOther =
     Inl (ValueError ''Audit metadata values must be scalar or scalar lists'')"

fun sanitize_list :: "audit_scalar list \<Rightarrow> audit_scalar list result" where
  "sanitize_list [] = Inr []"
| "sanitize_list (x # xs) =
     bindr (sanitize_scalar x) (\<lambda>y. bindr (sanitize_list xs) (\<lambda>ys. Inr (y # ys)))"

text \<open>The value of one item, with the number of values it adds to the total.\<close>

fun sanitize_value :: "audit_value \<Rightarrow> (nat \<times> audit_value) result" where
  "sanitize_value (AuList xs) =
     (if length xs > 64 then Inl (ValueError ''Audit metadata lists are too long'')
      else bindr (sanitize_list xs) (\<lambda>ys. Inr (length xs, AuList ys)))"
| "sanitize_value (AuScalar x) = bindr (sanitize_scalar x) (\<lambda>y. Inr (1, AuScalar y))"

text \<open>The loop over the items, with the running total of values.\<close>

fun sanitize_items :: "nat \<Rightarrow> audit_metadata \<Rightarrow> audit_metadata result" where
  "sanitize_items n0 [] = Inr []"
| "sanitize_items n0 ((k, v) # items) =
     (if k = [] \<or> length k > 100 then Inl (ValueError ''Audit metadata keys are invalid'')
      else if list_ex (contains (normalize_key k)) forbidden_key_parts
      then Inl (ValueError ''Audit metadata key may contain sensitive data'')
      else bindr (sanitize_value v) (\<lambda>(n, w).
        if n0 + n > 256 then Inl (ValueError ''Audit metadata contains too many values'')
        else bindr (sanitize_items (n0 + n) items) (\<lambda>rest. Inr ((k, w) # rest))))"

definition sanitize_audit_metadata :: "audit_metadata option \<Rightarrow> audit_metadata result" where
  "sanitize_audit_metadata metadata =
     (case metadata of
        None \<Rightarrow> Inr []
      | Some items \<Rightarrow>
          if length items > 64 then Inl (ValueError ''Audit metadata contains too many keys'')
          else sanitize_items 0 items)"

subsection \<open>The log\<close>

definition append_audit ::
  "datetime \<Rightarrow> string \<Rightarrow> int option \<Rightarrow> string \<Rightarrow> string \<Rightarrow> string \<Rightarrow> string option \<Rightarrow> string option \<Rightarrow>
   audit_metadata option \<Rightarrow> db \<Rightarrow> (administrative_audit_event \<times> db) result"
where
  "append_audit clock uuid actor_user_id organization_public_id action resource_type
     resource_public_id project_public_id metadata s =
     (if organization_public_id = [] \<or> length organization_public_id > 36
      then Inl (ValueError ''Organization public ID is invalid'')
      else if (case project_public_id of None \<Rightarrow> False | Some p \<Rightarrow> length p > 36)
      then Inl (ValueError ''Project public ID is invalid'')
      else if action = [] \<or> length action > 100
      then Inl (ValueError ''Audit action is invalid'')
      else if resource_type = [] \<or> length resource_type > 100
      then Inl (ValueError ''Audit resource type is invalid'')
      else if (case resource_public_id of None \<Rightarrow> False | Some r \<Rightarrow> length r > 36)
      then Inl (ValueError ''Resource public ID is invalid'')
      else bindr (sanitize_audit_metadata metadata) (\<lambda>sanitized.
        let event = \<lparr>au_id = db_seq s T_audit_events, au_public_id = uuid,
              au_organization_public_id = organization_public_id,
              au_project_public_id = project_public_id, au_actor_user_id = actor_user_id,
              au_action = action, au_resource_type = resource_type,
              au_resource_public_id = resource_public_id, au_sanitized_metadata = sanitized,
              au_created_at = clock\<rparr>
        in Inr (event, bump_seq T_audit_events 1
                         (s\<lparr>db_audit_events := db_audit_events s @ [event]\<rparr>))))"

definition list_audit ::
  "string \<Rightarrow> string option \<Rightarrow> string option \<Rightarrow> int \<Rightarrow> datetime option \<Rightarrow> int option \<Rightarrow> db \<Rightarrow>
   administrative_audit_event list result"
where
  "list_audit organization_public_id action resource_type limit before_created_at before_id s =
     (if organization_public_id = [] then Inl (ValueError ''Organization public ID is required'')
      else if \<not> (1 \<le> limit \<and> limit \<le> 1000)
      then Inl (ValueError ''Audit limit must be between 1 and 1000'')
      else if before_id \<noteq> None \<and> before_created_at = None
      then Inl (ValueError ''Audit cursor timestamp is required with cursor ID'')
      else
        let rows = filter (\<lambda>e. au_organization_public_id e = organization_public_id
              \<and> (case action of None \<Rightarrow> True | Some a \<Rightarrow> au_action e = a)
              \<and> (case resource_type of None \<Rightarrow> True | Some r \<Rightarrow> au_resource_type e = r)
              \<and> (case before_created_at of
                   None \<Rightarrow> True
                 | Some t \<Rightarrow>
                     let cursor_id = (case before_id of Some i \<Rightarrow> i | None \<Rightarrow> 0)
                     in au_created_at e < t \<or> au_created_at e = t \<and> au_id e < cursor_id))
              (db_audit_events s)
        in Inr (take (nat limit) (sort_key (\<lambda>e. (- au_created_at e, - au_id e)) rows)))"

subsection \<open>What the sanitizer lets through\<close>

primrec scalar_safe :: "audit_scalar \<Rightarrow> bool" where
  "scalar_safe AuNone \<longleftrightarrow> True"
| "scalar_safe (AuBool b) \<longleftrightarrow> True"
| "scalar_safe (AuInt n) \<longleftrightarrow> True"
| "scalar_safe (AuFloat fin r) \<longleftrightarrow> fin"
| "scalar_safe (AuStr v) \<longleftrightarrow>
     length v \<le> 2048 \<and> (\<forall>p \<in> set sensitive_value_parts. \<nexists>a b. lower v = a @ p @ b)
     \<and> \<not> jwt_value v \<and> \<not> credential_value v"
| "scalar_safe AuOther \<longleftrightarrow> False"

primrec value_scalars :: "audit_value \<Rightarrow> audit_scalar list" where
  "value_scalars (AuScalar x) = [x]"
| "value_scalars (AuList xs) = xs"

definition key_safe :: "string \<Rightarrow> bool" where
  "key_safe k \<longleftrightarrow> k \<noteq> [] \<and> length k \<le> 100
     \<and> (\<forall>p \<in> set forbidden_key_parts. \<nexists>a b. normalize_key k = a @ p @ b)"

definition metadata_safe :: "audit_metadata \<Rightarrow> bool" where
  "metadata_safe items \<longleftrightarrow>
     length items \<le> 64 \<and> length (concat (map (value_scalars \<circ> snd) items)) \<le> 256
     \<and> (\<forall>(k, v) \<in> set items. key_safe k \<and> length (value_scalars v) \<le> 64
          \<and> (\<forall>x \<in> set (value_scalars v). scalar_safe x))"

lemma sanitize_scalar_iff: "sanitize_scalar x = Inr y \<longleftrightarrow> y = x \<and> scalar_safe x"
  by (cases x) (auto simp: list_ex_iff contains_iff)

lemma sanitize_list_iff: "sanitize_list xs = Inr ys \<longleftrightarrow> ys = xs \<and> (\<forall>x \<in> set xs. scalar_safe x)"
  by (induction xs arbitrary: ys) (auto simp: bindr_Inr_iff sanitize_scalar_iff)

lemma sanitize_value_iff:
  "sanitize_value v = Inr (n, w) \<longleftrightarrow> w = v \<and> n = length (value_scalars v)
   \<and> length (value_scalars v) \<le> 64 \<and> (\<forall>x \<in> set (value_scalars v). scalar_safe x)"
  by (cases v) (auto simp: bindr_Inr_iff sanitize_scalar_iff sanitize_list_iff)

lemma sanitize_items_iff:
  "sanitize_items t items = Inr out \<longleftrightarrow>
   out = items \<and> (items = [] \<or> t + length (concat (map (value_scalars \<circ> snd) items)) \<le> 256)
   \<and> (\<forall>(k, v) \<in> set items. key_safe k \<and> length (value_scalars v) \<le> 64
        \<and> (\<forall>x \<in> set (value_scalars v). scalar_safe x))"
proof (induction items arbitrary: t out)
  case Nil
  then show ?case by auto
next
  case (Cons item items)
  obtain k v where item: "item = (k, v)" by force
  have key: "key_safe k \<longleftrightarrow> \<not> (k = [] \<or> length k > 100)
      \<and> \<not> list_ex (contains (normalize_key k)) forbidden_key_parts"
    by (auto simp: key_safe_def list_ex_iff contains_iff)
  show ?case
  proof (cases "key_safe k \<and> length (value_scalars v) \<le> 64
      \<and> (\<forall>x \<in> set (value_scalars v). scalar_safe x)")
    case True
    then have "sanitize_value v = Inr (length (value_scalars v), v)"
      by (simp add: sanitize_value_iff)
    with True key show ?thesis
      by (auto simp: item bindr_Inr_iff Cons.IH)
  next
    case False
    with key show ?thesis
      by (auto simp: item bindr_Inr_iff sanitize_value_iff split: prod.splits)
  qed
qed

lemma sanitize_metadata_iff:
  "sanitize_audit_metadata metadata = Inr out \<longleftrightarrow>
   out = (case metadata of None \<Rightarrow> [] | Some items \<Rightarrow> items) \<and> metadata_safe out"
  by (cases metadata)
    (auto simp: sanitize_audit_metadata_def metadata_safe_def sanitize_items_iff)

lemma append_audit_Inr:
  assumes "append_audit clock uuid actor org action rt rid pid metadata s = Inr (e, s')"
  shows "s' = bump_seq T_audit_events 1 (s\<lparr>db_audit_events := db_audit_events s @ [e]\<rparr>)"
    and "au_organization_public_id e = org" "au_actor_user_id e = actor" "au_action e = action"
    and "au_created_at e = clock" "au_id e = db_seq s T_audit_events" "au_public_id e = uuid"
    and "au_resource_type e = rt" "au_resource_public_id e = rid" "au_project_public_id e = pid"
    and "au_sanitized_metadata e = (case metadata of None \<Rightarrow> [] | Some items \<Rightarrow> items)"
    and "metadata_safe (au_sanitized_metadata e)"
  using assms unfolding append_audit_def
  by (auto simp: bindr_Inr_iff sanitize_metadata_iff Let_def split: if_splits)

subsection \<open>Properties\<close>

text \<open>
  C39: the sanitizer accepts exactly the safe metadata and returns it
  unchanged.  Safe means: at most 64 keys and 256 values in all, every key non-empty, at most 100
  characters long and free of the forbidden words once punctuation and case are removed, every
  list at most 64 long, and every value a scalar; a string value has at most 2048 characters,
  contains none of the sensitive phrases in any case, and looks neither like a JWT nor like a
  long opaque credential.
\<close>

theorem sanitize_audit_metadata_exact:
  "sanitize_audit_metadata (Some items) = Inr out \<longleftrightarrow> out = items \<and> metadata_safe items"
  by (auto simp: sanitize_metadata_iff)


definition sample_audit :: "int \<Rightarrow> datetime \<Rightarrow> administrative_audit_event" where
  "sample_audit i t = \<lparr>au_id = i, au_public_id = ''a'', au_organization_public_id = ''org-a'',
     au_project_public_id = None, au_actor_user_id = Some 1, au_action = ''project.created'',
     au_resource_type = ''project'', au_resource_public_id = None, au_sanitized_metadata = [],
     au_created_at = t\<rparr>"


end
