(* ===== verification/Py_Time.thy ===== *)
theory Py_Time
  imports Py_Strings
begin

text \<open>
  \<^verbatim>\<open>datetime.isoformat()\<close> on aware UTC values: the calendar date of an instant in the proleptic
  Gregorian calendar, the time of day, the microseconds when they are not zero, and the offset.
\<close>

definition civil_from_days :: "int \<Rightarrow> int \<times> int \<times> int" where
  "civil_from_days n =
     (let z = n + 719468; era = z div 146097; doe = z mod 146097;
          yoe = (doe - doe div 1460 + doe div 36524 - doe div 146096) div 365;
          doy = doe - (365 * yoe + yoe div 4 - yoe div 100);
          mp = (5 * doy + 2) div 153;
          d = doy - (153 * mp + 2) div 5 + 1;
          m = (if mp < 10 then mp + 3 else mp - 9)
      in (yoe + era * 400 + (if m \<le> 2 then 1 else 0), m, d))"

text \<open>A non-negative number in at least \<open>w\<close> digits.\<close>

definition zero_pad :: "nat \<Rightarrow> int \<Rightarrow> string" where
  "zero_pad w n = (let s = str_of_int n in replicate (w - length s) CHR ''0'' @ s)"

definition isoformat :: "datetime \<Rightarrow> string" where
  "isoformat t =
     (let n = t div 86400000000; us = t mod 86400000000; sec = us div 1000000;
          (y, m, d) = civil_from_days n
      in zero_pad 4 y @ ''-'' @ zero_pad 2 m @ ''-'' @ zero_pad 2 d @ ''T''
         @ zero_pad 2 (sec div 3600) @ '':'' @ zero_pad 2 (sec div 60 mod 60) @ '':''
         @ zero_pad 2 (sec mod 60)
         @ (if us mod 1000000 = 0 then [] else ''.'' @ zero_pad 6 (us mod 1000000))
         @ ''+00:00'')"

lemma isoformat_examples:
  "isoformat 0 = ''1970-01-01T00:00:00+00:00''"
  "isoformat 951868799000001 = ''2000-02-29T23:59:59.000001+00:00''"
  "isoformat 1780272000000000 = ''2026-06-01T00:00:00+00:00''"
  by code_simp+

end
