(* ===== verification/Service_Base.thy ===== *)
theory Service_Base
  imports Authorization Audit_Log Admission Py_Time
begin

text \<open>
  What the operations of \<^verbatim>\<open>WebhookService\<close> share: the context of a request, the audit helper,
  and inserts under the schema's uniqueness constraints.  An operation maps the database to an
  error, which rolls the transaction back, or to its result and the committed database.
\<close>

subsection \<open>The request context\<close>

text \<open>
  \<open>cx_now\<close> is \<^verbatim>\<open>database_now\<close>, the start of the transaction; \<open>cx_clock\<close> the host's clock;
  \<open>cx_uuid k\<close> the result of the \<open>k\<close>-th call of \<^verbatim>\<open>uuid4\<close> in the request; \<open>cx_random k\<close> the two
  random strings of its \<open>k\<close>-th call of \<^verbatim>\<open>generate_api_key\<close>.
\<close>

record request_ctx =
  cx_settings :: settings
  cx_now :: datetime
  cx_clock :: datetime
  cx_uuid :: "nat \<Rightarrow> string"
  cx_random :: "nat \<Rightarrow> string \<times> string"

primrec organization_role_value :: "organization_role \<Rightarrow> string" where
  "organization_role_value OWNER = ''owner''"
| "organization_role_value ADMIN = ''admin''"
| "organization_role_value MEMBER = ''member''"

primrec project_role_value :: "project_role \<Rightarrow> string" where
  "project_role_value PROJECT_ADMIN = ''admin''"
| "project_role_value OPERATOR = ''operator''"
| "project_role_value VIEWER = ''viewer''"

subsection \<open>Audit\<close>

definition audit ::
  "request_ctx \<Rightarrow> nat \<Rightarrow> int \<Rightarrow> string \<Rightarrow> string \<Rightarrow> string \<Rightarrow> string option \<Rightarrow> string option \<Rightarrow>
   audit_metadata option \<Rightarrow> db \<Rightarrow> db result"
where
  "audit cx k user_id organization_id action resource_type resource_id project_id metadata s =
     bindr (append_audit (cx_clock cx) (cx_uuid cx k) (Some user_id) organization_id action
              resource_type resource_id project_id metadata s) (\<lambda>(event, s').
       Inr (s'\<lparr>db_audit_events :=
                butlast (db_audit_events s') @ [event\<lparr>au_created_at := cx_now cx\<rparr>]\<rparr>))"

definition audited :: "administrative_audit_event \<Rightarrow> db \<Rightarrow> db" where
  "audited e s = bump_seq T_audit_events 1 (s\<lparr>db_audit_events := db_audit_events s @ [e]\<rparr>)"

lemma audited_frame [simp, frame_simps]:
  "db_users (audited e s) = db_users s"
  "db_organizations (audited e s) = db_organizations s"
  "db_policies (audited e s) = db_policies s"
  "db_org_members (audited e s) = db_org_members s"
  "db_projects (audited e s) = db_projects s"
  "db_project_members (audited e s) = db_project_members s"
  "db_api_keys (audited e s) = db_api_keys s"
  "db_global_control (audited e s) = db_global_control s"
  "db_tenant_quotas (audited e s) = db_tenant_quotas s"
  "db_endpoint_quotas (audited e s) = db_endpoint_quotas s"
  "db_endpoints (audited e s) = db_endpoints s"
  "db_secret_versions (audited e s) = db_secret_versions s"
  "db_events (audited e s) = db_events s"
  "db_deliveries (audited e s) = db_deliveries s"
  "db_replay_operations (audited e s) = db_replay_operations s"
  "db_lifecycle_operations (audited e s) = db_lifecycle_operations s"
  "db_audit_events (audited e s) = db_audit_events s @ [e]"
  "db_attempts (audited e s) = db_attempts s"
  "db_login_throttles (audited e s) = db_login_throttles s"
  "db_seq (audited e s) = (db_seq s)(T_audit_events := db_seq s T_audit_events + 1)"
  by (simp_all add: audited_def)

text \<open>What an audited operation records: who did what to which organization, at the request's time.\<close>

definition audit_record ::
  "request_ctx \<Rightarrow> int \<Rightarrow> string \<Rightarrow> string \<Rightarrow> administrative_audit_event \<Rightarrow> bool"
where
  "audit_record cx user_id organization_id action e \<longleftrightarrow>
     au_organization_public_id e = organization_id \<and> au_actor_user_id e = Some user_id
     \<and> au_action e = action \<and> au_created_at e = cx_now cx
     \<and> metadata_safe (au_sanitized_metadata e)"

lemma audit_InrE:
  assumes "audit cx k uid org action rt rid pid metadata s = Inr s'"
  obtains e where "s' = audited e s" and "audit_record cx uid org action e"
    and "au_id e = db_seq s T_audit_events"
proof -
  obtain e0 s0 where a: "append_audit (cx_clock cx) (cx_uuid cx k) (Some uid) org action rt rid pid
      metadata s = Inr (e0, s0)"
    and s': "s' = s0\<lparr>db_audit_events := butlast (db_audit_events s0) @ [e0\<lparr>au_created_at := cx_now cx\<rparr>]\<rparr>"
    using assms by (auto simp: audit_def bindr_Inr_iff)
  note f = append_audit_Inr [OF a]
  show thesis
  proof (rule that)
    show "s' = audited (e0\<lparr>au_created_at := cx_now cx\<rparr>) s"
      by (simp add: s' f(1) audited_def bump_seq_def)
    show "audit_record cx uid org action (e0\<lparr>au_created_at := cx_now cx\<rparr>)"
      using f by (simp add: audit_record_def)
    show "au_id (e0\<lparr>au_created_at := cx_now cx\<rparr>) = db_seq s T_audit_events"
      using f by simp
  qed
qed

subsection \<open>Rows\<close>

text \<open>INSERT under a uniqueness constraint on \<open>key\<close>.\<close>

definition insert_unique :: "string \<Rightarrow> ('r \<Rightarrow> 'k) \<Rightarrow> 'r \<Rightarrow> 'r list \<Rightarrow> 'r list result" where
  "insert_unique constraint key r rows =
     (if key r \<in> set (map key rows) then Inl (IntegrityError constraint) else Inr (rows @ [r]))"

lemma insert_unique_Inr:
  "insert_unique c key r rows = Inr rows' \<longleftrightarrow> key r \<notin> key ` set rows \<and> rows' = rows @ [r]"
  by (auto simp: insert_unique_def)

fun mapr :: "('a \<Rightarrow> 'b result) \<Rightarrow> 'a list \<Rightarrow> 'b list result" where
  "mapr f [] = Inr []"
| "mapr f (x # xs) = bindr (f x) (\<lambda>y. bindr (mapr f xs) (\<lambda>ys. Inr (y # ys)))"

lemma mapr_Inr: "mapr f xs = Inr ys \<longleftrightarrow> list_all2 (\<lambda>x y. f x = Inr y) xs ys"
proof (induction xs arbitrary: ys)
  case (Cons x xs)
  then show ?case by (cases ys) (auto simp: bindr_Inr_iff)
qed auto

definition find_organization :: "int \<Rightarrow> db \<Rightarrow> organization option" where
  "find_organization i s = List.find (\<lambda>o'. org_id o' = i) (db_organizations s)"

definition find_org_member :: "int \<Rightarrow> int \<Rightarrow> db \<Rightarrow> organization_member option" where
  "find_org_member organization_id user_id s =
     List.find (\<lambda>m. om_organization_id m = organization_id \<and> om_user_id m = user_id)
       (db_org_members s)"

definition find_policy :: "int \<Rightarrow> db \<Rightarrow> organization_policy option" where
  "find_policy i s = List.find (\<lambda>p. pol_organization_id p = i) (db_policies s)"

definition find_user :: "int \<Rightarrow> db \<Rightarrow> user option" where
  "find_user i s = List.find (\<lambda>u. u_id u = i) (db_users s)"

definition project_organization_id :: "project \<Rightarrow> db \<Rightarrow> string result" where
  "project_organization_id project s =
     some_or (RuntimeError ''Project organization is unavailable'')
       (map_option org_public_id (find_organization (prj_organization_id project) s))"

end
