(* ===== verification/Endpoints.thy ===== *)
theory Endpoints
  imports Service_Base Webhook_Security "HOL-Library.List_Lexorder" "HOL-Library.Char_ord"
begin

text \<open>
  Webhook endpoints in \<^verbatim>\<open>app/services/webhook_service.py\<close>: creation, update, deactivation,
  rotation of the signing secret, and the runtime controls (pause, resume, circuit recovery).
\<close>

subsection \<open>Target checks\<close>

text \<open>The parts of the standard library and of the network that the URL check consults.\<close>

record net_env =
  nv_urlsplit :: "string \<Rightarrow> split_url option"
  nv_parse_ip :: "string \<Rightarrow> ip_address option"
  nv_getaddrinfo :: "string \<Rightarrow> int \<Rightarrow> string list option"

definition validate_endpoint_url :: "net_env \<Rightarrow> settings \<Rightarrow> string \<Rightarrow> unit result" where
  "validate_endpoint_url net cfg url =
     (case validate_webhook_url (nv_urlsplit net) (nv_parse_ip net) (nv_getaddrinfo net) url
             (allow_http_webhooks cfg = Some True) (allow_private_webhooks cfg) of
        Inr _ \<Rightarrow> Inr ()
      | Inl (UnsafeWebhookUrl message reason) \<Rightarrow> Inl (ValidationError message (Some ''url''))
      | Inl Url_ValueError \<Rightarrow> Inl (ValueError ''ip_address''))"

definition find_endpoint :: "project \<Rightarrow> string \<Rightarrow> db \<Rightarrow> webhook_endpoint result" where
  "find_endpoint project endpoint_id s =
     some_or (NotFoundError ''Webhook endpoint'' endpoint_id)
       (List.find (\<lambda>e. ep_project_id e = prj_id project \<and> ep_public_id e = endpoint_id)
          (db_endpoints s))"

definition put_endpoint :: "webhook_endpoint \<Rightarrow> db \<Rightarrow> db" where
  "put_endpoint e s =
     s\<lparr>db_endpoints := update_where (\<lambda>r. ep_id r = ep_id e) (\<lambda>_. e) (db_endpoints s)\<rparr>"

definition endpoint_plaintext_secret :: "settings \<Rightarrow> webhook_endpoint \<Rightarrow> string" where
  "endpoint_plaintext_secret cfg endpoint =
     (if ep_signature_scheme endpoint = Standard then endpoint_secret_standard else endpoint_secret)
       (webhook_signing_key cfg) (ep_public_id endpoint) (ep_secret_version endpoint)"

subsection \<open>Operations\<close>

definition insert_secret_version ::
  "int \<Rightarrow> int \<Rightarrow> datetime \<Rightarrow> db \<Rightarrow> db result"
where
  "insert_secret_version endpoint_id version now s =
     bindr (insert_unique ''uq_endpoint_signing_secrets_endpoint_version''
              (\<lambda>v. (sv_endpoint_id v, sv_version v))
              \<lparr>sv_id = db_seq s T_secret_versions, sv_endpoint_id = endpoint_id,
               sv_version = version, sv_activated_at = now, sv_retire_at = None\<rparr>
              (db_secret_versions s)) (\<lambda>versions.
     Inr (bump_seq T_secret_versions 1 (s\<lparr>db_secret_versions := versions\<rparr>)))"

definition create_endpoint ::
  "net_env \<Rightarrow> request_ctx \<Rightarrow> int \<Rightarrow> string \<Rightarrow> string \<Rightarrow> string option \<Rightarrow> string list option \<Rightarrow>
   signature_scheme \<Rightarrow> db \<Rightarrow> ((webhook_endpoint \<times> string) \<times> db) result"
where
  "create_endpoint net cx user_id project_id url description event_types signature_scheme s =
     bindr (authorize_project user_id project_id ENDPOINT_MANAGE False s) (\<lambda>project.
     bindr (validate_endpoint_url net (cx_settings cx) url) (\<lambda>_.
     bindr (check_endpoint_limit (cx_settings cx) (cx_now cx) (prj_organization_id project)
              (prj_id project) None s) (\<lambda>s1.
     let now = cx_now cx;
         endpoint = \<lparr>ep_id = db_seq s1 T_endpoints, ep_public_id = cx_uuid cx 0,
           ep_project_id = prj_id project, ep_url = url, ep_description = description,
           ep_event_types = event_types, ep_signature_scheme = signature_scheme,
           ep_is_active = True, ep_secret_version = 1, ep_created_at = now, ep_updated_at = now\<rparr>
     in bindr (insert_unique ''webhook_endpoints.public_id'' ep_public_id endpoint
                 (db_endpoints s1)) (\<lambda>endpoints.
        bindr (insert_unique ''endpoint_quota_state'' eq_endpoint_id
                 (endpoint_quota_values (ep_id endpoint) (cx_settings cx) now)
                 (db_endpoint_quotas s1)) (\<lambda>quotas.
        bindr (insert_secret_version (ep_id endpoint) 1 now
                 (bump_seq T_endpoints 1
                    (s1\<lparr>db_endpoints := endpoints, db_endpoint_quotas := quotas\<rparr>))) (\<lambda>s2.
        bindr (project_organization_id project s2) (\<lambda>organization_public_id.
        bindr (audit cx 1 user_id organization_public_id ''endpoint.created'' ''endpoint''
                 (Some (ep_public_id endpoint)) (Some (prj_public_id project))
                 (Some [(''version'', AuScalar (AuInt 1))]) s2) (\<lambda>s3.
        Inr ((endpoint, endpoint_plaintext_secret (cx_settings cx) endpoint), s3)))))))))"

definition list_endpoints :: "int \<Rightarrow> string \<Rightarrow> nat \<Rightarrow> nat \<Rightarrow> db \<Rightarrow> webhook_endpoint list result" where
  "list_endpoints user_id project_id offset limit s =
     bindr (authorize_project user_id project_id PROJECT_READ False s) (\<lambda>project.
     Inr (page_rows offset limit
            (sort_key (\<lambda>e. (- ep_created_at e, - ep_id e))
               (filter (\<lambda>e. ep_project_id e = prj_id project) (db_endpoints s)))))"

text \<open>
  The changes of \<^verbatim>\<open>update_endpoint\<close>: the request schema admits these fields, and null only for the
  description and the event types.
\<close>

datatype endpoint_change =
    Change_url string
  | Change_description "string option"
  | Change_is_active bool
  | Change_event_types "string list option"
  | Change_signature_scheme signature_scheme

primrec endpoint_field :: "endpoint_change \<Rightarrow> string" where
  "endpoint_field (Change_url _) = ''url''"
| "endpoint_field (Change_description _) = ''description''"
| "endpoint_field (Change_is_active _) = ''is_active''"
| "endpoint_field (Change_event_types _) = ''event_types''"
| "endpoint_field (Change_signature_scheme _) = ''signature_scheme''"

primrec set_endpoint_field :: "endpoint_change \<Rightarrow> webhook_endpoint \<Rightarrow> webhook_endpoint" where
  "set_endpoint_field (Change_url v) e = e\<lparr>ep_url := v\<rparr>"
| "set_endpoint_field (Change_description v) e = e\<lparr>ep_description := v\<rparr>"
| "set_endpoint_field (Change_is_active v) e = e\<lparr>ep_is_active := v\<rparr>"
| "set_endpoint_field (Change_event_types v) e = e\<lparr>ep_event_types := v\<rparr>"
| "set_endpoint_field (Change_signature_scheme v) e = e\<lparr>ep_signature_scheme := v\<rparr>"

text \<open>\<^verbatim>\<open>changes.get("url")\<close>.\<close>

fun changed_url :: "endpoint_change list \<Rightarrow> string option" where
  "changed_url [] = None"
| "changed_url (Change_url v # cs) = Some v"
| "changed_url (c # cs) = changed_url cs"

definition update_endpoint ::
  "net_env \<Rightarrow> request_ctx \<Rightarrow> int \<Rightarrow> string \<Rightarrow> string \<Rightarrow> endpoint_change list \<Rightarrow> db \<Rightarrow>
   ((webhook_endpoint \<times> string option) \<times> db) result"
where
  "update_endpoint net cx user_id project_id endpoint_id changes s =
     bindr (authorize_project user_id project_id ENDPOINT_MANAGE False s) (\<lambda>project.
     bindr (find_endpoint project endpoint_id s) (\<lambda>endpoint.
     bindr (case changed_url changes of
              None \<Rightarrow> Inr ()
            | Some url \<Rightarrow> validate_endpoint_url net (cx_settings cx) url) (\<lambda>_.
     bindr (if Change_is_active True \<in> set changes \<and> \<not> ep_is_active endpoint
            then check_endpoint_limit (cx_settings cx) (cx_now cx) (prj_organization_id project)
                   (prj_id project) (Some (ep_id endpoint)) s
            else Inr s) (\<lambda>s1.
     let scheme_became_standard = (Change_signature_scheme Standard \<in> set changes
           \<and> ep_signature_scheme endpoint \<noteq> Standard);
         endpoint' = (fold set_endpoint_field changes endpoint)\<lparr>ep_updated_at := cx_now cx\<rparr>;
         s2 = put_endpoint endpoint' s1
     in bindr (project_organization_id project s2) (\<lambda>organization_public_id.
        bindr (audit cx 0 user_id organization_public_id ''endpoint.updated'' ''endpoint''
                 (Some (ep_public_id endpoint)) (Some (prj_public_id project))
                 (Some [(''changed_fields'', AuList (map AuStr (sort (map endpoint_field changes))))])
                 s2) (\<lambda>s3.
        Inr ((endpoint', if scheme_became_standard
                then Some (endpoint_plaintext_secret (cx_settings cx) endpoint') else None), s3)))))))"

definition deactivate_endpoint ::
  "request_ctx \<Rightarrow> int \<Rightarrow> string \<Rightarrow> string \<Rightarrow> db \<Rightarrow> (webhook_endpoint \<times> db) result"
where
  "deactivate_endpoint cx user_id project_id endpoint_id s =
     bindr (authorize_project user_id project_id ENDPOINT_MANAGE False s) (\<lambda>project.
     bindr (find_endpoint project endpoint_id s) (\<lambda>endpoint.
     if ep_is_active endpoint then
       let endpoint' = endpoint\<lparr>ep_is_active := False, ep_updated_at := cx_now cx\<rparr>;
           s1 = put_endpoint endpoint' s
       in bindr (project_organization_id project s1) (\<lambda>organization_public_id.
          bindr (audit cx 0 user_id organization_public_id ''endpoint.deactivated'' ''endpoint''
                   (Some (ep_public_id endpoint)) (Some (prj_public_id project)) None s1) (\<lambda>s2.
          Inr (endpoint', s2)))
     else Inr (endpoint, s)))"

definition find_secret_version :: "int \<Rightarrow> int \<Rightarrow> db \<Rightarrow> endpoint_signing_secret_version option" where
  "find_secret_version endpoint_id version s =
     List.find (\<lambda>v. sv_endpoint_id v = endpoint_id \<and> sv_version v = version) (db_secret_versions s)"

definition rotate_endpoint_secret ::
  "request_ctx \<Rightarrow> int \<Rightarrow> string \<Rightarrow> string \<Rightarrow> db \<Rightarrow>
   ((webhook_endpoint \<times> string \<times> datetime option) \<times> db) result"
where
  "rotate_endpoint_secret cx user_id project_id endpoint_id s =
     bindr (authorize_project user_id project_id ENDPOINT_MANAGE False s) (\<lambda>project.
     bindr (find_endpoint project endpoint_id s) (\<lambda>endpoint.
     bindr (some_or (ConflictError ''Current endpoint signing version is missing'')
              (find_secret_version (ep_id endpoint) (ep_secret_version endpoint) s)) (\<lambda>current.
     let now = cx_now cx; overlap = endpoint_secret_overlap_seconds (cx_settings cx);
         current' = current\<lparr>sv_retire_at := Some (now + seconds overlap)\<rparr>;
         previous_version = ep_secret_version endpoint;
         endpoint' = endpoint\<lparr>ep_secret_version := previous_version + 1, ep_updated_at := now\<rparr>;
         s1 = put_endpoint endpoint'
                (s\<lparr>db_secret_versions := update_where (\<lambda>v. sv_id v = sv_id current) (\<lambda>_. current')
                     (db_secret_versions s)\<rparr>)
     in bindr (insert_secret_version (ep_id endpoint) (ep_secret_version endpoint') now s1) (\<lambda>s2.
        bindr (project_organization_id project s2) (\<lambda>organization_public_id.
        bindr (audit cx 0 user_id organization_public_id ''endpoint.signing_version_rotated''
                 ''endpoint'' (Some (ep_public_id endpoint)) (Some (prj_public_id project))
                 (Some [(''previous_version'', AuScalar (AuInt previous_version)),
                        (''current_version'', AuScalar (AuInt (ep_secret_version endpoint'))),
                        (''overlap_seconds'', AuScalar (AuInt overlap))]) s2) (\<lambda>s3.
        Inr ((endpoint', endpoint_plaintext_secret (cx_settings cx) endpoint',
              sv_retire_at current'), s3)))))))"

subsection \<open>Runtime controls\<close>

record runtime_view =
  rv_endpoint_id :: string
  rv_paused :: bool
  rv_pause_reason :: "string option"
  rv_circuit_state :: circuit_state
  rv_consecutive_failures :: int
  rv_circuit_open_until :: "datetime option"

definition endpoint_runtime ::
  "project \<Rightarrow> string \<Rightarrow> db \<Rightarrow> (webhook_endpoint \<times> endpoint_quota_state) result"
where
  "endpoint_runtime project endpoint_id s =
     bindr (find_endpoint project endpoint_id s) (\<lambda>endpoint.
     bindr (some_or (RuntimeError ''Endpoint runtime state is unavailable'')
              (find_endpoint_quota (ep_id endpoint) s)) (\<lambda>state.
     Inr (endpoint, state)))"

definition runtime_view_of :: "webhook_endpoint \<Rightarrow> endpoint_quota_state \<Rightarrow> runtime_view" where
  "runtime_view_of endpoint state =
     \<lparr>rv_endpoint_id = ep_public_id endpoint, rv_paused = (eq_paused_at state \<noteq> None),
      rv_pause_reason = eq_pause_reason state, rv_circuit_state = eq_circuit_state state,
      rv_consecutive_failures = eq_consecutive_failures state,
      rv_circuit_open_until = eq_circuit_open_until state\<rparr>"

text \<open>
  The three controls share their frame: authorize, load the runtime state, assign to it, audit and
  commit.
\<close>

definition operate_endpoint ::
  "request_ctx \<Rightarrow> int \<Rightarrow> string \<Rightarrow> string \<Rightarrow> (endpoint_quota_state \<Rightarrow> endpoint_quota_state) \<Rightarrow> string \<Rightarrow>
   audit_metadata option \<Rightarrow> db \<Rightarrow> (runtime_view \<times> db) result"
where
  "operate_endpoint cx user_id project_id endpoint_id change action metadata s =
     bindr (authorize_project user_id project_id ENDPOINT_OPERATE False s) (\<lambda>project.
     bindr (endpoint_runtime project endpoint_id s) (\<lambda>(endpoint, state).
     let state' = change state; s1 = put_endpoint_quota state' s
     in bindr (project_organization_id project s1) (\<lambda>organization_public_id.
        bindr (audit cx 0 user_id organization_public_id action ''endpoint''
                 (Some (ep_public_id endpoint)) (Some (prj_public_id project)) metadata s1) (\<lambda>s2.
        Inr (runtime_view_of endpoint state', s2)))))"

definition pause_endpoint ::
  "request_ctx \<Rightarrow> int \<Rightarrow> string \<Rightarrow> string \<Rightarrow> string option \<Rightarrow> db \<Rightarrow> (runtime_view \<times> db) result"
where
  "pause_endpoint cx user_id project_id endpoint_id reason s =
     operate_endpoint cx user_id project_id endpoint_id
       (\<lambda>state. state\<lparr>eq_paused_at := Some (case eq_paused_at state of Some t \<Rightarrow> t | None \<Rightarrow> cx_now cx),
          eq_pause_reason := reason, eq_updated_at := cx_now cx\<rparr>)
       ''endpoint.paused'' (Some [(''reason_provided'', AuScalar (AuBool (reason \<noteq> None)))]) s"

definition resume_endpoint ::
  "request_ctx \<Rightarrow> int \<Rightarrow> string \<Rightarrow> string \<Rightarrow> db \<Rightarrow> (runtime_view \<times> db) result"
where
  "resume_endpoint cx user_id project_id endpoint_id s =
     operate_endpoint cx user_id project_id endpoint_id
       (\<lambda>state. state\<lparr>eq_paused_at := None, eq_pause_reason := None, eq_updated_at := cx_now cx\<rparr>)
       ''endpoint.resumed'' None s"

definition recover_endpoint_circuit ::
  "request_ctx \<Rightarrow> int \<Rightarrow> string \<Rightarrow> string \<Rightarrow> db \<Rightarrow> (runtime_view \<times> db) result"
where
  "recover_endpoint_circuit cx user_id project_id endpoint_id s =
     operate_endpoint cx user_id project_id endpoint_id
       (\<lambda>state. state\<lparr>eq_retry_tokens := of_int (endpoint_retry_burst (cx_settings cx)),
          eq_retry_refilled_at := cx_now cx, eq_circuit_state := Closed,
          eq_consecutive_failures := 0, eq_circuit_open_until := None,
          eq_half_open_probe_delivery_id := None, eq_updated_at := cx_now cx\<rparr>)
       ''endpoint.circuit_recovered'' None s"

end
