(* ===== verification/Ingest.thy ===== *)
theory Ingest
  imports Endpoints
begin

text \<open>
  \<^verbatim>\<open>WebhookService.ingest_event\<close>: idempotent acceptance of an event, admission, and the fan-out
  into deliveries that snapshot their endpoints.  A JSON null payload reads back from its column
  as \<^verbatim>\<open>None\<close>, like a purged one, so the column is \<open>None\<close> for it.
\<close>

primrec envelope_mode_value :: "envelope_mode \<Rightarrow> string" where
  "envelope_mode_value Native = ''native''"
| "envelope_mode_value Cloudevents = ''cloudevents''"

definition payload_column :: "json \<Rightarrow> json option" where
  "payload_column payload = (if payload = JNull then None else Some payload)"

definition fingerprint_material :: "string \<Rightarrow> envelope_mode \<Rightarrow> bytes \<Rightarrow> bytes" where
  "fingerprint_material event_type envelope_mode payload_bytes =
     (let material = utf8_encode event_type @ [char_of (0 :: nat)] @ payload_bytes
      in if envelope_mode \<noteq> Native
         then envelope_mode_value envelope_mode @ [char_of (0 :: nat)] @ material
         else material)"

definition find_idempotent :: "int \<Rightarrow> string \<Rightarrow> db \<Rightarrow> event option" where
  "find_idempotent project_id idempotency_key s =
     List.find (\<lambda>e. ev_project_id e = project_id \<and> ev_idempotency_key e = idempotency_key)
       (db_events s)"

definition same_content :: "string \<Rightarrow> envelope_mode \<Rightarrow> string \<Rightarrow> event \<Rightarrow> bool" where
  "same_content event_type envelope_mode fingerprint e \<longleftrightarrow>
     ev_event_type e = event_type \<and> ev_envelope_mode e = envelope_mode
     \<and> ev_payload_hash e = fingerprint"

text \<open>The two checks of the key before the insert: return the stored event, or refuse.\<close>

definition idempotent_hit ::
  "string \<Rightarrow> envelope_mode \<Rightarrow> string \<Rightarrow> event \<Rightarrow> db \<Rightarrow> (event \<times> db) result"
where
  "idempotent_hit event_type envelope_mode fingerprint existing s =
     (if \<not> same_content event_type envelope_mode fingerprint existing
      then Inl (ConflictError ''Idempotency-Key was already used with different content'')
      else Inr (existing, s))"

definition event_envelope ::
  "project \<Rightarrow> string \<Rightarrow> string \<Rightarrow> json \<Rightarrow> envelope_mode \<Rightarrow> datetime \<Rightarrow> json"
where
  "event_envelope project event_public_id event_type payload envelope_mode now =
     (if envelope_mode = Cloudevents
      then JObject [(''data'', payload), (''datacontenttype'', JString ''application/json''),
        (''id'', JString event_public_id),
        (''source'', JString (''urn:webhook-platform:project:'' @ prj_public_id project)),
        (''specversion'', JString ''1.0''), (''time'', JString (isoformat now)),
        (''type'', JString event_type)]
      else JObject [(''id'', JString event_public_id), (''type'', JString event_type),
        (''created_at'', JString (isoformat now)), (''data'', payload)])"

definition subscribed_endpoints :: "int \<Rightarrow> string \<Rightarrow> db \<Rightarrow> webhook_endpoint list" where
  "subscribed_endpoints project_id event_type s =
     filter (\<lambda>e. event_type_matches event_type (filter_json (ep_event_types e)))
       (filter (\<lambda>e. ep_project_id e = project_id \<and> ep_is_active e) (db_endpoints s))"

definition new_delivery ::
  "datetime \<Rightarrow> int \<Rightarrow> int \<Rightarrow> int \<Rightarrow> string \<Rightarrow> webhook_endpoint \<Rightarrow> delivery"
where
  "new_delivery now organization_id event_id i public_id endpoint =
     \<lparr>dl_id = i, dl_public_id = public_id, dl_organization_id = organization_id,
      dl_event_id = event_id, dl_endpoint_id = ep_id endpoint, dl_replay_of_delivery_id = None,
      dl_endpoint_public_id_snapshot = ep_public_id endpoint,
      dl_endpoint_url_snapshot = ep_url endpoint, dl_endpoint_active_snapshot = ep_is_active endpoint,
      dl_signing_secret_version_snapshot = ep_secret_version endpoint,
      dl_signature_scheme_snapshot = ep_signature_scheme endpoint, dl_status = Pending,
      dl_attempt_count = 0, dl_next_attempt_at = now, dl_lease_token = None,
      dl_lease_expires_at = None, dl_last_http_status = None, dl_last_error = None,
      dl_created_at = now, dl_updated_at = now, dl_succeeded_at = None, dl_dead_at = None,
      dl_dead_reason = None, dl_canceled_at = None, dl_canceled_reason = None\<rparr>"

text \<open>The deliveries of the fan-out, with the keys the sequence hands out and their fresh ids.\<close>

fun fan_out ::
  "datetime \<Rightarrow> int \<Rightarrow> int \<Rightarrow> (nat \<Rightarrow> string) \<Rightarrow> int \<Rightarrow> nat \<Rightarrow> webhook_endpoint list \<Rightarrow> delivery list"
where
  "fan_out now organization_id event_id uuid i k [] = []"
| "fan_out now organization_id event_id uuid i k (e # es) =
     new_delivery now organization_id event_id i (uuid k) e
       # fan_out now organization_id event_id uuid (i + 1) (Suc k) es"

definition insert_event :: "event \<Rightarrow> db \<Rightarrow> db result" where
  "insert_event e s =
     bindr (insert_unique ''events.public_id'' ev_public_id e (db_events s)) (\<lambda>_.
     bindr (insert_unique ''uq_events_idempotency'' (\<lambda>e. (ev_project_id e, ev_idempotency_key e)) e
              (db_events s)) (\<lambda>events.
     Inr (bump_seq T_events 1 (s\<lparr>db_events := events\<rparr>))))"

text \<open>The part after the key was found unused under the tenant lock.\<close>

definition accept_event ::
  "request_ctx \<Rightarrow> project \<Rightarrow> string \<Rightarrow> string \<Rightarrow> json \<Rightarrow> envelope_mode \<Rightarrow> string \<Rightarrow>
   string option \<Rightarrow> string option \<Rightarrow> tenant_quota_state \<Rightarrow> db \<Rightarrow> db \<Rightarrow> (event \<times> db) result"
where
  "accept_event cx project idempotency_key event_type payload envelope_mode fingerprint
     traceparent tracestate tenant_state s0 s =
     (let now = cx_now cx; event_public_id = cx_uuid cx 0
      in bindr (canonical_json
                  (event_envelope project event_public_id event_type payload envelope_mode now))
           (\<lambda>canonical_envelope.
         let endpoints = subscribed_endpoints (prj_id project) event_type s
         in bindr (admit_event_locked (cx_settings cx) tenant_state now (prj_organization_id project)
                     (int (length endpoints)) (int (length canonical_envelope)) s) (\<lambda>s1.
            let event = \<lparr>ev_id = db_seq s1 T_events, ev_public_id = event_public_id,
                  ev_project_id = prj_id project, ev_idempotency_key = idempotency_key,
                  ev_event_type = event_type, ev_envelope_mode = envelope_mode,
                  ev_payload = payload_column payload, ev_payload_hash = fingerprint,
                  ev_canonical_envelope = Some canonical_envelope, ev_payload_purged_at = None,
                  ev_traceparent = traceparent, ev_tracestate = tracestate, ev_created_at = now\<rparr>
            in case insert_event event s1 of
                 Inl _ \<Rightarrow>
                   (case find_idempotent (prj_id project) idempotency_key s0 of
                      Some raced \<Rightarrow>
                        idempotent_hit event_type envelope_mode fingerprint raced s0
                    | None \<Rightarrow> Inl (ConflictError
                        ''Idempotency-Key was already used with different content''))
               | Inr s2 \<Rightarrow>
                   let rows = fan_out now (prj_organization_id project) (ev_id event) (cx_uuid cx)
                         (db_seq s2 T_deliveries) 1 endpoints
                   in Inr (event, bump_seq T_deliveries (int (length endpoints))
                        (s2\<lparr>db_deliveries := db_deliveries s2 @ rows\<rparr>)))))"

definition ingest_event ::
  "request_ctx \<Rightarrow> project \<Rightarrow> string \<Rightarrow> string \<Rightarrow> json \<Rightarrow> envelope_mode \<Rightarrow> string option \<Rightarrow> string option \<Rightarrow>
   db \<Rightarrow> (event \<times> db) result"
where
  "ingest_event cx project idempotency_key event_type payload envelope_mode traceparent tracestate s =
     (let cfg = cx_settings cx
      in if \<not> (1 \<le> length idempotency_key
               \<and> int (length idempotency_key) \<le> idempotency_key_max_length cfg)
         then Inl (ValidationError ''Idempotency-Key length is invalid'' None)
         else case canonical_json payload of
           Inl _ \<Rightarrow> Inl (ValidationError ''Payload must be valid finite JSON'' None)
         | Inr payload_bytes \<Rightarrow>
             if int (length payload_bytes) > webhook_payload_max_bytes cfg
             then Inl (ValidationError ''Webhook payload exceeds configured limit'' None)
             else
               let fingerprint =
                     hexdigest (sha256 (fingerprint_material event_type envelope_mode payload_bytes))
               in case find_idempotent (prj_id project) idempotency_key s of
                    Some existing \<Rightarrow> idempotent_hit event_type envelope_mode fingerprint existing s
                  | None \<Rightarrow>
                      bindr (lock_global_tenant cfg (cx_now cx) (prj_organization_id project) s)
                        (\<lambda>(_, tenant_state, s1).
                      case find_idempotent (prj_id project) idempotency_key s1 of
                        Some existing \<Rightarrow>
                          idempotent_hit event_type envelope_mode fingerprint existing s
                      | None \<Rightarrow>
                          accept_event cx project idempotency_key event_type payload envelope_mode
                            fingerprint traceparent tracestate tenant_state s s1))"

end
