(* ===== verification/Delivery_Admin.thy ===== *)
theory Delivery_Admin
  imports Ingest Delivery_Service
begin

text \<open>
  The operations of \<^verbatim>\<open>app/services/webhook_service.py\<close> on accepted events and deliveries: reads,
  replay, the dead-letter list, cancellation and the manual purge.
\<close>

subsection \<open>Reads\<close>

definition list_events :: "int \<Rightarrow> string \<Rightarrow> nat \<Rightarrow> nat \<Rightarrow> db \<Rightarrow> event list result" where
  "list_events user_id project_id offset limit s =
     bindr (authorize_project user_id project_id PROJECT_READ False s) (\<lambda>project.
     Inr (page_rows offset limit
            (sort_key (\<lambda>e. (- ev_created_at e, - ev_id e))
               (filter (\<lambda>e. ev_project_id e = prj_id project) (db_events s)))))"

definition get_event :: "int \<Rightarrow> string \<Rightarrow> string \<Rightarrow> db \<Rightarrow> event result" where
  "get_event user_id project_id event_id s =
     bindr (authorize_project user_id project_id PROJECT_READ False s) (\<lambda>project.
     some_or (NotFoundError ''Event'' event_id)
       (List.find (\<lambda>e. ev_project_id e = prj_id project \<and> ev_public_id e = event_id) (db_events s)))"

text \<open>The join of deliveries with the events of a project.\<close>

definition project_deliveries :: "int \<Rightarrow> db \<Rightarrow> delivery list" where
  "project_deliveries project_id s =
     [d. d \<leftarrow> db_deliveries s, e \<leftarrow> db_events s,
        ev_id e = dl_event_id d \<and> ev_project_id e = project_id]"

definition list_deliveries :: "int \<Rightarrow> string \<Rightarrow> nat \<Rightarrow> nat \<Rightarrow> db \<Rightarrow> delivery list result" where
  "list_deliveries user_id project_id offset limit s =
     bindr (authorize_project user_id project_id PROJECT_READ False s) (\<lambda>project.
     Inr (page_rows offset limit
            (sort_key (\<lambda>d. (- dl_created_at d, - dl_id d))
               (project_deliveries (prj_id project) s))))"

definition find_project_delivery :: "project \<Rightarrow> string \<Rightarrow> db \<Rightarrow> delivery option" where
  "find_project_delivery project delivery_id s =
     List.find (\<lambda>d. dl_public_id d = delivery_id) (project_deliveries (prj_id project) s)"

definition get_delivery ::
  "int \<Rightarrow> string \<Rightarrow> string \<Rightarrow> db \<Rightarrow> (delivery \<times> delivery_attempt list) result"
where
  "get_delivery user_id project_id delivery_id s =
     bindr (authorize_project user_id project_id PROJECT_READ False s) (\<lambda>project.
     bindr (some_or (NotFoundError ''Delivery'' delivery_id)
              (find_project_delivery project delivery_id s)) (\<lambda>d.
     Inr (d, filter (\<lambda>a. at_delivery_id a = dl_id d) (db_attempts s))))"

subsection \<open>Replay\<close>

definition replay_source :: "project \<Rightarrow> string \<Rightarrow> bool \<Rightarrow> db \<Rightarrow> delivery result" where
  "replay_source project delivery_id dead_only s =
     some_or (NotFoundError ''Delivery'' delivery_id)
       (List.find (\<lambda>d. dl_public_id d = delivery_id \<and> (dead_only \<longrightarrow> dl_status d = Dead))
          (project_deliveries (prj_id project) s))"

definition ensure_replayable :: "delivery \<Rightarrow> datetime \<Rightarrow> db \<Rightarrow> unit result" where
  "ensure_replayable delivery now s =
     (case find_event (dl_event_id delivery) s of
        None \<Rightarrow> Inl (ConflictError ''Delivery event payload has been purged'')
      | Some event \<Rightarrow>
          if ev_payload event = None \<or> ev_canonical_envelope event = None
             \<or> ev_payload_purged_at event \<noteq> None
          then Inl (ConflictError ''Delivery event payload has been purged'')
          else
            (case find_secret_version (dl_endpoint_id delivery)
                    (dl_signing_secret_version_snapshot delivery) s of
               None \<Rightarrow> Inl (ConflictError ''Delivery signing version is unavailable'')
             | Some version \<Rightarrow>
                 if opt_le (sv_retire_at version) now
                 then Inl (ConflictError ''Delivery signing version has retired'')
                 else Inr ()))"

definition replay_copy :: "delivery \<Rightarrow> datetime \<Rightarrow> int \<Rightarrow> string \<Rightarrow> delivery" where
  "replay_copy original now i public_id =
     \<lparr>dl_id = i, dl_public_id = public_id, dl_organization_id = dl_organization_id original,
      dl_event_id = dl_event_id original, dl_endpoint_id = dl_endpoint_id original,
      dl_replay_of_delivery_id = Some (dl_id original),
      dl_endpoint_public_id_snapshot = dl_endpoint_public_id_snapshot original,
      dl_endpoint_url_snapshot = dl_endpoint_url_snapshot original,
      dl_endpoint_active_snapshot = dl_endpoint_active_snapshot original,
      dl_signing_secret_version_snapshot = dl_signing_secret_version_snapshot original,
      dl_signature_scheme_snapshot = dl_signature_scheme_snapshot original, dl_status = Pending,
      dl_attempt_count = 0, dl_next_attempt_at = now, dl_lease_token = None,
      dl_lease_expires_at = None, dl_last_http_status = None, dl_last_error = None,
      dl_created_at = now, dl_updated_at = now, dl_succeeded_at = None, dl_dead_at = None,
      dl_dead_reason = None, dl_canceled_at = None, dl_canceled_reason = None\<rparr>"

fun replay_copies :: "datetime \<Rightarrow> (nat \<Rightarrow> string) \<Rightarrow> int \<Rightarrow> nat \<Rightarrow> delivery list \<Rightarrow> delivery list" where
  "replay_copies now uuid i k [] = []"
| "replay_copies now uuid i k (d # ds) =
     replay_copy d now i (uuid k) # replay_copies now uuid (i + 1) (Suc k) ds"

definition insert_replay_operation :: "replay_operation \<Rightarrow> db \<Rightarrow> db result" where
  "insert_replay_operation operation s =
     bindr (insert_unique ''uq_replay_operations_project_key''
              (\<lambda>r. (ro_project_id r, ro_idempotency_key r)) operation (db_replay_operations s)) (\<lambda>rows.
     Inr (bump_seq T_replay_operations 1 (s\<lparr>db_replay_operations := rows\<rparr>)))"

definition add_deliveries :: "delivery list \<Rightarrow> db \<Rightarrow> db" where
  "add_deliveries rows s =
     bump_seq T_deliveries (int (length rows)) (s\<lparr>db_deliveries := db_deliveries s @ rows\<rparr>)"

definition replay_delivery ::
  "request_ctx \<Rightarrow> int \<Rightarrow> string \<Rightarrow> string \<Rightarrow> db \<Rightarrow> (delivery \<times> db) result"
where
  "replay_delivery cx user_id project_id delivery_id s =
     bindr (authorize_project user_id project_id REPLAY False s) (\<lambda>project.
     bindr (replay_source project delivery_id False s) (\<lambda>original.
     bindr (ensure_replayable original (cx_now cx) s) (\<lambda>_.
     bindr (admit_replay (cx_settings cx) (cx_now cx) (dl_organization_id original) s) (\<lambda>s1.
     let now = cx_now cx;
         replay = replay_copy original now (db_seq s1 T_deliveries) (cx_uuid cx 0);
         operation = \<lparr>ro_id = db_seq s1 T_replay_operations, ro_public_id = cx_uuid cx 1,
           ro_organization_id = dl_organization_id original, ro_project_id = prj_id project,
           ro_actor_user_id = Some user_id, ro_idempotency_key = ''legacy-'' @ cx_uuid cx 2,
           ro_mode = Single, ro_requested_count = 1, ro_created_count = 1,
           ro_source_delivery_ids = [dl_public_id original],
           ro_created_delivery_ids = [dl_public_id replay], ro_created_at = now\<rparr>
     in bindr (insert_replay_operation operation (add_deliveries [replay] s1)) (\<lambda>s2.
        bindr (project_organization_id project s2) (\<lambda>organization_public_id.
        bindr (audit cx 3 user_id organization_public_id ''delivery.replayed'' ''replay_operation''
                 (Some (ro_public_id operation)) (Some (prj_public_id project))
                 (Some [(''requested_count'', AuScalar (AuInt 1)),
                        (''created_count'', AuScalar (AuInt 1))]) s2) (\<lambda>s3.
        Inr (replay, s3))))))))"

definition find_replay_operation :: "int \<Rightarrow> string \<Rightarrow> db \<Rightarrow> replay_operation option" where
  "find_replay_operation project_id idempotency_key s =
     List.find (\<lambda>r. ro_project_id r = project_id \<and> ro_idempotency_key r = idempotency_key)
       (db_replay_operations s)"

definition replay_hit ::
  "string list \<Rightarrow> replay_operation \<Rightarrow> db \<Rightarrow> (replay_operation \<times> db) result"
where
  "replay_hit delivery_ids existing s =
     (if ro_source_delivery_ids existing \<noteq> delivery_ids
      then Inl (ConflictError ''Idempotency-Key was already used with different deliveries'')
      else Inr (existing, s))"

text \<open>The part of the bulk replay after its key was found unused under the tenant lock.\<close>

definition replay_batch ::
  "request_ctx \<Rightarrow> int \<Rightarrow> project \<Rightarrow> string list \<Rightarrow> string \<Rightarrow> tenant_quota_state \<Rightarrow> db \<Rightarrow>
   (replay_operation \<times> db) result"
where
  "replay_batch cx user_id project delivery_ids idempotency_key tenant_state s =
     (let now = cx_now cx; n = length delivery_ids;
          sources = filter (\<lambda>d. dl_public_id d \<in> set delivery_ids \<and> dl_status d = Dead)
            (project_deliveries (prj_id project) s)
      in if length (remdups (map dl_public_id sources)) \<noteq> n
         then Inl (ValidationError
                ''All replay sources must be dead deliveries in the project'' None)
         else
           bindr (mapr (\<lambda>d. ensure_replayable d now s) sources) (\<lambda>_.
           bindr (admit_replays_locked (cx_settings cx) tenant_state now (int n) s) (\<lambda>s1.
           bindr (mapr (\<lambda>pid. some_or KeyError (List.find (\<lambda>d. dl_public_id d = pid) sources))
                    delivery_ids) (\<lambda>originals.
           let replays = replay_copies now (cx_uuid cx) (db_seq s1 T_deliveries) 0 originals;
               operation = \<lparr>ro_id = db_seq s1 T_replay_operations, ro_public_id = cx_uuid cx n,
                 ro_organization_id = prj_organization_id project, ro_project_id = prj_id project,
                 ro_actor_user_id = Some user_id, ro_idempotency_key = idempotency_key,
                 ro_mode = (if n = 1 then Single else Bulk), ro_requested_count = int n,
                 ro_created_count = int (length replays), ro_source_delivery_ids = delivery_ids,
                 ro_created_delivery_ids = map dl_public_id replays, ro_created_at = now\<rparr>
           in bindr (insert_replay_operation operation (add_deliveries replays s1)) (\<lambda>s2.
              bindr (project_organization_id project s2) (\<lambda>organization_public_id.
              bindr (audit cx (Suc n) user_id organization_public_id ''delivery.replayed''
                       ''replay_operation'' (Some (ro_public_id operation))
                       (Some (prj_public_id project))
                       (Some [(''requested_count'', AuScalar (AuInt (int n))),
                              (''created_count'', AuScalar (AuInt (int (length replays))))]) s2) (\<lambda>s3.
              Inr (operation, s3))))))))"

definition replay_deliveries ::
  "request_ctx \<Rightarrow> int \<Rightarrow> string \<Rightarrow> string list \<Rightarrow> string \<Rightarrow> db \<Rightarrow> (replay_operation \<times> db) result"
where
  "replay_deliveries cx user_id project_id delivery_ids idempotency_key s =
     bindr (authorize_project user_id project_id REPLAY False s) (\<lambda>project.
     let cfg = cx_settings cx
     in
     if \<not> (1 \<le> length idempotency_key
           \<and> int (length idempotency_key) \<le> idempotency_key_max_length cfg)
     then Inl (ValidationError ''Idempotency-Key length is invalid'' None)
     else if \<not> (1 \<le> length delivery_ids
           \<and> int (length delivery_ids) \<le> bulk_replay_max_deliveries cfg)
     then Inl (ValidationError ''Replay batch size exceeds configured limit'' None)
     else case find_replay_operation (prj_id project) idempotency_key s of
       Some existing \<Rightarrow> replay_hit delivery_ids existing s
     | None \<Rightarrow>
         bindr (lock_global_tenant cfg (cx_now cx) (prj_organization_id project) s)
           (\<lambda>(_, tenant_state, s1).
         case find_replay_operation (prj_id project) idempotency_key s1 of
           Some existing \<Rightarrow> replay_hit delivery_ids existing s
         | None \<Rightarrow> replay_batch cx user_id project delivery_ids idempotency_key tenant_state s1))"

subsection \<open>Dead letters\<close>

text \<open>ORDER BY dead_at DESC, id DESC, with PostgreSQL's NULLS FIRST.\<close>

definition dead_deliveries ::
  "project \<Rightarrow> nat \<Rightarrow> nat \<Rightarrow> string option \<Rightarrow> string option \<Rightarrow> int option \<Rightarrow> datetime option \<Rightarrow> db \<Rightarrow>
   delivery list result"
where
  "dead_deliveries project offset limit endpoint_id reason minimum_age_seconds now s =
     (if minimum_age_seconds \<noteq> None \<and> now = None
      then Inl (RuntimeError ''Database time is required for age filters'')
      else Inr (page_rows offset limit
        (sort_key (\<lambda>d. (case dl_dead_at d of None \<Rightarrow> (0 :: int, 0) | Some t \<Rightarrow> (1, - t), - dl_id d))
          (filter (\<lambda>d. dl_status d = Dead
              \<and> (case endpoint_id of None \<Rightarrow> True | Some e \<Rightarrow> dl_endpoint_public_id_snapshot d = e)
              \<and> (case reason of None \<Rightarrow> True | Some r \<Rightarrow> dl_dead_reason d = Some r)
              \<and> (case (minimum_age_seconds, now) of
                   (Some age, Some t) \<Rightarrow> opt_le (dl_dead_at d) (t - seconds age) | _ \<Rightarrow> True))
            (project_deliveries (prj_id project) s)))))"

definition list_dead_deliveries ::
  "request_ctx \<Rightarrow> int \<Rightarrow> string \<Rightarrow> nat \<Rightarrow> nat \<Rightarrow> string option \<Rightarrow> string option \<Rightarrow> int option \<Rightarrow> db \<Rightarrow>
   delivery list result"
where
  "list_dead_deliveries cx user_id project_id offset limit endpoint_id reason minimum_age_seconds s =
     bindr (authorize_project user_id project_id PROJECT_READ False s) (\<lambda>project.
     dead_deliveries project offset limit endpoint_id reason minimum_age_seconds
       (if minimum_age_seconds \<noteq> None then Some (cx_now cx) else None) s)"

definition export_dead_deliveries ::
  "request_ctx \<Rightarrow> int \<Rightarrow> string \<Rightarrow> string option \<Rightarrow> string option \<Rightarrow> int option \<Rightarrow> nat \<Rightarrow> db \<Rightarrow>
   delivery list result"
where
  "export_dead_deliveries cx user_id project_id endpoint_id reason minimum_age_seconds limit s =
     bindr (authorize_project user_id project_id PROJECT_READ False s) (\<lambda>project.
     dead_deliveries project 0 (min limit 1000) endpoint_id reason minimum_age_seconds
       (if minimum_age_seconds \<noteq> None then Some (cx_now cx) else None) s)"

subsection \<open>Cancellation\<close>

definition cancel_row :: "datetime \<Rightarrow> string option \<Rightarrow> delivery \<Rightarrow> delivery" where
  "cancel_row now reason d =
     d\<lparr>dl_status := Canceled, dl_canceled_at := Some now, dl_canceled_reason := reason,
       dl_next_attempt_at := now, dl_updated_at := now\<rparr>"

text \<open>Cancelling the probe of a half-open circuit reopens the circuit for another probe.\<close>

definition release_probe :: "datetime \<Rightarrow> delivery \<Rightarrow> db \<Rightarrow> db" where
  "release_probe now d s =
     (case find_endpoint_quota (dl_endpoint_id d) s of
        None \<Rightarrow> s
      | Some state \<Rightarrow>
          if eq_half_open_probe_delivery_id state = Some (dl_id d)
          then put_endpoint_quota (state\<lparr>eq_half_open_probe_delivery_id := None,
                 eq_circuit_state := Open, eq_circuit_open_until := Some now,
                 eq_updated_at := now\<rparr>) s
          else s)"

definition cancel_delivery ::
  "request_ctx \<Rightarrow> int \<Rightarrow> string \<Rightarrow> string \<Rightarrow> string option \<Rightarrow> db \<Rightarrow> (delivery \<times> db) result"
where
  "cancel_delivery cx user_id project_id delivery_id reason s =
     bindr (authorize_project user_id project_id DELIVERY_CANCEL False s) (\<lambda>project.
     bindr (some_or (NotFoundError ''Delivery'' delivery_id)
              (find_project_delivery project delivery_id s)) (\<lambda>d.
     if dl_status d = Canceled then Inr (d, s)
     else if \<not> queued_status (dl_status d)
     then Inl (ConflictError ''Only pending or retry-scheduled deliveries can be canceled'')
     else
       let now = cx_now cx; d' = cancel_row now reason d;
           s1 = release_probe now d (put_delivery d' s)
       in bindr (project_organization_id project s1) (\<lambda>organization_public_id.
          bindr (audit cx 0 user_id organization_public_id ''delivery.canceled'' ''delivery''
                   (Some (dl_public_id d)) (Some (prj_public_id project))
                   (Some [(''reason_provided'', AuScalar (AuBool (reason \<noteq> None)))]) s1) (\<lambda>s2.
          Inr (d', s2)))))"

subsection \<open>Purge\<close>

text \<open>
  Deleting deliveries takes their attempts along, and the foreign keys that point at them from
  replays and from half-open circuits become NULL.
\<close>

definition delete_deliveries :: "int set \<Rightarrow> db \<Rightarrow> db" where
  "delete_deliveries ids s =
     s\<lparr>db_deliveries := map (\<lambda>d. case dl_replay_of_delivery_id d of
           Some i \<Rightarrow> if i \<in> ids then d\<lparr>dl_replay_of_delivery_id := None\<rparr> else d
         | None \<Rightarrow> d) (delete_where (\<lambda>d. dl_id d \<in> ids) (db_deliveries s)),
       db_attempts := delete_where (\<lambda>a. at_delivery_id a \<in> ids) (db_attempts s),
       db_endpoint_quotas := map (\<lambda>q. case eq_half_open_probe_delivery_id q of
           Some i \<Rightarrow> if i \<in> ids then q\<lparr>eq_half_open_probe_delivery_id := None\<rparr> else q
         | None \<Rightarrow> q) (db_endpoint_quotas s)\<rparr>"

record purge_view =
  pv_cutoff :: datetime
  pv_matched :: int
  pv_purged :: int
  pv_dry_run :: bool

definition purge_eligible :: "datetime \<Rightarrow> int \<Rightarrow> int \<Rightarrow> db \<Rightarrow> int list" where
  "purge_eligible cutoff limit project_id s =
     take (nat limit) (sort (map dl_id
       (filter (\<lambda>d. terminal_status (dl_status d) \<and> dl_updated_at d \<le> cutoff)
          (project_deliveries project_id s))))"

definition purge_terminal_deliveries ::
  "request_ctx \<Rightarrow> int \<Rightarrow> string \<Rightarrow> bool \<Rightarrow> int \<Rightarrow> db \<Rightarrow> (purge_view \<times> db) result"
where
  "purge_terminal_deliveries cx user_id project_id dry_run max_records s =
     bindr (authorize_project user_id project_id DELIVERY_PURGE False s) (\<lambda>project.
     let now = cx_now cx; cfg = cx_settings cx;
         limit = min max_records (delivery_purge_batch_size cfg);
         cutoff = now - days (delivery_retention_days cfg);
         delivery_ids = purge_eligible cutoff limit (prj_id project) s;
         n = int (length delivery_ids);
         view = \<lparr>pv_cutoff = cutoff, pv_matched = n, pv_purged = (if dry_run then 0 else n),
           pv_dry_run = dry_run\<rparr>
     in if dry_run then Inr (view, s)
        else
          let s1 = (if delivery_ids \<noteq> [] then delete_deliveries (set delivery_ids) s else s)
          in bindr (project_organization_id project s1) (\<lambda>organization_public_id.
             bindr (audit cx 0 user_id organization_public_id ''delivery.purged'' ''delivery'' None
                      (Some (prj_public_id project))
                      (Some [(''matched_count'', AuScalar (AuInt n)),
                             (''purged_count'', AuScalar (AuInt n)),
                             (''retention_days'', AuScalar (AuInt (delivery_retention_days cfg)))])
                      s1) (\<lambda>s2. Inr (view, s2))))"

end
