(* ===== verification/Organizations.thy ===== *)
theory Organizations
  imports Service_Base "HOL-Library.List_Lexorder" "HOL-Library.Char_ord"
begin

text \<open>
  The operations of \<^verbatim>\<open>app/services/webhook_service.py\<close> on organizations: membership, policy,
  audit log, export and scheduled deletion.
\<close>

subsection \<open>Membership rules\<close>

definition organization_role_of :: "int \<Rightarrow> int \<Rightarrow> db \<Rightarrow> organization_role result" where
  "organization_role_of organization_id user_id s =
     some_or (NotFoundError ''Organization member'' (str_of_int user_id))
       (map_option om_role (find_org_member organization_id user_id s))"

definition require_owner_for_owner_change ::
  "organization \<Rightarrow> int \<Rightarrow> organization_role option \<Rightarrow> organization_role option \<Rightarrow> db \<Rightarrow> unit result"
where
  "require_owner_for_owner_change organization user_id current_role requested_role s =
     (if current_role \<noteq> Some OWNER \<and> requested_role \<noteq> Some OWNER then Inr ()
      else bindr (organization_role_of (org_id organization) user_id s) (\<lambda>role.
        if role \<noteq> OWNER
        then Inl (ForbiddenError ''Only an owner can change owner membership'')
        else Inr ()))"

definition owners_of :: "int \<Rightarrow> db \<Rightarrow> organization_member list" where
  "owners_of organization_id s =
     filter (\<lambda>m. om_organization_id m = organization_id \<and> om_role m = OWNER) (db_org_members s)"

definition ensure_not_last_owner :: "int \<Rightarrow> organization_member \<Rightarrow> db \<Rightarrow> unit result" where
  "ensure_not_last_owner organization_id member s =
     (if om_role member \<noteq> OWNER then Inr ()
      else if length (owners_of organization_id s) \<le> 1
      then Inl (ConflictError ''An organization must retain an owner'')
      else Inr ())"

subsection \<open>Operations on members\<close>

definition create_organization ::
  "request_ctx \<Rightarrow> int \<Rightarrow> string \<Rightarrow> db \<Rightarrow> (organization \<times> db) result"
where
  "create_organization cx user_id name s =
     (let now = cx_now cx; cfg = cx_settings cx;
          organization = \<lparr>org_id = db_seq s T_organizations, org_public_id = cx_uuid cx 0,
            org_name = name, org_lifecycle_state = Active, org_deletion_requested_at = None,
            org_deletion_scheduled_at = None, org_created_at = now\<rparr>;
          oid = org_id organization
      in bindr (insert_unique ''organizations.public_id'' org_public_id organization
                  (db_organizations s)) (\<lambda>orgs.
         bindr (insert_unique ''tenant_quota_states'' tq_organization_id
                  (tenant_quota_values oid cfg now) (db_tenant_quotas s)) (\<lambda>quotas.
         bindr (insert_unique ''organization_policies'' pol_organization_id
                  \<lparr>pol_organization_id = oid, pol_plan = Free,
                   pol_payload_retention_days = default_payload_retention_days cfg,
                   pol_response_retention_days = default_response_retention_days cfg,
                   pol_created_at = now, pol_updated_at = now\<rparr> (db_policies s)) (\<lambda>policies.
         bindr (insert_unique ''uq_org_members_org_user'' (\<lambda>m. (om_organization_id m, om_user_id m))
                  \<lparr>om_id = db_seq s T_organization_members, om_organization_id = oid,
                   om_user_id = user_id, om_role = OWNER, om_created_at = now\<rparr>
                  (db_org_members s)) (\<lambda>members.
         let s1 = bump_seq T_organization_members 1 (bump_seq T_organizations 1
               (s\<lparr>db_organizations := orgs, db_tenant_quotas := quotas, db_policies := policies,
                  db_org_members := members\<rparr>))
         in bindr (authorize_organization user_id (org_public_id organization) ORG_READ False s1)
              (\<lambda>_. bindr (audit cx 1 user_id (org_public_id organization) ''organization.created''
                      ''organization'' (Some (org_public_id organization)) None None s1) (\<lambda>s2.
                 Inr (organization, s2))))))))"

definition list_organizations :: "int \<Rightarrow> nat \<Rightarrow> nat \<Rightarrow> db \<Rightarrow> organization list result" where
  "list_organizations user_id offset limit s =
     (let candidates = page_rows offset limit
            (sort_key (\<lambda>o'. (- org_created_at o', - org_id o'))
               [organization. organization \<leftarrow> db_organizations s, member \<leftarrow> db_org_members s,
                  om_organization_id member = org_id organization \<and> om_user_id member = user_id])
      in mapr (\<lambda>o'. authorize_organization user_id (org_public_id o') ORG_READ False s) candidates)"

definition add_member ::
  "request_ctx \<Rightarrow> int \<Rightarrow> string \<Rightarrow> int \<Rightarrow> organization_role \<Rightarrow> db \<Rightarrow> (organization_member \<times> db) result"
where
  "add_member cx user_id organization_id member_user_id role s =
     bindr (authorize_organization user_id organization_id MEMBER_MANAGE False s) (\<lambda>organization.
     bindr (require_owner_for_owner_change organization user_id None (Some role) s) (\<lambda>_.
     if find_user member_user_id s = None
     then Inl (NotFoundError ''User'' (str_of_int member_user_id))
     else if find_org_member (org_id organization) member_user_id s \<noteq> None
     then Inl (ConflictError ''User is already an organization member'')
     else
       let member = \<lparr>om_id = db_seq s T_organization_members,
             om_organization_id = org_id organization, om_user_id = member_user_id,
             om_role = role, om_created_at = cx_now cx\<rparr>
       in bindr (insert_unique ''uq_org_members_org_user'' (\<lambda>m. (om_organization_id m, om_user_id m))
                   member (db_org_members s)) (\<lambda>members.
          bindr (audit cx 0 user_id (org_public_id organization) ''organization.member_added''
                   ''organization_member'' None None
                   (Some [(''member_user_id'', AuScalar (AuInt member_user_id)),
                          (''role'', AuScalar (AuStr (organization_role_value role)))])
                   (bump_seq T_organization_members 1 (s\<lparr>db_org_members := members\<rparr>))) (\<lambda>s'.
          Inr (member, s')))))"

definition list_members :: "int \<Rightarrow> string \<Rightarrow> nat \<Rightarrow> nat \<Rightarrow> db \<Rightarrow> organization_member list result" where
  "list_members user_id organization_id offset limit s =
     bindr (authorize_organization user_id organization_id ORG_READ False s) (\<lambda>organization.
     Inr (page_rows offset limit
            (sort_key (\<lambda>m. (om_created_at m, om_id m))
               (filter (\<lambda>m. om_organization_id m = org_id organization) (db_org_members s)))))"

definition update_member ::
  "request_ctx \<Rightarrow> int \<Rightarrow> string \<Rightarrow> int \<Rightarrow> organization_role \<Rightarrow> db \<Rightarrow> (organization_member \<times> db) result"
where
  "update_member cx user_id organization_id member_user_id role s =
     bindr (authorize_organization user_id organization_id MEMBER_MANAGE False s) (\<lambda>organization.
     bindr (some_or (NotFoundError ''Organization member'' (str_of_int member_user_id))
              (find_org_member (org_id organization) member_user_id s)) (\<lambda>member.
     bindr (require_owner_for_owner_change organization user_id (Some (om_role member))
              (Some role) s) (\<lambda>_.
     bindr (if om_role member = OWNER \<and> role \<noteq> OWNER
            then ensure_not_last_owner (org_id organization) member s else Inr ()) (\<lambda>_.
     let previous_role = om_role member; member' = member\<lparr>om_role := role\<rparr>
     in bindr (audit cx 0 user_id (org_public_id organization) ''organization.member_updated''
                 ''organization_member'' None None
                 (Some [(''member_user_id'', AuScalar (AuInt member_user_id)),
                        (''previous_role'', AuScalar (AuStr (organization_role_value previous_role))),
                        (''current_role'', AuScalar (AuStr (organization_role_value role)))])
                 (s\<lparr>db_org_members :=
                     update_where (\<lambda>m. om_id m = om_id member) (\<lambda>_. member') (db_org_members s)\<rparr>))
          (\<lambda>s'. Inr (member', s'))))))"

definition remove_member ::
  "request_ctx \<Rightarrow> int \<Rightarrow> string \<Rightarrow> int \<Rightarrow> db \<Rightarrow> (unit \<times> db) result"
where
  "remove_member cx user_id organization_id member_user_id s =
     bindr (authorize_organization user_id organization_id MEMBER_MANAGE False s) (\<lambda>organization.
     bindr (some_or (NotFoundError ''Organization member'' (str_of_int member_user_id))
              (find_org_member (org_id organization) member_user_id s)) (\<lambda>member.
     bindr (require_owner_for_owner_change organization user_id (Some (om_role member)) None s) (\<lambda>_.
     bindr (ensure_not_last_owner (org_id organization) member s) (\<lambda>_.
     let pids = map prj_id (filter (\<lambda>p. prj_organization_id p = org_id organization) (db_projects s));
         s1 = s\<lparr>db_project_members := delete_where (\<lambda>m. pm_user_id m = member_user_id
                  \<and> pm_project_id m \<in> set pids) (db_project_members s),
                db_org_members := delete_where (\<lambda>m. om_id m = om_id member) (db_org_members s)\<rparr>
     in bindr (audit cx 0 user_id (org_public_id organization) ''organization.member_removed''
                 ''organization_member'' None None
                 (Some [(''member_user_id'', AuScalar (AuInt member_user_id)),
                        (''previous_role'', AuScalar (AuStr (organization_role_value (om_role member))))])
                 s1) (\<lambda>s'. Inr ((), s'))))))"

subsection \<open>Policy\<close>

definition get_policy :: "int \<Rightarrow> string \<Rightarrow> db \<Rightarrow> organization_policy result" where
  "get_policy user_id organization_id s =
     bindr (authorize_organization user_id organization_id POLICY_MANAGE False s) (\<lambda>organization.
     some_or (RuntimeError ''Organization policy is unavailable'')
       (find_policy (org_id organization) s))"

text \<open>
  The dict of changes, which the request schema restricts to the three fields of a policy, none of
  them null.
\<close>

datatype policy_change =
    Change_plan plan
  | Change_payload_retention_days int
  | Change_response_retention_days int

primrec policy_field :: "policy_change \<Rightarrow> string" where
  "policy_field (Change_plan _) = ''plan''"
| "policy_field (Change_payload_retention_days _) = ''payload_retention_days''"
| "policy_field (Change_response_retention_days _) = ''response_retention_days''"

primrec set_policy_field :: "policy_change \<Rightarrow> organization_policy \<Rightarrow> organization_policy" where
  "set_policy_field (Change_plan v) p = p\<lparr>pol_plan := v\<rparr>"
| "set_policy_field (Change_payload_retention_days v) p = p\<lparr>pol_payload_retention_days := v\<rparr>"
| "set_policy_field (Change_response_retention_days v) p = p\<lparr>pol_response_retention_days := v\<rparr>"

text \<open>The CHECK constraints of \<^verbatim>\<open>organization_policies\<close>.\<close>

definition policy_checks :: "organization_policy \<Rightarrow> bool" where
  "policy_checks p \<longleftrightarrow> 0 < pol_payload_retention_days p \<and> 0 < pol_response_retention_days p"

definition update_policy ::
  "request_ctx \<Rightarrow> int \<Rightarrow> string \<Rightarrow> policy_change list \<Rightarrow> db \<Rightarrow> (organization_policy \<times> db) result"
where
  "update_policy cx user_id organization_id changes s =
     bindr (authorize_organization user_id organization_id POLICY_MANAGE False s) (\<lambda>organization.
     bindr (some_or (RuntimeError ''Organization policy is unavailable'')
              (find_policy (org_id organization) s)) (\<lambda>policy.
     let policy' = (fold set_policy_field changes policy)\<lparr>pol_updated_at := cx_now cx\<rparr>
     in bindr (audit cx 0 user_id (org_public_id organization) ''organization.policy_updated''
                 ''organization_policy'' None None
                 (Some [(''changed_fields'', AuList (map AuStr (sort (map policy_field changes))))])
                 (s\<lparr>db_policies := update_where (\<lambda>p. pol_organization_id p = org_id organization)
                     (\<lambda>_. policy') (db_policies s)\<rparr>)) (\<lambda>s'.
        if policy_checks policy' then Inr (policy', s')
        else Inl (IntegrityError ''ck_organization_policies''))))"

definition list_audit_events ::
  "int \<Rightarrow> string \<Rightarrow> string option \<Rightarrow> string option \<Rightarrow> int \<Rightarrow> datetime option \<Rightarrow> int option \<Rightarrow> db \<Rightarrow>
   administrative_audit_event list result"
where
  "list_audit_events user_id organization_id action resource_type limit before_created_at before_id s =
     bindr (authorize_organization user_id organization_id AUDIT_READ False s) (\<lambda>organization.
     if before_id \<noteq> None \<and> before_created_at = None
     then Inl (ValidationError ''Audit cursor timestamp is required with cursor ID'' None)
     else list_audit (org_public_id organization) action resource_type limit before_created_at
            before_id s)"

subsection \<open>Scheduled deletion\<close>

definition open_operation :: "organization_lifecycle_operation \<Rightarrow> bool" where
  "open_operation op \<longleftrightarrow> lo_status op = Op_pending \<or> lo_status op = Op_running"

definition find_open_operation :: "int \<Rightarrow> db \<Rightarrow> organization_lifecycle_operation option" where
  "find_open_operation organization_id s =
     List.find (\<lambda>op. lo_organization_id op = organization_id \<and> open_operation op)
       (db_lifecycle_operations s)"

definition request_organization_deletion ::
  "request_ctx \<Rightarrow> int \<Rightarrow> string \<Rightarrow> db \<Rightarrow> (organization_lifecycle_operation \<times> db) result"
where
  "request_organization_deletion cx user_id organization_id s =
     bindr (authorize_organization user_id organization_id ORG_DELETE True s) (\<lambda>organization0.
     bindr (some_or (NotFoundError ''Organization'' organization_id)
              (find_organization (org_id organization0) s)) (\<lambda>organization.
     case find_open_operation (org_id organization) s of
       Some existing \<Rightarrow> Inr (existing, s)
     | None \<Rightarrow>
         let now = cx_now cx;
             scheduled_at = now + hours (organization_deletion_grace_hours (cx_settings cx));
             operation = \<lparr>lo_id = db_seq s T_lifecycle_operations, lo_public_id = cx_uuid cx 0,
               lo_organization_id = org_id organization, lo_requested_by_user_id = Some user_id,
               lo_kind = ''deletion'', lo_status = Op_pending, lo_scheduled_at = scheduled_at,
               lo_created_at = now, lo_completed_at = None, lo_error = None\<rparr>;
             s1 = bump_seq T_lifecycle_operations 1
               (s\<lparr>db_organizations := update_where (\<lambda>o'. org_id o' = org_id organization)
                    (\<lambda>o'. o'\<lparr>org_lifecycle_state := Deletion_pending,
                       org_deletion_requested_at := Some now,
                       org_deletion_scheduled_at := Some scheduled_at\<rparr>) (db_organizations s),
                  db_lifecycle_operations := db_lifecycle_operations s @ [operation]\<rparr>)
         in bindr (audit cx 1 user_id (org_public_id organization) ''organization.deletion_requested''
                     ''organization'' (Some (org_public_id organization)) None
                     (Some [(''operation_public_id'', AuScalar (AuStr (lo_public_id operation))),
                            (''scheduled_at'', AuScalar (AuStr (isoformat scheduled_at)))])
                     s1) (\<lambda>s2. Inr (operation, s2))))"

text \<open>The newest operation of an organization: ORDER BY created_at DESC, id DESC LIMIT 1.\<close>

definition latest_operation :: "int \<Rightarrow> db \<Rightarrow> organization_lifecycle_operation option" where
  "latest_operation organization_id s =
     (case sort_key (\<lambda>op. (- lo_created_at op, - lo_id op))
             (filter (\<lambda>op. lo_organization_id op = organization_id) (db_lifecycle_operations s)) of
        [] \<Rightarrow> None
      | op # _ \<Rightarrow> Some op)"

definition get_organization_deletion ::
  "int \<Rightarrow> string \<Rightarrow> db \<Rightarrow> organization_lifecycle_operation result"
where
  "get_organization_deletion user_id organization_id s =
     bindr (authorize_organization user_id organization_id ORG_READ False s) (\<lambda>organization.
     some_or (NotFoundError ''Organization deletion'' organization_id)
       (latest_operation (org_id organization) s))"

definition cancel_organization_deletion ::
  "request_ctx \<Rightarrow> int \<Rightarrow> string \<Rightarrow> db \<Rightarrow> (organization_lifecycle_operation \<times> db) result"
where
  "cancel_organization_deletion cx user_id organization_id s =
     bindr (authorize_organization user_id organization_id ORG_DELETE True s) (\<lambda>organization0.
     bindr (some_or (NotFoundError ''Organization'' organization_id)
              (find_organization (org_id organization0) s)) (\<lambda>organization.
     bindr (some_or (ConflictError ''Organization deletion is not pending'')
              (find_open_operation (org_id organization) s)) (\<lambda>operation.
     if lo_status operation = Op_running
     then Inl (ConflictError ''Organization deletion is already running'')
     else
       let now = cx_now cx;
           operation' = operation\<lparr>lo_status := Op_canceled, lo_completed_at := Some now\<rparr>;
           s1 = s\<lparr>db_lifecycle_operations := update_where (\<lambda>op. lo_id op = lo_id operation)
                    (\<lambda>_. operation') (db_lifecycle_operations s),
                  db_organizations := update_where (\<lambda>o'. org_id o' = org_id organization)
                    (\<lambda>o'. o'\<lparr>org_lifecycle_state := Active, org_deletion_requested_at := None,
                       org_deletion_scheduled_at := None\<rparr>) (db_organizations s)\<rparr>
       in bindr (audit cx 0 user_id (org_public_id organization) ''organization.deletion_canceled''
                   ''organization'' (Some (org_public_id organization)) None
                   (Some [(''operation_public_id'', AuScalar (AuStr (lo_public_id operation)))])
                   s1) (\<lambda>s2. Inr (operation', s2)))))"

end
