(* ===== verification/Login_Throttle.thy ===== *)
theory Login_Throttle
  imports Admission
begin

text \<open>
  \<^verbatim>\<open>app/login_throttle.py\<close>: the failure budget of an account, kept in the database.
\<close>

definition login_scope :: "string \<Rightarrow> string" where
  "login_scope email = take 340 (''email:'' @ lower (strip email))"

definition locked_row :: "string \<Rightarrow> db \<Rightarrow> login_throttle option" where
  "locked_row scope s = List.find (\<lambda>r. lt_scope r = scope) (db_login_throttles s)"

text \<open>\<^verbatim>\<open>math.ceil\<close> of the remaining seconds, at least one.\<close>

definition login_retry_after :: "datetime \<Rightarrow> datetime \<Rightarrow> int" where
  "login_retry_after now locked_until = max 1 \<lceil>total_seconds (locked_until - now)\<rceil>"

definition check_login_allowed :: "datetime \<Rightarrow> string \<Rightarrow> db \<Rightarrow> unit result" where
  "check_login_allowed now email s =
     (case locked_row (login_scope email) s of
        None \<Rightarrow> Inr ()
      | Some row \<Rightarrow>
          (case lt_locked_until row of
             None \<Rightarrow> Inr ()
           | Some locked_until \<Rightarrow>
               if locked_until > now
               then Inl (QuotaExceededError ''login_attempts'' (login_retry_after now locked_until))
               else Inr ()))"

text \<open>The update of the row of a failed attempt.\<close>

definition count_failure :: "settings \<Rightarrow> datetime \<Rightarrow> login_throttle \<Rightarrow> login_throttle" where
  "count_failure cfg now row =
     (let expired_lock = opt_le (lt_locked_until row) now;
          row1 = (if lt_window_started_at row + seconds (login_throttle_window_seconds cfg) \<le> now
                     \<or> expired_lock
            then row\<lparr>lt_failure_count := 1, lt_window_started_at := now, lt_locked_until := None\<rparr>
            else row\<lparr>lt_failure_count := lt_failure_count row + 1\<rparr>);
          row2 = (if lt_failure_count row1 \<ge> login_throttle_max_failures cfg
            then row1\<lparr>lt_locked_until :=
              Some (now + seconds (login_throttle_lockout_seconds cfg))\<rparr>
            else row1)
      in row2\<lparr>lt_updated_at := now\<rparr>)"

definition record_login_failure :: "settings \<Rightarrow> datetime \<Rightarrow> string \<Rightarrow> db \<Rightarrow> db" where
  "record_login_failure cfg now email s =
     (let scope = login_scope email;
          s1 = s\<lparr>db_login_throttles := insert_do_nothing lt_scope
            \<lparr>lt_scope = scope, lt_failure_count = 0, lt_window_started_at = now,
             lt_locked_until = None, lt_updated_at = now\<rparr> (db_login_throttles s)\<rparr>
      in case locked_row scope s1 of
           None \<Rightarrow> s
         | Some row \<Rightarrow>
             s1\<lparr>db_login_throttles := update_where (\<lambda>r. lt_scope r = scope)
                  (\<lambda>_. count_failure cfg now row) (db_login_throttles s1)\<rparr>)"

definition record_login_success :: "string \<Rightarrow> db \<Rightarrow> db" where
  "record_login_success email s =
     s\<lparr>db_login_throttles := delete_where (\<lambda>r. lt_scope r = login_scope email) (db_login_throttles s)\<rparr>"

end
