(* ===== verification/Lifecycle.thy ===== *)
theory Lifecycle
  imports Delivery_Admin Organizations Login_Throttle
begin

text \<open>
  \<^verbatim>\<open>app/lifecycle.py\<close>: the maintenance pass of the worker.  It purges response bodies and event
  payloads past their retention, stale login throttles, and takes one step of the deletion of an
  organization whose grace period is over.  \<open>skip\<close> are the rows other workers hold locked, which
  \<^verbatim>\<open>FOR UPDATE SKIP LOCKED\<close> leaves out.
\<close>

record run_result =
  lr_responses_purged :: int
  lr_payloads_purged :: int
  lr_deliveries_canceled :: int
  lr_deliveries_deleted :: int
  lr_events_deleted :: int
  lr_organizations_deleted :: int
  lr_login_throttles_purged :: int

definition no_result :: run_result where
  "no_result = \<lparr>lr_responses_purged = 0, lr_payloads_purged = 0, lr_deliveries_canceled = 0,
     lr_deliveries_deleted = 0, lr_events_deleted = 0, lr_organizations_deleted = 0,
     lr_login_throttles_purged = 0\<rparr>"

definition merged :: "run_result \<Rightarrow> run_result \<Rightarrow> run_result" where
  "merged a b =
     \<lparr>lr_responses_purged = lr_responses_purged a + lr_responses_purged b,
      lr_payloads_purged = lr_payloads_purged a + lr_payloads_purged b,
      lr_deliveries_canceled = lr_deliveries_canceled a + lr_deliveries_canceled b,
      lr_deliveries_deleted = lr_deliveries_deleted a + lr_deliveries_deleted b,
      lr_events_deleted = lr_events_deleted a + lr_events_deleted b,
      lr_organizations_deleted = lr_organizations_deleted a + lr_organizations_deleted b,
      lr_login_throttles_purged = lr_login_throttles_purged a + lr_login_throttles_purged b\<rparr>"

text \<open>
  A row is past its retention.  SQLite compares the timestamps cut to whole seconds.
\<close>

definition expired_by_policy :: "dialect \<Rightarrow> datetime \<Rightarrow> datetime \<Rightarrow> int \<Rightarrow> bool" where
  "expired_by_policy dia now timestamp retention_days =
     (case dia of
        Sqlite \<Rightarrow> timestamp div 1000000 \<le> now div 1000000 - retention_days * 86400
      | Postgresql \<Rightarrow> timestamp \<le> now - days retention_days)"

text \<open>The rows a statement claims: those not locked elsewhere, up to the batch size.\<close>

definition claimable :: "settings \<Rightarrow> (int \<Rightarrow> bool) \<Rightarrow> ('r \<Rightarrow> int) \<Rightarrow> 'r list \<Rightarrow> 'r list" where
  "claimable cfg skip rid rows =
     take (nat (lifecycle_cleanup_batch_size cfg)) (filter (\<lambda>r. \<not> skip (rid r)) rows)"

subsection \<open>Retention\<close>

definition stale_throttle :: "settings \<Rightarrow> datetime \<Rightarrow> login_throttle \<Rightarrow> bool" where
  "stale_throttle cfg now row \<longleftrightarrow>
     lt_updated_at row \<le> now - seconds (login_throttle_window_seconds cfg)
     \<and> (lt_locked_until row = None \<or> opt_le (lt_locked_until row) now)"

definition purge_stale_login_throttles ::
  "settings \<Rightarrow> datetime \<Rightarrow> (string \<Rightarrow> bool) \<Rightarrow> db \<Rightarrow> run_result \<times> db"
where
  "purge_stale_login_throttles cfg now skip s =
     (let rows = take (nat (lifecycle_cleanup_batch_size cfg))
            (filter (\<lambda>r. \<not> skip (lt_scope r))
               (sort_key lt_updated_at (filter (stale_throttle cfg now) (db_login_throttles s))))
      in (no_result\<lparr>lr_login_throttles_purged := int (length rows)\<rparr>,
          s\<lparr>db_login_throttles :=
             delete_where (\<lambda>r. lt_scope r \<in> set (map lt_scope rows)) (db_login_throttles s)\<rparr>))"

definition response_expired :: "dialect \<Rightarrow> datetime \<Rightarrow> db \<Rightarrow> delivery_attempt \<Rightarrow> bool" where
  "response_expired dia now s a \<longleftrightarrow>
     at_response_body a \<noteq> None \<and> at_response_purged_at a = None
     \<and> list_ex (\<lambda>d. dl_id d = at_delivery_id a
          \<and> list_ex (\<lambda>p. pol_organization_id p = dl_organization_id d
               \<and> expired_by_policy dia now (at_finished_at a) (pol_response_retention_days p))
              (db_policies s))
         (db_deliveries s)"

definition purge_responses ::
  "settings \<Rightarrow> dialect \<Rightarrow> datetime \<Rightarrow> (int \<Rightarrow> bool) \<Rightarrow> db \<Rightarrow> run_result \<times> db"
where
  "purge_responses cfg dia purged_at skip s =
     (let attempts = claimable cfg skip at_id
            (sort_key (\<lambda>a. (at_finished_at a, at_id a))
               (filter (response_expired dia purged_at s) (db_attempts s)))
      in (no_result\<lparr>lr_responses_purged := int (length attempts)\<rparr>,
          s\<lparr>db_attempts := update_where (\<lambda>a. at_id a \<in> set (map at_id attempts))
             (\<lambda>a. a\<lparr>at_response_body := None, at_response_purged_at := Some purged_at\<rparr>)
             (db_attempts s)\<rparr>))"

definition has_nonterminal_delivery :: "int \<Rightarrow> db \<Rightarrow> bool" where
  "has_nonterminal_delivery event_id s \<longleftrightarrow>
     list_ex (\<lambda>d. dl_event_id d = event_id \<and> \<not> terminal_status (dl_status d)) (db_deliveries s)"

definition payload_expired :: "dialect \<Rightarrow> datetime \<Rightarrow> db \<Rightarrow> event \<Rightarrow> bool" where
  "payload_expired dia now s e \<longleftrightarrow>
     ev_payload_purged_at e = None
     \<and> (ev_payload e \<noteq> None \<or> ev_canonical_envelope e \<noteq> None)
     \<and> \<not> has_nonterminal_delivery (ev_id e) s
     \<and> list_ex (\<lambda>p. prj_id p = ev_project_id e
          \<and> list_ex (\<lambda>q. pol_organization_id q = prj_organization_id p
               \<and> expired_by_policy dia now (ev_created_at e) (pol_payload_retention_days q))
              (db_policies s))
         (db_projects s)"

text \<open>
  The second read of the deliveries sees those that were committed after the first one: \<open>s'\<close> is
  the database at that moment.
\<close>

definition purge_event_payloads ::
  "settings \<Rightarrow> dialect \<Rightarrow> datetime \<Rightarrow> (int \<Rightarrow> bool) \<Rightarrow> db \<Rightarrow> db \<Rightarrow> run_result \<times> db"
where
  "purge_event_payloads cfg dia purged_at skip s s' =
     (let events = claimable cfg skip ev_id
            (sort_key (\<lambda>e. (ev_created_at e, ev_id e))
               (filter (payload_expired dia purged_at s) (db_events s)));
          purgeable = filter (\<lambda>e. \<not> has_nonterminal_delivery (ev_id e) s') events
      in if events = [] then (no_result, s')
         else (no_result\<lparr>lr_payloads_purged := int (length purgeable)\<rparr>,
               s'\<lparr>db_events := update_where (\<lambda>e. ev_id e \<in> set (map ev_id purgeable))
                  (\<lambda>e. e\<lparr>ev_payload := None, ev_canonical_envelope := None,
                         ev_payload_purged_at := Some purged_at\<rparr>) (db_events s')\<rparr>))"

subsection \<open>Deleting an organization\<close>

definition claim_operation :: "datetime \<Rightarrow> (int \<Rightarrow> bool) \<Rightarrow> db \<Rightarrow> organization_lifecycle_operation option" where
  "claim_operation now skip s =
     (case filter (\<lambda>op. \<not> skip (lo_id op)) (sort_key (\<lambda>op. (lo_scheduled_at op, lo_id op))
             (filter (\<lambda>op. lo_kind op = ''deletion'' \<and> open_operation op \<and> lo_scheduled_at op \<le> now
                \<and> list_ex (\<lambda>o'. org_id o' = lo_organization_id op
                     \<and> org_lifecycle_state o' = Deletion_pending) (db_organizations s))
               (db_lifecycle_operations s))) of
        [] \<Rightarrow> None
      | op # _ \<Rightarrow> Some op)"

definition put_operation :: "organization_lifecycle_operation \<Rightarrow> db \<Rightarrow> db" where
  "put_operation op s =
     s\<lparr>db_lifecycle_operations :=
        update_where (\<lambda>r. lo_id r = lo_id op) (\<lambda>_. op) (db_lifecycle_operations s)\<rparr>"

definition cancellable :: "datetime \<Rightarrow> delivery \<Rightarrow> bool" where
  "cancellable now d \<longleftrightarrow>
     queued_status (dl_status d)
     \<or> dl_status d = Processing \<and> (dl_lease_expires_at d = None \<or> opt_le (dl_lease_expires_at d) now)"

definition lifecycle_cancel_row :: "datetime \<Rightarrow> delivery \<Rightarrow> delivery" where
  "lifecycle_cancel_row now d =
     d\<lparr>dl_status := Canceled, dl_canceled_at := Some now,
       dl_canceled_reason := Some ''organization_deletion'', dl_lease_token := None,
       dl_lease_expires_at := None, dl_updated_at := now\<rparr>"

definition cancel_inactive_deliveries ::
  "settings \<Rightarrow> datetime \<Rightarrow> (int \<Rightarrow> bool) \<Rightarrow> int \<Rightarrow> db \<Rightarrow> int \<times> db"
where
  "cancel_inactive_deliveries cfg now skip organization_id s =
     (let rows = claimable cfg skip dl_id
            (sort_key dl_id (filter (\<lambda>d. dl_organization_id d = organization_id \<and> cancellable now d)
               (db_deliveries s)))
      in (int (length rows),
          s\<lparr>db_deliveries := update_where (\<lambda>d. dl_id d \<in> set (map dl_id rows))
             (lifecycle_cancel_row now) (db_deliveries s)\<rparr>))"

definition has_live_delivery :: "datetime \<Rightarrow> int \<Rightarrow> db \<Rightarrow> bool" where
  "has_live_delivery now organization_id s \<longleftrightarrow>
     list_ex (\<lambda>d. dl_organization_id d = organization_id \<and> is_live now d) (db_deliveries s)"

definition delete_delivery_batch ::
  "settings \<Rightarrow> (int \<Rightarrow> bool) \<Rightarrow> int \<Rightarrow> db \<Rightarrow> int \<times> db"
where
  "delete_delivery_batch cfg skip organization_id s =
     (let ids = claimable cfg skip id (sort (map dl_id
            (filter (\<lambda>d. dl_organization_id d = organization_id) (db_deliveries s))))
      in (int (length ids), if ids \<noteq> [] then delete_deliveries (set ids) s else s))"

text \<open>Deleting events takes their deliveries along.\<close>

definition delete_events :: "int set \<Rightarrow> db \<Rightarrow> db" where
  "delete_events ids s =
     (let s1 = delete_deliveries
            (set (map dl_id (filter (\<lambda>d. dl_event_id d \<in> ids) (db_deliveries s)))) s
      in s1\<lparr>db_events := delete_where (\<lambda>e. ev_id e \<in> ids) (db_events s1)\<rparr>)"

definition organization_events :: "int \<Rightarrow> db \<Rightarrow> event list" where
  "organization_events organization_id s =
     filter (\<lambda>e. org_owns_project organization_id (ev_project_id e) s) (db_events s)"

definition delete_orphan_event_batch ::
  "settings \<Rightarrow> (int \<Rightarrow> bool) \<Rightarrow> int \<Rightarrow> db \<Rightarrow> int \<times> db"
where
  "delete_orphan_event_batch cfg skip organization_id s =
     (let ids = claimable cfg skip id (sort (map ev_id
            (filter (\<lambda>e. \<not> list_ex (\<lambda>d. dl_event_id d = ev_id e) (db_deliveries s))
               (organization_events organization_id s))))
      in (int (length ids), if ids \<noteq> [] then delete_events (set ids) s else s))"

text \<open>
  \<^verbatim>\<open>session.delete(organization)\<close>: the row and, through the cascades of the schema, everything that
  belongs to it.  The audit log has no foreign key and stays.
\<close>

definition delete_organization :: "int \<Rightarrow> db \<Rightarrow> db" where
  "delete_organization oid s =
     (let pids = set (map prj_id (filter (\<lambda>p. prj_organization_id p = oid) (db_projects s)));
          eids = set (map ep_id (filter (\<lambda>e. ep_project_id e \<in> pids) (db_endpoints s)));
          vids = set (map ev_id (filter (\<lambda>e. ev_project_id e \<in> pids) (db_events s)));
          dids = set (map dl_id (filter (\<lambda>d. dl_organization_id d = oid \<or> dl_event_id d \<in> vids
                   \<or> dl_endpoint_id d \<in> eids) (db_deliveries s)));
          s1 = delete_deliveries dids s
      in s1\<lparr>db_organizations := delete_where (\<lambda>o'. org_id o' = oid) (db_organizations s1),
            db_policies := delete_where (\<lambda>p. pol_organization_id p = oid) (db_policies s1),
            db_org_members := delete_where (\<lambda>m. om_organization_id m = oid) (db_org_members s1),
            db_projects := delete_where (\<lambda>p. prj_organization_id p = oid) (db_projects s1),
            db_project_members := delete_where (\<lambda>m. pm_project_id m \<in> pids) (db_project_members s1),
            db_api_keys := delete_where (\<lambda>k. ak_project_id k \<in> pids) (db_api_keys s1),
            db_tenant_quotas := delete_where (\<lambda>q. tq_organization_id q = oid) (db_tenant_quotas s1),
            db_endpoint_quotas := delete_where (\<lambda>q. eq_endpoint_id q \<in> eids) (db_endpoint_quotas s1),
            db_endpoints := delete_where (\<lambda>e. ep_project_id e \<in> pids) (db_endpoints s1),
            db_secret_versions := delete_where (\<lambda>v. sv_endpoint_id v \<in> eids) (db_secret_versions s1),
            db_events := delete_where (\<lambda>e. ev_project_id e \<in> pids) (db_events s1),
            db_replay_operations := delete_where (\<lambda>r. ro_organization_id r = oid
              \<or> ro_project_id r \<in> pids) (db_replay_operations s1),
            db_lifecycle_operations := delete_where (\<lambda>op. lo_organization_id op = oid)
              (db_lifecycle_operations s1)\<rparr>)"

definition delete_empty_organization ::
  "datetime \<Rightarrow> datetime \<Rightarrow> string \<Rightarrow> organization_lifecycle_operation \<Rightarrow> organization \<Rightarrow> db \<Rightarrow>
   (run_result \<times> db) result"
where
  "delete_empty_organization now clock uuid operation organization s =
     (if list_ex (\<lambda>d. dl_organization_id d = org_id organization) (db_deliveries s)
         \<or> organization_events (org_id organization) s \<noteq> []
      then Inr (no_result, s)
      else
        let s1 = put_operation (operation\<lparr>lo_status := Op_completed, lo_completed_at := Some now\<rparr>) s
        in bindr (append_audit clock uuid (lo_requested_by_user_id operation)
                    (org_public_id organization) ''organization.deleted'' ''organization''
                    (Some (org_public_id organization)) None
                    (Some [(''operation_public_id'', AuScalar (AuStr (lo_public_id operation)))]) s1)
             (\<lambda>(_, s2). Inr (no_result\<lparr>lr_organizations_deleted := 1\<rparr>,
                             delete_organization (org_id organization) s2)))"

text \<open>One maintenance step of the oldest due deletion.\<close>

record lifecycle_env =
  le_now :: datetime
  le_clock :: datetime
  le_uuid :: string
  le_skip_operation :: "int \<Rightarrow> bool"
  le_skip_organization :: "int \<Rightarrow> bool"
  le_skip_delivery :: "int \<Rightarrow> bool"
  le_skip_event :: "int \<Rightarrow> bool"

definition cleanup_due_organization ::
  "settings \<Rightarrow> lifecycle_env \<Rightarrow> db \<Rightarrow> (run_result \<times> db) result"
where
  "cleanup_due_organization cfg env s =
     (let now = le_now env
      in case claim_operation now (le_skip_operation env) s of
           None \<Rightarrow> Inr (no_result, s)
         | Some operation \<Rightarrow>
         case List.find (\<lambda>o'. org_id o' = lo_organization_id operation
                 \<and> \<not> le_skip_organization env (org_id o')) (db_organizations s) of
           None \<Rightarrow> Inr (no_result, s)
         | Some organization \<Rightarrow>
             if org_lifecycle_state organization \<noteq> Deletion_pending
             then Inr (no_result,
               put_operation (operation\<lparr>lo_status := Op_canceled, lo_completed_at := Some now\<rparr>) s)
             else
               let operation' = operation\<lparr>lo_status := Op_running, lo_error := None\<rparr>;
                   oid = org_id organization;
                   s1 = put_operation operation' s;
                   (canceled, s2) = cancel_inactive_deliveries cfg now (le_skip_delivery env) oid s1
               in if canceled \<noteq> 0
                  then Inr (no_result\<lparr>lr_deliveries_canceled := canceled\<rparr>, s2)
                  else if has_live_delivery now oid s2 then Inr (no_result, s2)
                  else
                    let (deleted, s3) = delete_delivery_batch cfg (le_skip_delivery env) oid s2
                    in if deleted \<noteq> 0
                       then Inr (no_result\<lparr>lr_deliveries_deleted := deleted\<rparr>, s3)
                       else
                         let (events_deleted, s4) =
                               delete_orphan_event_batch cfg (le_skip_event env) oid s3
                         in if events_deleted \<noteq> 0
                            then Inr (no_result\<lparr>lr_events_deleted := events_deleted\<rparr>, s4)
                            else delete_empty_organization now (le_clock env) (le_uuid env)
                                   operation' organization s4)"

text \<open>
  \<^verbatim>\<open>run_once\<close>: the four categories in order, each its own transaction, so that an error in the last
  one leaves the work of the others committed.
\<close>

definition run_once ::
  "settings \<Rightarrow> dialect \<Rightarrow> lifecycle_env \<Rightarrow> (int \<Rightarrow> bool) \<Rightarrow> (string \<Rightarrow> bool) \<Rightarrow> db \<Rightarrow>
   run_result result \<times> db"
where
  "run_once cfg dia env skip_attempt skip_throttle s =
     (let now = le_now env;
          (r1, s1) = purge_responses cfg dia now skip_attempt s;
          (r2, s2) = purge_event_payloads cfg dia now (le_skip_event env) s1 s1;
          (r3, s3) = purge_stale_login_throttles cfg now skip_throttle s2
      in case cleanup_due_organization cfg env s3 of
           Inl e \<Rightarrow> (Inl e, s3)
         | Inr (r4, s4) \<Rightarrow> (Inr (merged (merged (merged r1 r2) r3) r4), s4))"

end
