(* ===== verification/Projects.thy ===== *)
theory Projects
  imports Service_Base
begin

text \<open>
  The operations of \<^verbatim>\<open>app/services/webhook_service.py\<close> on projects and project members.
\<close>

subsection \<open>Projects\<close>

text \<open>
  \<^verbatim>\<open>create_project\<close> inserts the project at its \<^verbatim>\<open>flush\<close>, before the \<^verbatim>\<open>try\<close> that turns an
  IntegrityError of the \<^verbatim>\<open>commit\<close> into a ConflictError: the uniqueness constraints of the project
  row are checked outside it, those of the rows still pending at the commit inside.
\<close>

definition create_project ::
  "request_ctx \<Rightarrow> int \<Rightarrow> string \<Rightarrow> string \<Rightarrow> db \<Rightarrow> (project \<times> db) result"
where
  "create_project cx user_id organization_id name s =
     bindr (authorize_organization user_id organization_id PROJECT_MANAGE False s) (\<lambda>organization.
     let now = cx_now cx;
         project = \<lparr>prj_id = db_seq s T_projects, prj_public_id = cx_uuid cx 0,
           prj_organization_id = org_id organization, prj_name = name, prj_is_active = True,
           prj_created_at = now\<rparr>
     in bindr (insert_unique ''projects.public_id'' prj_public_id project (db_projects s)) (\<lambda>_.
        bindr (insert_unique ''uq_projects_name'' (\<lambda>p. (prj_organization_id p, prj_name p)) project
                 (db_projects s)) (\<lambda>projects.
        let s1 = bump_seq T_projects 1 (s\<lparr>db_projects := projects\<rparr>);
            pm = \<lparr>pm_id = db_seq s T_project_members, pm_project_id = prj_id project,
              pm_user_id = user_id, pm_role = PROJECT_ADMIN, pm_created_at = now\<rparr>
        in bindr (audit cx 1 user_id (org_public_id organization) ''project.created'' ''project''
                    (Some (prj_public_id project)) (Some (prj_public_id project)) None s1) (\<lambda>s2.
           case insert_unique ''uq_project_members_project_user''
                  (\<lambda>m. (pm_project_id m, pm_user_id m)) pm (db_project_members s2) of
             Inl _ \<Rightarrow> Inl (ConflictError ''Project name already exists'')
           | Inr members \<Rightarrow>
               Inr (project, bump_seq T_project_members 1 (s2\<lparr>db_project_members := members\<rparr>))))))"

fun visible_projects :: "int \<Rightarrow> db \<Rightarrow> project list \<Rightarrow> project list result" where
  "visible_projects user_id s [] = Inr []"
| "visible_projects user_id s (project # rest) =
     (case authorize_project user_id (prj_public_id project) PROJECT_READ False s of
        Inl (NotFoundError _ _) \<Rightarrow> visible_projects user_id s rest
      | Inl e \<Rightarrow> Inl e
      | Inr p \<Rightarrow> bindr (visible_projects user_id s rest) (\<lambda>ps. Inr (p # ps)))"

definition list_projects :: "int \<Rightarrow> string \<Rightarrow> nat \<Rightarrow> nat \<Rightarrow> db \<Rightarrow> project list result" where
  "list_projects user_id organization_id offset limit s =
     bindr (authorize_organization user_id organization_id ORG_READ False s) (\<lambda>organization.
     visible_projects user_id s
       (page_rows offset limit
          (sort_key (\<lambda>p. (- prj_created_at p, - prj_id p))
             (filter (\<lambda>p. prj_organization_id p = org_id organization) (db_projects s)))))"

definition deactivate_project ::
  "request_ctx \<Rightarrow> int \<Rightarrow> string \<Rightarrow> db \<Rightarrow> (project \<times> db) result"
where
  "deactivate_project cx user_id project_id s =
     bindr (authorize_project user_id project_id PROJECT_MANAGE False s) (\<lambda>project.
     let project' = project\<lparr>prj_is_active := False\<rparr>;
         s1 = s\<lparr>db_projects :=
           update_where (\<lambda>p. prj_id p = prj_id project) (\<lambda>_. project') (db_projects s)\<rparr>
     in bindr (project_organization_id project s1) (\<lambda>organization_public_id.
        bindr (audit cx 0 user_id organization_public_id ''project.deactivated'' ''project''
                 (Some (prj_public_id project)) (Some (prj_public_id project)) None s1) (\<lambda>s2.
        Inr (project', s2))))"

subsection \<open>Project members\<close>

definition add_project_member ::
  "request_ctx \<Rightarrow> int \<Rightarrow> string \<Rightarrow> int \<Rightarrow> project_role \<Rightarrow> db \<Rightarrow> (project_member \<times> db) result"
where
  "add_project_member cx user_id project_id member_user_id role s =
     bindr (authorize_project user_id project_id PROJECT_MANAGE False s) (\<lambda>project.
     if find_org_member (prj_organization_id project) member_user_id s = None
     then Inl (NotFoundError ''Organization member'' (str_of_int member_user_id))
     else if find_project_member (prj_id project) member_user_id s \<noteq> None
     then Inl (ConflictError ''User is already a project member'')
     else
       let member = \<lparr>pm_id = db_seq s T_project_members, pm_project_id = prj_id project,
             pm_user_id = member_user_id, pm_role = role, pm_created_at = cx_now cx\<rparr>
       in bindr (insert_unique ''uq_project_members_project_user''
                   (\<lambda>m. (pm_project_id m, pm_user_id m)) member (db_project_members s)) (\<lambda>members.
          let s1 = bump_seq T_project_members 1 (s\<lparr>db_project_members := members\<rparr>)
          in bindr (project_organization_id project s1) (\<lambda>organization_public_id.
             bindr (audit cx 0 user_id organization_public_id ''project.member_added''
                      ''project_member'' None (Some (prj_public_id project))
                      (Some [(''member_user_id'', AuScalar (AuInt member_user_id)),
                             (''role'', AuScalar (AuStr (project_role_value role)))]) s1) (\<lambda>s2.
             Inr (member, s2)))))"

definition upsert_project_member ::
  "request_ctx \<Rightarrow> int \<Rightarrow> string \<Rightarrow> int \<Rightarrow> project_role \<Rightarrow> db \<Rightarrow> (project_member \<times> db) result"
where
  "upsert_project_member cx user_id project_id member_user_id role s =
     bindr (authorize_project user_id project_id PROJECT_MANAGE False s) (\<lambda>project.
     if find_org_member (prj_organization_id project) member_user_id s = None
     then Inl (NotFoundError ''Organization member'' (str_of_int member_user_id))
     else
       bindr (case find_project_member (prj_id project) member_user_id s of
                None \<Rightarrow>
                  let member = \<lparr>pm_id = db_seq s T_project_members, pm_project_id = prj_id project,
                        pm_user_id = member_user_id, pm_role = role, pm_created_at = cx_now cx\<rparr>
                  in bindr (insert_unique ''uq_project_members_project_user''
                              (\<lambda>m. (pm_project_id m, pm_user_id m)) member (db_project_members s))
                       (\<lambda>members. Inr (member, ''project.member_added'', None,
                          bump_seq T_project_members 1 (s\<lparr>db_project_members := members\<rparr>)))
              | Some member \<Rightarrow>
                  let member' = member\<lparr>pm_role := role\<rparr>
                  in Inr (member', ''project.member_updated'', Some (pm_role member),
                       s\<lparr>db_project_members := update_where (\<lambda>m. pm_id m = pm_id member)
                          (\<lambda>_. member') (db_project_members s)\<rparr>))
         (\<lambda>(member, action, previous_role, s1).
       bindr (project_organization_id project s1) (\<lambda>organization_public_id.
       let metadata = [(''member_user_id'', AuScalar (AuInt member_user_id)),
             (''role'', AuScalar (AuStr (project_role_value role)))]
             @ (case previous_role of
                  None \<Rightarrow> []
                | Some r \<Rightarrow> [(''previous_role'', AuScalar (AuStr (project_role_value r)))])
       in bindr (audit cx 0 user_id organization_public_id action ''project_member'' None
                   (Some (prj_public_id project)) (Some metadata) s1) (\<lambda>s2.
          Inr (member, s2)))))"

definition list_project_members ::
  "int \<Rightarrow> string \<Rightarrow> nat \<Rightarrow> nat \<Rightarrow> db \<Rightarrow> project_member list result"
where
  "list_project_members user_id project_id offset limit s =
     bindr (authorize_project user_id project_id PROJECT_MANAGE False s) (\<lambda>project.
     Inr (page_rows offset limit
            (sort_key (\<lambda>m. (pm_created_at m, pm_id m))
               (filter (\<lambda>m. pm_project_id m = prj_id project) (db_project_members s)))))"

definition update_project_member ::
  "request_ctx \<Rightarrow> int \<Rightarrow> string \<Rightarrow> int \<Rightarrow> project_role \<Rightarrow> db \<Rightarrow> (project_member \<times> db) result"
where
  "update_project_member cx user_id project_id member_user_id role s =
     bindr (authorize_project user_id project_id PROJECT_MANAGE False s) (\<lambda>project.
     bindr (some_or (NotFoundError ''Project member'' (str_of_int member_user_id))
              (find_project_member (prj_id project) member_user_id s)) (\<lambda>member.
     let previous_role = pm_role member; member' = member\<lparr>pm_role := role\<rparr>;
         s1 = s\<lparr>db_project_members := update_where (\<lambda>m. pm_id m = pm_id member) (\<lambda>_. member')
                 (db_project_members s)\<rparr>
     in bindr (project_organization_id project s1) (\<lambda>organization_public_id.
        bindr (audit cx 0 user_id organization_public_id ''project.member_updated''
                 ''project_member'' None (Some (prj_public_id project))
                 (Some [(''member_user_id'', AuScalar (AuInt member_user_id)),
                        (''previous_role'', AuScalar (AuStr (project_role_value previous_role))),
                        (''current_role'', AuScalar (AuStr (project_role_value role)))]) s1) (\<lambda>s2.
        Inr (member', s2)))))"

definition remove_project_member ::
  "request_ctx \<Rightarrow> int \<Rightarrow> string \<Rightarrow> int \<Rightarrow> db \<Rightarrow> (unit \<times> db) result"
where
  "remove_project_member cx user_id project_id member_user_id s =
     bindr (authorize_project user_id project_id PROJECT_MANAGE False s) (\<lambda>project.
     bindr (some_or (NotFoundError ''Project member'' (str_of_int member_user_id))
              (find_project_member (prj_id project) member_user_id s)) (\<lambda>member.
     let s1 = s\<lparr>db_project_members :=
           delete_where (\<lambda>m. pm_id m = pm_id member) (db_project_members s)\<rparr>
     in bindr (project_organization_id project s1) (\<lambda>organization_public_id.
        bindr (audit cx 0 user_id organization_public_id ''project.member_removed''
                 ''project_member'' None (Some (prj_public_id project))
                 (Some [(''member_user_id'', AuScalar (AuInt member_user_id)),
                        (''previous_role'', AuScalar (AuStr (project_role_value (pm_role member))))])
                 s1) (\<lambda>s2. Inr ((), s2)))))"

end
