(* ===== verification/Api_Keys.thy ===== *)
theory Api_Keys
  imports Service_Base Webhook_Security "HOL-Library.AList"
begin

text \<open>
  API keys: their management in \<^verbatim>\<open>app/services/webhook_service.py\<close>, their verification in
  \<^verbatim>\<open>app/api_key_auth.py\<close> and the usage tracker of \<^verbatim>\<open>app/api_key_usage.py\<close>.
\<close>

subsection \<open>Management\<close>

text \<open>The loop of \<^verbatim>\<open>_generate_unique_api_key\<close>; \<open>n\<close> is the number of tries left, out of five.\<close>

fun generate_unique_loop ::
  "nat \<Rightarrow> nat \<Rightarrow> (nat \<Rightarrow> string \<times> string) \<Rightarrow> db \<Rightarrow> (string \<times> string) result"
where
  "generate_unique_loop 0 k random s =
     Inl (ConflictError ''Could not allocate a unique API key prefix; retry the request'')"
| "generate_unique_loop (Suc n) k random s =
     (let (plaintext, prefix) = generate_api_key (fst (random k)) (snd (random k))
      in if list_ex (\<lambda>a. ak_key_prefix a = prefix) (db_api_keys s)
         then generate_unique_loop n (Suc k) random s
         else Inr (plaintext, prefix))"

definition generate_unique_api_key :: "request_ctx \<Rightarrow> db \<Rightarrow> (string \<times> string) result" where
  "generate_unique_api_key cx s = generate_unique_loop 5 0 (cx_random cx) s"

definition validate_scopes :: "string list \<Rightarrow> string list result" where
  "validate_scopes scopes =
     (if scopes = [] \<or> length scopes \<noteq> length (remdups scopes)
      then Inl (ValidationError ''API key scopes must be unique and non-empty'' None)
      else if list_ex (\<lambda>scope. scope \<noteq> ''events:write'') scopes
      then Inl (ValidationError ''Unsupported API key scope'' (Some ''scopes''))
      else Inr scopes)"

definition api_key_expiry :: "settings \<Rightarrow> datetime \<Rightarrow> int option \<Rightarrow> datetime result" where
  "api_key_expiry cfg now expires_in_days =
     (let n = (case expires_in_days of None \<Rightarrow> api_key_default_ttl_days cfg | Some d \<Rightarrow> d)
      in if \<not> (1 \<le> n \<and> n \<le> 3650)
         then Inl (ValidationError ''API key expiration is invalid'' (Some ''expires_in_days''))
         else Inr (now + days n))"

definition insert_api_key :: "api_key \<Rightarrow> db \<Rightarrow> db result" where
  "insert_api_key k s =
     bindr (insert_unique ''api_keys.public_id'' ak_public_id k (db_api_keys s)) (\<lambda>_.
     bindr (insert_unique ''api_keys.key_prefix'' ak_key_prefix k (db_api_keys s)) (\<lambda>keys.
     Inr (bump_seq T_api_keys 1 (s\<lparr>db_api_keys := keys\<rparr>))))"

definition put_api_key :: "api_key \<Rightarrow> db \<Rightarrow> db" where
  "put_api_key k s =
     s\<lparr>db_api_keys := update_where (\<lambda>a. ak_id a = ak_id k) (\<lambda>_. k) (db_api_keys s)\<rparr>"

definition create_api_key ::
  "request_ctx \<Rightarrow> int \<Rightarrow> string \<Rightarrow> string \<Rightarrow> string list option \<Rightarrow> int option \<Rightarrow> db \<Rightarrow>
   ((api_key \<times> string) \<times> db) result"
where
  "create_api_key cx user_id project_id name scopes expires_in_days s =
     bindr (authorize_project user_id project_id KEY_MANAGE False s) (\<lambda>project.
     bindr (validate_scopes (case scopes of Some sc \<Rightarrow> sc | None \<Rightarrow> [''events:write'']))
       (\<lambda>requested_scopes.
     bindr (generate_unique_api_key cx s) (\<lambda>(plaintext, prefix).
     bindr (api_key_expiry (cx_settings cx) (cx_now cx) expires_in_days) (\<lambda>expires_at.
     let public_id = cx_uuid cx 0;
         api_key = \<lparr>ak_id = db_seq s T_api_keys, ak_public_id = public_id,
           ak_project_id = prj_id project, ak_name = name, ak_key_prefix = prefix,
           ak_key_digest = digest_api_key plaintext (api_key_pepper (cx_settings cx)),
           ak_scopes = requested_scopes, ak_expires_at = Some expires_at,
           ak_rotation_family_id = public_id, ak_rotated_from_id = None, ak_is_active = True,
           ak_created_at = cx_now cx, ak_last_used_at = None, ak_revoked_at = None\<rparr>
     in bindr (insert_api_key api_key s) (\<lambda>s1.
        bindr (project_organization_id project s1) (\<lambda>organization_public_id.
        bindr (audit cx 1 user_id organization_public_id ''api_key.created'' ''api_key''
                 (Some public_id) (Some (prj_public_id project))
                 (Some [(''scopes'', AuList (map AuStr requested_scopes)),
                        (''expires_at'', AuScalar (AuStr (isoformat expires_at)))]) s1) (\<lambda>s2.
        Inr ((api_key, plaintext), s2))))))))"

definition list_api_keys :: "int \<Rightarrow> string \<Rightarrow> nat \<Rightarrow> nat \<Rightarrow> db \<Rightarrow> api_key list result" where
  "list_api_keys user_id project_id offset limit s =
     bindr (authorize_project user_id project_id KEY_MANAGE False s) (\<lambda>project.
     Inr (page_rows offset limit
            (sort_key (\<lambda>k. (- ak_created_at k, - ak_id k))
               (filter (\<lambda>k. ak_project_id k = prj_id project) (db_api_keys s)))))"

definition find_project_key :: "project \<Rightarrow> string \<Rightarrow> db \<Rightarrow> api_key option" where
  "find_project_key project key_id s =
     List.find (\<lambda>k. ak_project_id k = prj_id project \<and> ak_public_id k = key_id) (db_api_keys s)"

definition revoke_api_key ::
  "request_ctx \<Rightarrow> int \<Rightarrow> string \<Rightarrow> string \<Rightarrow> db \<Rightarrow> (api_key \<times> db) result"
where
  "revoke_api_key cx user_id project_id key_id s =
     bindr (authorize_project user_id project_id KEY_MANAGE False s) (\<lambda>project.
     bindr (some_or (NotFoundError ''API key'' key_id) (find_project_key project key_id s)) (\<lambda>api_key.
     let api_key' = api_key\<lparr>ak_is_active := False,
           ak_revoked_at := Some (case ak_revoked_at api_key of Some t \<Rightarrow> t | None \<Rightarrow> cx_now cx)\<rparr>;
         s1 = put_api_key api_key' s
     in bindr (project_organization_id project s1) (\<lambda>organization_public_id.
        bindr (audit cx 0 user_id organization_public_id ''api_key.revoked'' ''api_key''
                 (Some (ak_public_id api_key)) (Some (prj_public_id project)) None s1) (\<lambda>s2.
        Inr (api_key', s2)))))"

definition rotate_api_key ::
  "request_ctx \<Rightarrow> int \<Rightarrow> string \<Rightarrow> string \<Rightarrow> int option \<Rightarrow> db \<Rightarrow> ((api_key \<times> string) \<times> db) result"
where
  "rotate_api_key cx user_id project_id key_id overlap_seconds s =
     bindr (authorize_project user_id project_id KEY_MANAGE False s) (\<lambda>project.
     bindr (some_or (NotFoundError ''API key'' key_id) (find_project_key project key_id s)) (\<lambda>previous.
     let now = cx_now cx; cfg = cx_settings cx
     in
     if list_ex (\<lambda>k. ak_rotated_from_id k = Some (ak_id previous)) (db_api_keys s)
     then Inl (ConflictError ''API key has already been rotated'')
     else if \<not> ak_is_active previous \<or> ak_revoked_at previous \<noteq> None
       \<or> opt_le (ak_expires_at previous) now
     then Inl (ConflictError ''Only an active API key can be rotated'')
     else
       bindr (validate_scopes (ak_scopes previous)) (\<lambda>scopes.
       bindr (generate_unique_api_key cx s) (\<lambda>(plaintext, prefix).
       bindr (api_key_expiry cfg now None) (\<lambda>expires_at.
       let replacement = \<lparr>ak_id = db_seq s T_api_keys, ak_public_id = cx_uuid cx 0,
             ak_project_id = prj_id project, ak_name = ak_name previous, ak_key_prefix = prefix,
             ak_key_digest = digest_api_key plaintext (api_key_pepper cfg), ak_scopes = scopes,
             ak_expires_at = Some expires_at,
             ak_rotation_family_id = ak_rotation_family_id previous,
             ak_rotated_from_id = Some (ak_id previous), ak_is_active = True,
             ak_created_at = now, ak_last_used_at = None, ak_revoked_at = None\<rparr>;
           overlap = (case overlap_seconds of
             None \<Rightarrow> api_key_rotation_overlap_seconds cfg | Some n \<Rightarrow> n)
       in
       if \<not> (1 \<le> overlap \<and> overlap \<le> 86400)
       then Inl (ValidationError ''API key rotation overlap is invalid'' (Some ''overlap_seconds''))
       else
         let overlap_until = now + seconds overlap;
             previous' = (if ak_expires_at previous = None \<or> opt_gt (ak_expires_at previous) overlap_until
               then previous\<lparr>ak_expires_at := Some overlap_until\<rparr> else previous)
         in bindr (insert_api_key replacement (put_api_key previous' s)) (\<lambda>s1.
            bindr (project_organization_id project s1) (\<lambda>organization_public_id.
            bindr (audit cx 1 user_id organization_public_id ''api_key.rotated'' ''api_key''
                     (Some (ak_public_id replacement)) (Some (prj_public_id project))
                     (Some [(''previous_id'', AuScalar (AuStr (ak_public_id previous))),
                            (''replacement_id'', AuScalar (AuStr (ak_public_id replacement))),
                            (''overlap_seconds'', AuScalar (AuInt overlap)),
                            (''scopes'', AuList (map AuStr scopes))]) s1) (\<lambda>s2.
            Inr ((replacement, plaintext), s2)))))))))"

subsection \<open>Authentication\<close>

definition invalid_api_key :: app_error where
  "invalid_api_key = UnauthorizedError ''Invalid API key'' ''X-API-Key''"

definition hex_char :: "char \<Rightarrow> bool" where
  "hex_char c \<longleftrightarrow> (let n = cp c in 48 \<le> n \<and> n \<le> 57 \<or> 97 \<le> n \<and> n \<le> 102)"

text \<open>\<^verbatim>\<open>_API_KEY_PATTERN.fullmatch\<close>, which yields the prefix, and \<^verbatim>\<open>_DIGEST_PATTERN.fullmatch\<close>.\<close>

definition match_api_key :: "string \<Rightarrow> string option" where
  "match_api_key plaintext =
     (let prefix = take 12 (drop 4 plaintext); secret = drop 17 plaintext
      in if length plaintext = 60 \<and> take 4 plaintext = ''whk_'' \<and> list_all hex_char prefix
           \<and> plaintext ! 16 = CHR ''_'' \<and> list_all word_char secret
         then Some prefix else None)"

definition digest_pattern :: "string \<Rightarrow> bool" where
  "digest_pattern d \<longleftrightarrow> length d = 64 \<and> list_all hex_char d"

definition api_key_rows :: "string \<Rightarrow> db \<Rightarrow> (api_key \<times> project \<times> organization) list" where
  "api_key_rows prefix s =
     [(k, p, organization). k \<leftarrow> db_api_keys s, p \<leftarrow> db_projects s, organization \<leftarrow> db_organizations s,
        prj_id p = ak_project_id k \<and> org_id organization = prj_organization_id p
        \<and> ak_key_prefix k = prefix]"

definition key_refused :: "datetime \<Rightarrow> api_key \<Rightarrow> project \<Rightarrow> organization \<Rightarrow> bool" where
  "key_refused now api_key project organization \<longleftrightarrow>
     \<not> ak_is_active api_key \<or> ak_revoked_at api_key \<noteq> None
     \<or> ''events:write'' \<notin> set (ak_scopes api_key)
     \<or> opt_le (ak_expires_at api_key) now
     \<or> \<not> prj_is_active project \<or> org_lifecycle_state organization \<noteq> Active"

text \<open>The key's id comes back with the project: it is what the usage tracker is told.\<close>

definition get_api_key_project ::
  "string \<Rightarrow> datetime \<Rightarrow> string option \<Rightarrow> db \<Rightarrow> (int \<times> project) result"
where
  "get_api_key_project pepper now plaintext s =
     (let text = (case plaintext of None \<Rightarrow> [] | Some p \<Rightarrow> p)
      in case match_api_key text of
           None \<Rightarrow> Inl invalid_api_key
         | Some prefix \<Rightarrow>
             (case List.find (\<lambda>(k, _, _). digest_pattern (ak_key_digest k)
                      \<and> verify_api_key text (ak_key_digest k) pepper) (api_key_rows prefix s) of
                None \<Rightarrow> Inl invalid_api_key
              | Some (api_key, project, organization) \<Rightarrow>
                  if key_refused now api_key project organization then Inl invalid_api_key
                  else Inr (ak_id api_key, project)))"

subsection \<open>Usage timestamps\<close>

record usage_tracker =
  ut_max_entries :: int
  ut_running :: bool
  ut_pending :: "(int \<times> datetime) list"

definition merge_usage :: "int \<Rightarrow> datetime \<Rightarrow> (int \<times> datetime) list \<Rightarrow> (int \<times> datetime) list" where
  "merge_usage i used_at pending =
     AList.update i (max (case map_of pending i of Some e \<Rightarrow> e | None \<Rightarrow> used_at) used_at) pending"

definition usage_record :: "int \<Rightarrow> datetime \<Rightarrow> usage_tracker \<Rightarrow> usage_tracker" where
  "usage_record api_key_id used_at t =
     (if \<not> ut_running t then t
      else if map_of (ut_pending t) api_key_id \<noteq> None
           \<or> int (length (ut_pending t)) < ut_max_entries t
      then t\<lparr>ut_pending := merge_usage api_key_id used_at (ut_pending t)\<rparr>
      else t)"

text \<open>
  A flush takes the pending entries away under the lock, then writes them in a transaction; when
  that fails it puts them back, merged with what was recorded in the meantime.
\<close>

definition usage_take :: "usage_tracker \<Rightarrow> (int \<times> datetime) list \<times> usage_tracker" where
  "usage_take t = (ut_pending t, t\<lparr>ut_pending := []\<rparr>)"

definition usage_write :: "(int \<times> datetime) list \<Rightarrow> db \<Rightarrow> db" where
  "usage_write pending s =
     s\<lparr>db_api_keys := map (\<lambda>k. case map_of pending (ak_id k) of
          None \<Rightarrow> k
        | Some used_at \<Rightarrow>
            (case ak_last_used_at k of
               None \<Rightarrow> k\<lparr>ak_last_used_at := Some used_at\<rparr>
             | Some last_used \<Rightarrow> if last_used < used_at then k\<lparr>ak_last_used_at := Some used_at\<rparr> else k))
        (db_api_keys s)\<rparr>"

definition usage_restore :: "(int \<times> datetime) list \<Rightarrow> usage_tracker \<Rightarrow> usage_tracker" where
  "usage_restore pending t =
     t\<lparr>ut_pending := fold (\<lambda>(i, used_at). merge_usage i used_at) pending (ut_pending t)\<rparr>"

end
