(* ===== verification/Commands.thy ===== *)
theory Commands
  imports Lifecycle Projects Api_Keys Delivery_Safety
begin

text \<open>
  The management interface as a whole: one constructor per state-changing method of
  \<^verbatim>\<open>WebhookService\<close> that acts for a user, and what every one of them guarantees.  A command that
  fails leaves the database as it was, because its transaction is rolled back.
\<close>

subsection \<open>Commands\<close>

datatype command =
    Create_organization string
  | Add_member string int organization_role
  | Update_member string int organization_role
  | Remove_member string int
  | Update_policy string "policy_change list"
  | Request_deletion string
  | Cancel_deletion string
  | Create_project string string
  | Deactivate_project string
  | Add_project_member string int project_role
  | Upsert_project_member string int project_role
  | Update_project_member string int project_role
  | Remove_project_member string int
  | Create_api_key string string "string list option" "int option"
  | Revoke_api_key string string
  | Rotate_api_key string string "int option"
  | Create_endpoint string string "string option" "string list option" signature_scheme
  | Update_endpoint string string "endpoint_change list"
  | Deactivate_endpoint string string
  | Rotate_endpoint_secret string string
  | Pause_endpoint string string "string option"
  | Resume_endpoint string string
  | Recover_endpoint_circuit string string
  | Replay_delivery string string
  | Replay_deliveries string "string list" string
  | Cancel_delivery string string "string option"
  | Purge_terminal_deliveries string bool int

fun run_command :: "net_env \<Rightarrow> request_ctx \<Rightarrow> int \<Rightarrow> command \<Rightarrow> db \<Rightarrow> db result" where
  "run_command net cx uid (Create_organization name) s = map_sum id snd (create_organization cx uid name s)"
| "run_command net cx uid (Add_member org m role) s = map_sum id snd (add_member cx uid org m role s)"
| "run_command net cx uid (Update_member org m role) s = map_sum id snd (update_member cx uid org m role s)"
| "run_command net cx uid (Remove_member org m) s = map_sum id snd (remove_member cx uid org m s)"
| "run_command net cx uid (Update_policy org cs) s = map_sum id snd (update_policy cx uid org cs s)"
| "run_command net cx uid (Request_deletion org) s =
     map_sum id snd (request_organization_deletion cx uid org s)"
| "run_command net cx uid (Cancel_deletion org) s =
     map_sum id snd (cancel_organization_deletion cx uid org s)"
| "run_command net cx uid (Create_project org name) s = map_sum id snd (create_project cx uid org name s)"
| "run_command net cx uid (Deactivate_project p) s = map_sum id snd (deactivate_project cx uid p s)"
| "run_command net cx uid (Add_project_member p m role) s =
     map_sum id snd (add_project_member cx uid p m role s)"
| "run_command net cx uid (Upsert_project_member p m role) s =
     map_sum id snd (upsert_project_member cx uid p m role s)"
| "run_command net cx uid (Update_project_member p m role) s =
     map_sum id snd (update_project_member cx uid p m role s)"
| "run_command net cx uid (Remove_project_member p m) s =
     map_sum id snd (remove_project_member cx uid p m s)"
| "run_command net cx uid (Create_api_key p name scopes expiry) s =
     map_sum id snd (create_api_key cx uid p name scopes expiry s)"
| "run_command net cx uid (Revoke_api_key p k) s = map_sum id snd (revoke_api_key cx uid p k s)"
| "run_command net cx uid (Rotate_api_key p k overlap) s =
     map_sum id snd (rotate_api_key cx uid p k overlap s)"
| "run_command net cx uid (Create_endpoint p url descr types scheme) s =
     map_sum id snd (create_endpoint net cx uid p url descr types scheme s)"
| "run_command net cx uid (Update_endpoint p e cs) s =
     map_sum id snd (update_endpoint net cx uid p e cs s)"
| "run_command net cx uid (Deactivate_endpoint p e) s =
     map_sum id snd (deactivate_endpoint cx uid p e s)"
| "run_command net cx uid (Rotate_endpoint_secret p e) s =
     map_sum id snd (rotate_endpoint_secret cx uid p e s)"
| "run_command net cx uid (Pause_endpoint p e reason) s =
     map_sum id snd (pause_endpoint cx uid p e reason s)"
| "run_command net cx uid (Resume_endpoint p e) s = map_sum id snd (resume_endpoint cx uid p e s)"
| "run_command net cx uid (Recover_endpoint_circuit p e) s =
     map_sum id snd (recover_endpoint_circuit cx uid p e s)"
| "run_command net cx uid (Replay_delivery p d) s = map_sum id snd (replay_delivery cx uid p d s)"
| "run_command net cx uid (Replay_deliveries p ds key) s =
     map_sum id snd (replay_deliveries cx uid p ds key s)"
| "run_command net cx uid (Cancel_delivery p d reason) s =
     map_sum id snd (cancel_delivery cx uid p d reason s)"
| "run_command net cx uid (Purge_terminal_deliveries p dry n) s =
     map_sum id snd (purge_terminal_deliveries cx uid p dry n s)"

lemma map_sum_Inr_snd: "map_sum id snd r = Inr s' \<longleftrightarrow> (\<exists>x. r = Inr (x, s'))"
  by (cases r) auto

subsection \<open>Effects\<close>

text \<open>
  What the commands that leave the queue alone keep: the deliveries, events and attempts, and the
  sequences that number them.
\<close>

definition queue_frame :: "db \<Rightarrow> db \<Rightarrow> bool" where
  "queue_frame s s' \<longleftrightarrow> db_deliveries s' = db_deliveries s \<and> db_events s' = db_events s
     \<and> db_attempts s' = db_attempts s \<and> db_seq s' T_deliveries = db_seq s T_deliveries
     \<and> db_seq s' T_events = db_seq s T_events"

text \<open>The tables that say who belongs to which organization.\<close>

definition members_frame :: "db \<Rightarrow> db \<Rightarrow> bool" where
  "members_frame s s' \<longleftrightarrow> db_org_members s' = db_org_members s
     \<and> map org_id (db_organizations s') = map org_id (db_organizations s)
     \<and> db_seq s' T_organization_members = db_seq s T_organization_members"

text \<open>
  A command leaves the database alone or appends, with its changes, one event to the audit log,
  which names the actor, the time and an action.
\<close>

definition audited_step :: "request_ctx \<Rightarrow> int \<Rightarrow> db \<Rightarrow> db \<Rightarrow> bool" where
  "audited_step cx uid s s' \<longleftrightarrow> s' = s \<or>
     (\<exists>e org action. db_audit_events s' = db_audit_events s @ [e] \<and> audit_record cx uid org action e)"

lemma queue_frame_refl [simp]: "queue_frame s s"
  by (simp add: queue_frame_def)

lemma members_frame_refl [simp]: "members_frame s s"
  by (simp add: members_frame_def)

lemma queue_frame_audited [simp]: "queue_frame s (audited e s1) = queue_frame s s1"
  by (simp add: queue_frame_def)

lemma members_frame_audited [simp]: "members_frame s (audited e s1) = members_frame s s1"
  by (simp add: members_frame_def)

lemma audited_stepI:
  assumes "audit cx k uid org action rt rid pid metadata s1 = Inr s'"
    and "db_audit_events s1 = db_audit_events s"
  shows "audited_step cx uid s s'"
  using assms by (auto simp: audited_step_def elim!: audit_InrE)

lemma audited_step_refl [simp]: "audited_step cx uid s s"
  by (simp add: audited_step_def)

text \<open>
  The effect of an operation: the frame of the queue, the frame of the memberships, and the audit
  trail.  \<open>effect_audit\<close> is the rule every operation's proof ends with.
\<close>

definition effect :: "bool \<Rightarrow> bool \<Rightarrow> request_ctx \<Rightarrow> int \<Rightarrow> db \<Rightarrow> db \<Rightarrow> bool" where
  "effect q m cx uid s s' \<longleftrightarrow>
     (q \<longrightarrow> queue_frame s s') \<and> (m \<longrightarrow> members_frame s s') \<and> audited_step cx uid s s'"

lemma effect_refl [simp]: "effect q m cx uid s s"
  by (simp add: effect_def)

lemma effect_audit:
  assumes "audit cx k uid org action rt rid pid metadata s1 = Inr s'"
    and "db_audit_events s1 = db_audit_events s"
    and "q \<Longrightarrow> queue_frame s s1" and "m \<Longrightarrow> members_frame s s1"
  shows "effect q m cx uid s s'"
  using assms(3,4) audited_stepI [OF assms(1,2)] assms(1)
  by (auto simp: effect_def elim!: audit_InrE)

lemma map_update_org_id [simp]:
  "(\<And>o'. org_id (f o') = org_id o') \<Longrightarrow> map org_id (update_where p f rows) = map org_id rows"
  by (rule map_update_where)

lemma update_policy_effect:
  "update_policy cx uid org cs s = Inr (p, s') \<Longrightarrow> effect True True cx uid s s'"
  unfolding update_policy_def
  by (auto simp: bindr_Inr_iff Let_def queue_frame_def members_frame_def elim!: effect_audit
    split: if_splits)

lemma request_deletion_effect:
  "request_organization_deletion cx uid org s = Inr (p, s') \<Longrightarrow> effect True True cx uid s s'"
  unfolding request_organization_deletion_def
  by (auto simp: bindr_Inr_iff Let_def queue_frame_def members_frame_def elim!: effect_audit
    split: if_splits option.splits)

lemma cancel_deletion_effect:
  "cancel_organization_deletion cx uid org s = Inr (p, s') \<Longrightarrow> effect True True cx uid s s'"
  unfolding cancel_organization_deletion_def
  by (auto simp: bindr_Inr_iff Let_def queue_frame_def members_frame_def elim!: effect_audit
    split: if_splits option.splits)

lemma create_organization_effect:
  "create_organization cx uid name s = Inr (x, s') \<Longrightarrow> effect True False cx uid s s'"
  unfolding create_organization_def
  by (auto simp: bindr_Inr_iff Let_def insert_unique_Inr queue_frame_def members_frame_def
    elim!: effect_audit split: if_splits option.splits)

lemma add_member_effect:
  "add_member cx uid org m role s = Inr (x, s') \<Longrightarrow> effect True False cx uid s s'"
  unfolding add_member_def
  by (auto simp: bindr_Inr_iff Let_def insert_unique_Inr queue_frame_def members_frame_def
    elim!: effect_audit split: if_splits option.splits)

lemma update_member_effect:
  "update_member cx uid org m role s = Inr (x, s') \<Longrightarrow> effect True False cx uid s s'"
  unfolding update_member_def
  by (auto simp: bindr_Inr_iff Let_def insert_unique_Inr queue_frame_def members_frame_def
    elim!: effect_audit split: if_splits option.splits)

lemma remove_member_effect:
  "remove_member cx uid org m s = Inr (x, s') \<Longrightarrow> effect True False cx uid s s'"
  unfolding remove_member_def
  by (auto simp: bindr_Inr_iff Let_def insert_unique_Inr queue_frame_def members_frame_def
    elim!: effect_audit split: if_splits option.splits)

lemma deactivate_project_effect:
  "deactivate_project cx uid p s = Inr (x, s') \<Longrightarrow> effect True True cx uid s s'"
  unfolding deactivate_project_def
  by (auto simp: bindr_Inr_iff Let_def insert_unique_Inr queue_frame_def members_frame_def
    elim!: effect_audit split: if_splits option.splits)

lemma add_project_member_effect:
  "add_project_member cx uid p m role s = Inr (x, s') \<Longrightarrow> effect True True cx uid s s'"
  unfolding add_project_member_def
  by (auto simp: bindr_Inr_iff Let_def insert_unique_Inr queue_frame_def members_frame_def
    elim!: effect_audit split: if_splits option.splits)

lemma update_project_member_effect:
  "update_project_member cx uid p m role s = Inr (x, s') \<Longrightarrow> effect True True cx uid s s'"
  unfolding update_project_member_def
  by (auto simp: bindr_Inr_iff Let_def insert_unique_Inr queue_frame_def members_frame_def
    elim!: effect_audit split: if_splits option.splits)

lemma remove_project_member_effect:
  "remove_project_member cx uid p m s = Inr (x, s') \<Longrightarrow> effect True True cx uid s s'"
  unfolding remove_project_member_def
  by (auto simp: bindr_Inr_iff Let_def insert_unique_Inr queue_frame_def members_frame_def
    elim!: effect_audit split: if_splits option.splits)

lemma upsert_project_member_effect:
  "upsert_project_member cx uid p m role s = Inr (x, s') \<Longrightarrow> effect True True cx uid s s'"
  unfolding upsert_project_member_def
  by (auto simp: bindr_Inr_iff Let_def insert_unique_Inr queue_frame_def members_frame_def
    elim!: effect_audit split: if_splits option.splits)

lemma create_api_key_effect:
  "create_api_key cx uid p name scopes expiry s = Inr (x, s') \<Longrightarrow> effect True True cx uid s s'"
  unfolding create_api_key_def
  by (auto simp: bindr_Inr_iff Let_def insert_unique_Inr queue_frame_def members_frame_def insert_api_key_def
    elim!: effect_audit split: if_splits option.splits)

lemma revoke_api_key_effect:
  "revoke_api_key cx uid p k s = Inr (x, s') \<Longrightarrow> effect True True cx uid s s'"
  unfolding revoke_api_key_def
  by (auto simp: bindr_Inr_iff Let_def insert_unique_Inr queue_frame_def members_frame_def put_api_key_def
    elim!: effect_audit )

lemma rotate_api_key_effect:
  "rotate_api_key cx uid p k overlap s = Inr (x, s') \<Longrightarrow> effect True True cx uid s s'"
  unfolding rotate_api_key_def
  by (auto simp: bindr_Inr_iff Let_def insert_unique_Inr queue_frame_def members_frame_def insert_api_key_def put_api_key_def
    elim!: effect_audit split: if_splits option.splits)

lemma deactivate_endpoint_effect:
  "deactivate_endpoint cx uid p e s = Inr (x, s') \<Longrightarrow> effect True True cx uid s s'"
  unfolding deactivate_endpoint_def
  by (auto simp: bindr_Inr_iff Let_def insert_unique_Inr queue_frame_def members_frame_def put_endpoint_def
    elim!: effect_audit split: if_splits option.splits)

lemma rotate_endpoint_secret_effect:
  "rotate_endpoint_secret cx uid p e s = Inr (x, s') \<Longrightarrow> effect True True cx uid s s'"
  unfolding rotate_endpoint_secret_def
  by (auto simp: bindr_Inr_iff Let_def insert_unique_Inr queue_frame_def members_frame_def put_endpoint_def insert_secret_version_def
    elim!: effect_audit split: if_splits option.splits)

lemma operate_endpoint_effect:
  "operate_endpoint cx uid p e f action metadata s = Inr (x, s') \<Longrightarrow> effect True True cx uid s s'"
  unfolding operate_endpoint_def
  by (auto simp: bindr_Inr_iff Let_def insert_unique_Inr queue_frame_def members_frame_def put_endpoint_quota_def
    elim!: effect_audit split: if_splits option.splits)

text \<open>Admission writes the quota tables only.\<close>

definition quota_only :: "db \<Rightarrow> db \<Rightarrow> bool" where
  "quota_only s s' \<longleftrightarrow> s'\<lparr>db_global_control := [], db_tenant_quotas := []\<rparr>
     = s\<lparr>db_global_control := [], db_tenant_quotas := []\<rparr>"

lemma quota_only_refl: "quota_only s s"
  by (simp add: quota_only_def)

lemma quota_only_tenant: "quota_only s s1 \<Longrightarrow> quota_only s (s1\<lparr>db_tenant_quotas := t\<rparr>)"
  by (simp add: quota_only_def)

lemma quota_only_global: "quota_only s s1 \<Longrightarrow> quota_only s (s1\<lparr>db_global_control := g\<rparr>)"
  by (cases s1; cases s; simp add: quota_only_def)

lemma quota_only_ensure:
  "quota_only s s1 \<Longrightarrow> quota_only s (ensure_tenant_state org cfg now s1)"
  "quota_only s s1 \<Longrightarrow> quota_only s (ensure_global_state now s1)"
  "quota_only s s1 \<Longrightarrow> quota_only s (put_tenant_quota q s1)"
  by (simp_all add: ensure_tenant_state_def ensure_global_state_def put_tenant_quota_def
    quota_only_tenant quota_only_global)

lemma lock_global_tenant_quota_only:
  "lock_global_tenant cfg now org s = Inr (g, q, s1) \<Longrightarrow> quota_only s s1"
  unfolding lock_global_tenant_def
  by (auto simp: Let_def quota_only_refl intro!: quota_only_ensure split: option.splits)

lemma check_endpoint_limit_quota_only:
  "check_endpoint_limit cfg now org pid x s = Inr s1 \<Longrightarrow> quota_only s s1"
  unfolding check_endpoint_limit_def
  by (auto simp: Let_def quota_only_refl intro!: quota_only_ensure split: option.splits if_splits)

lemma admit_event_locked_quota_only:
  "admit_event_locked cfg st now org n sz s = Inr s1 \<Longrightarrow> quota_only s s1"
  unfolding admit_event_locked_def
  by (auto simp: Let_def bindr_Inr_iff quota_only_refl intro!: quota_only_ensure
    split: option.splits if_splits)

lemma admit_replays_locked_quota_only:
  "admit_replays_locked cfg st now n s = Inr s1 \<Longrightarrow> quota_only s s1"
  unfolding admit_replays_locked_def
  by (auto simp: Let_def bindr_Inr_iff quota_only_refl intro!: quota_only_ensure
    split: option.splits if_splits)

lemma quota_only_trans: "quota_only s s1 \<Longrightarrow> quota_only s1 s2 \<Longrightarrow> quota_only s s2"
  by (auto simp: quota_only_def)

lemma admit_replay_quota_only:
  "admit_replay cfg now org s = Inr s1 \<Longrightarrow> quota_only s s1"
  unfolding admit_replay_def admit_replays_def
  by (auto simp: bindr_Inr_iff
    dest!: lock_global_tenant_quota_only admit_replays_locked_quota_only
    intro: quota_only_trans)

lemma quota_onlyD:
  assumes "quota_only s s'"
  shows "db_deliveries s' = db_deliveries s" "db_events s' = db_events s"
    "db_attempts s' = db_attempts s" "db_seq s' = db_seq s"
    "db_org_members s' = db_org_members s" "db_organizations s' = db_organizations s"
    "db_audit_events s' = db_audit_events s" "db_endpoints s' = db_endpoints s"
    "db_projects s' = db_projects s" "db_endpoint_quotas s' = db_endpoint_quotas s"
    "db_secret_versions s' = db_secret_versions s"
    "db_replay_operations s' = db_replay_operations s"
    "db_lifecycle_operations s' = db_lifecycle_operations s"
    "db_policies s' = db_policies s" "db_api_keys s' = db_api_keys s"
    "db_project_members s' = db_project_members s" "db_login_throttles s' = db_login_throttles s"
  using assms by (cases s; cases s'; simp add: quota_only_def)+

lemma create_endpoint_effect:
  assumes "create_endpoint net cx uid p url descr types scheme s = Inr (x, s')"
  shows "effect True True cx uid s s'"
  using assms unfolding create_endpoint_def
  by (auto simp: bindr_Inr_iff Let_def insert_unique_Inr insert_secret_version_def
      queue_frame_def members_frame_def quota_onlyD dest!: check_endpoint_limit_quota_only
      elim!: effect_audit)

lemma update_endpoint_effect:
  assumes "update_endpoint net cx uid p e cs s = Inr (x, s')"
  shows "effect True True cx uid s s'"
proof -
  have q: "quota_only s s1" if "(if b then check_endpoint_limit cfg now org pid y s else Inr s) = Inr s1"
    for b cfg now org pid y s1
    using that by (auto simp: quota_only_refl dest: check_endpoint_limit_quota_only split: if_splits)
  from assms obtain s1 e1 k org action rt rid pid md where s1: "quota_only s s1"
    and a: "audit cx k uid org action rt rid pid md (put_endpoint e1 s1) = Inr s'"
    unfolding update_endpoint_def by (auto simp: bindr_Inr_iff Let_def dest!: q)
  from a show ?thesis
    by (rule effect_audit) (simp_all add: put_endpoint_def queue_frame_def members_frame_def quota_onlyD [OF s1])
qed

lemma create_project_effect:
  assumes "create_project cx uid org name s = Inr (x, s')"
  shows "effect True True cx uid s s'"
proof -
  from assms obtain s1 s2 k o' action rt rid pid md ms where
    a: "audit cx k uid o' action rt rid pid md s1 = Inr s2"
    and s1: "db_audit_events s1 = db_audit_events s" "queue_frame s s1" "members_frame s s1"
    and s': "s' = bump_seq T_project_members 1 (s2\<lparr>db_project_members := ms\<rparr>)"
    unfolding create_project_def
    by (auto simp: bindr_Inr_iff Let_def insert_unique_def queue_frame_def members_frame_def
      split: sum.splits if_splits)
  have "effect True True cx uid s s2" using a s1 by (rule effect_audit)
  moreover have "s2 \<noteq> s"
    using a s1(1) by (auto elim!: audit_InrE dest: arg_cong [of _ _ db_audit_events])
  ultimately show ?thesis
    by (auto simp: s' effect_def queue_frame_def members_frame_def audited_step_def)
qed

lemma replay_delivery_effect:
  assumes "replay_delivery cx uid p d s = Inr (x, s')"
  shows "effect False True cx uid s s'"
  using assms unfolding replay_delivery_def
  by (auto simp: bindr_Inr_iff Let_def insert_unique_Inr insert_replay_operation_def
      add_deliveries_def members_frame_def quota_onlyD dest!: admit_replay_quota_only
      elim!: effect_audit)

lemma replay_batch_effect:
  assumes "replay_batch cx uid prj ds key ts s = Inr (x, s')"
  shows "effect False True cx uid s s' \<and> s' \<noteq> s"
proof -
  from assms obtain s1 k o' action rt rid pid md where
    "audit cx k uid o' action rt rid pid md s1 = Inr s'"
    and "db_audit_events s1 = db_audit_events s" "members_frame s s1"
    unfolding replay_batch_def
    by (auto simp: bindr_Inr_iff Let_def insert_unique_Inr insert_replay_operation_def
      add_deliveries_def members_frame_def quota_onlyD dest!: admit_replays_locked_quota_only
      split: if_splits)
  moreover from this have "s' \<noteq> s"
    by (auto elim!: audit_InrE dest: arg_cong [of _ _ db_audit_events])
  ultimately show ?thesis by (auto intro: effect_audit)
qed

lemma replay_deliveries_effect:
  assumes "replay_deliveries cx uid p ds key s = Inr (x, s')"
  shows "effect False True cx uid s s'"
proof -
  have hit: "s2 = s1" if "replay_hit ds op s1 = Inr (y, s2)" for op s1 y s2
    using that by (auto simp: replay_hit_def split: if_splits)
  consider "s' = s"
    | prj ts s1 where "quota_only s s1" "replay_batch cx uid prj ds key ts s1 = Inr (x, s')"
    using assms unfolding replay_deliveries_def
    by (auto simp: bindr_Inr_iff Let_def dest!: hit lock_global_tenant_quota_only
      split: if_splits option.splits)
  then show ?thesis
  proof cases
    case 2
    then show ?thesis
      using replay_batch_effect [OF 2(2)]
      by (auto simp: effect_def members_frame_def audited_step_def quota_onlyD)
  qed simp
qed

lemma cancel_delivery_effect:
  assumes "cancel_delivery cx uid p d reason s = Inr (x, s')"
  shows "effect False True cx uid s s'"
  using assms unfolding cancel_delivery_def
  by (auto simp: bindr_Inr_iff Let_def release_probe_def put_delivery_def put_endpoint_quota_def
      members_frame_def elim!: effect_audit split: if_splits option.splits)

lemma purge_effect:
  assumes "purge_terminal_deliveries cx uid p dry n s = Inr (x, s')"
  shows "effect False True cx uid s s'"
  using assms unfolding purge_terminal_deliveries_def
  by (auto simp: bindr_Inr_iff Let_def delete_deliveries_def members_frame_def
      elim!: effect_audit split: if_splits)

subsection \<open>The audit trail\<close>

lemmas command_effects =
  create_organization_effect add_member_effect update_member_effect remove_member_effect
  update_policy_effect request_deletion_effect cancel_deletion_effect create_project_effect
  deactivate_project_effect add_project_member_effect upsert_project_member_effect
  update_project_member_effect remove_project_member_effect create_api_key_effect
  revoke_api_key_effect rotate_api_key_effect create_endpoint_effect update_endpoint_effect
  deactivate_endpoint_effect rotate_endpoint_secret_effect operate_endpoint_effect
  replay_delivery_effect replay_deliveries_effect cancel_delivery_effect purge_effect

text \<open>The commands that write the queue, and those that write the memberships.\<close>

definition touches_queue :: "command \<Rightarrow> bool" where
  "touches_queue cmd \<longleftrightarrow>
     (case cmd of
        Replay_delivery _ _ \<Rightarrow> True | Replay_deliveries _ _ _ \<Rightarrow> True | Cancel_delivery _ _ _ \<Rightarrow> True
      | Purge_terminal_deliveries _ _ _ \<Rightarrow> True | _ \<Rightarrow> False)"

definition touches_members :: "command \<Rightarrow> bool" where
  "touches_members cmd \<longleftrightarrow>
     (case cmd of
        Create_organization _ \<Rightarrow> True | Add_member _ _ _ \<Rightarrow> True | Update_member _ _ _ \<Rightarrow> True
      | Remove_member _ _ \<Rightarrow> True | _ \<Rightarrow> False)"

lemma command_effect:
  assumes "run_command net cx uid cmd s = Inr s'"
  shows "effect (\<not> touches_queue cmd) (\<not> touches_members cmd) cx uid s s'"
  using assms
  by (cases cmd) (auto simp: map_sum_Inr_snd pause_endpoint_def resume_endpoint_def
    recover_endpoint_circuit_def touches_queue_def touches_members_def dest: command_effects)

text \<open>A request context and a network on which the witnesses are evaluated.\<close>

definition sample_ctx :: request_ctx where
  "sample_ctx = \<lparr>cx_settings = default_settings, cx_now = 1780272000000000,
     cx_clock = 1780272000000000, cx_uuid = (\<lambda>n. ''uuid-'' @ str_of_int (int n)),
     cx_random = (\<lambda>n. (replicate 12 (CHR ''a''), replicate 43 (CHR ''b'')))\<rparr>"

definition sample_net :: net_env where
  "sample_net = \<lparr>nv_urlsplit = sample_split, nv_parse_ip = sample_ip,
     nv_getaddrinfo = sample_dns [''8.8.8.8'']\<rparr>"

end
