(* ===== verification/Membership.thy ===== *)
theory Membership
  imports Commands
begin

text \<open>
  What the management interface guarantees over any sequence of requests: the audit trail is
  complete and only grows, every organization keeps an owner, and only an owner changes who the
  owners are.
\<close>

subsection \<open>Sessions\<close>

type_synonym request = "request_ctx \<times> int \<times> command"

definition execute :: "net_env \<Rightarrow> request \<Rightarrow> db \<Rightarrow> db result" where
  "execute net r s = (case r of (cx, uid, cmd) \<Rightarrow> run_command net cx uid cmd s)"

text \<open>A request that fails is rolled back.\<close>

fun run_session :: "('r \<Rightarrow> db \<Rightarrow> db result) \<Rightarrow> 'r list \<Rightarrow> db \<Rightarrow> db" where
  "run_session exec [] s = s"
| "run_session exec (r # rs) s =
     run_session exec rs (case exec r s of Inl _ \<Rightarrow> s | Inr s' \<Rightarrow> s')"

text \<open>A service whose operations keep an invariant keeps it over sessions.\<close>

locale service_invariant =
  fixes exec :: "'r \<Rightarrow> db \<Rightarrow> db result" and inv :: "db \<Rightarrow> bool"
  assumes exec_inv: "inv s \<Longrightarrow> exec r s = Inr s' \<Longrightarrow> inv s'"
begin

lemma session_inv: "inv s \<Longrightarrow> inv (run_session exec rs s)"
proof (induction rs arbitrary: s)
  case (Cons r rs)
  then show ?case by (cases "exec r s") (auto dest: exec_inv)
qed simp

end

text \<open>A service whose operations audit themselves, by actor and time of the request.\<close>

locale audit_trail =
  fixes exec :: "'r \<Rightarrow> db \<Rightarrow> db result" and actor :: "'r \<Rightarrow> int" and ctx :: "'r \<Rightarrow> request_ctx"
  assumes exec_audited: "exec r s = Inr s' \<Longrightarrow> audited_step (ctx r) (actor r) s s'"
begin

lemma session_audited:
  "\<exists>es. db_audit_events (run_session exec rs s) = db_audit_events s @ es \<and> length es \<le> length rs
     \<and> (\<forall>e \<in> set es. \<exists>r \<in> set rs. \<exists>org action. audit_record (ctx r) (actor r) org action e)"
proof (induction rs arbitrary: s)
  case (Cons r rs)
  show ?case
  proof (cases "exec r s")
    case (Inl e)
    with Cons.IH [of s] show ?thesis by fastforce
  next
    case (Inr s')
    obtain es where es: "db_audit_events (run_session exec rs s') = db_audit_events s' @ es"
      "length es \<le> length rs"
      "\<forall>e \<in> set es. \<exists>r \<in> set rs. \<exists>org action. audit_record (ctx r) (actor r) org action e"
      using Cons.IH by blast
    from exec_audited [OF Inr] consider "s' = s"
      | e org action where "db_audit_events s' = db_audit_events s @ [e]"
          "audit_record (ctx r) (actor r) org action e"
      by (auto simp: audited_step_def)
    then show ?thesis
    proof cases
      case 1
      with es Inr show ?thesis by (intro exI [of _ es]) auto
    next
      case 2
      with es Inr show ?thesis by (intro exI [of _ "e # es"]) auto
    qed
  qed
qed simp

end

interpretation trail: audit_trail "execute net" "\<lambda>r. fst (snd r)" fst
  by unfold_locales
    (auto simp: execute_def effect_def dest!: command_effect split: prod.splits)

subsection \<open>Owners\<close>

definition owner_of :: "db \<Rightarrow> int \<Rightarrow> int \<Rightarrow> bool" where
  "owner_of s org u \<longleftrightarrow>
     (\<exists>m \<in> set (db_org_members s). om_organization_id m = org \<and> om_user_id m = u \<and> om_role m = OWNER)"

text \<open>The invariant: the keys of the member table are unique, and every organization has an owner.\<close>

definition owners_inv :: "db \<Rightarrow> bool" where
  "owners_inv s \<longleftrightarrow>
     distinct (map om_id (db_org_members s))
     \<and> (\<forall>m \<in> set (db_org_members s). om_id m < db_seq s T_organization_members)
     \<and> (\<forall>o' \<in> set (db_organizations s). \<exists>u. owner_of s (org_id o') u)"

lemma members_frame_inv: "members_frame s s' \<Longrightarrow> owners_inv s \<Longrightarrow> owners_inv s'"
proof -
  assume f: "members_frame s s'" and i: "owners_inv s"
  have "org_id ` set (db_organizations s') = org_id ` set (db_organizations s)"
    using f unfolding members_frame_def by (metis list.set_map)
  then have "\<exists>q \<in> set (db_organizations s). org_id q = org_id o'" if "o' \<in> set (db_organizations s')" for o'
    using that by (metis image_iff)
  with f i show "owners_inv s'"
    unfolding owners_inv_def members_frame_def owner_of_def by (metis (no_types, lifting))
qed

lemma create_organization_rows:
  assumes "create_organization cx uid name s = Inr (x, s')"
  shows "\<exists>m. db_org_members s' = db_org_members s @ [m] \<and> om_id m = db_seq s T_organization_members
    \<and> om_organization_id m = db_seq s T_organizations \<and> om_user_id m = uid \<and> om_role m = OWNER
    \<and> db_seq s' T_organization_members = db_seq s T_organization_members + 1
    \<and> map org_id (db_organizations s') = map org_id (db_organizations s) @ [db_seq s T_organizations]"
  using assms unfolding create_organization_def
  by (auto simp: bindr_Inr_iff Let_def insert_unique_Inr elim!: audit_InrE)

lemma add_member_rows:
  assumes "add_member cx uid org mu role s = Inr (x, s')"
  shows "\<exists>m o'. authorize_organization uid org MEMBER_MANAGE False s = Inr o'
    \<and> require_owner_for_owner_change o' uid None (Some role) s = Inr ()
    \<and> db_org_members s' = db_org_members s @ [m] \<and> om_id m = db_seq s T_organization_members
    \<and> om_organization_id m = org_id o' \<and> om_user_id m = mu \<and> om_role m = role
    \<and> db_seq s' T_organization_members = db_seq s T_organization_members + 1
    \<and> db_organizations s' = db_organizations s"
  using assms unfolding add_member_def
  by (auto simp: bindr_Inr_iff Let_def insert_unique_Inr elim!: audit_InrE split: if_splits)

lemma update_member_rows:
  assumes "update_member cx uid org mu role s = Inr (x, s')"
  shows "\<exists>m o'. find_org_member (org_id o') mu s = Some m
    \<and> require_owner_for_owner_change o' uid (Some (om_role m)) (Some role) s = Inr ()
    \<and> (om_role m = OWNER \<and> role \<noteq> OWNER \<longrightarrow> ensure_not_last_owner (org_id o') m s = Inr ())
    \<and> db_org_members s' = update_where (\<lambda>r. om_id r = om_id m) (\<lambda>_. m\<lparr>om_role := role\<rparr>) (db_org_members s)
    \<and> db_seq s' T_organization_members = db_seq s T_organization_members
    \<and> db_organizations s' = db_organizations s"
proof -
  from assms obtain m and o' :: organization and k org' action rt rid pid md where
    f: "find_org_member (org_id o') mu s = Some m"
    and r: "require_owner_for_owner_change o' uid (Some (om_role m)) (Some role) s = Inr ()"
    and l: "(if om_role m = OWNER \<and> role \<noteq> OWNER then ensure_not_last_owner (org_id o') m s else Inr ()) = Inr ()"
    and a: "audit cx k uid org' action rt rid pid md (s\<lparr>db_org_members :=
      update_where (\<lambda>r. om_id r = om_id m) (\<lambda>_. m\<lparr>om_role := role\<rparr>) (db_org_members s)\<rparr>) = Inr s'"
    unfolding update_member_def Let_def bindr_Inr_iff some_or_Inr_iff by auto
  from a have "db_org_members s' = update_where (\<lambda>r. om_id r = om_id m) (\<lambda>_. m\<lparr>om_role := role\<rparr>) (db_org_members s)
    \<and> db_seq s' T_organization_members = db_seq s T_organization_members
    \<and> db_organizations s' = db_organizations s"
    by (elim audit_InrE) simp
  moreover have "om_role m = OWNER \<and> role \<noteq> OWNER \<longrightarrow> ensure_not_last_owner (org_id o') m s = Inr ()"
    using l by (auto split: if_splits)
  ultimately show ?thesis using f r by blast
qed

lemma remove_member_rows:
  assumes "remove_member cx uid org mu s = Inr (x, s')"
  shows "\<exists>m o'. find_org_member (org_id o') mu s = Some m
    \<and> require_owner_for_owner_change o' uid (Some (om_role m)) None s = Inr ()
    \<and> ensure_not_last_owner (org_id o') m s = Inr ()
    \<and> db_org_members s' = delete_where (\<lambda>r. om_id r = om_id m) (db_org_members s)
    \<and> db_seq s' T_organization_members = db_seq s T_organization_members
    \<and> db_organizations s' = db_organizations s"
  using assms unfolding remove_member_def
  by (auto simp: bindr_Inr_iff Let_def some_or_Inr_iff elim!: audit_InrE split: if_splits) blast

lemma find_org_memberD:
  "find_org_member o' u s = Some m \<Longrightarrow>
   m \<in> set (db_org_members s) \<and> om_organization_id m = o' \<and> om_user_id m = u"
  using find_Some_set unfolding find_org_member_def by fastforce

text \<open>A second owner is there when the check of the last owner lets an owner go.\<close>

lemma another_owner:
  assumes "ensure_not_last_owner org m s = Inr ()" and "om_role m = OWNER"
    and "distinct (map om_id (db_org_members s))"
  shows "\<exists>m2 \<in> set (db_org_members s). om_organization_id m2 = org \<and> om_role m2 = OWNER \<and> m2 \<noteq> m"
proof (rule ccontr)
  assume "\<not> ?thesis"
  then have "set (owners_of org s) \<subseteq> {m}" by (auto simp: owners_of_def)
  then have "card (set (owners_of org s)) \<le> 1" using card_mono [of "{m}"] by simp
  moreover have "distinct (owners_of org s)"
    using assms(3) by (simp add: owners_of_def distinct_map)
  ultimately have "length (owners_of org s) \<le> 1" by (simp add: distinct_card)
  with assms show False by (simp add: ensure_not_last_owner_def)
qed

lemma owner_kept:
  assumes "owner_of s org u" and "distinct (map om_id (db_org_members s))"
    and "m \<in> set (db_org_members s)" and "om_role m = OWNER \<longrightarrow> ensure_not_last_owner (om_organization_id m) m s = Inr ()"
  shows "\<exists>m2 \<in> set (db_org_members s). om_organization_id m2 = org \<and> om_role m2 = OWNER
    \<and> om_id m2 \<noteq> om_id m"
proof -
  from assms(1) obtain w where w: "w \<in> set (db_org_members s)" "om_organization_id w = org" "om_role w = OWNER"
    by (auto simp: owner_of_def)
  have ne: "om_id m2 \<noteq> om_id m" if "m2 \<in> set (db_org_members s)" "m2 \<noteq> m" for m2
    using that assms(2,3) by (auto dest: row_unique)
  show ?thesis
  proof (cases "w = m")
    case True
    with w assms(4) another_owner [OF _ _ assms(2), of "om_organization_id m" m] ne show ?thesis by metis
  next
    case False
    with w ne show ?thesis by blast
  qed
qed

lemma owners_inv_create:
  assumes "owners_inv s" and "create_organization cx uid name s = Inr (x, s')"
  shows "owners_inv s'"
proof -
  obtain m where m: "db_org_members s' = db_org_members s @ [m]" "om_id m = db_seq s T_organization_members"
    "om_organization_id m = db_seq s T_organizations" "om_role m = OWNER"
    "db_seq s' T_organization_members = db_seq s T_organization_members + 1"
    and q: "map org_id (db_organizations s') = map org_id (db_organizations s) @ [db_seq s T_organizations]"
    using create_organization_rows [OF assms(2)] by blast
  have o': "org_id ` set (db_organizations s') = insert (db_seq s T_organizations) (org_id ` set (db_organizations s))"
    using arg_cong [OF q, of set] by simp
  have "\<exists>u. owner_of s' (org_id q) u" if "q \<in> set (db_organizations s')" for q
  proof -
    have "org_id q \<in> insert (db_seq s T_organizations) (org_id ` set (db_organizations s))"
      using that o' by blast
    then consider "org_id q = db_seq s T_organizations"
      | q2 where "q2 \<in> set (db_organizations s)" "org_id q = org_id q2" by blast
    then show ?thesis
    proof cases
      case 1
      with m show ?thesis by (auto simp: owner_of_def)
    next
      case 2
      moreover have "owner_of s' i u" if "owner_of s i u" for i u
        using that m(1) by (auto simp: owner_of_def)
      ultimately show ?thesis using assms(1) unfolding owners_inv_def by metis
    qed
  qed
  with assms(1) m show ?thesis
    by (fastforce simp: owners_inv_def)
qed

lemma owners_inv_add:
  assumes "owners_inv s" and "add_member cx uid org mu role s = Inr (x, s')"
  shows "owners_inv s'"
proof -
  obtain m where m: "db_org_members s' = db_org_members s @ [m]" "om_id m = db_seq s T_organization_members"
    "db_seq s' T_organization_members = db_seq s T_organization_members + 1"
    "db_organizations s' = db_organizations s"
    using add_member_rows [OF assms(2)] by blast
  have "owner_of s' i u" if "owner_of s i u" for i u
    using that m(1) by (auto simp: owner_of_def)
  with assms(1) m show ?thesis
    by (fastforce simp: owners_inv_def)
qed

lemma owners_inv_update:
  assumes "owners_inv s" and "update_member cx uid org mu role s = Inr (x, s')"
  shows "owners_inv s'"
proof -
  obtain m and o' :: organization where f: "find_org_member (org_id o') mu s = Some m"
    and last: "om_role m = OWNER \<and> role \<noteq> OWNER \<longrightarrow> ensure_not_last_owner (org_id o') m s = Inr ()"
    and ms: "db_org_members s' = update_where (\<lambda>r. om_id r = om_id m) (\<lambda>_. m\<lparr>om_role := role\<rparr>) (db_org_members s)"
    and rest: "db_seq s' T_organization_members = db_seq s T_organization_members"
      "db_organizations s' = db_organizations s"
    using update_member_rows [OF assms(2)] by blast
  note fm = find_org_memberD [OF f]
  have d: "distinct (map om_id (db_org_members s))" using assms(1) by (simp add: owners_inv_def)
  have m': "m\<lparr>om_role := role\<rparr> \<in> set (db_org_members s')"
    using fm by (auto simp: ms set_update_where)
  have "\<exists>u. owner_of s' i u" if "owner_of s i v" for i v
  proof (cases "role = OWNER \<and> i = org_id o'")
    case True
    with m' fm show ?thesis by (auto simp: owner_of_def intro!: exI [of _ mu] bexI [of _ "m\<lparr>om_role := role\<rparr>"])
  next
    case False
    then have "\<exists>m2 \<in> set (db_org_members s). om_organization_id m2 = i \<and> om_role m2 = OWNER \<and> om_id m2 \<noteq> om_id m"
    proof (cases "i = org_id o'")
      case True
      with False fm last show ?thesis by (intro owner_kept [OF that d]) auto
    next
      case other: False
      from that obtain w where "w \<in> set (db_org_members s)" "om_organization_id w = i" "om_role w = OWNER"
        by (auto simp: owner_of_def)
      with other fm d show ?thesis by (metis row_unique)
    qed
    then show ?thesis by (auto simp: owner_of_def ms set_update_where)
  qed
  moreover have "distinct (map om_id (db_org_members s'))"
    using d by (simp add: ms distinct_put [of om_id "db_org_members s" "m\<lparr>om_role := role\<rparr>", simplified])
  ultimately show ?thesis
    using assms(1) rest by (fastforce simp: owners_inv_def ms set_update_where)
qed

lemma owners_inv_remove:
  assumes "owners_inv s" and "remove_member cx uid org mu s = Inr (x, s')"
  shows "owners_inv s'"
proof -
  obtain m and o' :: organization where f: "find_org_member (org_id o') mu s = Some m"
    and last: "ensure_not_last_owner (org_id o') m s = Inr ()"
    and ms: "db_org_members s' = delete_where (\<lambda>r. om_id r = om_id m) (db_org_members s)"
    and rest: "db_seq s' T_organization_members = db_seq s T_organization_members"
      "db_organizations s' = db_organizations s"
    using remove_member_rows [OF assms(2)] by blast
  note fm = find_org_memberD [OF f]
  have d: "distinct (map om_id (db_org_members s))" using assms(1) by (simp add: owners_inv_def)
  have "\<exists>u. owner_of s' i u" if "owner_of s i v" for i v
    using owner_kept [OF that d, of m] fm last by (auto simp: owner_of_def ms delete_where_def)
  moreover have "distinct (map om_id (db_org_members s'))"
    using d by (simp add: ms delete_where_def distinct_map_filter)
  ultimately show ?thesis
    using assms(1) rest by (fastforce simp: owners_inv_def ms delete_where_def)
qed

interpretation owners: service_invariant "execute net" owners_inv
proof
  fix r s s' assume inv: "owners_inv s" and ex: "execute net r s = Inr s'"
  obtain cx uid cmd where run: "run_command net cx uid cmd s = Inr s'"
    using ex by (cases r) (auto simp: execute_def)
  show "owners_inv s'"
  proof (cases "touches_members cmd")
    case True
    with run inv show ?thesis
      by (cases cmd; simp add: touches_members_def map_sum_Inr_snd)
        (blast intro: owners_inv_create owners_inv_add owners_inv_update owners_inv_remove)+
  next
    case False
    with command_effect [OF run] inv show ?thesis
      by (auto simp: effect_def intro: members_frame_inv)
  qed
qed

text \<open>Who the owner-change rule lets through: an owner of the organization.\<close>

lemma require_owner:
  assumes "require_owner_for_owner_change o' uid cur req s = Inr ()"
    and "cur = Some OWNER \<or> req = Some OWNER"
  shows "owner_of s (org_id o') uid"
  using assms find_org_memberD
  by (fastforce simp: require_owner_for_owner_change_def organization_role_of_def bindr_Inr_iff
    some_or_Inr_iff owner_of_def split: if_splits)

lemma owner_split:
  assumes "distinct (map om_id (db_org_members s))" and "m \<in> set (db_org_members s)"
  shows "owner_of s i u \<longleftrightarrow> om_organization_id m = i \<and> om_user_id m = u \<and> om_role m = OWNER
    \<or> (\<exists>r \<in> set (db_org_members s). om_id r \<noteq> om_id m \<and> om_organization_id r = i \<and> om_user_id r = u
         \<and> om_role r = OWNER)"
proof -
  have "r = m" if "r \<in> set (db_org_members s)" "om_id r = om_id m" for r
    using row_unique [OF assms(1)] that assms(2) by blast
  then show ?thesis using assms(2) unfolding owner_of_def by blast
qed

lemma owner_change_add:
  assumes "add_member cx uid org mu role s = Inr (x, s')" and "owner_of s' i u \<noteq> owner_of s i u"
  shows "owner_of s i uid"
proof -
  obtain m and o' :: organization where r: "require_owner_for_owner_change o' uid None (Some role) s = Inr ()"
    and m: "db_org_members s' = db_org_members s @ [m]" "om_organization_id m = org_id o'" "om_role m = role"
    using add_member_rows [OF assms(1)] by blast
  from assms(2) m have "om_organization_id m = i" "role = OWNER" by (auto simp: owner_of_def)
  with require_owner [OF r] m show ?thesis by simp
qed

lemma owner_change_update:
  assumes "update_member cx uid org mu role s = Inr (x, s')" and "owner_of s' i u \<noteq> owner_of s i u"
    and d: "distinct (map om_id (db_org_members s))"
  shows "owner_of s i uid"
proof -
  obtain m and o' :: organization where f: "find_org_member (org_id o') mu s = Some m"
    and r: "require_owner_for_owner_change o' uid (Some (om_role m)) (Some role) s = Inr ()"
    and ms: "db_org_members s' = update_where (\<lambda>r. om_id r = om_id m) (\<lambda>_. m\<lparr>om_role := role\<rparr>) (db_org_members s)"
    using update_member_rows [OF assms(1)] by blast
  note fm = find_org_memberD [OF f]
  have "owner_of s' i u \<longleftrightarrow> om_organization_id m = i \<and> om_user_id m = u \<and> role = OWNER
    \<or> (\<exists>r \<in> set (db_org_members s). om_id r \<noteq> om_id m \<and> om_organization_id r = i \<and> om_user_id r = u
         \<and> om_role r = OWNER)"
    using fm by (auto simp: owner_of_def ms set_update_where
      intro: bexI [of _ "m\<lparr>om_role := role\<rparr>"])
  with assms(2) owner_split [OF d, of m i u] fm
  have "om_organization_id m = i \<and> (om_role m = OWNER \<or> role = OWNER)" by blast
  with require_owner [OF r] fm show ?thesis by auto
qed

lemma owner_change_remove:
  assumes "remove_member cx uid org mu s = Inr (x, s')" and "owner_of s' i u \<noteq> owner_of s i u"
    and d: "distinct (map om_id (db_org_members s))"
  shows "owner_of s i uid"
proof -
  obtain m and o' :: organization where f: "find_org_member (org_id o') mu s = Some m"
    and r: "require_owner_for_owner_change o' uid (Some (om_role m)) None s = Inr ()"
    and ms: "db_org_members s' = delete_where (\<lambda>r. om_id r = om_id m) (db_org_members s)"
    using remove_member_rows [OF assms(1)] by blast
  note fm = find_org_memberD [OF f]
  have "owner_of s' i u \<longleftrightarrow> (\<exists>r \<in> set (db_org_members s). om_id r \<noteq> om_id m
      \<and> om_organization_id r = i \<and> om_user_id r = u \<and> om_role r = OWNER)"
    by (auto simp: owner_of_def ms delete_where_def)
  with assms(2) owner_split [OF d, of m i u] fm
  have "om_organization_id m = i \<and> om_role m = OWNER" by blast
  with require_owner [OF r] fm show ?thesis by auto
qed

lemma owner_change_create:
  assumes "create_organization cx uid name s = Inr (x, s')" and "owner_of s' i u \<noteq> owner_of s i u"
  shows "i = db_seq s T_organizations \<and> u = uid"
  using create_organization_rows [OF assms(1)] assms(2) by (auto simp: owner_of_def)

subsection \<open>Properties\<close>

text \<open>
  C23: every state-changing management request is audited and the log is
  append-only.  Over any session of requests, whoever makes them, the audit log is the old log
  followed by new events, at most one per request, each naming the user and the time of one of the
  requests and carrying only safe metadata; and a single request that succeeds without adding an
  event has changed nothing at all.
\<close>

theorem audit_trail_complete:
  "(\<exists>es. db_audit_events (run_session (execute net) rs s) = db_audit_events s @ es
      \<and> length es \<le> length rs
      \<and> (\<forall>e \<in> set es. \<exists>(cx, uid, cmd) \<in> set rs. au_actor_user_id e = Some uid
           \<and> au_created_at e = cx_now cx \<and> metadata_safe (au_sanitized_metadata e)))
   \<and> (run_command net cx uid cmd s = Inr s' \<longrightarrow> db_audit_events s' = db_audit_events s \<longrightarrow> s' = s)"
proof
  obtain es where es: "db_audit_events (run_session (execute net) rs s) = db_audit_events s @ es"
    "length es \<le> length rs"
    "\<forall>e \<in> set es. \<exists>r \<in> set rs. \<exists>org action. audit_record (fst r) (fst (snd r)) org action e"
    using trail.session_audited by blast
  then show "\<exists>es. db_audit_events (run_session (execute net) rs s) = db_audit_events s @ es
      \<and> length es \<le> length rs
      \<and> (\<forall>e \<in> set es. \<exists>(cx, uid, cmd) \<in> set rs. au_actor_user_id e = Some uid
           \<and> au_created_at e = cx_now cx \<and> metadata_safe (au_sanitized_metadata e))"
    by (intro exI [of _ es]) (fastforce simp: audit_record_def)
  show "run_command net cx uid cmd s = Inr s' \<longrightarrow> db_audit_events s' = db_audit_events s \<longrightarrow> s' = s"
    using command_effect [of net cx uid cmd s s'] by (auto simp: effect_def audited_step_def)
qed

theorem audit_trail_complete_witness:
  "db_audit_events (run_session (execute sample_net)
      [(sample_ctx, 10, Deactivate_project ''prj-a''), (sample_ctx, 10, Deactivate_project ''prj-b'')]
      sample_tenancy) \<noteq> []
   \<and> length (db_audit_events (run_session (execute sample_net)
      [(sample_ctx, 10, Deactivate_project ''prj-a''), (sample_ctx, 10, Deactivate_project ''prj-b'')]
      sample_tenancy)) \<le> 2"
proof
  show "db_audit_events (run_session (execute sample_net)
      [(sample_ctx, 10, Deactivate_project ''prj-a''), (sample_ctx, 10, Deactivate_project ''prj-b'')]
      sample_tenancy) \<noteq> []"
    by code_simp
  have "db_audit_events sample_tenancy = []" by (simp add: sample_tenancy_def empty_db_def)
  then show "length (db_audit_events (run_session (execute sample_net)
      [(sample_ctx, 10, Deactivate_project ''prj-a''), (sample_ctx, 10, Deactivate_project ''prj-b'')]
      sample_tenancy)) \<le> 2"
    using audit_trail_complete [of sample_net
      "[(sample_ctx, 10, Deactivate_project ''prj-a''), (sample_ctx, 10, Deactivate_project ''prj-b'')]"
      sample_tenancy sample_ctx 10 "Deactivate_project ''prj-a''" sample_tenancy, THEN conjunct1]
    by auto
qed

text \<open>
  C22: an organization always keeps an owner.  No session of management requests, in
  any order and by any users, takes a database in which every organization has an owner to one in
  which some organization has none.
\<close>

theorem owners_retained:
  assumes "owners_inv s"
  shows "owners_inv (run_session (execute net) rs s)"
  using assms by (rule owners.session_inv)

definition sample_owned :: db where
  "sample_owned = sample_tenancy\<lparr>db_organizations := take 1 (db_organizations sample_tenancy),
     db_seq := (\<lambda>_. 100)\<rparr>"

theorem owners_retained_witness:
  "\<exists>u. owner_of (run_session (execute sample_net) [(sample_ctx, 10, Remove_member ''org-a'' 10),
     (sample_ctx, 10, Update_member ''org-a'' 10 MEMBER)] sample_owned) 1 u"
proof -
  let ?s = "run_session (execute sample_net) [(sample_ctx, 10, Remove_member ''org-a'' 10),
     (sample_ctx, 10, Update_member ''org-a'' 10 MEMBER)] sample_owned"
  have "owners_inv sample_owned"
    by (auto simp: owners_inv_def owner_of_def sample_owned_def sample_tenancy_def empty_db_def)
  then have inv: "owners_inv ?s" by (rule owners_retained)
  have "map org_id (db_organizations ?s) = [1]" by code_simp
  then have "\<exists>q \<in> set (db_organizations ?s). org_id q = 1" by (cases "db_organizations ?s") auto
  with inv show ?thesis unfolding owners_inv_def by metis
qed

text \<open>
  C24: only an owner changes who the owners of an organization are.  If a
  management request makes somebody an owner of an organization, or ends somebody's ownership, the
  user who made the request was an owner of it; the one exception is the creator of a new
  organization, who becomes its owner.
\<close>

theorem owner_changes_by_owner:
  assumes "distinct (map om_id (db_org_members s))" and "run_command net cx uid cmd s = Inr s'"
    and "owner_of s' org u \<noteq> owner_of s org u"
  shows "owner_of s org uid
    \<or> (\<exists>name. cmd = Create_organization name) \<and> org = db_seq s T_organizations \<and> u = uid"
proof (cases "touches_members cmd")
  case True
  with assms show ?thesis
    by (cases cmd; simp add: touches_members_def map_sum_Inr_snd)
      (blast dest: owner_change_create owner_change_add owner_change_update owner_change_remove)+
next
  case False
  with command_effect [OF assms(2)] have "db_org_members s' = db_org_members s"
    by (simp add: effect_def members_frame_def)
  with assms(3) show ?thesis by (simp add: owner_of_def)
qed

theorem owner_changes_by_owner_witness:
  "(\<exists>s'. run_command sample_net sample_ctx 10 (Update_member ''org-a'' 11 OWNER) sample_owned = Inr s'
      \<and> owner_of s' 1 11 \<and> owner_of sample_owned 1 10)
   \<and> (\<exists>e. run_command sample_net sample_ctx 11 (Update_member ''org-a'' 10 MEMBER) sample_owned = Inl e)"
proof -
  have "case run_command sample_net sample_ctx 10 (Update_member ''org-a'' 11 OWNER) sample_owned of
      Inl _ \<Rightarrow> False | Inr s' \<Rightarrow> list_ex (\<lambda>m. om_organization_id m = 1 \<and> om_user_id m = 11
        \<and> om_role m = OWNER) (db_org_members s')"
    by code_simp
  then obtain s' where r: "run_command sample_net sample_ctx 10 (Update_member ''org-a'' 11 OWNER)
      sample_owned = Inr s'" and own: "owner_of s' 1 11"
    by (auto simp: owner_of_def list_ex_iff split: sum.splits)
  have d: "distinct (map om_id (db_org_members sample_owned))" and n: "\<not> owner_of sample_owned 1 11"
    by (auto simp: owner_of_def sample_owned_def sample_tenancy_def empty_db_def)
  have "owner_of sample_owned 1 10"
    using owner_changes_by_owner [OF d r, of 1 11] own n by simp
  moreover have "isl (run_command sample_net sample_ctx 11 (Update_member ''org-a'' 10 MEMBER) sample_owned)"
    by code_simp
  ultimately show ?thesis using r own by (auto simp: isl_def)
qed

end
