(* ===== verification/Organization_Export.thy ===== *)
theory Organization_Export
  imports Organizations
begin

text \<open>
  \<^verbatim>\<open>WebhookService.export_organization\<close>: the bounded export of an organization's configuration,
  counts and audit log, with the flag that says whether anything was cut.
\<close>

datatype key_status = Key_active | Key_expired | Key_revoked

record export_project =
  xp_public_id :: string
  xp_name :: string
  xp_is_active :: bool
  xp_created_at :: datetime

record export_api_key =
  xk_public_id :: string
  xk_project_public_id :: string
  xk_prefix :: string
  xk_scopes :: "string list"
  xk_expires_at :: "datetime option"
  xk_status :: key_status
  xk_created_at :: datetime

record export_endpoint =
  xe_public_id :: string
  xe_project_public_id :: string
  xe_description :: "string option"
  xe_is_active :: bool
  xe_signing_version :: int
  xe_created_at :: datetime
  xe_updated_at :: datetime

record export_counts =
  xc_members :: int
  xc_projects :: int
  xc_project_members :: int
  xc_api_keys :: int
  xc_endpoints :: int
  xc_events :: int
  xc_deliveries :: int
  xc_attempts :: int

record organization_export =
  ex_generated_at :: datetime
  ex_organization :: organization
  ex_policy :: organization_policy
  ex_lifecycle :: "organization_lifecycle_operation option"
  ex_counts :: export_counts
  ex_members :: "organization_member list"
  ex_projects :: "export_project list"
  ex_api_keys :: "export_api_key list"
  ex_endpoints :: "export_endpoint list"
  ex_audit_events :: "administrative_audit_event list"
  ex_truncated :: bool

text \<open>ORDER BY id LIMIT \<open>n\<close>.\<close>

definition first_by_id :: "('r \<Rightarrow> int) \<Rightarrow> int \<Rightarrow> 'r list \<Rightarrow> 'r list" where
  "first_by_id rid n rows = take (nat n) (sort_key rid rows)"

text \<open>\<^verbatim>\<open>bounded_count\<close>: the number of rows of the query cut at \<^verbatim>\<open>limit + 1\<close>.\<close>

definition bounded_count :: "int \<Rightarrow> 'r list \<Rightarrow> int" where
  "bounded_count limit rows = int (length (take (nat (limit + 1)) rows))"

definition api_key_status :: "datetime \<Rightarrow> api_key \<Rightarrow> key_status" where
  "api_key_status now k =
     (if \<not> ak_is_active k \<or> ak_revoked_at k \<noteq> None then Key_revoked
      else if opt_le (ak_expires_at k) now then Key_expired
      else Key_active)"

text \<open>The joins of a table with the projects of the organization.\<close>

definition projects_of :: "int \<Rightarrow> db \<Rightarrow> project list" where
  "projects_of oid s = filter (\<lambda>p. prj_organization_id p = oid) (db_projects s)"

definition join_project :: "int \<Rightarrow> ('r \<Rightarrow> int) \<Rightarrow> 'r list \<Rightarrow> db \<Rightarrow> ('r \<times> string) list" where
  "join_project oid project_of rows s =
     [(r, prj_public_id p). r \<leftarrow> rows, p \<leftarrow> db_projects s,
        prj_id p = project_of r \<and> prj_organization_id p = oid]"

definition attempts_of :: "int \<Rightarrow> db \<Rightarrow> delivery_attempt list" where
  "attempts_of oid s =
     [a. a \<leftarrow> db_attempts s, d \<leftarrow> db_deliveries s,
        dl_id d = at_delivery_id a \<and> dl_organization_id d = oid]"

definition bounded_counts :: "int \<Rightarrow> int \<Rightarrow> db \<Rightarrow> export_counts" where
  "bounded_counts limit oid s =
     \<lparr>xc_members = bounded_count limit (filter (\<lambda>m. om_organization_id m = oid) (db_org_members s)),
      xc_projects = bounded_count limit (projects_of oid s),
      xc_project_members = bounded_count limit (join_project oid pm_project_id (db_project_members s) s),
      xc_api_keys = bounded_count limit (join_project oid ak_project_id (db_api_keys s) s),
      xc_endpoints = bounded_count limit (join_project oid ep_project_id (db_endpoints s) s),
      xc_events = bounded_count limit (join_project oid ev_project_id (db_events s) s),
      xc_deliveries = bounded_count limit (filter (\<lambda>d. dl_organization_id d = oid) (db_deliveries s)),
      xc_attempts = bounded_count limit (attempts_of oid s)\<rparr>"

definition counts_list :: "export_counts \<Rightarrow> int list" where
  "counts_list c =
     [xc_members c, xc_projects c, xc_project_members c, xc_api_keys c, xc_endpoints c,
      xc_events c, xc_deliveries c, xc_attempts c]"

definition cap_counts :: "int \<Rightarrow> export_counts \<Rightarrow> export_counts" where
  "cap_counts limit c =
     \<lparr>xc_members = min (xc_members c) limit, xc_projects = min (xc_projects c) limit,
      xc_project_members = min (xc_project_members c) limit,
      xc_api_keys = min (xc_api_keys c) limit, xc_endpoints = min (xc_endpoints c) limit,
      xc_events = min (xc_events c) limit, xc_deliveries = min (xc_deliveries c) limit,
      xc_attempts = min (xc_attempts c) limit\<rparr>"

definition export_key_row :: "datetime \<Rightarrow> api_key \<times> string \<Rightarrow> export_api_key" where
  "export_key_row now = (\<lambda>(k, pid).
     \<lparr>xk_public_id = ak_public_id k, xk_project_public_id = pid, xk_prefix = ak_key_prefix k,
      xk_scopes = ak_scopes k, xk_expires_at = ak_expires_at k, xk_status = api_key_status now k,
      xk_created_at = ak_created_at k\<rparr>)"

definition export_endpoint_row :: "webhook_endpoint \<times> string \<Rightarrow> export_endpoint" where
  "export_endpoint_row = (\<lambda>(e, pid).
     \<lparr>xe_public_id = ep_public_id e, xe_project_public_id = pid, xe_description = ep_description e,
      xe_is_active = ep_is_active e, xe_signing_version = ep_secret_version e,
      xe_created_at = ep_created_at e, xe_updated_at = ep_updated_at e\<rparr>)"

definition export_project_row :: "project \<Rightarrow> export_project" where
  "export_project_row p =
     \<lparr>xp_public_id = prj_public_id p, xp_name = prj_name p, xp_is_active = prj_is_active p,
      xp_created_at = prj_created_at p\<rparr>"

definition export_organization ::
  "request_ctx \<Rightarrow> int \<Rightarrow> string \<Rightarrow> int \<Rightarrow> db \<Rightarrow> organization_export result"
where
  "export_organization cx user_id organization_id limit s =
     bindr (authorize_organization user_id organization_id ORG_EXPORT False s) (\<lambda>organization.
     let now = cx_now cx; oid = org_id organization
     in bindr (some_or (RuntimeError ''Organization policy is unavailable'') (find_policy oid s))
          (\<lambda>policy.
        let members = first_by_id om_id (limit + 1)
              (filter (\<lambda>m. om_organization_id m = oid) (db_org_members s));
            projects = first_by_id prj_id (limit + 1) (projects_of oid s);
            api_key_rows = first_by_id (ak_id \<circ> fst) (limit + 1)
              (join_project oid ak_project_id (db_api_keys s) s);
            endpoint_rows = first_by_id (ep_id \<circ> fst) (limit + 1)
              (join_project oid ep_project_id (db_endpoints s) s)
        in bindr (list_audit (org_public_id organization) None None (min (limit + 1) 1000)
                    None None s) (\<lambda>audit_events.
           let counts = bounded_counts limit oid s;
               truncated = (list_ex (\<lambda>n. int n > limit)
                   [length members, length projects, length api_key_rows, length endpoint_rows,
                    length audit_events]
                 \<or> list_ex (\<lambda>v. v > limit) (counts_list counts))
           in Inr \<lparr>ex_generated_at = now, ex_organization = organization, ex_policy = policy,
                ex_lifecycle = latest_operation oid s, ex_counts = cap_counts limit counts,
                ex_members = take (nat limit) members,
                ex_projects = map export_project_row (take (nat limit) projects),
                ex_api_keys = map (export_key_row now) (take (nat limit) api_key_rows),
                ex_endpoints = map export_endpoint_row (take (nat limit) endpoint_rows),
                ex_audit_events = take (nat limit) audit_events,
                ex_truncated = truncated\<rparr>)))"

end
