(* ===== verification/Ingest_Safety.thy ===== *)
theory Ingest_Safety
  imports Commands
begin

text \<open>
  What an accepted event does to the database, and that the idempotency key makes the acceptance
  happen once.
\<close>

subsection \<open>The two ways a request succeeds\<close>

text \<open>The event row of a request, and the database an acceptance leaves.\<close>

definition event_row ::
  "request_ctx \<Rightarrow> project \<Rightarrow> string \<Rightarrow> string \<Rightarrow> json \<Rightarrow> envelope_mode \<Rightarrow> string \<Rightarrow> string option \<Rightarrow>
   string option \<Rightarrow> bytes \<Rightarrow> int \<Rightarrow> event"
where
  "event_row cx project key event_type payload mode fp tp ts envelope i =
     \<lparr>ev_id = i, ev_public_id = cx_uuid cx 0, ev_project_id = prj_id project,
      ev_idempotency_key = key, ev_event_type = event_type, ev_envelope_mode = mode,
      ev_payload = payload_column payload, ev_payload_hash = fp,
      ev_canonical_envelope = Some envelope, ev_payload_purged_at = None, ev_traceparent = tp,
      ev_tracestate = ts, ev_created_at = cx_now cx\<rparr>"

definition accepted :: "request_ctx \<Rightarrow> project \<Rightarrow> event \<Rightarrow> db \<Rightarrow> db \<Rightarrow> bool" where
  "accepted cx project e s s' \<longleftrightarrow>
     (let endpoints = subscribed_endpoints (prj_id project) (ev_event_type e) s
      in db_events s' = db_events s @ [e]
       \<and> db_deliveries s' = db_deliveries s
           @ fan_out (cx_now cx) (prj_organization_id project) (ev_id e) (cx_uuid cx)
               (db_seq s T_deliveries) 1 endpoints
       \<and> db_attempts s' = db_attempts s
       \<and> ev_id e = db_seq s T_events
       \<and> db_seq s' T_events = db_seq s T_events + 1
       \<and> db_seq s' T_deliveries = db_seq s T_deliveries + int (length endpoints))"

text \<open>The checks of the request itself and the fingerprint of its content.\<close>

definition request_fingerprint ::
  "settings \<Rightarrow> string \<Rightarrow> string \<Rightarrow> json \<Rightarrow> envelope_mode \<Rightarrow> string option"
where
  "request_fingerprint cfg key event_type payload mode =
     (if 1 \<le> length key \<and> int (length key) \<le> idempotency_key_max_length cfg
      then case canonical_json payload of
             Inl _ \<Rightarrow> None
           | Inr bytes \<Rightarrow>
               if int (length bytes) > webhook_payload_max_bytes cfg then None
               else Some (hexdigest (sha256 (fingerprint_material event_type mode bytes)))
      else None)"

lemma subscribed_endpoints_frame:
  "db_endpoints s' = db_endpoints s \<Longrightarrow> subscribed_endpoints p t s' = subscribed_endpoints p t s"
  by (simp add: subscribed_endpoints_def)

lemma find_idempotent_frame:
  "db_events s' = db_events s \<Longrightarrow> find_idempotent p k s' = find_idempotent p k s"
  by (simp add: find_idempotent_def)

lemma accept_event_cases:
  assumes q: "quota_only s0 s" and unused: "find_idempotent (prj_id project) key s0 = None"
    and acc: "accept_event cx project key event_type payload mode fp tp ts st s0 s = Inr (e, s')"
  shows "accepted cx project e s0 s' \<and> (\<exists>envelope.
    canonical_json (event_envelope project (cx_uuid cx 0) event_type payload mode (cx_now cx)) = Inr envelope
    \<and> e = event_row cx project key event_type payload mode fp tp ts envelope (db_seq s0 T_events))"
proof -
  let ?es = "subscribed_endpoints (prj_id project) event_type s"
  obtain envelope s1 where
    env: "canonical_json (event_envelope project (cx_uuid cx 0) event_type payload mode (cx_now cx)) = Inr envelope"
    and adm: "admit_event_locked (cx_settings cx) st (cx_now cx) (prj_organization_id project)
          (int (length ?es)) (int (length envelope)) s = Inr s1"
    using acc unfolding accept_event_def Let_def bindr_Inr_iff by blast
  define after_fan_out where "after_fan_out e s2 = bump_seq T_deliveries (int (length ?es))
      (s2\<lparr>db_deliveries := db_deliveries s2 @ fan_out (cx_now cx) (prj_organization_id project)
         (ev_id e) (cx_uuid cx) (db_seq s2 T_deliveries) 1 ?es\<rparr>)" for e :: event and s2
  let ?e = "event_row cx project key event_type payload mode fp tp ts envelope (db_seq s1 T_events)"
  have eq: "accept_event cx project key event_type payload mode fp tp ts st s0 s =
      (case insert_event ?e s1 of
         Inl _ \<Rightarrow> Inl (ConflictError ''Idempotency-Key was already used with different content'')
       | Inr s2 \<Rightarrow> Inr (?e, after_fan_out ?e s2))"
    by (simp add: accept_event_def Let_def env adm unused event_row_def after_fan_out_def cong: sum.case_cong)
  obtain s2 where ins: "insert_event ?e s1 = Inr s2"
    using acc unfolding eq by (cases "insert_event ?e s1") simp_all
  have p: "(?e, after_fan_out ?e s2) = (e, s')"
    using acc unfolding eq ins sum.case by (rule Inr_inject)
  have e: "e = ?e" and s': "s' = after_fan_out ?e s2"
    using arg_cong [OF p, of fst] arg_cong [OF p, of snd] by (simp_all only: fst_conv snd_conv)
  have q1: "quota_only s0 s1" using q admit_event_locked_quota_only [OF adm] by (rule quota_only_trans)
  have s2: "db_events s2 = db_events s0 @ [?e]" "db_deliveries s2 = db_deliveries s0"
    "db_attempts s2 = db_attempts s0" "db_seq s2 T_events = db_seq s0 T_events + 1"
    "db_seq s2 T_deliveries = db_seq s0 T_deliveries"
    using ins by (auto simp: insert_event_def bindr_Inr_iff insert_unique_Inr quota_onlyD [OF q1] bump_seq_def)
  have "subscribed_endpoints (prj_id project) event_type s = subscribed_endpoints (prj_id project) event_type s0"
    by (rule subscribed_endpoints_frame) (rule quota_onlyD(8) [OF q])
  then show ?thesis
    using env s2 by (simp add: accepted_def e s' after_fan_out_def event_row_def bump_seq_def quota_onlyD [OF q1])
qed

lemma ingest_refused:
  assumes "request_fingerprint (cx_settings cx) key event_type payload mode = None"
  shows "ingest_event cx project key event_type payload mode tp ts s \<noteq> Inr r"
proof (cases "1 \<le> length key \<and> int (length key) \<le> idempotency_key_max_length (cx_settings cx)")
  case True
  with assms show ?thesis
    by (cases "canonical_json payload") (simp_all add: ingest_event_def request_fingerprint_def split: if_splits)
next
  case False
  then show ?thesis by (simp only: ingest_event_def Let_def if_True not_False_eq_True sum.distinct)
qed

lemma ingest_valid:
  assumes "request_fingerprint (cx_settings cx) key event_type payload mode = Some fp"
  shows "ingest_event cx project key event_type payload mode tp ts s =
    (case find_idempotent (prj_id project) key s of
       Some existing \<Rightarrow> idempotent_hit event_type mode fp existing s
     | None \<Rightarrow>
         bindr (lock_global_tenant (cx_settings cx) (cx_now cx) (prj_organization_id project) s)
           (\<lambda>(_, st, s1).
         case find_idempotent (prj_id project) key s1 of
           Some existing \<Rightarrow> idempotent_hit event_type mode fp existing s
         | None \<Rightarrow> accept_event cx project key event_type payload mode fp tp ts st s s1))"
proof -
  have key: "1 \<le> length key \<and> int (length key) \<le> idempotency_key_max_length (cx_settings cx)"
    using assms by (simp add: request_fingerprint_def split: if_splits)
  then obtain bytes where b: "canonical_json payload = Inr bytes"
    "\<not> int (length bytes) > webhook_payload_max_bytes (cx_settings cx)"
    "fp = hexdigest (sha256 (fingerprint_material event_type mode bytes))"
    using assms by (auto simp: request_fingerprint_def split: if_splits sum.splits)
  show ?thesis unfolding ingest_event_def Let_def b(1,3) using key b(2) by simp
qed

lemma ingest_event_cases:
  assumes "ingest_event cx project key event_type payload mode tp ts s = Inr (e, s')"
  obtains (hit) fp where "request_fingerprint (cx_settings cx) key event_type payload mode = Some fp"
      "find_idempotent (prj_id project) key s = Some e" "same_content event_type mode fp e" "s' = s"
  | (accept) fp envelope where
      "request_fingerprint (cx_settings cx) key event_type payload mode = Some fp"
      "find_idempotent (prj_id project) key s = None" "accepted cx project e s s'"
      "canonical_json (event_envelope project (cx_uuid cx 0) event_type payload mode (cx_now cx)) = Inr envelope"
      "e = event_row cx project key event_type payload mode fp tp ts envelope (db_seq s T_events)"
proof -
  obtain fp where fp: "request_fingerprint (cx_settings cx) key event_type payload mode = Some fp"
    using assms ingest_refused by (cases "request_fingerprint (cx_settings cx) key event_type payload mode") auto
  note eq = assms [unfolded ingest_valid [OF fp]]
  show thesis
  proof (cases "find_idempotent (prj_id project) key s")
    case (Some e1)
    with eq have "e1 = e" "same_content event_type mode fp e" "s' = s"
      by (auto simp: idempotent_hit_def split: if_splits)
    with Some fp hit show thesis by blast
  next
    case None
    with eq obtain g st s1 where
      lock: "lock_global_tenant (cx_settings cx) (cx_now cx) (prj_organization_id project) s = Inr (g, st, s1)"
      and r: "(case find_idempotent (prj_id project) key s1 of
          Some existing \<Rightarrow> idempotent_hit event_type mode fp existing s
        | None \<Rightarrow> accept_event cx project key event_type payload mode fp tp ts st s s1) = Inr (e, s')"
      by (auto simp: bindr_Inr_iff)
    have q: "quota_only s s1" using lock by (rule lock_global_tenant_quota_only)
    then have "find_idempotent (prj_id project) key s1 = None"
      using None find_idempotent_frame [OF quota_onlyD(2)] by simp
    with r have "accept_event cx project key event_type payload mode fp tp ts st s s1 = Inr (e, s')" by simp
    from accept_event_cases [OF q None this] accept [OF fp None] show thesis by blast
  qed
qed

lemma fan_out_rows:
  "length (fan_out now org ev uuid i k es) = length es
   \<and> map dl_id (fan_out now org ev uuid i k es) = map (\<lambda>j. i + int j) [0..<length es]
   \<and> (\<forall>d \<in> set (fan_out now org ev uuid i k es). dl_event_id d = ev \<and> dl_status d = Pending
        \<and> dl_attempt_count d = 0 \<and> dl_lease_token d = None \<and> dl_lease_expires_at d = None)"
proof (induction es arbitrary: i k)
  case (Cons e es)
  have "[0..<Suc (length es)] = 0 # map Suc [0..<length es]"
    by (simp add: map_Suc_upt upt_conv_Cons del: upt_Suc)
  with Cons [of "i + 1" "Suc k"] show ?case
    by (simp add: new_delivery_def comp_def add.assoc del: upt_Suc)
qed simp

lemma fan_out_snapshot:
  "map (\<lambda>d. (dl_endpoint_id d, dl_endpoint_public_id_snapshot d, dl_endpoint_url_snapshot d,
       dl_signing_secret_version_snapshot d, dl_signature_scheme_snapshot d))
     (fan_out now org ev uuid i k es)
   = map (\<lambda>e. (ep_id e, ep_public_id e, ep_url e, ep_secret_version e, ep_signature_scheme e)) es
   \<and> (\<forall>d \<in> set (fan_out now org ev uuid i k es). dl_organization_id d = org \<and> dl_next_attempt_at d = now
        \<and> dl_created_at d = now)"
  by (induction es arbitrary: i k) (simp_all add: new_delivery_def)

lemma find_idempotent_snoc:
  assumes "find_idempotent p k s = None" and "db_events s' = db_events s @ [e]"
    and "ev_project_id e = p" "ev_idempotency_key e = k"
  shows "find_idempotent p k s' = Some e"
  using assms by (simp add: find_idempotent_def find_append)

subsection \<open>A sample request\<close>

definition sample_endpoint :: "int \<Rightarrow> string list option \<Rightarrow> bool \<Rightarrow> webhook_endpoint" where
  "sample_endpoint i types active =
     \<lparr>ep_id = i, ep_public_id = ''ep'', ep_project_id = 5, ep_url = ''https://example.com/'',
      ep_description = None, ep_event_types = types, ep_signature_scheme = Standard,
      ep_is_active = active, ep_secret_version = 1, ep_created_at = 0, ep_updated_at = 0\<rparr>"

definition sample_project :: project where
  "sample_project = \<lparr>prj_id = 5, prj_public_id = ''prj-a'', prj_organization_id = 1,
     prj_name = ''p'', prj_is_active = True, prj_created_at = 0\<rparr>"

text \<open>Endpoint 7 takes orders, endpoint 8 invoices, and endpoint 9 is inactive.\<close>

definition sample_ingest_db :: db where
  "sample_ingest_db = sample_tenancy\<lparr>db_endpoints :=
     [sample_endpoint 7 (Some [''order.*'']) True, sample_endpoint 8 (Some [''invoice.paid'']) True,
      sample_endpoint 9 None False]\<rparr>"

definition sample_payload :: json where
  "sample_payload = JObject [(''n'', JInt 1)]"

lemma sample_fingerprint:
  "\<exists>fp. request_fingerprint default_settings ''key-1'' ''order.created'' sample_payload Native = Some fp"
proof -
  have "canonical_json sample_payload = Inr ''{\"n\":1}''" by code_simp
  then show ?thesis by (simp add: request_fingerprint_def default_settings_def)
qed

lemma sample_ingest:
  "\<exists>e s'. ingest_event sample_ctx sample_project ''key-1'' ''order.created'' sample_payload Native None None
      sample_ingest_db = Inr (e, s') \<and> map dl_endpoint_id (db_deliveries s') = [7]"
proof -
  obtain fp where fp: "request_fingerprint (cx_settings sample_ctx) ''key-1'' ''order.created'' sample_payload Native
      = Some fp"
    using sample_fingerprint by (auto simp: sample_ctx_def)
  have "case ingest_event sample_ctx sample_project ''key-1'' ''order.created'' sample_payload Native None None
      sample_ingest_db of Inl _ \<Rightarrow> False | Inr (e, s') \<Rightarrow> map dl_endpoint_id (db_deliveries s') = [7]"
    unfolding ingest_valid [OF fp] by code_simp
  then show ?thesis by (auto split: sum.splits)
qed

subsection \<open>Properties\<close>

text \<open>
  C6: an accepted event is stored once with its canonical envelope and fans out
  exactly to its subscribers.  A request under an unused key adds one event and one delivery for
  each endpoint of the project that is active and whose filter matches the event type, in their
  order and for no other; each delivery carries a snapshot of its endpoint's address, signing
  version and scheme, waits, is due at once and has no attempt; and the deliveries that were there
  are unchanged.
\<close>

theorem ingest_fan_out:
  assumes "ingest_event cx project key event_type payload mode tp ts s = Inr (e, s')"
    and "find_idempotent (prj_id project) key s = None"
  shows "db_events s' = db_events s @ [e] \<and> ev_project_id e = prj_id project
    \<and> ev_idempotency_key e = key \<and> ev_event_type e = event_type
    \<and> map_sum (\<lambda>_. ()) Some (canonical_json (event_envelope project (ev_public_id e) event_type payload mode
         (cx_now cx))) = Inr (ev_canonical_envelope e)
    \<and> (\<exists>ds. db_deliveries s' = db_deliveries s @ ds
         \<and> map (\<lambda>d. (dl_endpoint_id d, dl_endpoint_public_id_snapshot d, dl_endpoint_url_snapshot d,
               dl_signing_secret_version_snapshot d, dl_signature_scheme_snapshot d)) ds
           = map (\<lambda>ep. (ep_id ep, ep_public_id ep, ep_url ep, ep_secret_version ep, ep_signature_scheme ep))
               (filter (\<lambda>ep. ep_project_id ep = prj_id project \<and> ep_is_active ep
                    \<and> event_type_matches event_type (filter_json (ep_event_types ep))) (db_endpoints s))
         \<and> (\<forall>d \<in> set ds. dl_event_id d = ev_id e \<and> dl_organization_id d = prj_organization_id project
              \<and> dl_status d = Pending \<and> dl_attempt_count d = 0 \<and> dl_next_attempt_at d = cx_now cx
              \<and> dl_lease_token d = None))"
  using assms(1)
proof (cases rule: ingest_event_cases)
  case hit
  with assms(2) show ?thesis by simp
next
  case (accept fp envelope)
  let ?es = "subscribed_endpoints (prj_id project) event_type s"
  let ?ds = "fan_out (cx_now cx) (prj_organization_id project) (ev_id e) (cx_uuid cx)
    (db_seq s T_deliveries) 1 ?es"
  have es: "?es = filter (\<lambda>ep. ep_project_id ep = prj_id project \<and> ep_is_active ep
      \<and> event_type_matches event_type (filter_json (ep_event_types ep))) (db_endpoints s)"
    by (simp add: subscribed_endpoints_def conj_commute conj_left_commute)
  have e: "ev_event_type e = event_type" "ev_project_id e = prj_id project" "ev_idempotency_key e = key"
    "ev_canonical_envelope e = Some envelope" "ev_public_id e = cx_uuid cx 0"
    by (simp_all add: accept(5) event_row_def)
  have s': "db_events s' = db_events s @ [e]" "db_deliveries s' = db_deliveries s @ ?ds"
    using accept(3) by (simp_all add: accepted_def Let_def e)
  show ?thesis
    unfolding es [symmetric]
    using e s' accept(4) fan_out_snapshot fan_out_rows by (intro conjI exI [of _ ?ds]) simp_all
qed

theorem ingest_fan_out_witness:
  "\<exists>e s'. ingest_event sample_ctx sample_project ''key-1'' ''order.created'' sample_payload Native None None
      sample_ingest_db = Inr (e, s') \<and> db_events s' = [e] \<and> ev_event_type e = ''order.created''
      \<and> map dl_endpoint_id (db_deliveries s') = [7]"
proof -
  obtain e and s' :: db where i: "ingest_event sample_ctx sample_project ''key-1'' ''order.created'' sample_payload Native
      None None sample_ingest_db = Inr (e, s')" "map dl_endpoint_id (db_deliveries s') = [7]"
    using sample_ingest by (elim exE conjE) (rule that)
  have none: "find_idempotent (prj_id sample_project) ''key-1'' sample_ingest_db = None" by code_simp
  have "db_events sample_ingest_db = []" by code_simp
  with ingest_fan_out [OF i(1) none] i show ?thesis by auto
qed

text \<open>
  C7: the idempotency key makes an event's acceptance happen once.  After a
  request has succeeded, its event is the one found under the project and the key; and whenever
  that is so, a repetition of the request, by any caller at any later time, returns that event and
  changes nothing, while a valid request with another type, envelope mode or payload hash under the
  same key is refused with the ConflictError and changes nothing either.
\<close>

theorem ingest_idempotent:
  assumes "ingest_event cx project key event_type payload mode tp ts s = Inr (e, s')"
  shows "find_idempotent (prj_id project) key s' = Some e
    \<and> (\<forall>(cx' :: request_ctx) tp' ts' s''. find_idempotent (prj_id project) key s'' = Some e \<longrightarrow>
         cx_settings cx' = cx_settings cx \<longrightarrow>
         ingest_event cx' project key event_type payload mode tp' ts' s'' = Inr (e, s'')
         \<and> (\<forall>event_type' payload' mode' fp'.
              request_fingerprint (cx_settings cx) key event_type' payload' mode' = Some fp' \<longrightarrow>
              (event_type', mode', fp') \<noteq> (ev_event_type e, ev_envelope_mode e, ev_payload_hash e) \<longrightarrow>
              ingest_event cx' project key event_type' payload' mode' tp' ts' s''
                = Inl (ConflictError ''Idempotency-Key was already used with different content'')))"
proof -
  obtain fp where fp: "request_fingerprint (cx_settings cx) key event_type payload mode = Some fp"
    and same: "same_content event_type mode fp e"
    and found: "find_idempotent (prj_id project) key s' = Some e"
    using assms
  proof (cases rule: ingest_event_cases)
    case (hit fp)
    then show ?thesis using that by simp
  next
    case (accept fp envelope)
    have "find_idempotent (prj_id project) key s' = Some e"
      by (rule find_idempotent_snoc [OF accept(2)])
        (use accept(3) in \<open>simp_all add: accepted_def Let_def accept(5) event_row_def\<close>)
    then show ?thesis
      using that [OF accept(1)] by (simp add: same_content_def accept(5) event_row_def)
  qed
  show ?thesis
  proof (intro conjI allI impI)
    fix cx' :: request_ctx and tp' ts' and s'' :: db
    assume s'': "find_idempotent (prj_id project) key s'' = Some e" and cx': "cx_settings cx' = cx_settings cx"
    show "ingest_event cx' project key event_type payload mode tp' ts' s'' = Inr (e, s'')"
      using s'' same by (simp add: ingest_valid [OF fp [folded cx']] idempotent_hit_def)
    fix event_type' payload' mode' fp'
    assume fp': "request_fingerprint (cx_settings cx) key event_type' payload' mode' = Some fp'"
      and "(event_type', mode', fp') \<noteq> (ev_event_type e, ev_envelope_mode e, ev_payload_hash e)"
    then show "ingest_event cx' project key event_type' payload' mode' tp' ts' s''
        = Inl (ConflictError ''Idempotency-Key was already used with different content'')"
      using s'' by (auto simp: ingest_valid [OF fp' [folded cx']] idempotent_hit_def same_content_def)
  qed (rule found)
qed

theorem ingest_idempotent_witness:
  "\<exists>e s'. ingest_event sample_ctx sample_project ''key-1'' ''order.created'' sample_payload Native None None
      sample_ingest_db = Inr (e, s')
    \<and> ingest_event sample_ctx sample_project ''key-1'' ''order.created'' sample_payload Native None None s'
        = Inr (e, s')"
proof -
  obtain e and s' :: db where i: "ingest_event sample_ctx sample_project ''key-1'' ''order.created'' sample_payload Native
      None None sample_ingest_db = Inr (e, s')"
    using sample_ingest by blast
  from ingest_idempotent [OF i] i show ?thesis by blast
qed

end
