(* ===== verification/Platform.thy ===== *)
theory Platform
  imports Ingest_Safety
begin

text \<open>
  The platform as a transition system.  A state is the database with the claims workers hold or
  held; a step is one transaction of a worker, of the ingestion endpoint, of a management request,
  of the maintenance pass or of the login throttle.  Transactions are atomic and every one of them
  sees one snapshot; lease tokens are fresh, as \<^verbatim>\<open>uuid4\<close> values are.
\<close>

subsection \<open>Steps\<close>

type_synonym platform = "db \<times> claimed_delivery set"

inductive platform_step :: "settings \<Rightarrow> dialect \<Rightarrow> net_env \<Rightarrow> platform \<Rightarrow> platform \<Rightarrow> bool"
  for cfg :: settings and dia :: dialect and net :: net_env
where
  Step_claim:
    "claim_due cfg now tokens limit skip s s = Inr (cs, s') \<Longrightarrow> inj tokens \<Longrightarrow>
     (\<And>c n. c \<in> C \<Longrightarrow> tokens n \<noteq> cd_lease_token c) \<Longrightarrow>
     platform_step cfg dia net (s, C) (s', C \<union> set cs)"
| Step_renew:
    "claim \<in> C \<Longrightarrow> renew_lease cfg now claim s = (b, s') \<Longrightarrow>
     platform_step cfg dia net (s, C) (s', C)"
| Step_release:
    "claim \<in> C \<Longrightarrow> release_claim now claim s = (b, s') \<Longrightarrow>
     platform_step cfg dia net (s, C) (s', C)"
| Step_finalize:
    "claim \<in> C \<Longrightarrow> finalize cfg dia finished r claim started res s = Inr (b, s') \<Longrightarrow>
     platform_step cfg dia net (s, C) (s', C)"
| Step_ingest:
    "ingest_event cx project key event_type payload mode tp ts s = Inr (e, s') \<Longrightarrow>
     platform_step cfg dia net (s, C) (s', C)"
| Step_command:
    "run_command net cx uid cmd s = Inr s' \<Longrightarrow> platform_step cfg dia net (s, C) (s', C)"
| Step_maintain:
    "run_once cfg dia env skip_attempt skip_throttle s = (res, s') \<Longrightarrow>
     platform_step cfg dia net (s, C) (s', C)"
| Step_login_failure:
    "platform_step cfg dia net (s, C) (record_login_failure cfg now email s, C)"
| Step_login_success:
    "platform_step cfg dia net (s, C) (record_login_success email s, C)"
| Step_usage:
    "platform_step cfg dia net (s, C) (usage_write pending s, C)"

inductive reachable :: "settings \<Rightarrow> dialect \<Rightarrow> net_env \<Rightarrow> platform \<Rightarrow> bool"
  for cfg :: settings and dia :: dialect and net :: net_env
where
  Reach_start: "db_deliveries s = [] \<Longrightarrow> db_events s = [] \<Longrightarrow> db_attempts s = [] \<Longrightarrow> reachable cfg dia net (s, {})"
| Reach_step: "reachable cfg dia net p \<Longrightarrow> platform_step cfg dia net p p' \<Longrightarrow> reachable cfg dia net p'"

subsection \<open>The invariant\<close>

text \<open>A row is leased exactly while it is \<open>processing\<close>.\<close>

definition lease_shape :: "delivery \<Rightarrow> bool" where
  "lease_shape d \<longleftrightarrow> (dl_status d = Processing \<longleftrightarrow> dl_lease_token d \<noteq> None)
     \<and> (dl_lease_token d \<noteq> None \<longleftrightarrow> dl_lease_expires_at d \<noteq> None)"

text \<open>The event of a delivery that is still to be sent is there with its envelope.\<close>

definition sendable :: "db \<Rightarrow> delivery \<Rightarrow> bool" where
  "sendable s d \<longleftrightarrow>
     (\<exists>e \<in> set (db_events s). ev_id e = dl_event_id d \<and> ev_canonical_envelope e \<noteq> None)"

text \<open>A recorded attempt belongs to a delivery, and the number of a running attempt is still free.\<close>

definition attempt_of :: "delivery \<Rightarrow> delivery_attempt \<Rightarrow> bool" where
  "attempt_of d a \<longleftrightarrow> dl_id d = at_delivery_id a \<and> at_attempt_number a \<le> dl_attempt_count d
     \<and> (dl_status d = Processing \<longrightarrow> at_attempt_number a < dl_attempt_count d)"

definition keys_inv :: "db \<Rightarrow> bool" where
  "keys_inv s \<longleftrightarrow> distinct (map dl_id (db_deliveries s))
     \<and> (\<forall>d \<in> set (db_deliveries s). dl_id d < db_seq s T_deliveries)
     \<and> distinct (map ev_id (db_events s))
     \<and> (\<forall>e \<in> set (db_events s). ev_id e < db_seq s T_events)"

definition deliveries_inv :: "db \<Rightarrow> bool" where
  "deliveries_inv s \<longleftrightarrow> (\<forall>d \<in> set (db_deliveries s). lease_shape d
     \<and> (nonterminal_status (dl_status d) \<longrightarrow> sendable s d))"

definition attempts_inv :: "db \<Rightarrow> bool" where
  "attempts_inv s \<longleftrightarrow> (\<forall>a \<in> set (db_attempts s). \<exists>d \<in> set (db_deliveries s). attempt_of d a)
     \<and> distinct (map (\<lambda>a. (at_delivery_id a, at_attempt_number a)) (db_attempts s))"

text \<open>A claim whose lease token is on the row still has the row's attempt number.\<close>

definition claims_inv :: "db \<Rightarrow> claimed_delivery set \<Rightarrow> bool" where
  "claims_inv s C \<longleftrightarrow> (\<forall>c \<in> C. \<forall>d \<in> set (db_deliveries s).
     dl_id d = cd_id c \<longrightarrow> dl_lease_token d = Some (cd_lease_token c) \<longrightarrow>
     dl_attempt_count d = cd_attempt_number c)"

text \<open>
  The life of a delivery, abstracted from its row: it waits, is leased for its \<open>n\<close>-th attempt, or
  has ended.  Only a lease can make it succeed or die; a waiting delivery can only be cancelled;
  and an ended one never moves again.
\<close>

datatype phase = Queued int | Leased int string | Ended int delivery_status

inductive life :: "phase \<Rightarrow> phase \<Rightarrow> bool" where
  Life_claim: "life (Queued n) (Leased (n + 1) t)"
| Life_reclaim: "life (Leased n t) (Leased (n + 1) t')"
| Life_return: "life (Leased n t) (Queued n)"
| Life_finish: "st = Succeeded \<or> st = Dead \<Longrightarrow> life (Leased n t) (Ended n st)"
| Life_cancel: "life (Queued n) (Ended n Canceled)"
| Life_abandon: "life (Leased n t) (Ended n Canceled)"

inductive_cases life_EndedE: "life (Ended n st) r"

definition phase_of :: "delivery \<Rightarrow> phase" where
  "phase_of d =
     (if queued_status (dl_status d) then Queued (dl_attempt_count d)
      else case (dl_status d, dl_lease_token d) of
             (Processing, Some t) \<Rightarrow> Leased (dl_attempt_count d) t
           | _ \<Rightarrow> Ended (dl_attempt_count d) (dl_status d))"

lemma life_ended: "life\<^sup>*\<^sup>* (Ended n st) r \<Longrightarrow> r = Ended n st"
  by (induction rule: rtranclp_induct) (auto elim: life_EndedE)

text \<open>
  The deliveries of a state descend from those of an earlier one: each is a delivery of the earlier
  state, later in its life, or one with a new key that began to wait.
\<close>

definition descends :: "db \<Rightarrow> delivery \<Rightarrow> bool" where
  "descends s d' \<longleftrightarrow>
     (\<exists>d \<in> set (db_deliveries s). dl_id d = dl_id d' \<and> life\<^sup>*\<^sup>* (phase_of d) (phase_of d'))
     \<or> db_seq s T_deliveries \<le> dl_id d' \<and> life\<^sup>*\<^sup>* (Queued 0) (phase_of d')"

definition evolves :: "db \<Rightarrow> db \<Rightarrow> bool" where
  "evolves s s' \<longleftrightarrow> db_seq s T_deliveries \<le> db_seq s' T_deliveries
     \<and> (\<forall>d \<in> set (db_deliveries s'). descends s d)"

lemma evolves_refl: "evolves s s"
  by (auto simp: evolves_def descends_def)

lemma evolves_step:
  assumes "evolves s0 s" and "db_seq s T_deliveries \<le> db_seq s' T_deliveries"
    and "\<And>d. d \<in> set (db_deliveries s') \<Longrightarrow> descends s d"
  shows "evolves s0 s'"
proof -
  have "descends s0 d'" if d': "d' \<in> set (db_deliveries s')" for d'
    using assms(3) [OF d'] unfolding descends_def
  proof (elim disjE bexE conjE)
    fix d assume d: "d \<in> set (db_deliveries s)" "dl_id d = dl_id d'" "life\<^sup>*\<^sup>* (phase_of d) (phase_of d')"
    from assms(1) d(1) have "descends s0 d" by (simp add: evolves_def)
    with d show "(\<exists>d \<in> set (db_deliveries s0). dl_id d = dl_id d' \<and> life\<^sup>*\<^sup>* (phase_of d) (phase_of d'))
        \<or> db_seq s0 T_deliveries \<le> dl_id d' \<and> life\<^sup>*\<^sup>* (Queued 0) (phase_of d')"
      unfolding descends_def by (metis rtranclp_trans)
  qed (use assms(1) in \<open>auto simp: evolves_def\<close>)
  with assms(1,2) show ?thesis by (simp add: evolves_def)
qed

text \<open>
  The invariant, with the state \<open>s0\<close> of an earlier moment from which the present one descends.
\<close>

definition platform_inv :: "db \<Rightarrow> platform \<Rightarrow> bool" where
  "platform_inv s0 p \<longleftrightarrow> keys_inv (fst p) \<and> deliveries_inv (fst p) \<and> attempts_inv (fst p)
     \<and> claims_inv (fst p) (snd p) \<and> evolves s0 (fst p)"

lemma platform_inv_start:
  "db_deliveries s = [] \<Longrightarrow> db_events s = [] \<Longrightarrow> db_attempts s = [] \<Longrightarrow> platform_inv s (s, {})"
  by (simp add: platform_inv_def keys_inv_def deliveries_inv_def attempts_inv_def claims_inv_def
    evolves_refl)

lemma platform_inv_now: "platform_inv s0 (s, C) \<Longrightarrow> platform_inv s (s, C)"
  by (simp add: platform_inv_def evolves_refl)

lemma queue_frame_inv:
  assumes "queue_frame s s'" and "platform_inv s0 (s, C)"
  shows "platform_inv s0 (s', C)"
  using assms
  by (simp add: queue_frame_def platform_inv_def keys_inv_def deliveries_inv_def attempts_inv_def
    claims_inv_def sendable_def evolves_def)

subsection \<open>Changing rows\<close>

text \<open>
  The change of a row that no step of a worker but the claim exceeds: the identity, the event and
  the attempt count stay, the lease keeps its shape and its token or ends, and a delivery that has
  ended does not start again.
\<close>

definition row_change :: "delivery \<Rightarrow> delivery \<Rightarrow> bool" where
  "row_change d d' \<longleftrightarrow> dl_id d' = dl_id d \<and> dl_event_id d' = dl_event_id d
     \<and> dl_attempt_count d' = dl_attempt_count d \<and> lease_shape d'
     \<and> life\<^sup>*\<^sup>* (phase_of d) (phase_of d')
     \<and> (dl_lease_token d' \<noteq> None \<longrightarrow> dl_lease_token d' = dl_lease_token d)"

lemma phase_of_queued: "queued_status (dl_status d) \<Longrightarrow> phase_of d = Queued (dl_attempt_count d)"
  by (simp add: phase_of_def)

lemma phase_of_leased:
  "dl_status d = Processing \<Longrightarrow> dl_lease_token d = Some t \<Longrightarrow> phase_of d = Leased (dl_attempt_count d) t"
  by (simp add: phase_of_def)

lemma phase_of_ended: "terminal_status (dl_status d) \<Longrightarrow> phase_of d = Ended (dl_attempt_count d) (dl_status d)"
  by (auto simp: phase_of_def terminal_status_def)

lemma phase_of_cong:
  assumes "dl_status d' = dl_status d" "dl_lease_token d' = dl_lease_token d"
    "dl_attempt_count d' = dl_attempt_count d"
  shows "phase_of d' = phase_of d"
  unfolding phase_of_def assms ..

lemmas phase_simps = phase_of_queued phase_of_leased phase_of_ended
lemmas life_step = r_into_rtranclp [of life, OF Life_return] r_into_rtranclp [of life, OF Life_finish]
  r_into_rtranclp [of life, OF Life_cancel] r_into_rtranclp [of life, OF Life_abandon]

lemma life_nonterminal:
  assumes "life\<^sup>*\<^sup>* (phase_of d) (phase_of d')" and "nonterminal_status (dl_status d')" and "lease_shape d'"
  shows "nonterminal_status (dl_status d)"
proof (rule ccontr)
  assume "\<not> nonterminal_status (dl_status d)"
  then have "phase_of d' = Ended (dl_attempt_count d) (dl_status d)"
    using assms(1) by (simp add: nonterminal_iff phase_of_ended life_ended)
  with assms(2,3) show False
    by (cases "dl_status d'") (auto simp: phase_of_def lease_shape_def split: option.splits)
qed

lemma row_change_refl: "lease_shape d \<Longrightarrow> row_change d d"
  by (simp add: row_change_def)

lemma row_change_attempt:
  "row_change d d' \<Longrightarrow> lease_shape d \<Longrightarrow> attempt_of d a \<Longrightarrow> attempt_of d' a"
  by (auto simp: row_change_def attempt_of_def lease_shape_def)

lemma inv_change:
  assumes inv: "platform_inv s0 (s, C)"
    and rows: "list_all2 row_change (db_deliveries s) (db_deliveries s')"
    and same: "db_events s' = db_events s" "db_attempts s' = db_attempts s"
      "db_seq s' T_deliveries = db_seq s T_deliveries" "db_seq s' T_events = db_seq s T_events"
  shows "platform_inv s0 (s', C)"
proof -
  have ids: "map dl_id (db_deliveries s') = map dl_id (db_deliveries s)"
    using rows by (induction rule: list_all2_induct) (auto simp: row_change_def)
  have bwd: "\<exists>d \<in> set (db_deliveries s). row_change d d'" if "d' \<in> set (db_deliveries s')" for d'
    using rows that by (metis in_set_conv_nth list_all2_conv_all_nth)
  have fwd: "\<exists>d' \<in> set (db_deliveries s'). row_change d d'" if "d \<in> set (db_deliveries s)" for d
    using rows that by (metis in_set_conv_nth list_all2_conv_all_nth)
  have "\<forall>d' \<in> set (db_deliveries s'). dl_id d' < db_seq s' T_deliveries"
  proof
    fix d' assume "d' \<in> set (db_deliveries s')"
    with bwd obtain d where "d \<in> set (db_deliveries s)" "row_change d d'" by blast
    with inv same show "dl_id d' < db_seq s' T_deliveries"
      by (simp add: platform_inv_def keys_inv_def row_change_def)
  qed
  then have "keys_inv s'"
    using inv same ids by (simp add: platform_inv_def keys_inv_def)
  moreover have "deliveries_inv s'"
    unfolding deliveries_inv_def
  proof
    fix d' assume "d' \<in> set (db_deliveries s')"
    with bwd obtain d where "d \<in> set (db_deliveries s)" "row_change d d'" by blast
    with inv same show "lease_shape d' \<and> (nonterminal_status (dl_status d') \<longrightarrow> sendable s' d')"
      by (auto simp: platform_inv_def deliveries_inv_def row_change_def sendable_def dest: life_nonterminal)
  qed
  moreover have "attempts_inv s'"
  proof -
    have "\<exists>d' \<in> set (db_deliveries s'). attempt_of d' a" if "a \<in> set (db_attempts s)" for a
    proof -
      from inv that obtain d where d: "d \<in> set (db_deliveries s)" "attempt_of d a" "lease_shape d"
        unfolding platform_inv_def attempts_inv_def deliveries_inv_def by (metis fst_conv)
      with fwd [OF d(1)] show ?thesis by (metis row_change_attempt)
    qed
    with inv same show ?thesis by (simp add: platform_inv_def attempts_inv_def)
  qed
  moreover have "claims_inv s' C"
    unfolding claims_inv_def
  proof (intro ballI impI)
    fix c d' assume c: "c \<in> C" and d': "d' \<in> set (db_deliveries s')" "dl_id d' = cd_id c"
      "dl_lease_token d' = Some (cd_lease_token c)"
    from bwd [OF d'(1)] obtain d where "d \<in> set (db_deliveries s)" "row_change d d'" by blast
    with c d' inv show "dl_attempt_count d' = cd_attempt_number c"
      by (auto simp: platform_inv_def claims_inv_def row_change_def)
  qed
  moreover have "descends s d'" if "d' \<in> set (db_deliveries s')" for d'
  proof -
    from bwd [OF that] obtain d where "d \<in> set (db_deliveries s)" "row_change d d'" by blast
    then show ?thesis unfolding descends_def row_change_def by metis
  qed
  then have "evolves s0 s'"
    by - (rule evolves_step [of s0 s], use inv same in \<open>simp_all add: platform_inv_def\<close>)
  ultimately show ?thesis by (simp add: platform_inv_def)
qed

text \<open>The usual case: the rows a predicate selects are changed.\<close>

lemma inv_update:
  assumes "platform_inv s0 (s, C)" and "db_deliveries s' = update_where p f (db_deliveries s)"
    and "\<And>d. d \<in> set (db_deliveries s) \<Longrightarrow> p d \<Longrightarrow> lease_shape d \<Longrightarrow> row_change d (f d)"
    and "db_events s' = db_events s" "db_attempts s' = db_attempts s"
      "db_seq s' T_deliveries = db_seq s T_deliveries" "db_seq s' T_events = db_seq s T_events"
  shows "platform_inv s0 (s', C)"
proof (rule inv_change [OF assms(1) _ assms(4-7)])
  have "\<forall>d \<in> set (db_deliveries s). lease_shape d"
    using assms(1) by (simp add: platform_inv_def deliveries_inv_def)
  then show "list_all2 row_change (db_deliveries s) (db_deliveries s')"
    using assms(3) by (auto simp: assms(2) update_where_def list.rel_map row_change_refl intro!: list.rel_refl_strong)
qed

lemma inv_put:
  assumes inv: "platform_inv s0 (s, C)" and d: "d \<in> set (db_deliveries s)" and "row_change d d'"
  shows "platform_inv s0 (put_delivery d' s, C)"
proof (rule inv_update [OF inv, of _ "\<lambda>r. dl_id r = dl_id d'" "\<lambda>_. d'"])
  fix r assume r: "r \<in> set (db_deliveries s)" "dl_id r = dl_id d'"
  have "distinct (map dl_id (db_deliveries s))" using inv by (simp add: platform_inv_def keys_inv_def)
  then have "r = d" using r d assms(3) by (auto simp: row_change_def dest: row_unique)
  with assms(3) show "row_change r d'" by simp
qed (simp_all add: put_delivery_def)

text \<open>New deliveries: pending, not leased, numbered by the sequence, of events with an envelope.\<close>

definition fresh_rows :: "db \<Rightarrow> db \<Rightarrow> delivery list \<Rightarrow> bool" where
  "fresh_rows s s' rows \<longleftrightarrow> map dl_id rows = map (\<lambda>k. db_seq s T_deliveries + int k) [0..<length rows]
     \<and> db_seq s' T_deliveries = db_seq s T_deliveries + int (length rows)
     \<and> (\<forall>d \<in> set rows. dl_status d = Pending \<and> dl_lease_token d = None \<and> dl_lease_expires_at d = None
          \<and> dl_attempt_count d = 0 \<and> sendable s' d)"

lemma inv_add:
  assumes inv: "platform_inv s0 (s, C)" and D: "db_deliveries s' = db_deliveries s @ rows"
    and E: "db_events s' = db_events s @ es" and A: "db_attempts s' = db_attempts s"
    and fresh: "fresh_rows s s' rows"
    and es: "distinct (map ev_id es)" "\<forall>e \<in> set es. db_seq s T_events \<le> ev_id e \<and> ev_id e < db_seq s' T_events"
      "db_seq s T_events \<le> db_seq s' T_events"
  shows "platform_inv s0 (s', C)"
proof -
  have row: "db_seq s T_deliveries \<le> dl_id d \<and> dl_id d < db_seq s' T_deliveries" if "d \<in> set rows" for d
  proof -
    from that have "dl_id d \<in> set (map (\<lambda>k. db_seq s T_deliveries + int k) [0..<length rows])"
      using fresh unfolding fresh_rows_def by (metis image_eqI list.set_map)
    then show ?thesis using fresh by (auto simp: fresh_rows_def)
  qed
  have "distinct (map dl_id rows)"
    using fresh by (simp add: fresh_rows_def distinct_map inj_on_def)
  then have "keys_inv s'"
    using inv D E es row fresh unfolding platform_inv_def keys_inv_def fresh_rows_def
    by (fastforce simp: image_iff)
  moreover have "sendable s d \<Longrightarrow> sendable s' d" for d by (auto simp: sendable_def E)
  then have "deliveries_inv s'"
    using inv fresh unfolding platform_inv_def deliveries_inv_def fresh_rows_def
    by (auto simp: D lease_shape_def)
  moreover have "attempts_inv s'"
    using inv D A unfolding platform_inv_def attempts_inv_def by auto
  moreover have "claims_inv s' C"
    using inv D fresh unfolding platform_inv_def claims_inv_def fresh_rows_def by auto
  moreover have "phase_of d = Queued 0" if "d \<in> set rows" for d
    using that fresh by (simp add: fresh_rows_def phase_of_def)
  then have "evolves s0 s'"
    by - (rule evolves_step [of s0 s],
      use inv D row fresh in \<open>auto simp: platform_inv_def descends_def fresh_rows_def\<close>)
  ultimately show ?thesis by (simp add: platform_inv_def)
qed

text \<open>
  Deleting deliveries with their attempts, and events no remaining delivery needs; the other rows
  may lose a foreign key.
\<close>

lemma inv_delete:
  assumes inv: "platform_inv s0 (s, C)"
    and D: "db_deliveries s' = map f (filter (\<lambda>d. dl_id d \<notin> ids) (db_deliveries s))"
    and f: "\<And>d. f d = d \<or> f d = d\<lparr>dl_replay_of_delivery_id := None\<rparr>"
    and A: "db_attempts s' = filter (\<lambda>a. at_delivery_id a \<notin> ids) (db_attempts s)"
    and E: "db_events s' = filter keep (db_events s)"
    and needed: "\<And>d e. d \<in> set (db_deliveries s) \<Longrightarrow> dl_id d \<notin> ids \<Longrightarrow> e \<in> set (db_events s) \<Longrightarrow>
      ev_id e = dl_event_id d \<Longrightarrow> keep e"
    and seq: "db_seq s' T_deliveries = db_seq s T_deliveries" "db_seq s' T_events = db_seq s T_events"
  shows "platform_inv s0 (s', C)"
proof -
  have fs: "dl_id (f d) = dl_id d" "dl_event_id (f d) = dl_event_id d" "dl_status (f d) = dl_status d"
    "dl_lease_token (f d) = dl_lease_token d" "dl_lease_expires_at (f d) = dl_lease_expires_at d"
    "dl_attempt_count (f d) = dl_attempt_count d" for d
    using f [of d] by auto
  have ids: "map dl_id (db_deliveries s') = map dl_id (filter (\<lambda>d. dl_id d \<notin> ids) (db_deliveries s))"
    by (simp add: D fs comp_def)
  have rows: "\<exists>d \<in> set (db_deliveries s). dl_id d \<notin> ids \<and> d' = f d" if "d' \<in> set (db_deliveries s')" for d'
    using that by (auto simp: D)
  have "keys_inv s'"
    unfolding keys_inv_def ids E seq
    using inv by (auto simp: platform_inv_def keys_inv_def distinct_map_filter D fs)
  moreover have "sendable s' (f d)" if "sendable s d" "d \<in> set (db_deliveries s)" "dl_id d \<notin> ids" for d
    using that needed [OF that(2,3)] by (auto simp: sendable_def fs E)
  then have "deliveries_inv s'"
    using inv rows by (fastforce simp: platform_inv_def deliveries_inv_def lease_shape_def fs)
  moreover have "\<exists>d' \<in> set (db_deliveries s'). attempt_of d' a"
    if "d \<in> set (db_deliveries s)" "attempt_of d a" "at_delivery_id a \<notin> ids" for d a
    using that by (intro bexI [of _ "f d"]) (auto simp: attempt_of_def D fs)
  then have "attempts_inv s'"
    using inv by (fastforce simp: platform_inv_def attempts_inv_def A distinct_map_filter)
  moreover have "claims_inv s' C"
    using inv unfolding platform_inv_def claims_inv_def by (auto simp: D fs)
  moreover have "phase_of (f d) = phase_of d" for d by (rule phase_of_cong) (simp_all add: fs)
  then have "evolves s0 s'"
    by - (rule evolves_step [of s0 s], use inv seq in \<open>auto simp: platform_inv_def descends_def D fs\<close>)
  ultimately show ?thesis by (simp add: platform_inv_def)
qed

text \<open>Clearing payloads of events that no delivery still to be sent needs.\<close>

lemma inv_events:
  assumes inv: "platform_inv s0 (s, C)" and D: "db_deliveries s' = db_deliveries s"
    and E: "db_events s' = update_where p f (db_events s)" and f: "\<And>e. ev_id (f e) = ev_id e"
    and safe: "\<And>e d. e \<in> set (db_events s) \<Longrightarrow> p e \<Longrightarrow> d \<in> set (db_deliveries s) \<Longrightarrow>
      dl_event_id d = ev_id e \<Longrightarrow> \<not> nonterminal_status (dl_status d)"
    and A: "db_attempts s' = db_attempts s"
    and seq: "db_seq s' T_deliveries = db_seq s T_deliveries" "db_seq s' T_events = db_seq s T_events"
  shows "platform_inv s0 (s', C)"
proof -
  have "keys_inv s'"
    using inv f seq unfolding platform_inv_def keys_inv_def
    by (auto simp: D E map_update_where set_update_where)
  moreover have "sendable s' d" if d: "d \<in> set (db_deliveries s)" "nonterminal_status (dl_status d)" for d
  proof -
    from inv d obtain e where e: "e \<in> set (db_events s)" "ev_id e = dl_event_id d"
      "ev_canonical_envelope e \<noteq> None"
      by (auto simp: platform_inv_def deliveries_inv_def sendable_def)
    then have "\<not> p e" using safe d by metis
    with e show ?thesis by (auto simp: sendable_def E set_update_where)
  qed
  then have "deliveries_inv s'"
    using inv by (simp add: platform_inv_def deliveries_inv_def D)
  moreover have "attempts_inv s'" "claims_inv s' C" "evolves s0 s'"
    using inv seq by (simp_all add: platform_inv_def attempts_inv_def claims_inv_def evolves_def D A)
  ultimately show ?thesis by (simp add: platform_inv_def)
qed

subsection \<open>Steps of the workers\<close>

lemma inv_renew:
  assumes "platform_inv s0 (s, C)" and "renew_lease cfg now claim s = (b, s')"
  shows "platform_inv s0 (s', C)"
proof (cases "List.find (leased claim now) (db_deliveries s)")
  case None
  with assms show ?thesis by (simp add: renew_lease_def)
next
  case (Some d)
  note d = find_Some_set [OF Some]
  have "platform_inv s0 (put_delivery (d\<lparr>dl_lease_expires_at := Some (now + seconds (worker_lease_seconds cfg)),
      dl_updated_at := now\<rparr>) s, C)"
    by (rule inv_put [OF assms(1), of d])
      (use d in \<open>auto simp: row_change_def lease_shape_def leased_def owned_def phase_simps\<close>)
  with assms(2) Some show ?thesis by (simp add: renew_lease_def)
qed

lemma inv_release:
  assumes "platform_inv s0 (s, C)" and "release_claim now claim s = (b, s')"
  shows "platform_inv s0 (s', C)"
proof (cases "List.find (owned claim) (db_deliveries s)")
  case None
  with assms show ?thesis by (simp add: release_claim_def)
next
  case (Some d)
  note d = find_Some_set [OF Some]
  have "platform_inv s0 (put_delivery (d\<lparr>dl_status := Retry_scheduled, dl_next_attempt_at := now,
      dl_lease_token := None, dl_lease_expires_at := None, dl_updated_at := now\<rparr>) s, C)"
    by (rule inv_put [OF assms(1), of d])
      (use d in \<open>auto simp: row_change_def lease_shape_def owned_def phase_simps intro: life_step\<close>)
  with assms(2) Some show ?thesis by (simp add: release_claim_def)
qed

text \<open>A claim: the token is fresh, so no older claim can pass for the new one.\<close>

lemma inv_claim_row:
  assumes inv: "platform_inv s0 (s, C)" and d: "d \<in> set (db_deliveries s)" "nonterminal_status (dl_status d)"
    and c: "cd_id c = dl_id d" "cd_attempt_number c = dl_attempt_count d + 1"
    and fresh: "\<And>c'. c' \<in> C \<Longrightarrow> cd_lease_token c' \<noteq> token" "cd_lease_token c = token"
  shows "platform_inv s0 (put_delivery (claim_row cfg now token d) s, insert c C)"
proof -
  let ?d = "claim_row cfg now token d"
  have dist: "distinct (map dl_id (db_deliveries s))" using inv by (simp add: platform_inv_def keys_inv_def)
  have rows: "r \<in> set (db_deliveries (put_delivery ?d s)) \<longleftrightarrow>
      r = ?d \<or> r \<in> set (db_deliveries s) \<and> dl_id r \<noteq> dl_id d" for r
    using d(1) by (auto simp: put_delivery_def set_update_where)
  have "map dl_id (db_deliveries (put_delivery ?d s)) = map dl_id (db_deliveries s)"
    by (simp add: put_delivery_def update_where_def comp_def cong: map_cong)
  then have "keys_inv (put_delivery ?d s)"
    using inv d(1) rows by (auto simp: platform_inv_def keys_inv_def)
  moreover have "deliveries_inv (put_delivery ?d s)"
    using inv d rows by (auto simp: platform_inv_def deliveries_inv_def lease_shape_def sendable_def)
  moreover have "\<exists>r \<in> set (db_deliveries (put_delivery ?d s)). attempt_of r a"
    if "a \<in> set (db_attempts s)" for a
  proof -
    from inv that obtain r where r: "r \<in> set (db_deliveries s)" "attempt_of r a"
      by (auto simp: platform_inv_def attempts_inv_def)
    show ?thesis
    proof (cases "dl_id r = dl_id d")
      case True
      with r d(1) dist have "r = d" by (auto dest: row_unique)
      with r show ?thesis by (intro bexI [of _ ?d]) (auto simp: attempt_of_def rows)
    qed (use r rows in blast)
  qed
  then have "attempts_inv (put_delivery ?d s)"
    using inv by (simp add: platform_inv_def attempts_inv_def)
  moreover have "claims_inv (put_delivery ?d s) (insert c C)"
    using inv c fresh rows by (auto simp: platform_inv_def claims_inv_def) blast
  moreover have "lease_shape d" using inv d(1) by (simp add: platform_inv_def deliveries_inv_def)
  with d(2) have "life (phase_of d) (phase_of ?d)"
    by (auto simp: phase_of_def nonterminal_status_def lease_shape_def intro: life.intros split: option.splits)
  then have "evolves s0 (put_delivery ?d s)"
    by - (rule evolves_step [of s0 s], use inv rows d(1) in \<open>auto simp: platform_inv_def descends_def\<close>)
  ultimately show ?thesis by (simp add: platform_inv_def)
qed

lemma inv_claim_rows:
  assumes "claim_rows cfg now tokens i ds s = Inr (cs, s')" and "platform_inv s0 (s, C)"
    and "distinct (map dl_id ds)"
    and "\<And>d. d \<in> set ds \<Longrightarrow> d \<in> set (db_deliveries s) \<and> nonterminal_status (dl_status d)"
    and "inj tokens" and "\<And>c n. c \<in> C \<Longrightarrow> i \<le> n \<Longrightarrow> cd_lease_token c \<noteq> tokens n"
  shows "platform_inv s0 (s', C \<union> set cs)"
  using assms
proof (induction ds arbitrary: i s C cs)
  case Nil
  then show ?case by simp
next
  case (Cons d ds)
  let ?d = "claim_row cfg now (tokens i) d"
  from Cons.prems(1) obtain c cs1 where c: "claim_of (tokens i) ?d s = Inr c"
    and r: "claim_rows cfg now tokens (Suc i) ds (put_delivery ?d s) = Inr (cs1, s')"
    and cs: "cs = c # cs1"
    by (auto simp: Let_def bindr_Inr_iff)
  note c' = claim_of_InrD [OF c]
  have "platform_inv s0 (put_delivery ?d s, insert c C)"
    by (rule inv_claim_row) (use Cons.prems c' in auto)
  moreover have "e \<in> set (db_deliveries (put_delivery ?d s)) \<and> nonterminal_status (dl_status e)"
    if "e \<in> set ds" for e
  proof -
    from that Cons.prems(3) have "dl_id e \<noteq> dl_id d" by (metis distinct.simps(2) image_eqI list.set_map list.simps(9))
    with that Cons.prems(4) show ?thesis by (auto simp: put_delivery_def set_update_where)
  qed
  moreover have "cd_lease_token e \<noteq> tokens n" if "e \<in> insert c C" "Suc i \<le> n" for e n
    using that Cons.prems(5,6) c' by (auto simp: inj_eq)
  moreover have "distinct (map dl_id ds)" using Cons.prems(3) by simp
  ultimately have "platform_inv s0 (s', insert c C \<union> set cs1)"
    using Cons.IH [OF r] Cons.prems(5) by blast
  then show ?case by (simp add: cs)
qed

lemma fold_ensure_seq:
  "db_seq (fold (\<lambda>o'. ensure_tenant_state o' cfg now) xs s) = db_seq s"
  "db_seq (fold (\<lambda>e. ensure_endpoint_state e cfg now) xs s) = db_seq s"
  by (induction xs arbitrary: s) (auto simp: ensure_tenant_state_def ensure_endpoint_state_def)

lemma select_queue_frame:
  assumes "select_fair_deliveries cfg now requested skip scan s = Inr (ds, s')"
  shows "queue_frame s s'"
proof (cases rule: select_fair_deliveries_eq [of cfg now requested s skip scan])
  case none
  with assms show ?thesis by (auto simp: queue_frame_def ensure_global_state_def)
next
  case (some g orgs st)
  with assms show ?thesis
    by (auto simp: queue_frame_def flush_sched_def ensure_states_def Let_def fold_ensure_seq
      ensure_global_state_def)
qed

lemma inv_claim:
  assumes inv: "platform_inv s0 (s, C)" and claim: "claim_due cfg now tokens limit skip s s = Inr (cs, s')"
    and "inj tokens" and "\<And>c n. c \<in> C \<Longrightarrow> tokens n \<noteq> cd_lease_token c"
  shows "platform_inv s0 (s', C \<union> set cs)"
proof -
  have dist: "distinct (map dl_id (db_deliveries s))" using inv by (simp add: platform_inv_def keys_inv_def)
  from claim show ?thesis
  proof (cases rule: claim_due_rows [OF dist, consumes 1, case_names idle claimed])
    case idle
    with inv show ?thesis by simp
  next
    case (claimed ds s1)
    have "platform_inv s0 (s1, C)" using select_queue_frame [OF claimed(1)] inv by (rule queue_frame_inv)
    then show ?thesis
      by (rule inv_claim_rows [OF claimed(2)])
        (use claimed assms(3,4) in \<open>auto dest: due_nonterminal\<close>, metis)
  qed
qed

text \<open>The outcome of an attempt: the number of the claim is the row's, and no attempt has it yet.\<close>

lemma inv_attempt:
  assumes inv: "platform_inv s0 (s, C)" and d: "d \<in> set (db_deliveries s)" "dl_status d \<noteq> Processing"
    and a: "at_delivery_id a = dl_id d" "at_attempt_number a \<le> dl_attempt_count d"
      "\<not> (\<exists>b \<in> set (db_attempts s). at_delivery_id b = at_delivery_id a \<and> at_attempt_number b = at_attempt_number a)"
    and s': "db_deliveries s' = db_deliveries s" "db_events s' = db_events s"
      "db_attempts s' = db_attempts s @ [a]" "db_seq s' T_deliveries = db_seq s T_deliveries"
      "db_seq s' T_events = db_seq s T_events"
  shows "platform_inv s0 (s', C)"
proof -
  have "attempt_of d a" using d(2) a by (simp add: attempt_of_def)
  with d(1) inv a(3) s' have "attempts_inv s'"
    by (auto simp: platform_inv_def attempts_inv_def)
  with inv s' show ?thesis
    by (simp add: platform_inv_def keys_inv_def deliveries_inv_def claims_inv_def sendable_def evolves_def)
qed

lemma insert_attempt_seq:
  assumes "insert_attempt dia i n started finished outcome res s = Inr s'"
  shows "db_seq s' T_deliveries = db_seq s T_deliveries" "db_seq s' T_events = db_seq s T_events"
  using assms by (auto simp: insert_attempt_def bump_seq_def split: if_splits)

lemma finalize_row_event: "dl_event_id (finalize_row cfg finished r n res d) = dl_event_id d"
  by (simp add: finalize_row_def Let_def)

lemma inv_finalize:
  assumes inv: "platform_inv s0 (s, C)" and "claim \<in> C"
    and fin: "finalize cfg dia finished r claim started res s = Inr (b, s')"
  shows "platform_inv s0 (s', C)"
proof (cases "List.find (leased claim finished) (db_deliveries s)")
  case None
  with inv fin show ?thesis by (simp add: finalize_def)
next
  case (Some d)
  note d = find_Some_set [OF Some]
  let ?d = "finalize_row cfg finished r (cd_attempt_number claim) res d"
  from fin Some obtain q where
    ins: "insert_attempt dia (dl_id d) (cd_attempt_number claim) started finished
      (status_value (dl_status ?d)) res
      (put_delivery ?d (put_endpoint_quota (finalize_endpoint cfg finished (dl_id d) res q) s)) = Inr s'"
    by (auto simp: finalize_def bindr_Inr_iff Let_def split: option.splits)
  have n: "cd_attempt_number claim = dl_attempt_count d"
    using inv assms(2) d by (auto simp: platform_inv_def claims_inv_def leased_def owned_def)
  have st: "dl_status ?d \<noteq> Processing" by (simp add: finalize_row_status)
  have "phase_of d = Leased (dl_attempt_count d) (cd_lease_token claim)"
    using d by (simp add: leased_def owned_def phase_of_leased)
  moreover have "dl_status ?d = Retry_scheduled \<or> dl_status ?d = Succeeded \<or> dl_status ?d = Dead"
    by (simp add: finalize_row_status)
  ultimately have life: "life\<^sup>*\<^sup>* (phase_of d) (phase_of ?d)"
    by (elim disjE) (simp_all add: phase_simps life_step)
  have "platform_inv s0 (put_endpoint_quota (finalize_endpoint cfg finished (dl_id d) res q) s, C)"
    by (rule queue_frame_inv [OF _ inv]) (simp add: queue_frame_def put_endpoint_quota_def)
  then have inv1: "platform_inv s0 (put_delivery ?d
      (put_endpoint_quota (finalize_endpoint cfg finished (dl_id d) res q) s), C)"
    by (rule inv_put)
      (use d st life in \<open>auto simp: row_change_def lease_shape_def finalize_row_event leased_def owned_def\<close>)
  obtain a where a: "db_attempts s' = db_attempts s @ [a]" "at_delivery_id a = dl_id d"
    "at_attempt_number a = cd_attempt_number claim"
    "\<not> (\<exists>b \<in> set (db_attempts s). at_delivery_id b = dl_id d \<and> at_attempt_number b = cd_attempt_number claim)"
    using insert_attempt_InrD [OF ins] by auto
  show ?thesis
    by (rule inv_attempt [OF inv1, of ?d a])
      (use d st n a insert_attempt_InrD [OF ins] insert_attempt_seq [OF ins] in
        \<open>auto simp: put_delivery_def set_update_where\<close>)
qed

subsection \<open>Steps of the ingestion\<close>

lemma inv_accepted:
  assumes inv: "platform_inv s0 (s, C)" and acc: "accepted cx project e s s'"
    and env: "ev_canonical_envelope e \<noteq> None"
  shows "platform_inv s0 (s', C)"
proof -
  let ?rows = "fan_out (cx_now cx) (prj_organization_id project) (ev_id e) (cx_uuid cx)
    (db_seq s T_deliveries) 1 (subscribed_endpoints (prj_id project) (ev_event_type e) s)"
  note a = acc [unfolded accepted_def Let_def]
  have "fresh_rows s s' ?rows"
    using a env fan_out_rows by (auto simp: fresh_rows_def sendable_def)
  then show ?thesis
    using a by (intro inv_add [OF inv, of s' ?rows "[e]"]) simp_all
qed

lemma inv_ingest:
  assumes "platform_inv s0 (s, C)"
    and "ingest_event cx project key event_type payload mode tp ts s = Inr (e, s')"
  shows "platform_inv s0 (s', C)"
  using assms(2)
proof (cases rule: ingest_event_cases)
  case hit
  with assms(1) show ?thesis by simp
next
  case (accept fp envelope)
  then show ?thesis
    by (intro inv_accepted [OF assms(1) accept(3)]) (simp add: event_row_def)
qed

subsection \<open>Steps of the management interface\<close>

lemma replay_copies_rows:
  "length (replay_copies now uuid i k ds) = length ds
   \<and> map dl_id (replay_copies now uuid i k ds) = map (\<lambda>j. i + int j) [0..<length ds]
   \<and> (\<forall>r \<in> set (replay_copies now uuid i k ds). dl_status r = Pending \<and> dl_lease_token r = None
        \<and> dl_attempt_count r = 0 \<and> dl_lease_expires_at r = None \<and> (\<exists>d \<in> set ds. dl_event_id r = dl_event_id d))"
proof (induction ds arbitrary: i k)
  case (Cons d ds)
  have "[0..<Suc (length ds)] = 0 # map Suc [0..<length ds]"
    by (simp add: map_Suc_upt upt_conv_Cons del: upt_Suc)
  with Cons [of "i + 1" "Suc k"] show ?case
    by (simp add: replay_copy_def comp_def add.assoc del: upt_Suc)
qed simp

lemma replayable_sendable: "ensure_replayable d now s = Inr u \<Longrightarrow> sendable s d"
  by (auto simp: ensure_replayable_def sendable_def find_event_def split: option.splits if_splits
    dest!: find_Some_set)

lemma inv_replays:
  assumes inv: "platform_inv s0 (s, C)" and s1: "queue_frame s s1"
    and rows: "\<forall>d \<in> set ds. sendable s d"
    and copies: "replays = replay_copies now uuid (db_seq s1 T_deliveries) k ds"
    and ins: "insert_replay_operation operation (add_deliveries replays s1) = Inr s2"
    and aud: "audit cx j uid org action rt rid pid metadata s2 = Inr s'"
  shows "platform_inv s0 (s', C)"
proof -
  have s': "db_deliveries s' = db_deliveries s @ replays" "db_events s' = db_events s @ []"
    "db_attempts s' = db_attempts s" "db_seq s' T_events = db_seq s T_events"
    "db_seq s' T_deliveries = db_seq s T_deliveries + int (length replays)"
    using s1 ins aud
    by (auto simp: queue_frame_def insert_replay_operation_def bindr_Inr_iff insert_unique_Inr
      add_deliveries_def bump_seq_def elim!: audit_InrE)
  have "fresh_rows s s' replays"
    using replay_copies_rows [of now uuid "db_seq s1 T_deliveries" k ds] rows s1 s'
    by (fastforce simp: fresh_rows_def copies queue_frame_def sendable_def)
  then show ?thesis
    by (intro inv_add [OF inv s'(1-3)]) (simp_all add: s')
qed

lemma quota_only_frame: "quota_only s s1 \<Longrightarrow> queue_frame s s1"
  by (simp add: queue_frame_def quota_onlyD)

lemma inv_replay_delivery:
  assumes inv: "platform_inv s0 (s, C)" and "replay_delivery cx uid p d s = Inr (r, s')"
  shows "platform_inv s0 (s', C)"
proof -
  from assms(2) obtain original u s1 operation s2 j org action rt rid pid md where
    ok: "ensure_replayable original (cx_now cx) s = Inr u"
    and adm: "admit_replay (cx_settings cx) (cx_now cx) (dl_organization_id original) s = Inr s1"
    and ins: "insert_replay_operation operation (add_deliveries
        [replay_copy original (cx_now cx) (db_seq s1 T_deliveries) (cx_uuid cx 0)] s1) = Inr s2"
    and aud: "audit cx j uid org action rt rid pid md s2 = Inr s'"
    unfolding replay_delivery_def Let_def bindr_Inr_iff by blast
  show ?thesis
    by (rule inv_replays [OF inv quota_only_frame [OF admit_replay_quota_only [OF adm]] _ _ ins aud,
        of "[original]" "cx_now cx" "cx_uuid cx" 0])
      (use ok in \<open>simp_all add: replayable_sendable\<close>)
qed

lemma mapr_replayable:
  "mapr (\<lambda>d. ensure_replayable d now s) ds = Inr us \<Longrightarrow> d \<in> set ds \<Longrightarrow> sendable s d"
  by (induction ds arbitrary: us) (auto simp: bindr_Inr_iff replayable_sendable)

lemma mapr_find:
  "mapr (\<lambda>k. some_or err (List.find (\<lambda>r. key r = k) rows)) ks = Inr rs \<Longrightarrow>
   set rs \<subseteq> set rows \<and> map key rs = ks"
proof (induction ks arbitrary: rs)
  case (Cons k ks)
  then obtain r rs' where "List.find (\<lambda>r. key r = k) rows = Some r"
    "mapr (\<lambda>k. some_or err (List.find (\<lambda>r. key r = k) rows)) ks = Inr rs'" "rs = r # rs'"
    by (auto simp: bindr_Inr_iff some_or_def split: option.splits)
  with Cons.IH find_Some_set show ?case by fastforce
qed simp

lemma inv_replay_batch:
  assumes inv: "platform_inv s0 (s, C)" and "replay_batch cx uid project ids key st s = Inr (r, s')"
  shows "platform_inv s0 (s', C)"
proof -
  let ?sources = "filter (\<lambda>d. dl_public_id d \<in> set ids \<and> dl_status d = Dead)
    (project_deliveries (prj_id project) s)"
  from assms(2) obtain us s1 originals operation s2 j org action rt rid pid md where
    ok: "mapr (\<lambda>d. ensure_replayable d (cx_now cx) s) ?sources = Inr us"
    and adm: "admit_replays_locked (cx_settings cx) st (cx_now cx) (int (length ids)) s = Inr s1"
    and or: "mapr (\<lambda>pid. some_or KeyError (List.find (\<lambda>d. dl_public_id d = pid) ?sources)) ids = Inr originals"
    and ins: "insert_replay_operation operation (add_deliveries
        (replay_copies (cx_now cx) (cx_uuid cx) (db_seq s1 T_deliveries) 0 originals) s1) = Inr s2"
    and aud: "audit cx j uid org action rt rid pid md s2 = Inr s'"
    unfolding replay_batch_def Let_def if_Inl_Inr_iff bindr_Inr_iff by blast
  have "\<forall>d \<in> set originals. sendable s d"
    using mapr_find [OF or] mapr_replayable [OF ok] by blast
  then show ?thesis
    by (rule inv_replays [OF inv quota_only_frame [OF admit_replays_locked_quota_only [OF adm]] _ refl ins aud])
qed

lemma inv_replay_deliveries:
  assumes inv: "platform_inv s0 (s, C)" and "replay_deliveries cx uid p ids key s = Inr (r, s')"
  shows "platform_inv s0 (s', C)"
proof -
  have hit: "platform_inv s0 (s', C)" if "replay_hit ids existing s = Inr (r, s')" for existing
    using that inv by (simp add: replay_hit_def split: if_splits)
  from assms(2) consider existing where "replay_hit ids existing s = Inr (r, s')"
    | project g st s1 where
        "lock_global_tenant (cx_settings cx) (cx_now cx) (prj_organization_id project) s = Inr (g, st, s1)"
        "replay_batch cx uid project ids key st s1 = Inr (r, s')"
    unfolding replay_deliveries_def Let_def
    by (auto simp: bindr_Inr_iff split: if_splits option.splits)
  then show ?thesis
  proof cases
    case (2 project g st s1)
    from quota_only_frame [OF lock_global_tenant_quota_only [OF 2(1)]] inv have "platform_inv s0 (s1, C)"
      by (rule queue_frame_inv)
    then show ?thesis using 2(2) by (rule inv_replay_batch)
  qed (rule hit)
qed

lemma inv_cancel:
  assumes inv: "platform_inv s0 (s, C)" and "cancel_delivery cx uid p i reason s = Inr (r, s')"
  shows "platform_inv s0 (s', C)"
proof -
  from assms(2) consider "s' = s"
    | project d j org action rt rid pid md where
        "find_project_delivery project i s = Some d" "queued_status (dl_status d)"
        "audit cx j uid org action rt rid pid md
          (release_probe (cx_now cx) d (put_delivery (cancel_row (cx_now cx) reason d) s)) = Inr s'"
    unfolding cancel_delivery_def Let_def bindr_Inr_iff some_or_Inr_iff
    by (auto simp: bindr_Inr_iff split: if_splits)
  then show ?thesis
  proof cases
    case 1
    with inv show ?thesis by simp
  next
    case (2 project d)
    have d: "d \<in> set (db_deliveries s)"
      using 2(1) by (auto simp: find_project_delivery_def project_deliveries_def dest!: find_Some_set)
    have "lease_shape d" using inv d by (simp add: platform_inv_def deliveries_inv_def)
    then have "platform_inv s0 (put_delivery (cancel_row (cx_now cx) reason d) s, C)"
      using 2(2) by (intro inv_put [OF inv d])
        (auto simp: row_change_def cancel_row_def lease_shape_def phase_simps life_step queued_status_def)
    moreover have "queue_frame (put_delivery (cancel_row (cx_now cx) reason d) s) s'"
      using 2(3) by (auto simp: queue_frame_def release_probe_def put_endpoint_quota_def put_delivery_def
        elim!: audit_InrE split: option.splits)
    ultimately show ?thesis using queue_frame_inv by blast
  qed
qed

lemma inv_delete_deliveries:
  assumes "platform_inv s0 (s, C)"
  shows "platform_inv s0 (delete_deliveries ids s, C)"
  by (rule inv_delete [OF assms, where keep = "\<lambda>_. True" and ids = ids and
        f = "\<lambda>d. case dl_replay_of_delivery_id d of
          Some i \<Rightarrow> if i \<in> ids then d\<lparr>dl_replay_of_delivery_id := None\<rparr> else d | None \<Rightarrow> d"])
    (auto simp: delete_deliveries_def delete_where_def split: option.splits)

lemma inv_purge:
  assumes inv: "platform_inv s0 (s, C)" and "purge_terminal_deliveries cx uid p dry n s = Inr (r, s')"
  shows "platform_inv s0 (s', C)"
proof -
  from assms(2) consider "s' = s"
    | s1 j org action rt rid pid md where "s1 = s \<or> (\<exists>ids. s1 = delete_deliveries ids s)"
        "audit cx j uid org action rt rid pid md s1 = Inr s'"
    unfolding purge_terminal_deliveries_def Let_def bindr_Inr_iff
    by (auto simp: bindr_Inr_iff split: if_splits) blast+
  then show ?thesis
  proof cases
    case 1
    with inv show ?thesis by simp
  next
    case (2 s1)
    from 2(1) inv inv_delete_deliveries have "platform_inv s0 (s1, C)" by blast
    moreover have "queue_frame s1 s'" using 2(2) by (auto elim!: audit_InrE)
    ultimately show ?thesis using queue_frame_inv by blast
  qed
qed

lemma inv_command:
  assumes inv: "platform_inv s0 (s, C)" and run: "run_command net cx uid cmd s = Inr s'"
  shows "platform_inv s0 (s', C)"
proof (cases "touches_queue cmd")
  case True
  with run show ?thesis
    by (cases cmd; simp add: touches_queue_def map_sum_Inr_snd)
      (blast intro: inv_replay_delivery [OF inv] inv_replay_deliveries [OF inv] inv_cancel [OF inv]
        inv_purge [OF inv])+
next
  case False
  with command_effect [OF run] have "queue_frame s s'" by (simp add: effect_def)
  then show ?thesis using inv by (rule queue_frame_inv)
qed

subsection \<open>Steps of the maintenance pass\<close>

lemma inv_purge_responses:
  assumes "platform_inv s0 (s, C)"
  shows "platform_inv s0 (snd (purge_responses cfg dia now skip s), C)"
proof -
  let ?s = "snd (purge_responses cfg dia now skip s)"
  have a: "map (\<lambda>a. (at_delivery_id a, at_attempt_number a)) (db_attempts ?s)
      = map (\<lambda>a. (at_delivery_id a, at_attempt_number a)) (db_attempts s)"
    by (simp add: purge_responses_def Let_def map_update_where)
  have b: "\<exists>b \<in> set (db_attempts s). at_delivery_id a = at_delivery_id b
      \<and> at_attempt_number a = at_attempt_number b" if "a \<in> set (db_attempts ?s)" for a
    using that by (auto simp: purge_responses_def Let_def set_update_where)
  have same: "db_deliveries ?s = db_deliveries s" "db_events ?s = db_events s" "db_seq ?s = db_seq s"
    by (simp_all add: purge_responses_def Let_def)
  have "attempts_inv ?s"
    unfolding attempts_inv_def same a
  proof
    show "\<forall>a \<in> set (db_attempts ?s). \<exists>d \<in> set (db_deliveries s). attempt_of d a"
      using assms b unfolding platform_inv_def attempts_inv_def attempt_of_def by (metis fst_conv)
    show "distinct (map (\<lambda>a. (at_delivery_id a, at_attempt_number a)) (db_attempts s))"
      using assms by (simp add: platform_inv_def attempts_inv_def)
  qed
  with assms same show ?thesis
    by (simp add: platform_inv_def keys_inv_def deliveries_inv_def claims_inv_def sendable_def evolves_def)
qed

lemma inv_purge_payloads:
  assumes "platform_inv s0 (s, C)"
  shows "platform_inv s0 (snd (purge_event_payloads cfg dia now skip s s), C)"
proof -
  let ?events = "claimable cfg skip ev_id (sort_key (\<lambda>e. (ev_created_at e, ev_id e))
    (filter (payload_expired dia now s) (db_events s)))"
  show ?thesis
  proof (cases "?events = []")
    case True
    with assms show ?thesis by (simp add: purge_event_payloads_def Let_def)
  next
    case False
    then have E: "db_events (snd (purge_event_payloads cfg dia now skip s s)) =
      update_where (\<lambda>e. ev_id e \<in> set (map ev_id (filter (\<lambda>e. \<not> has_nonterminal_delivery (ev_id e) s) ?events)))
        (\<lambda>e. e\<lparr>ev_payload := None, ev_canonical_envelope := None, ev_payload_purged_at := Some now\<rparr>)
        (db_events s)"
      by (simp add: purge_event_payloads_def Let_def)
    have "\<not> nonterminal_status (dl_status d)"
      if "\<not> has_nonterminal_delivery i s" "d \<in> set (db_deliveries s)" "dl_event_id d = i" for d i
      using that by (auto simp: has_nonterminal_delivery_def nonterminal_iff list_ex_iff)
    then show ?thesis
      by (intro inv_events [OF assms _ E]) (auto simp: purge_event_payloads_def Let_def)
  qed
qed

lemma inv_cancel_inactive:
  assumes "platform_inv s0 (s, C)"
  shows "platform_inv s0 (snd (cancel_inactive_deliveries cfg now skip oid s), C)"
proof -
  have D: "db_deliveries (snd (cancel_inactive_deliveries cfg now skip oid s)) =
    update_where (\<lambda>d. dl_id d \<in> set (map dl_id (claimable cfg skip dl_id (sort_key dl_id
        (filter (\<lambda>d. dl_organization_id d = oid \<and> cancellable now d) (db_deliveries s))))))
      (lifecycle_cancel_row now) (db_deliveries s)"
    by (simp add: cancel_inactive_deliveries_def Let_def)
  have keys: "distinct (map dl_id (db_deliveries s))"
    using assms by (simp add: platform_inv_def keys_inv_def)
  have row: "row_change d (lifecycle_cancel_row now d)" if "cancellable now d" "lease_shape d" for d
  proof -
    from that consider "queued_status (dl_status d)" | t where "dl_status d = Processing" "dl_lease_token d = Some t"
      by (auto simp: cancellable_def lease_shape_def)
    then have "life\<^sup>*\<^sup>* (phase_of d) (phase_of (lifecycle_cancel_row now d))"
      by cases (simp_all add: lifecycle_cancel_row_def phase_simps life_step)
    then show ?thesis by (simp add: row_change_def lifecycle_cancel_row_def lease_shape_def)
  qed
  show ?thesis
  proof (rule inv_update [OF assms D])
    fix d assume d: "d \<in> set (db_deliveries s)" "lease_shape d" and "dl_id d \<in> set (map dl_id
      (claimable cfg skip dl_id (sort_key dl_id
        (filter (\<lambda>d. dl_organization_id d = oid \<and> cancellable now d) (db_deliveries s)))))"
    then obtain r where "r \<in> set (db_deliveries s)" "cancellable now r" "dl_id r = dl_id d"
      by (auto simp: claimable_def dest!: in_set_takeD)
    with keys d show "row_change d (lifecycle_cancel_row now d)"
      by (metis row row_unique)
  qed (simp_all add: cancel_inactive_deliveries_def Let_def)
qed

lemma inv_delete_events:
  assumes "platform_inv s0 (s, C)"
  shows "platform_inv s0 (delete_events ids s, C)"
  by (rule inv_delete [OF assms, where keep = "\<lambda>e. ev_id e \<notin> ids" and
        ids = "set (map dl_id (filter (\<lambda>d. dl_event_id d \<in> ids) (db_deliveries s)))" and
        f = "\<lambda>d. case dl_replay_of_delivery_id d of
          Some i \<Rightarrow> if i \<in> set (map dl_id (filter (\<lambda>d. dl_event_id d \<in> ids) (db_deliveries s)))
            then d\<lparr>dl_replay_of_delivery_id := None\<rparr> else d | None \<Rightarrow> d"])
    (auto simp: delete_events_def delete_deliveries_def delete_where_def Let_def split: option.splits)

lemma inv_delete_organization:
  assumes "platform_inv s0 (s, C)"
  shows "platform_inv s0 (delete_organization oid s, C)"
proof -
  define pids where "pids = set (map prj_id (filter (\<lambda>p. prj_organization_id p = oid) (db_projects s)))"
  define eids where "eids = set (map ep_id (filter (\<lambda>e. ep_project_id e \<in> pids) (db_endpoints s)))"
  define vids where "vids = set (map ev_id (filter (\<lambda>e. ev_project_id e \<in> pids) (db_events s)))"
  define dids where "dids = set (map dl_id (filter (\<lambda>d. dl_organization_id d = oid \<or> dl_event_id d \<in> vids
    \<or> dl_endpoint_id d \<in> eids) (db_deliveries s)))"
  note ids = pids_def [symmetric] eids_def [symmetric] vids_def [symmetric] dids_def [symmetric]
  show ?thesis
  proof (rule inv_delete [OF assms, where keep = "\<lambda>e. ev_project_id e \<notin> pids" and ids = dids and
        f = "\<lambda>d. case dl_replay_of_delivery_id d of
          Some i \<Rightarrow> if i \<in> dids then d\<lparr>dl_replay_of_delivery_id := None\<rparr> else d | None \<Rightarrow> d"])
    fix d e
    assume "d \<in> set (db_deliveries s)" "dl_id d \<notin> dids" "e \<in> set (db_events s)" "ev_id e = dl_event_id d"
    then show "ev_project_id e \<notin> pids" by (force simp: dids_def vids_def)
  qed (simp_all add: delete_organization_def delete_deliveries_def delete_where_def Let_def ids
      del: set_map split: option.splits)
qed

lemma delete_empty_organization_cases:
  assumes "delete_empty_organization now clock uuid op organization s = Inr (r, s')"
  obtains (kept) "r = no_result" "s' = s"
  | (deleted) e op' where "r = no_result\<lparr>lr_organizations_deleted := 1\<rparr>"
      "s' = delete_organization (org_id organization) (audited e (put_operation op' s))"
proof (cases "list_ex (\<lambda>d. dl_organization_id d = org_id organization) (db_deliveries s)
    \<or> organization_events (org_id organization) s \<noteq> []")
  case True
  with assms kept show thesis by (simp add: delete_empty_organization_def)
next
  case False
  with assms obtain e s2 where
    a: "append_audit clock uuid (lo_requested_by_user_id op) (org_public_id organization)
      ''organization.deleted'' ''organization'' (Some (org_public_id organization)) None
      (Some [(''operation_public_id'', AuScalar (AuStr (lo_public_id op)))])
      (put_operation (op\<lparr>lo_status := Op_completed, lo_completed_at := Some now\<rparr>) s) = Inr (e, s2)"
    and r: "r = no_result\<lparr>lr_organizations_deleted := 1\<rparr>" "s' = delete_organization (org_id organization) s2"
    by (auto simp: delete_empty_organization_def bindr_Inr_iff)
  show thesis by (rule deleted [OF r(1)]) (simp add: r(2) append_audit_Inr(1) [OF a] audited_def)
qed

lemma inv_cleanup:
  assumes inv: "platform_inv s0 (s, C)" and "cleanup_due_organization cfg env s = Inr (r, s')"
  shows "platform_inv s0 (s', C)"
proof -
  have op: "platform_inv s0 (put_operation op s, C)" for op
    by (rule queue_frame_inv [OF _ inv]) (simp add: queue_frame_def put_operation_def)
  have cancel: "platform_inv s0 (s2, C)"
    if "cancel_inactive_deliveries cfg now skip oid (put_operation op s) = (n, s2)" for now skip oid op n s2
    using inv_cancel_inactive [OF op, of cfg now skip oid op] that by simp
  have del: "platform_inv s0 (s2, C)"
    if "delete_delivery_batch cfg skip oid s1 = (n, s2)" "platform_inv s0 (s1, C)" for skip oid n s1 s2
    using that by (auto simp: delete_delivery_batch_def Let_def inv_delete_deliveries split: if_splits)
  have ev: "platform_inv s0 (s2, C)"
    if "delete_orphan_event_batch cfg skip oid s1 = (n, s2)" "platform_inv s0 (s1, C)" for skip oid n s1 s2
    using that by (auto simp: delete_orphan_event_batch_def Let_def inv_delete_events split: if_splits)
  have org: "platform_inv s0 (s2, C)"
    if "delete_empty_organization now clock uuid op organization s1 = Inr (r, s2)" "platform_inv s0 (s1, C)"
    for now clock uuid op organization s1 s2
  proof -
    from that(1) show ?thesis
    proof (cases rule: delete_empty_organization_cases)
      case (deleted e op')
      have "platform_inv s0 (audited e (put_operation op' s1), C)"
        by (rule queue_frame_inv [OF _ that(2)]) (simp add: queue_frame_def put_operation_def)
      then show ?thesis unfolding deleted(2) by (rule inv_delete_organization)
    qed (use that in simp)
  qed
  show ?thesis
    using assms unfolding cleanup_due_organization_def Let_def
    by (auto split: option.splits if_splits prod.splits) (meson op cancel del ev org)+
qed

lemma inv_run_once:
  assumes "platform_inv s0 (s, C)" and "run_once cfg dia env ska skt s = (r, s')"
  shows "platform_inv s0 (s', C)"
proof -
  obtain r1 s1 where 1: "purge_responses cfg dia (le_now env) ska s = (r1, s1)" by fastforce
  obtain r2 s2 where 2: "purge_event_payloads cfg dia (le_now env) (le_skip_event env) s1 s1 = (r2, s2)"
    by fastforce
  obtain r3 s3 where 3: "purge_stale_login_throttles cfg (le_now env) skt s2 = (r3, s3)" by fastforce
  from inv_purge_responses [OF assms(1), of cfg dia "le_now env" ska] have "platform_inv s0 (s1, C)"
    by (simp add: 1)
  from inv_purge_payloads [OF this, of cfg dia "le_now env" "le_skip_event env"]
  have "platform_inv s0 (s2, C)" by (simp add: 2)
  moreover have "queue_frame s2 s3" using 3 by (auto simp: purge_stale_login_throttles_def Let_def queue_frame_def)
  ultimately have "platform_inv s0 (s3, C)" using queue_frame_inv by blast
  then show ?thesis
    using assms(2) inv_cleanup
    by (auto simp: run_once_def Let_def 1 2 3 split: sum.splits prod.splits)
qed

subsection \<open>The reachable states\<close>

lemma inv_step: "platform_step cfg dia net p p' \<Longrightarrow> platform_inv s0 p \<Longrightarrow> platform_inv s0 p'"
proof (induction rule: platform_step.induct)
  case (Step_login_failure s C now email)
  then show ?case
    by (elim queue_frame_inv [rotated]) (auto simp: record_login_failure_def queue_frame_def Let_def split: option.splits)
next
  case (Step_login_success s C email)
  then show ?case by (elim queue_frame_inv [rotated]) (auto simp: record_login_success_def queue_frame_def)
next
  case (Step_usage s C pending)
  then show ?case by (elim queue_frame_inv [rotated]) (auto simp: usage_write_def queue_frame_def)
qed (blast intro: inv_claim inv_renew inv_release inv_finalize inv_ingest inv_command inv_run_once)+

interpretation platform: step_invariant "platform_step cfg dia net" "platform_inv s0"
  for cfg dia net s0
  by unfold_locales (rule inv_step)

lemma reachable_inv: "reachable cfg dia net p \<Longrightarrow> \<exists>s0. platform_inv s0 p"
  by (induction rule: reachable.induct) (blast intro: platform_inv_start inv_step)+

lemma reachable_inv_now: "reachable cfg dia net (s, C) \<Longrightarrow> platform_inv s (s, C)"
  using reachable_inv platform_inv_now by blast

end
