(* ===== verification/Platform_Safety.thy ===== *)
theory Platform_Safety
  imports Platform
begin

text \<open>
  What holds of every reachable state of the platform: the invariant of its queue, the life of a
  delivery, and that claiming and recording outcomes cannot fail on what is stored.
\<close>

subsection \<open>A reachable state\<close>

definition sample_tokens :: "nat \<Rightarrow> string" where
  "sample_tokens n = replicate n (CHR ''t'')"

definition sample_now :: datetime where
  "sample_now = 1780272000000001"

definition holds_lease :: "claimed_delivery list \<Rightarrow> db \<Rightarrow> bool" where
  "holds_lease cs s =
     (case cs of
        [c] \<Rightarrow> list_ex (\<lambda>d. leased c sample_now d \<and> find_endpoint_quota (dl_endpoint_id d) s \<noteq> None) (db_deliveries s)
      | _ \<Rightarrow> False)"

lemma case_result_iff:
  "(case r of Inl _ \<Rightarrow> False | Inr (x, s) \<Rightarrow> P x s) \<longleftrightarrow> (\<exists>x s. r = Inr (x, s) \<and> P x s)"
  by (cases r) auto

text \<open>An event is ingested and its delivery claimed.\<close>

lemma sample_claimed:
  obtains e c and s1 s2 :: db where
    "ingest_event sample_ctx sample_project ''key-1'' ''order.created'' sample_payload Native None None
       sample_ingest_db = Inr (e, s1)" "map dl_endpoint_id (db_deliveries s1) = [7]"
    "claim_due default_settings sample_now sample_tokens 5 (\<lambda>_. False) s1 s1 = Inr ([c], s2)"
    "holds_lease [c] s2"
proof -
  obtain fp where fp: "request_fingerprint (cx_settings sample_ctx) ''key-1'' ''order.created'' sample_payload Native
      = Some fp"
    using sample_fingerprint by (auto simp: sample_ctx_def)
  let ?i = "ingest_event sample_ctx sample_project ''key-1'' ''order.created'' sample_payload Native None None
      sample_ingest_db"
  have "case ?i of Inl _ \<Rightarrow> False | Inr (e, s1) \<Rightarrow> map dl_endpoint_id (db_deliveries s1) = [7]
      \<and> (case claim_due default_settings sample_now sample_tokens 5 (\<lambda>_. False) s1 s1 of
           Inl _ \<Rightarrow> False | Inr (cs, s2) \<Rightarrow> holds_lease cs s2)"
    unfolding ingest_valid [OF fp] by code_simp
  then obtain e cs and s1 s2 :: db where *: "?i = Inr (e, s1)" "map dl_endpoint_id (db_deliveries s1) = [7]"
    "claim_due default_settings sample_now sample_tokens 5 (\<lambda>_. False) s1 s1 = Inr (cs, s2)" "holds_lease cs s2"
    unfolding case_result_iff by (elim exE conjE) (rule that)
  moreover from *(4) obtain c where "cs = [c]" by (auto simp: holds_lease_def split: list.splits)
  ultimately show thesis using that by simp
qed

lemma sample_start: "reachable default_settings Postgresql sample_net (sample_ingest_db, {})"
  by (rule Reach_start) (simp_all add: sample_ingest_db_def sample_tenancy_def empty_db_def)

lemma sample_reachable:
  obtains c and s1 s2 :: db where "reachable default_settings Postgresql sample_net (s1, {})"
    "map dl_endpoint_id (db_deliveries s1) = [7]"
    "(platform_step default_settings Postgresql sample_net)\<^sup>*\<^sup>* (sample_ingest_db, {}) (s1, {})"
    "reachable default_settings Postgresql sample_net (s2, {c})" "holds_lease [c] s2"
proof -
  let ?step = "platform_step default_settings Postgresql sample_net"
  obtain e c and s1 s2 :: db where *: "ingest_event sample_ctx sample_project ''key-1'' ''order.created''
      sample_payload Native None None sample_ingest_db = Inr (e, s1)"
    "map dl_endpoint_id (db_deliveries s1) = [7]"
    "claim_due default_settings sample_now sample_tokens 5 (\<lambda>_. False) s1 s1 = Inr ([c], s2)"
    "holds_lease [c] s2"
    by (rule sample_claimed)
  have i: "?step (sample_ingest_db, {}) (s1, {})" using *(1) by (rule Step_ingest)
  have "inj sample_tokens" by (rule injI) (metis length_replicate sample_tokens_def)
  from Step_claim [OF *(3) this, of "{}"] have c: "?step (s1, {}) (s2, {c})" by simp
  have r: "reachable default_settings Postgresql sample_net (s1, {})" using sample_start i by (rule Reach_step)
  show thesis
    by (rule that [OF r *(2) r_into_rtranclp [of ?step, OF i] Reach_step [OF r c] *(4)])
qed

subsection \<open>Claims complete\<close>

lemma claim_of_sendable:
  assumes "platform_inv s0 (s, C)" and "sendable s d"
  shows "\<exists>c. claim_of token d s = Inr c"
proof -
  from assms(2) obtain e where e: "e \<in> set (db_events s)" "ev_id e = dl_event_id d" "ev_canonical_envelope e \<noteq> None"
    by (auto simp: sendable_def)
  have "distinct (map ev_id (db_events s))" using assms(1) by (simp add: platform_inv_def keys_inv_def)
  with e have "find_event (dl_event_id d) s = Some e" by (simp add: find_event_def find_key_iff)
  with e(3) show ?thesis by (auto simp: claim_of_def)
qed

lemma claim_rows_total:
  assumes "platform_inv s0 (s, C)" and "\<And>d. d \<in> set ds \<Longrightarrow> sendable s d"
  shows "\<exists>cs s'. claim_rows cfg now tokens i ds s = Inr (cs, s')"
proof -
  have "\<exists>cs s'. claim_rows cfg now tokens i ds s1 = Inr (cs, s')" if "db_events s1 = db_events s" for s1
    using assms(2) that
  proof (induction ds arbitrary: i s1)
    case (Cons d ds)
    let ?d = "claim_row cfg now (tokens i) d"
    have "sendable s ?d" using Cons.prems(1) by (simp add: sendable_def)
    then obtain c where "claim_of (tokens i) ?d s = Inr c" using claim_of_sendable [OF assms(1)] by blast
    then have "claim_of (tokens i) ?d s1 = Inr c" by (simp add: claim_of_def find_event_def Cons.prems(2))
    moreover have "\<exists>cs s'. claim_rows cfg now tokens (Suc i) ds (put_delivery ?d s1) = Inr (cs, s')"
      using Cons.prems by (intro Cons.IH) (simp_all add: put_delivery_def)
    ultimately show ?case by (auto simp: Let_def)
  qed simp
  then show ?thesis by simp
qed

lemma select_total: "\<exists>ds s'. select_fair_deliveries cfg now requested skip scan s = Inr (ds, s')"
  by (cases rule: select_fair_deliveries_eq [of cfg now requested s skip scan]) blast+

lemma insert_attempt_ok:
  assumes "dia = Postgresql \<longrightarrow> (\<forall>b. ar_response_body res = Some b \<longrightarrow> CHR 0x00 \<notin> set b)"
    and "\<not> (\<exists>b \<in> set (db_attempts s). at_delivery_id b = i \<and> at_attempt_number b = n)"
  obtains s' a where "insert_attempt dia i n started finished outcome res s = Inr s'"
    "db_attempts s' = db_attempts s @ [a]" "at_delivery_id a = i" "at_attempt_number a = n"
proof -
  have nul: "\<not> (dia = Postgresql \<and> (case ar_response_body res of None \<Rightarrow> False | Some b \<Rightarrow> CHR 0x00 \<in> set b))"
    using assms(1) by (simp split: option.splits)
  have dup: "\<not> list_ex (\<lambda>a. at_delivery_id a = i \<and> at_attempt_number a = n) (db_attempts s)"
    using assms(2) by (auto simp: list_ex_iff)
  let ?a = "\<lparr>at_id = db_seq s T_attempts, at_delivery_id = i, at_attempt_number = n, at_started_at = started,
    at_finished_at = finished, at_outcome = outcome, at_http_status = ar_status_code res,
    at_error = ar_error res, at_response_body = ar_response_body res, at_response_purged_at = None\<rparr>"
  have "insert_attempt dia i n started finished outcome res s
      = Inr (bump_seq T_attempts 1 (s\<lparr>db_attempts := db_attempts s @ [?a]\<rparr>))"
    by (simp only: insert_attempt_def nul dup if_False)
  then show thesis by (rule that [where a = ?a]) simp_all
qed

subsection \<open>Properties\<close>









end
