(* ===== verification/Codecs.thy ===== *)
theory Codecs
  imports Webhook_Security
begin

text \<open>
  Library functions the SDK's receiver uses (splitting and parsing strings, base-64 decoding), and the
  facts about them and about the digests of the platform: lengths, alphabets and round trips.
\<close>

subsection \<open>Library functions\<close>

text \<open>\<^verbatim>\<open>str.split\<close> at a separator, \<^verbatim>\<open>str.split()\<close> at runs of whitespace, and \<^verbatim>\<open>str.partition\<close>.\<close>

fun split_on :: "(char \<Rightarrow> bool) \<Rightarrow> string \<Rightarrow> string list" where
  "split_on p [] = [[]]"
| "split_on p (c # cs) =
     (if p c then [] # split_on p cs
      else case split_on p cs of [] \<Rightarrow> [[c]] | x # xs \<Rightarrow> (c # x) # xs)"

definition split_spaces :: "string \<Rightarrow> string list" where
  "split_spaces s = filter (\<lambda>w. w \<noteq> []) (split_on is_space s)"

definition partition_char :: "char \<Rightarrow> string \<Rightarrow> string \<times> bool \<times> string" where
  "partition_char c s = (takeWhile (\<lambda>x. x \<noteq> c) s, c \<in> set s, drop 1 (dropWhile (\<lambda>x. x \<noteq> c) s))"

text \<open>
  \<^verbatim>\<open>int(s)\<close> on a string that passed \<^verbatim>\<open>isdigit\<close>: the superscript digits pass it too and are refused
  here, as are more than 4300 digits.
\<close>

definition py_int :: "string \<Rightarrow> int option" where
  "py_int s = (if list_all is_ascii_digit s \<and> length s \<le> 4300 then Some (int_of_digits s) else None)"

definition is_hex_digit :: "char \<Rightarrow> bool" where
  "is_hex_digit c \<longleftrightarrow> (let n = cp c in 48 \<le> n \<and> n \<le> 57 \<or> 65 \<le> n \<and> n \<le> 70 \<or> 97 \<le> n \<and> n \<le> 102)"

text \<open>
  \<^verbatim>\<open>base64.b64decode(s, validate=True)\<close>: complete groups over the standard alphabet, the last of
  which may be padded.
\<close>

definition b64_value :: "char \<Rightarrow> nat option" where
  "b64_value c =
     (let n = cp c
      in if 65 \<le> n \<and> n \<le> 90 then Some (n - 65)
         else if 97 \<le> n \<and> n \<le> 122 then Some (n - 71)
         else if 48 \<le> n \<and> n \<le> 57 then Some (n + 4)
         else if c = CHR ''+'' then Some 62
         else if c = CHR ''/'' then Some 63
         else None)"

fun b64decode :: "string \<Rightarrow> bytes option" where
  "b64decode [] = Some []"
| "b64decode (a # b # c # d # rest) =
     (case (b64_value a, b64_value b) of
        (Some x, Some y) \<Rightarrow>
          if d = CHR ''='' \<and> rest = [] then
            (if c = CHR ''='' then Some [char_of (x * 4 + y div 16)]
             else case b64_value c of
                    None \<Rightarrow> None
                  | Some z \<Rightarrow> Some [char_of (x * 4 + y div 16), char_of (y mod 16 * 16 + z div 4)])
          else
            (case (b64_value c, b64_value d) of
               (Some z, Some w) \<Rightarrow>
                 map_option (\<lambda>r. [char_of (x * 4 + y div 16), char_of (y mod 16 * 16 + z div 4),
                                  char_of (z mod 4 * 64 + w)] @ r) (b64decode rest)
             | _ \<Rightarrow> None)
      | _ \<Rightarrow> None)"
| "b64decode _ = None"

subsection \<open>Digests\<close>

lemma length_sha_round: "length v = 8 \<Longrightarrow> length (sha_round kw v) = 8"
  by (auto simp: sha_round_def Let_def split: prod.splits list.splits)

lemma length_sha_rounds: "length v = 8 \<Longrightarrow> length (fold sha_round kws v) = 8"
  by (induction kws arbitrary: v) (simp_all add: length_sha_round)

lemma length_sha_blocks: "length hash = 8 \<Longrightarrow> length (sha_blocks n ws hash) = 8"
  by (induction n arbitrary: ws hash) (simp_all add: sha_compress_def length_sha_rounds)

lemma length_sha256: "length (sha256 msg) = 32"
proof -
  have "length (sha_blocks n ws sha_initial) = 8" for n ws
    by (rule length_sha_blocks) (simp add: sha_initial_def)
  moreover have "length (concat (map bytes_of_word ws)) = 4 * length ws" for ws
    by (induction ws) (simp_all add: bytes_of_word_def)
  ultimately show ?thesis by (simp add: sha256_def Let_def)
qed

lemma length_hmac: "length (hmac_sha256 key msg) = 32"
  by (simp add: hmac_sha256_def Let_def length_sha256)

lemma hex_digit_range:
  assumes "n < 16"
  shows "cp (hex_digit n) = (if n < 10 then 48 + n else 87 + n)"
proof -
  have "list_all (\<lambda>n. cp (hex_digit n) = (if n < 10 then 48 + n else 87 + n)) [0..<16]" by code_simp
  moreover have "n \<in> set [0..<16]" using assms by (simp only: set_upt atLeastLessThan_iff) simp
  ultimately show ?thesis unfolding list_all_iff by (rule bspec)
qed

lemma of_char_less [simp]: "cp c < 256"
  by (metis of_char_mod_256 mod_less_divisor zero_less_numeral)

lemma hexdigest_chars: "c \<in> set (hexdigest bs) \<Longrightarrow> 48 \<le> cp c \<and> cp c \<le> 57 \<or> 97 \<le> cp c \<and> cp c \<le> 102"
proof -
  assume "c \<in> set (hexdigest bs)"
  then obtain b where "c = hex_digit (cp b div 16) \<or> c = hex_digit (cp b mod 16)"
    by (auto simp: hexdigest_def)
  moreover have "cp b div 16 < 16" "cp b mod 16 < 16"
    using of_char_less [of b] by (simp_all add: less_mult_imp_div_less)
  ultimately obtain n where "n < 16" "c = hex_digit n" by blast
  then show ?thesis by (auto simp: hex_digit_range)
qed

lemma length_hexdigest: "length (hexdigest bs) = 2 * length bs"
  by (induction bs) (simp_all add: hexdigest_def)

lemma lower_hexdigest: "lower (hexdigest bs) = hexdigest bs"
proof -
  have "map char_lower s = s" if "\<forall>c \<in> set s. 48 \<le> cp c \<and> cp c \<le> 57 \<or> 97 \<le> cp c \<and> cp c \<le> 102" for s
    using that by (induction s) (auto simp: char_lower_def Let_def)
  then show ?thesis using hexdigest_chars by (simp add: lower_def)
qed

subsection \<open>Base 64\<close>

lemma b64_value_digit: "b64_value (b64_digit n) = Some (n mod 64)"
proof -
  have v: "map b64_value b64_alphabet = map Some [0..<64]"
    by (simp add: b64_alphabet_def b64_value_def upt_rec)
  have "length b64_alphabet = 64" by (simp add: b64_alphabet_def)
  then have "b64_value (b64_alphabet ! (n mod 64)) = map b64_value b64_alphabet ! (n mod 64)" by simp
  then show ?thesis unfolding v b64_digit_def by simp
qed

lemma b64_digit_not_pad: "b64_digit n \<noteq> CHR ''=''"
  using b64_value_digit [of n] by (auto simp: b64_value_def)

text \<open>The four digits of three bytes.\<close>

lemma b64_split3:
  fixes a b c :: nat
  assumes "a < 256" "b < 256" "c < 256"
  defines "n \<equiv> (a * 256 + b) * 256 + c"
  shows "n div 262144 mod 64 = a div 4" (is ?one)
    and "n div 4096 mod 64 = a mod 4 * 16 + b div 16" (is ?two)
    and "n div 64 mod 64 = b mod 16 * 4 + c div 64" (is ?three)
    and "n mod 64 = c mod 64" (is ?four)
proof -
  obtain a1 a0 where a: "a = a1 * 4 + a0" "a0 < 4" by (metis div_mult_mod_eq mod_less_divisor zero_less_numeral)
  obtain b1 b0 where b: "b = b1 * 16 + b0" "b0 < 16" by (metis div_mult_mod_eq mod_less_divisor zero_less_numeral)
  obtain c1 c0 where c: "c = c1 * 64 + c0" "c0 < 64" by (metis div_mult_mod_eq mod_less_divisor zero_less_numeral)
  have n: "n = a1 * 262144 + (a0 * 16 + b1) * 4096 + (b0 * 4 + c1) * 64 + c0"
    by (simp add: n_def a(1) b(1) c(1) algebra_simps)
  have lim: "a1 < 64" "b1 < 16" "c1 < 4" using assms(1-3) a b c by auto
  have 1: "n div 262144 = a1" using n a(2) b(2) c(2) lim by (intro div_nat_eqI) auto
  have 2: "n div 4096 = a1 * 64 + (a0 * 16 + b1)" using n a(2) b(2) c(2) lim by (intro div_nat_eqI) auto
  have 3: "n div 64 = (a1 * 64 + a0 * 16 + b1) * 64 + (b0 * 4 + c1)"
    using n a(2) b(2) c(2) lim by (intro div_nat_eqI) auto
  show ?one using 1 lim a by simp
  show ?two using 2 lim a b by simp
  have "n div 64 mod 64 = (b0 * 4 + c1) mod 64" unfolding 3 by (rule mod_mult_self3)
  then show ?three using lim b c by simp
  have "n = (a1 * 4096 + (a0 * 16 + b1) * 64 + (b0 * 4 + c1)) * 64 + c0" by (simp add: n algebra_simps)
  then have "n mod 64 = c0 mod 64" by (metis mod_mult_self3)
  then show ?four using c by simp
qed

lemma b64_join:
  fixes a b c :: nat
  assumes "b < 256" "c < 256"
  shows "a div 4 * 4 + (a mod 4 * 16 + b div 16) div 16 = a \<and>
    (a mod 4 * 16 + b div 16) mod 16 * 16 + (b mod 16 * 4 + c div 64) div 4 = b \<and>
    (b mod 16 * 4 + c div 64) mod 4 * 64 + c mod 64 = c"
proof -
  have "b div 16 < 16" "c div 64 < 4" using assms by (simp_all add: less_mult_imp_div_less)
  then show ?thesis by simp
qed

text \<open>The digits of up to three bytes, and the bytes back from the digits.\<close>

lemma b64_group:
  fixes a b c :: char
  defines "n \<equiv> (cp a * 256 + cp b) * 256 + cp c"
  defines "x \<equiv> n div 262144 mod 64" and "y \<equiv> n div 4096 mod 64" and "z \<equiv> n div 64 mod 64" and "w \<equiv> n mod 64"
  shows "char_of (x * 4 + y div 16) = a" and "char_of (y mod 16 * 16 + z div 4) = b"
    and "char_of (z mod 4 * 64 + w) = c"
proof -
  have d: "x = cp a div 4" "y = cp a mod 4 * 16 + cp b div 16" "z = cp b mod 16 * 4 + cp c div 64" "w = cp c mod 64"
    unfolding x_def y_def z_def w_def n_def by (rule b64_split3; simp)+
  have "x * 4 + y div 16 = cp a" "y mod 16 * 16 + z div 4 = cp b" "z mod 4 * 64 + w = cp c"
    unfolding d using b64_join [of "cp b" "cp c" "cp a"] by simp_all
  then show "char_of (x * 4 + y div 16) = a" and "char_of (y mod 16 * 16 + z div 4) = b"
    and "char_of (z mod 4 * 64 + w) = c" by simp_all
qed

lemma b64decode_b64encode: "b64decode (b64encode bs) = Some bs"
proof (induction bs rule: b64encode.induct)
  case (2 a)
  define n where "n = cp a * 16"
  have "((cp a * 256 + cp (CHR 0x00)) * 256 + cp (CHR 0x00)) div 262144 = n div 64"
    "((cp a * 256 + cp (CHR 0x00)) * 256 + cp (CHR 0x00)) div 4096 = n"
    unfolding n_def by simp_all
  with b64_group(1) [of a "CHR 0x00" "CHR 0x00"] show ?case
    by (simp add: Let_def b64_value_digit n_def [symmetric])
next
  case (3 a b)
  define n where "n = (cp a * 256 + cp b) * 4"
  have "((cp a * 256 + cp b) * 256 + cp (CHR 0x00)) div 262144 = n div 4096"
    "((cp a * 256 + cp b) * 256 + cp (CHR 0x00)) div 4096 = n div 64"
    "((cp a * 256 + cp b) * 256 + cp (CHR 0x00)) div 64 = n"
    unfolding n_def by simp_all
  note eqs = this
  have g: "char_of (n div 4096 mod 64 * 4 + n div 64 mod 64 div 16) = a"
    "char_of (n div 64 mod 64 mod 16 * 16 + n mod 64 div 4) = b"
    using b64_group(1,2) [of a b "CHR 0x00"] unfolding eqs .
  have "b64encode [a, b] = [b64_digit (n div 4096), b64_digit (n div 64), b64_digit n, CHR ''='']"
    by (simp add: n_def Let_def)
  with g show ?case by (simp add: b64_value_digit b64_digit_not_pad)
next
  case (4 a b c rest)
  define n where "n = (cp a * 256 + cp b) * 256 + cp c"
  from 4 b64_group [of a b c] show ?case
    by (simp add: Let_def b64_value_digit b64_digit_not_pad n_def [symmetric])
qed simp

text \<open>The characters of an encoding, and the padding of 32 bytes.\<close>

definition b64_char :: "char \<Rightarrow> bool" where
  "b64_char c \<longleftrightarrow> c = CHR ''='' \<or> b64_value c \<noteq> None"

lemma b64_char_digit: "b64_char (b64_digit n)"
  by (simp add: b64_char_def b64_value_digit)

lemma b64_char_pad [simp]: "b64_char (CHR ''='')"
  by (simp add: b64_char_def)

lemma b64encode_chars: "list_all b64_char (b64encode bs)"
  by (induction bs rule: b64encode.induct) (simp_all add: Let_def b64_char_digit)

lemma b64_char_ascii:
  assumes "b64_char c"
  shows "cp c < 128 \<and> \<not> is_space c \<and> c \<noteq> CHR '',''"
  using assms by (auto simp: b64_char_def b64_value_def is_space_def Let_def split: if_splits)

lemma b64decode_none: "\<not> list_all b64_char s \<Longrightarrow> b64decode s = None"
proof (induction s rule: b64decode.induct)
  case (2 a b c d rest)
  show ?case
  proof (cases "b64_value a = None \<or> b64_value b = None")
    case True
    then show ?thesis by (auto split: option.splits)
  next
    case False
    then obtain x y where xy: "b64_value a = Some x" "b64_value b = Some y" by auto
    then have ab: "b64_char a" "b64_char b" by (simp_all add: b64_char_def)
    show ?thesis
    proof (cases "d = CHR ''='' \<and> rest = []")
      case True
      with 2(2) ab have "c \<noteq> CHR ''=''" "b64_value c = None" by (auto simp: b64_char_def)
      with True xy show ?thesis by simp
    next
      case False
      show ?thesis
      proof (cases "b64_value c = None \<or> b64_value d = None")
        case True
        with False xy show ?thesis by (auto split: option.splits)
      next
        case cd: False
        then have "b64_char c" "b64_char d" by (auto simp: b64_char_def)
        with 2(2) ab have "\<not> list_all b64_char rest" by simp
        moreover from cd obtain z w where "b64_value c = Some z" "b64_value d = Some w" by auto
        ultimately show ?thesis using 2(1) [OF refl xy False refl] xy False by simp
      qed
    qed
  qed
qed simp_all

lemma length_b64encode: "length (b64encode bs) = (length bs + 2) div 3 * 4"
proof (induction bs rule: b64encode.induct)
  case (4 a b c rest)
  have "(length (a # b # c # rest) + 2) div 3 = Suc ((length rest + 2) div 3)" by simp
  with 4 show ?case by (simp add: Let_def del: length_Cons)
qed (simp_all add: Let_def)

lemma b64encode_pad:
  "length bs mod 3 = 2 \<Longrightarrow> \<exists>p n. b64encode bs = p @ [b64_digit n, CHR ''='']"
proof (induction bs rule: b64encode.induct)
  case (3 a b)
  define n where "n = (cp a * 256 + cp b) * 4"
  have "b64encode [a, b] = [b64_digit (n div 4096), b64_digit (n div 64)] @ [b64_digit n, CHR ''='']"
    by (simp add: n_def Let_def)
  then show ?case by blast
next
  case (4 a b c rest)
  have "length (a # b # c # rest) mod 3 = length rest mod 3" by simp
  with 4(2) have "length rest mod 3 = 2" by metis
  with 4(1) obtain p n where r: "b64encode rest = p @ [b64_digit n, CHR ''='']" by blast
  obtain q where "b64encode (a # b # c # rest) = q @ b64encode rest" by (simp only: b64encode.simps Let_def)
  with r have "b64encode (a # b # c # rest) = (q @ p) @ [b64_digit n, CHR ''='']" by simp
  then show ?case by blast
qed simp_all

subsection \<open>Tokens and numbers\<close>

definition no_space :: "string \<Rightarrow> bool" where
  "no_space s \<longleftrightarrow> list_all (\<lambda>c. \<not> is_space c) s"

lemma split_on_none: "list_all (\<lambda>c. \<not> p c) s \<Longrightarrow> split_on p s = [s]"
  by (induction s) simp_all

lemma split_on_one:
  "list_all (\<lambda>c. \<not> p c) s \<Longrightarrow> p c \<Longrightarrow> split_on p (s @ c # t) = s # split_on p t"
  by (induction s) simp_all

lemma split_spaces_one: "no_space s \<Longrightarrow> s \<noteq> [] \<Longrightarrow> split_spaces s = [s]"
  by (simp add: split_spaces_def no_space_def split_on_none)

lemma strip_no_space:
  assumes "no_space s"
  shows "strip s = s"
proof -
  have d: "dropWhile is_space t = t" if "list_all (\<lambda>c. \<not> is_space c) t" for t
    using that by (cases t) simp_all
  then show ?thesis using assms by (simp add: strip_def no_space_def)
qed

lemma partition_char_append:
  "c \<notin> set a \<Longrightarrow> partition_char c (a @ c # b) = (a, True, b)"
  by (simp add: partition_char_def takeWhile_append dropWhile_append)

lemma digits_no_space: "no_space (digits_of_nat n)"
  unfolding no_space_def list_all_iff
  using digits_of_nat_ascii by (fastforce simp: is_space_def Let_def)

lemma str_of_nonneg: "0 \<le> n \<Longrightarrow> str_of_int n = digits_of_nat (nat n)"
  by (simp add: str_of_int_def)

lemma digits_chars:
  "list_all is_ascii_digit (digits_of_nat n)" "digits_of_nat n \<noteq> []"
  by (auto simp: list_all_iff is_ascii_digit_def dest: digits_of_nat_ascii)
    (simp add: digits_of_nat.simps [of n] split: if_splits)

lemma length_digits: "n < 10 ^ Suc k \<Longrightarrow> length (digits_of_nat n) \<le> Suc k"
proof (induction k arbitrary: n)
  case 0
  then show ?case by (simp add: digits_of_nat.simps [of n])
next
  case (Suc k)
  show ?case
  proof (cases "n < 10")
    case True
    then show ?thesis by (simp add: digits_of_nat.simps [of n])
  next
    case False
    have "n div 10 < 10 ^ Suc k" using Suc.prems by (simp add: less_mult_imp_div_less)
    from Suc.IH [OF this] False show ?thesis by (simp add: digits_of_nat.simps [of n])
  qed
qed

lemma parse_timestamp:
  assumes "0 \<le> t" and "t < 10 ^ 12"
  shows "is_digits (str_of_int t)" and "py_int (str_of_int t) = Some t"
proof -
  have "nat t < 10 ^ Suc 11" using assms by (simp add: nat_less_iff)
  then have "length (digits_of_nat (nat t)) \<le> 12" using length_digits [of "nat t" 11] by simp
  then show "py_int (str_of_int t) = Some t"
    using assms(1) by (simp add: str_of_nonneg py_int_def digits_chars)
  show "is_digits (str_of_int t)"
    using digits_chars [of "nat t"] assms(1)
    by (simp add: str_of_nonneg is_digits_def list_all_iff is_digit_char_def)
qed

definition hex64 :: "string \<Rightarrow> bool" where
  "hex64 h \<longleftrightarrow> length h = 64 \<and> list_all (\<lambda>c. 48 \<le> cp c \<and> cp c \<le> 57 \<or> 97 \<le> cp c \<and> cp c \<le> 102) h"

lemma hex64_hmac: "hex64 (hexdigest (hmac_sha256 key msg))"
  using hexdigest_chars by (simp add: hex64_def length_hexdigest length_hmac list_all_iff)

lemma hex64_chars:
  assumes "hex64 h"
  shows "no_space h" "list_all is_hex_digit h" "list_all (\<lambda>c. c \<noteq> CHR '','') h" "length h = 64"
  using assms unfolding hex64_def no_space_def list_all_iff is_hex_digit_def is_space_def Let_def by fastforce+

end
