(* ===== verification/Receiver.thy ===== *)
theory Receiver
  imports Delivery_Service Codecs
begin

text \<open>
  \<^verbatim>\<open>sdk/python/src/webhook_platform_sdk/receiver.py\<close>: the verification a receiver runs on a webhook,
  and the receiver of \<^verbatim>\<open>examples/receiver/app.py\<close>, which accepts each event once.  The JSON parser
  is an argument, \<open>None\<close> where it raises.  Header values are Latin-1 strings, as servers decode them.
\<close>

subsection \<open>Signatures\<close>

text \<open>
  The exceptions: those of the module, and the plain ValueError that \<^verbatim>\<open>int\<close>, \<^verbatim>\<open>encode\<close> and the check
  of the tolerance raise.
\<close>

datatype receiver_error =
    InvalidSignature
  | SignatureExpired
  | DuplicateEvent string
  | ReceiverVerificationError string
  | Plain_ValueError string

record receiver_event =
  re_event_id :: string
  re_event_type :: string
  re_timestamp :: int
  re_body :: "(string \<times> json) list"
  re_raw_body :: bytes

text \<open>The loops of \<^verbatim>\<open>_signature_parts\<close> over the items of a token and over the tokens.\<close>

fun signature_items ::
  "string list \<Rightarrow> int option \<Rightarrow> string list \<Rightarrow> receiver_error + (int option \<times> string list)"
where
  "signature_items [] timestamp signatures = Inr (timestamp, signatures)"
| "signature_items (item # items) timestamp signatures =
     (case partition_char (CHR ''='') (strip item) of (name, separator, value) \<Rightarrow>
        if \<not> separator \<or> value = [] then Inl InvalidSignature
        else if name = ''t'' then
          (if timestamp \<noteq> None \<or> \<not> is_digits value then Inl InvalidSignature
           else case py_int value of
                  None \<Rightarrow> Inl (Plain_ValueError ''invalid literal for int()'')
                | Some n \<Rightarrow> signature_items items (Some n) signatures)
        else if name = ''v1'' then
          (if length value = 64 then
             (if \<not> list_all is_hex_digit value then Inl InvalidSignature
              else signature_items items timestamp (signatures @ [lower value]))
           else signature_items items timestamp signatures)
        else signature_items items timestamp signatures)"

definition legacy_token :: "string \<Rightarrow> bool" where
  "legacy_token token \<longleftrightarrow> CHR ''='' \<in> set (fst (partition_char (CHR '','') token))"

fun signature_tokens ::
  "string list \<Rightarrow> int option \<Rightarrow> string list \<Rightarrow> receiver_error + (int option \<times> string list)"
where
  "signature_tokens [] timestamp signatures = Inr (timestamp, signatures)"
| "signature_tokens (token # tokens) timestamp signatures =
     (if \<not> legacy_token token then signature_tokens tokens timestamp signatures
      else case signature_items (split_on (\<lambda>c. c = CHR '','') token) timestamp signatures of
             Inl e \<Rightarrow> Inl e
           | Inr (timestamp', signatures') \<Rightarrow> signature_tokens tokens timestamp' signatures')"

definition signature_parts :: "string \<Rightarrow> receiver_error + (int \<times> string list)" where
  "signature_parts header =
     (case signature_tokens (split_spaces header) None [] of
        Inl e \<Rightarrow> Inl e
      | Inr (None, signatures) \<Rightarrow> Inl InvalidSignature
      | Inr (Some timestamp, signatures) \<Rightarrow>
          if signatures = [] then Inl InvalidSignature else Inr (timestamp, signatures))"

definition standard_signatures :: "string \<Rightarrow> string list" where
  "standard_signatures header =
     map (\<lambda>token. snd (snd (partition_char (CHR '','') token)))
       (filter (\<lambda>token. case partition_char (CHR '','') token of (version, separator, value) \<Rightarrow>
           separator \<and> version = ''v1'' \<and> value \<noteq> [] \<and> is_ascii value)
         (split_spaces header))"

definition to_standard_alphabet :: "string \<Rightarrow> string" where
  "to_standard_alphabet s =
     map (\<lambda>c. if c = CHR ''-'' then CHR ''+'' else if c = CHR ''_'' then CHR ''/'' else c) s"

definition secret_key_bytes :: "string \<Rightarrow> bytes option" where
  "secret_key_bytes secret =
     (if \<not> startswith secret ''whsec_'' then None
      else let encoded = drop 6 secret;
               padded = encoded @ replicate ((4 - length encoded mod 4) mod 4) (CHR ''='')
           in case b64decode padded of
                Some key \<Rightarrow> Some key
              | None \<Rightarrow> b64decode (to_standard_alphabet padded))"

definition header_has_legacy_token :: "string \<Rightarrow> bool" where
  "header_has_legacy_token header \<longleftrightarrow> list_ex legacy_token (split_spaces header)"

definition verify_signature :: "bytes \<Rightarrow> string \<Rightarrow> string \<Rightarrow> int \<Rightarrow> int \<Rightarrow> receiver_error + int" where
  "verify_signature raw_body signature_header secret tolerance_seconds now =
     (if tolerance_seconds < 0 then Inl (Plain_ValueError ''tolerance_seconds must be non-negative'')
      else case signature_parts signature_header of
        Inl e \<Rightarrow> Inl e
      | Inr (timestamp, signatures) \<Rightarrow>
          if \<bar>now - timestamp\<bar> > tolerance_seconds then Inl SignatureExpired
          else let signed = str_of_int timestamp @ ''.'' @ raw_body;
                   expected = hexdigest (hmac_sha256 (utf8_encode secret) signed)
               in if \<not> list_ex (compare_digest expected) signatures then Inl InvalidSignature
                  else Inr timestamp)"

definition verify_signature_standard ::
  "bytes \<Rightarrow> string \<Rightarrow> string option \<Rightarrow> string \<Rightarrow> string \<Rightarrow> int \<Rightarrow> int \<Rightarrow> receiver_error + int"
where
  "verify_signature_standard raw_body event_id timestamp_header signature_header secret
     tolerance_seconds now =
     (if tolerance_seconds < 0 then Inl (Plain_ValueError ''tolerance_seconds must be non-negative'')
      else case timestamp_header of
        None \<Rightarrow> Inl InvalidSignature
      | Some value \<Rightarrow>
      if \<not> is_digits value then Inl InvalidSignature
      else case py_int value of
        None \<Rightarrow> Inl (Plain_ValueError ''invalid literal for int()'')
      | Some timestamp \<Rightarrow>
          if \<bar>now - timestamp\<bar> > tolerance_seconds then Inl SignatureExpired
          else let signatures = standard_signatures signature_header
               in case secret_key_bytes secret of
                    None \<Rightarrow> Inl InvalidSignature
                  | Some key \<Rightarrow>
                      if signatures = [] then Inl InvalidSignature
                      else if \<not> is_ascii event_id then Inl (Plain_ValueError ''ascii codec'')
                      else let signed = event_id @ ''.'' @ str_of_int timestamp @ ''.'' @ raw_body;
                               expected = b64encode (hmac_sha256 key signed)
                           in if \<not> list_ex (compare_digest expected) signatures
                              then Inl InvalidSignature else Inr timestamp)"

subsection \<open>Requests\<close>

text \<open>The dictionary of the headers by lower-case name; a later header replaces an earlier one.\<close>

definition normalized_get :: "(string \<times> string) list \<Rightarrow> string \<Rightarrow> string option" where
  "normalized_get headers name = map_of (rev (map (\<lambda>(k, v). (lower k, v)) headers)) name"

definition verify_request ::
  "(bytes \<Rightarrow> json option) \<Rightarrow> bytes \<Rightarrow> (string \<times> string) list \<Rightarrow> string \<Rightarrow> int \<Rightarrow> int
   \<Rightarrow> receiver_error + receiver_event"
where
  "verify_request loads raw_body headers secret tolerance_seconds now =
     (case (normalized_get headers ''webhook-signature'', normalized_get headers ''webhook-id'',
            normalized_get headers ''webhook-event'') of
        (Some signature, Some event_id, Some event_type) \<Rightarrow>
          (if signature = [] \<or> event_id = [] \<or> event_type = [] then Inl InvalidSignature
           else
             let timestamp_header = normalized_get headers ''webhook-timestamp'';
                 verified =
                   (if header_has_legacy_token signature then
                      (case verify_signature raw_body signature secret tolerance_seconds now of
                         Inl e \<Rightarrow> Inl e
                       | Inr timestamp \<Rightarrow>
                           if timestamp_header \<noteq> Some (str_of_int timestamp) then Inl InvalidSignature
                           else Inr timestamp)
                    else verify_signature_standard raw_body event_id timestamp_header signature secret
                           tolerance_seconds now)
             in case verified of
                  Inl e \<Rightarrow> Inl e
                | Inr timestamp \<Rightarrow>
                    (case loads raw_body of
                       None \<Rightarrow> Inl (ReceiverVerificationError ''Webhook body is not valid JSON'')
                     | Some (JObject document) \<Rightarrow>
                         if map_of document ''id'' \<noteq> Some (JString event_id)
                            \<or> map_of document ''type'' \<noteq> Some (JString event_type)
                         then Inl (ReceiverVerificationError
                                ''Webhook headers do not match the signed body'')
                         else Inr \<lparr>re_event_id = event_id, re_event_type = event_type,
                                   re_timestamp = timestamp, re_body = document,
                                   re_raw_body = raw_body\<rparr>
                     | Some _ \<Rightarrow> Inl (ReceiverVerificationError ''Webhook body must be a JSON object'')))
      | _ \<Rightarrow> Inl InvalidSignature)"

text \<open>\<open>claim\<close> is the \<^verbatim>\<open>DurableDeduplicator\<close>, on its durable state.\<close>

definition verify_and_claim ::
  "(bytes \<Rightarrow> json option) \<Rightarrow> (string \<Rightarrow> 'd \<Rightarrow> bool \<times> 'd) \<Rightarrow> bytes \<Rightarrow> (string \<times> string) list \<Rightarrow> string \<Rightarrow>
   int \<Rightarrow> int \<Rightarrow> 'd \<Rightarrow> (receiver_error + receiver_event) \<times> 'd"
where
  "verify_and_claim loads claim raw_body headers secret tolerance_seconds now st =
     (case verify_request loads raw_body headers secret tolerance_seconds now of
        Inl e \<Rightarrow> (Inl e, st)
      | Inr event \<Rightarrow>
          (case claim (re_event_id event) st of (first, st') \<Rightarrow>
             (if \<not> first then Inl (DuplicateEvent (re_event_id event)) else Inr event, st')))"

subsection \<open>The example receiver\<close>

record inbox_row =
  in_event_id :: string
  in_event_type :: string
  in_body :: bytes

definition accept_once :: "string \<Rightarrow> string \<Rightarrow> bytes \<Rightarrow> inbox_row list \<Rightarrow> bool \<times> inbox_row list" where
  "accept_once event_id event_type body inbox =
     (if list_ex (\<lambda>r. in_event_id r = event_id) inbox then (False, inbox)
      else (True, inbox @ [\<lparr>in_event_id = event_id, in_event_type = event_type, in_body = body\<rparr>]))"

text \<open>The status of the response; an exception that is no ReceiverVerificationError is a 500.\<close>

definition receive ::
  "(bytes \<Rightarrow> json option) \<Rightarrow> string \<Rightarrow> bytes \<Rightarrow> (string \<times> string) list \<Rightarrow> int \<Rightarrow> inbox_row list
   \<Rightarrow> int \<times> inbox_row list"
where
  "receive loads secret raw_body headers now inbox =
     (case verify_request loads raw_body headers secret 300 now of
        Inl (Plain_ValueError _) \<Rightarrow> (500, inbox)
      | Inl _ \<Rightarrow> (400, inbox)
      | Inr event \<Rightarrow>
          (case accept_once (re_event_id event) (re_event_type event) raw_body inbox of
             (accepted, inbox') \<Rightarrow> (if accepted then 202 else 204, inbox')))"

end
