(* ===== verification/Receiver_Safety.thy ===== *)
theory Receiver_Safety
  imports Receiver Ingest
begin

text \<open>
  What the sender signs, the receiver verifies; and what the receiver verifies carries the
  authentication code of its secret.
\<close>

subsection \<open>The two serializations of a secret\<close>

lemma to_standard_urlsafe: "to_standard_alphabet (urlsafe_b64encode bs) = b64encode bs"
proof -
  have "to_standard_alphabet (map (\<lambda>c. if c = CHR ''+'' then CHR ''-'' else if c = CHR ''/'' then CHR ''_'' else c) s) = s"
    if "list_all b64_char s" for s
    using that by (induction s) (auto simp: to_standard_alphabet_def b64_char_def b64_value_def)
  then show ?thesis using b64encode_chars by (simp add: urlsafe_b64encode_def)
qed

lemma urlsafe_same:
  assumes "list_all b64_char (urlsafe_b64encode bs)"
  shows "urlsafe_b64encode bs = b64encode bs"
proof -
  have "map (\<lambda>c. if c = CHR ''+'' then CHR ''-'' else if c = CHR ''/'' then CHR ''_'' else c) s = s"
    if "list_all b64_char (map (\<lambda>c. if c = CHR ''+'' then CHR ''-'' else if c = CHR ''/'' then CHR ''_'' else c) s)" for s
    using that by (induction s) (auto simp: b64_char_def b64_value_def split: if_splits)
  then show ?thesis using assms by (simp add: urlsafe_b64encode_def)
qed

lemma decode_urlsafe:
  "(case b64decode (urlsafe_b64encode bs) of
      Some key \<Rightarrow> Some key | None \<Rightarrow> b64decode (to_standard_alphabet (urlsafe_b64encode bs))) = Some bs"
proof (cases "list_all b64_char (urlsafe_b64encode bs)")
  case True
  then show ?thesis by (simp add: urlsafe_same b64decode_b64encode)
next
  case False
  then show ?thesis by (simp add: b64decode_none to_standard_urlsafe b64decode_b64encode)
qed

lemma secret_key_prefix:
  assumes "e @ replicate ((4 - length e mod 4) mod 4) (CHR ''='') = padded"
  shows "secret_key_bytes (''whsec_'' @ e) =
    (case b64decode padded of Some key \<Rightarrow> Some key | None \<Rightarrow> b64decode (to_standard_alphabet padded))"
proof -
  have "startswith (''whsec_'' @ e) ''whsec_''" by (rule startswith_append)
  moreover have "drop 6 (''whsec_'' @ e) = e" by simp
  ultimately show ?thesis unfolding secret_key_bytes_def Let_def by (simp only: assms if_False not_True_eq_False)
qed

lemma secret_key_standard:
  assumes "length key = 32"
  shows "secret_key_bytes (''whsec_'' @ b64encode key) = Some key"
  by (subst secret_key_prefix [of _ "b64encode key"])
    (simp_all add: assms length_b64encode b64decode_b64encode)

lemma secret_key_legacy:
  assumes "length key = 32"
  shows "secret_key_bytes (''whsec_'' @ rstrip_char (CHR ''='') (urlsafe_b64encode key)) = Some key"
proof -
  from assms obtain p n where "b64encode key = p @ [b64_digit n, CHR ''='']" using b64encode_pad [of key] by auto
  then obtain q d where u: "urlsafe_b64encode key = q @ [d, CHR ''='']" "d \<noteq> CHR ''=''"
    by (simp add: urlsafe_b64encode_def b64_digit_not_pad)
  have "length (urlsafe_b64encode key) = 44" using assms by (simp add: urlsafe_b64encode_def length_b64encode)
  with u(1) have q: "length q = 42" by simp
  have "rstrip_char (CHR ''='') (urlsafe_b64encode key) = q @ [d]" using u by (simp add: rstrip_char_def)
  moreover have "(q @ [d]) @ replicate ((4 - length (q @ [d]) mod 4) mod 4) (CHR ''='') = urlsafe_b64encode key"
    using u(1) q by simp
  ultimately show ?thesis using decode_urlsafe [of key] by (simp only: secret_key_prefix)
qed

subsection \<open>The headers of the two schemes\<close>

lemma legacy_items:
  assumes "0 \<le> t" "t < 10 ^ 12" and h: "hex64 h"
  shows "signature_items [''t='' @ str_of_int t, ''v1='' @ h] None [] = Inr (Some t, [lower h])"
proof -
  have ns: "no_space (''t='' @ str_of_int t)" "no_space (''v1='' @ h)"
    using hex64_chars(1) [OF h] digits_no_space [of "nat t"] assms(1)
    by (simp_all add: no_space_def str_of_nonneg is_space_def)
  have p: "partition_char (CHR ''='') (''t='' @ str_of_int t) = (''t'', True, str_of_int t)"
    "partition_char (CHR ''='') (''v1='' @ h) = (''v1'', True, h)"
    by (simp_all add: partition_char_def)
  have "str_of_int t \<noteq> []" "h \<noteq> []"
    using parse_timestamp(1) [OF assms(1,2)] hex64_chars(4) [OF h] by (auto simp: is_digits_def)
  with parse_timestamp [OF assms(1,2)] hex64_chars [OF h] show ?thesis
    by (simp add: strip_no_space [OF ns(1)] strip_no_space [OF ns(2)] p del: append.simps)
qed

lemma legacy_header:
  assumes t: "0 \<le> t" "t < 10 ^ 12" and h: "hex64 h"
  defines "header \<equiv> ''t='' @ str_of_int t @ '',v1='' @ h"
  shows "signature_parts header = Inr (t, [lower h])" and "header_has_legacy_token header"
proof -
  have digits: "list_all (\<lambda>c. c \<noteq> CHR '','') (str_of_int t)"
    using digits_of_nat_ascii t(1) unfolding list_all_iff by (fastforce simp: str_of_nonneg)
  have "no_space header"
    using hex64_chars(1) [OF h] digits_no_space [of "nat t"] t(1)
    by (simp add: header_def no_space_def str_of_nonneg is_space_def)
  then have tok: "split_spaces header = [header]" by (rule split_spaces_one) (simp add: header_def)
  have leg: "legacy_token header" by (simp add: header_def legacy_token_def partition_char_def)
  have h_eq: "header = (''t='' @ str_of_int t) @ CHR '','' # ''v1='' @ h" by (simp add: header_def)
  have "split_on (\<lambda>c. c = CHR '','') header = [''t='' @ str_of_int t, ''v1='' @ h]"
    unfolding h_eq using digits hex64_chars(3) [OF h] by (subst split_on_one) (simp_all add: split_on_none)
  then show "signature_parts header = Inr (t, [lower h])"
    using legacy_items [OF assms(1-3)] by (simp add: signature_parts_def tok leg)
  show "header_has_legacy_token header" by (simp add: header_has_legacy_token_def tok leg)
qed

lemma standard_header:
  fixes key :: bytes
  defines "header \<equiv> ''v1,'' @ b64encode key"
  assumes "key \<noteq> []"
  shows "standard_signatures header = [b64encode key]" and "\<not> header_has_legacy_token header"
proof -
  have chars: "c \<in> set (b64encode key) \<Longrightarrow> cp c < 128 \<and> \<not> is_space c \<and> c \<noteq> CHR '',''" for c
    using b64encode_chars [of key] b64_char_ascii by (auto simp: list_all_iff)
  have "length (b64encode key) \<noteq> 0" using assms(2) by (cases key) (simp_all add: length_b64encode)
  then have ne: "b64encode key \<noteq> []" by auto
  have "no_space header" using chars by (simp add: header_def no_space_def list_all_iff is_space_def)
  then have tok: "split_spaces header = [header]" by (rule split_spaces_one) (simp add: header_def)
  have p: "partition_char (CHR '','') header = (''v1'', True, b64encode key)"
    using partition_char_append [of "CHR '',''" "''v1''" "b64encode key"] by (simp add: header_def)
  show "standard_signatures header = [b64encode key]"
    using chars ne by (simp add: standard_signatures_def tok p is_ascii_def list_all_iff)
  show "\<not> header_has_legacy_token header"
    by (simp add: header_has_legacy_token_def tok legacy_token_def p)
qed

subsection \<open>The envelope\<close>

lemma map_of_sort_key:
  fixes kvs :: "(string \<times> 'a) list"
  assumes "distinct (map fst kvs)"
  shows "map_of (sort_key fst kvs) = map_of kvs"
proof -
  have "mset (map fst (sort_key fst kvs)) = mset (map fst kvs)" by simp
  with assms have "distinct (map fst (sort_key fst kvs))" by (metis mset_eq_imp_distinct_iff)
  with assms show ?thesis by (simp add: map_of_inject_set)
qed

lemma envelope_fields:
  "\<exists>doc. json_sort_keys (event_envelope project event_id event_type payload mode now) = JObject doc
     \<and> map_of doc ''id'' = Some (JString event_id) \<and> map_of doc ''type'' = Some (JString event_type)"
  by (simp add: event_envelope_def map_of_sort_key)

subsection \<open>What a delivery attempt sends\<close>

lemma lower_names:
  "lower ''Content-Type'' = ''content-type''" "lower ''User-Agent'' = ''user-agent''"
  "lower ''Webhook-Id'' = ''webhook-id''" "lower ''Webhook-Timestamp'' = ''webhook-timestamp''"
  "lower ''Webhook-Signature'' = ''webhook-signature''" "lower ''Webhook-Event'' = ''webhook-event''"
  "lower ''Webhook-Attempt'' = ''webhook-attempt''"
  by code_simp+

lemma attempt_headers:
  "normalized_get (rq_headers (attempt_request claim ts signature)) ''webhook-signature'' = Some signature"
  "normalized_get (rq_headers (attempt_request claim ts signature)) ''webhook-id'' = Some (cd_event_public_id claim)"
  "normalized_get (rq_headers (attempt_request claim ts signature)) ''webhook-event'' = Some (cd_event_type claim)"
  "normalized_get (rq_headers (attempt_request claim ts signature)) ''webhook-timestamp'' = Some (str_of_int ts)"
  by (simp_all add: normalized_get_def attempt_request_def lower_names)

text \<open>The secrets a receiver may hold for an endpoint under a scheme.\<close>

definition receiver_secrets :: "settings \<Rightarrow> claimed_delivery \<Rightarrow> string set" where
  "receiver_secrets cfg claim =
     (let legacy = endpoint_secret (webhook_signing_key cfg) (cd_endpoint_public_id claim)
            (cd_endpoint_secret_version claim);
          standard = endpoint_secret_standard (webhook_signing_key cfg) (cd_endpoint_public_id claim)
            (cd_endpoint_secret_version claim)
      in if cd_signature_scheme claim = Standard then {legacy, standard} else {legacy})"

lemma secret_decodes:
  assumes "cd_signature_scheme claim = Standard" and "secret \<in> receiver_secrets cfg claim"
  shows "secret_key_bytes secret = Some (endpoint_secret_digest (webhook_signing_key cfg)
    (cd_endpoint_public_id claim) (cd_endpoint_secret_version claim))"
  using assms secret_key_legacy secret_key_standard
  by (auto simp: receiver_secrets_def endpoint_secret_def endpoint_secret_standard_def
    endpoint_secret_digest_def length_hmac Let_def)

text \<open>The signature check on what the platform signed.\<close>

lemma verify_legacy:
  assumes "0 \<le> t" "t < 10 ^ 12" "\<bar>now - t\<bar> \<le> tolerance"
  shows "verify_signature body (snd (sign_payload body secret t)) secret tolerance now = Inr t"
    and "header_has_legacy_token (snd (sign_payload body secret t))"
  using legacy_header [OF assms(1,2) hex64_hmac, of "utf8_encode secret" "signed_legacy t body"] assms(3)
  by (simp_all add: verify_signature_def sign_payload_def Let_def lower_hexdigest signed_legacy_def compare_digest_def)

lemma verify_standard:
  assumes "0 \<le> t" "t < 10 ^ 12" "\<bar>now - t\<bar> \<le> tolerance"
    and "secret_key_bytes secret = Some key"
    and "sign_payload_standard event_id body key t = Inr (ts, signature)"
  shows "ts = t" and "\<not> header_has_legacy_token signature"
    and "verify_signature_standard body event_id (Some (str_of_int t)) signature secret tolerance now = Inr t"
proof -
  from assms(5) have ascii: "is_ascii event_id" and ts: "ts = t"
    and sig: "signature = ''v1,'' @ b64encode (hmac_sha256 key (signed_standard event_id t body))"
    by (auto simp: sign_payload_standard_def split: if_splits)
  have "hmac_sha256 key (signed_standard event_id t body) \<noteq> []"
    using length_hmac [of key "signed_standard event_id t body"] by auto
  note h = standard_header [OF this, folded sig]
  show "ts = t" by (rule ts)
  show "\<not> header_has_legacy_token signature" by (rule h(2))
  show "verify_signature_standard body event_id (Some (str_of_int t)) signature secret tolerance now = Inr t"
    using parse_timestamp [OF assms(1,2)] assms(3,4) ascii h(1)
    by (simp add: verify_signature_standard_def Let_def signed_standard_def compare_digest_def)
qed

text \<open>After the signature, a request whose body parses to an object with the same id and type passes.\<close>

lemma verify_request_passes:
  assumes "normalized_get headers ''webhook-signature'' = Some signature" "signature \<noteq> []"
    and "normalized_get headers ''webhook-id'' = Some event_id" "event_id \<noteq> []"
    and "normalized_get headers ''webhook-event'' = Some event_type" "event_type \<noteq> []"
    and "normalized_get headers ''webhook-timestamp'' = Some (str_of_int t)"
    and "if header_has_legacy_token signature
      then verify_signature body signature secret tolerance now = Inr t
      else verify_signature_standard body event_id (Some (str_of_int t)) signature secret tolerance now = Inr t"
    and "loads body = Some (JObject doc)" "map_of doc ''id'' = Some (JString event_id)"
      "map_of doc ''type'' = Some (JString event_type)"
  shows "verify_request loads body headers secret tolerance now = Inr
    \<lparr>re_event_id = event_id, re_event_type = event_type, re_timestamp = t, re_body = doc, re_raw_body = body\<rparr>"
  using assms by (simp add: verify_request_def Let_def split: if_splits)

lemma attempt_passes:
  assumes doc: "loads (cd_canonical_envelope claim) = Some (JObject doc)"
      "map_of doc ''id'' = Some (JString (cd_event_public_id claim))"
      "map_of doc ''type'' = Some (JString (cd_event_type claim))"
    and ids: "cd_event_public_id claim \<noteq> []" "cd_event_type claim \<noteq> []"
    and sign: "sign_attempt cfg claim t = Inr (ts, signature)" and secret: "secret \<in> receiver_secrets cfg claim"
    and t: "0 \<le> t" "t < 10 ^ 12" "\<bar>now - t\<bar> \<le> tolerance"
  shows "verify_request loads (rq_content (attempt_request claim ts signature))
      (rq_headers (attempt_request claim ts signature)) secret tolerance now = Inr
    \<lparr>re_event_id = cd_event_public_id claim, re_event_type = cd_event_type claim, re_timestamp = t,
     re_body = doc, re_raw_body = cd_canonical_envelope claim\<rparr>"
proof -
  let ?body = "cd_canonical_envelope claim"
  have sig: "ts = t \<and> signature \<noteq> [] \<and> (if header_has_legacy_token signature
      then verify_signature ?body signature secret tolerance now = Inr t
      else verify_signature_standard ?body (cd_event_public_id claim) (Some (str_of_int t)) signature secret
        tolerance now = Inr t)"
  proof (cases "cd_signature_scheme claim = Standard")
    case True
    with sign have s: "sign_payload_standard (cd_event_public_id claim) ?body
      (endpoint_secret_digest (webhook_signing_key cfg) (cd_endpoint_public_id claim)
        (cd_endpoint_secret_version claim)) t = Inr (ts, signature)"
      by (simp add: sign_attempt_def)
    then have "signature \<noteq> []" by (auto simp: sign_payload_standard_def split: if_splits)
    with verify_standard [OF t secret_decodes [OF True secret] s] show ?thesis by simp
  next
    case False
    with sign secret have "(ts, signature) = sign_payload ?body secret t"
      by (simp add: sign_attempt_def receiver_secrets_def Let_def)
    then have "ts = t" "signature = snd (sign_payload ?body secret t)" "signature \<noteq> []"
      by (simp_all add: sign_payload_def Let_def)
    with verify_legacy [OF t] show ?thesis by simp
  qed
  have content: "rq_content (attempt_request claim ts signature) = ?body" by (simp add: attempt_request_def)
  show ?thesis
    unfolding content
    by (rule verify_request_passes [where signature = signature]) (use sig ids doc in \<open>simp_all add: attempt_headers\<close>)
qed

subsection \<open>A sample delivery\<close>

definition sample_project_row :: project where
  "sample_project_row = \<lparr>prj_id = 5, prj_public_id = ''prj-a'', prj_organization_id = 1,
     prj_name = ''p'', prj_is_active = True, prj_created_at = 0\<rparr>"

definition sample_signed :: "signature_scheme \<Rightarrow> claimed_delivery" where
  "sample_signed scheme =
     \<lparr>cd_id = 1, cd_public_id = ''d'', cd_organization_id = 1, cd_endpoint_id = 1, cd_lease_token = ''t'',
      cd_attempt_number = 1, cd_endpoint_public_id = ''e'', cd_endpoint_url = ''https://a.b/'',
      cd_endpoint_secret_version = 1, cd_endpoint_active = True, cd_event_public_id = ''v-1'',
      cd_event_type = ''order.created'', cd_canonical_envelope =
        (case canonical_json (event_envelope sample_project_row ''v-1'' ''order.created'' JNull Native 0) of
           Inl _ \<Rightarrow> [] | Inr b \<Rightarrow> b),
      cd_signature_scheme = scheme, cd_envelope_mode = Native, cd_traceparent = None, cd_tracestate = None,
      cd_created_at = 0\<rparr>"

definition sample_loads :: "bytes \<Rightarrow> json option" where
  "sample_loads b =
     (if b = cd_canonical_envelope (sample_signed Standard)
      then Some (json_sort_keys (event_envelope sample_project_row ''v-1'' ''order.created'' JNull Native 0)) else None)"

lemma sample_envelope:
  "canonical_json (event_envelope sample_project_row ''v-1'' ''order.created'' JNull Native 0)
     = Inr (cd_canonical_envelope (sample_signed scheme))"
  by (simp add: sample_signed_def canonical_json_def event_envelope_def)

lemma sample_parses:
  "sample_loads (cd_canonical_envelope (sample_signed scheme))
     = Some (json_sort_keys (event_envelope sample_project_row ''v-1'' ''order.created'' JNull Native 0))"
  by (simp add: sample_loads_def sample_signed_def)

lemma sample_signs: "\<exists>ts signature. sign_attempt default_settings (sample_signed scheme) t = Inr (ts, signature)"
  by (cases scheme) (simp_all add: sign_attempt_def sign_payload_standard_def sample_signed_def is_ascii_def sign_payload_def Let_def)

lemma sample_secret:
  "endpoint_secret (webhook_signing_key default_settings) ''e'' 1 \<in> receiver_secrets default_settings (sample_signed scheme)"
  by (simp add: receiver_secrets_def Let_def sample_signed_def)

lemma sample_ids: "cd_event_public_id (sample_signed scheme) = ''v-1''" "cd_event_type (sample_signed scheme) = ''order.created''"
  by (simp_all add: sample_signed_def)

subsection \<open>Properties\<close>

text \<open>
  C19: what the platform sends, the SDK's receiver accepts.  Sign the stored envelope
  of an event under either scheme and build the request of the attempt: the receiver that holds
  the endpoint's secret (under the standard scheme in either serialization) and whose clock is
  within the tolerance verifies the request, and gets back the event's id, type and timestamp and
  the exact bytes.  The JSON parser is assumed to read the canonical envelope back as the value that
  was written.
\<close>

theorem delivery_verifies:
  assumes "canonical_json (event_envelope project (cd_event_public_id claim) (cd_event_type claim) payload mode
      created) = Inr (cd_canonical_envelope claim)"
    and "loads (cd_canonical_envelope claim) = Some (json_sort_keys
      (event_envelope project (cd_event_public_id claim) (cd_event_type claim) payload mode created))"
    and "cd_event_public_id claim \<noteq> []" and "cd_event_type claim \<noteq> []"
    and "sign_attempt cfg claim t = Inr (ts, signature)" and "secret \<in> receiver_secrets cfg claim"
    and "0 \<le> t" and "t < 10 ^ 12" and "\<bar>now - t\<bar> \<le> tolerance"
  shows "\<exists>event. verify_request loads (rq_content (attempt_request claim ts signature))
      (rq_headers (attempt_request claim ts signature)) secret tolerance now = Inr event
    \<and> re_event_id event = cd_event_public_id claim \<and> re_event_type event = cd_event_type claim
    \<and> re_timestamp event = t \<and> re_raw_body event = cd_canonical_envelope claim"
proof -
  obtain doc where doc: "loads (cd_canonical_envelope claim) = Some (JObject doc)"
    "map_of doc ''id'' = Some (JString (cd_event_public_id claim))"
    "map_of doc ''type'' = Some (JString (cd_event_type claim))"
    using envelope_fields [of project "cd_event_public_id claim" "cd_event_type claim" payload mode created] assms(2)
    by auto
  from attempt_passes [where loads = loads, OF doc assms(3-9)] show ?thesis by simp
qed

theorem delivery_verifies_witness:
  "\<exists>ts signature event. sign_attempt default_settings (sample_signed Standard) 1000 = Inr (ts, signature)
    \<and> verify_request sample_loads (rq_content (attempt_request (sample_signed Standard) ts signature))
        (rq_headers (attempt_request (sample_signed Standard) ts signature))
        (endpoint_secret (webhook_signing_key default_settings) ''e'' 1) 300 1200 = Inr event
    \<and> re_event_id event = ''v-1''"
proof -
  let ?c = "sample_signed Standard"
  obtain ts signature where s: "sign_attempt default_settings ?c 1000 = Inr (ts, signature)"
    using sample_signs by blast
  have env: "canonical_json (event_envelope sample_project_row (cd_event_public_id ?c) (cd_event_type ?c) JNull Native 0)
      = Inr (cd_canonical_envelope ?c)"
    "sample_loads (cd_canonical_envelope ?c) = Some (json_sort_keys
      (event_envelope sample_project_row (cd_event_public_id ?c) (cd_event_type ?c) JNull Native 0))"
    by (simp_all only: sample_ids sample_envelope sample_parses)
  have ids: "cd_event_public_id ?c \<noteq> []" "cd_event_type ?c \<noteq> []" by (simp_all add: sample_ids)
  from delivery_verifies [where loads = sample_loads and now = 1200 and tolerance = 300,
      OF env ids s sample_secret] s show ?thesis
    by (auto simp: sample_ids)
qed

text \<open>
  C18: the receiver accepts nothing unsigned.  A request that passes was signed
  with the receiver's secret over exactly the received bytes: the signature header holds the
  HMAC-SHA-256 of the timestamp and the body (legacy scheme) or of the event id, the timestamp and the
  body under the decoded secret (standard scheme); the timestamp lies within the tolerance, and the
  event id and type of the headers are those of the body.
\<close>

theorem verify_request_sound:
  assumes "verify_request loads body headers secret tolerance now = Inr event"
  shows "\<bar>now - re_timestamp event\<bar> \<le> tolerance \<and> re_raw_body event = body
    \<and> loads body = Some (JObject (re_body event))
    \<and> map_of (re_body event) ''id'' = Some (JString (re_event_id event))
    \<and> map_of (re_body event) ''type'' = Some (JString (re_event_type event))
    \<and> normalized_get headers ''webhook-id'' = Some (re_event_id event)
    \<and> normalized_get headers ''webhook-event'' = Some (re_event_type event)
    \<and> (\<exists>signature. normalized_get headers ''webhook-signature'' = Some signature
        \<and> ((\<exists>t sigs. signature_parts signature = Inr (t, sigs) \<and> t = re_timestamp event
               \<and> hexdigest (hmac_sha256 (utf8_encode secret) (signed_legacy t body)) \<in> set sigs)
           \<or> (\<exists>key. secret_key_bytes secret = Some key
               \<and> b64encode (hmac_sha256 key (signed_standard (re_event_id event) (re_timestamp event) body))
                   \<in> set (standard_signatures signature))))"
proof -
  have legacy: "\<bar>now - t\<bar> \<le> tolerance \<and> (\<exists>sigs. signature_parts sg = Inr (t, sigs)
      \<and> hexdigest (hmac_sha256 (utf8_encode secret) (signed_legacy t body)) \<in> set sigs)"
    if "verify_signature body sg secret tolerance now = Inr t" for sg t
    using that by (auto simp: verify_signature_def Let_def list_ex_iff compare_digest_def signed_legacy_def
      split: if_splits sum.splits)
  have standard: "\<bar>now - t\<bar> \<le> tolerance \<and> (\<exists>key. secret_key_bytes secret = Some key
      \<and> b64encode (hmac_sha256 key (signed_standard i t body)) \<in> set (standard_signatures sg))"
    if "verify_signature_standard body i th sg secret tolerance now = Inr t" for i th sg t
    using that by (auto simp: verify_signature_standard_def Let_def list_ex_iff compare_digest_def
      signed_standard_def split: if_splits option.splits)
  from assms obtain sg i ty where h: "normalized_get headers ''webhook-signature'' = Some sg"
    "normalized_get headers ''webhook-id'' = Some i" "normalized_get headers ''webhook-event'' = Some ty"
    by (auto simp: verify_request_def split: option.splits)
  from assms h obtain t doc where "loads body = Some (JObject doc)" "map_of doc ''id'' = Some (JString i)"
    "map_of doc ''type'' = Some (JString ty)"
    "event = \<lparr>re_event_id = i, re_event_type = ty, re_timestamp = t, re_body = doc, re_raw_body = body\<rparr>"
    "verify_signature body sg secret tolerance now = Inr t
      \<or> verify_signature_standard body i (normalized_get headers ''webhook-timestamp'') sg secret tolerance now = Inr t"
    by (auto simp: verify_request_def Let_def split: if_splits sum.splits option.splits json.splits)
  with h legacy standard show ?thesis by fastforce
qed

theorem verify_request_sound_witness:
  "\<exists>body headers event. verify_request sample_loads body headers
      (endpoint_secret (webhook_signing_key default_settings) ''e'' 1) 300 1200 = Inr event
    \<and> re_event_id event = ''v-1'' \<and> \<bar>1200 - re_timestamp event\<bar> \<le> 300
    \<and> normalized_get headers ''webhook-id'' = Some (re_event_id event)"
proof -
  let ?c = "sample_signed Legacy"
  obtain ts signature where s: "sign_attempt default_settings ?c 1000 = Inr (ts, signature)"
    using sample_signs by blast
  obtain doc where doc: "sample_loads (cd_canonical_envelope ?c) = Some (JObject doc)"
    "map_of doc ''id'' = Some (JString (cd_event_public_id ?c))"
    "map_of doc ''type'' = Some (JString (cd_event_type ?c))"
    using envelope_fields [of sample_project_row "''v-1''" "''order.created''" JNull Native 0] sample_parses [of Legacy]
    by (auto simp: sample_ids)
  have ids: "cd_event_public_id ?c \<noteq> []" "cd_event_type ?c \<noteq> []" by (simp_all add: sample_ids)
  from attempt_passes [where loads = sample_loads and now = 1200 and tolerance = 300, OF doc ids s sample_secret]
  obtain event where
    e: "verify_request sample_loads (rq_content (attempt_request ?c ts signature))
      (rq_headers (attempt_request ?c ts signature)) (endpoint_secret (webhook_signing_key default_settings) ''e'' 1)
      300 1200 = Inr event" "re_event_id event = ''v-1''"
    by (auto simp: sample_ids)
  from verify_request_sound [OF e(1)] e show ?thesis by blast
qed

text \<open>
  The example receiver over a sequence of requests: the time it reads, and the body and headers.
\<close>

fun receive_all ::
  "(bytes \<Rightarrow> json option) \<Rightarrow> string \<Rightarrow> (int \<times> http_request) list \<Rightarrow> inbox_row list \<Rightarrow> int list \<times> inbox_row list"
where
  "receive_all loads secret [] inbox = ([], inbox)"
| "receive_all loads secret ((now, rq) # rqs) inbox =
     (case receive loads secret (rq_content rq) (rq_headers rq) now inbox of (status, inbox') \<Rightarrow>
        case receive_all loads secret rqs inbox' of (statuses, inbox'') \<Rightarrow> (status # statuses, inbox''))"

text \<open>A request of the platform: an attempt of the delivery, signed at \<open>t\<close> and read within the tolerance.\<close>

definition attempt_at :: "settings \<Rightarrow> claimed_delivery \<Rightarrow> int \<times> http_request \<Rightarrow> bool" where
  "attempt_at cfg claim r \<longleftrightarrow> (\<exists>t ts signature n.
     sign_attempt cfg (claim\<lparr>cd_attempt_number := n\<rparr>) t = Inr (ts, signature)
     \<and> snd r = attempt_request (claim\<lparr>cd_attempt_number := n\<rparr>) ts signature
     \<and> 0 \<le> t \<and> t < 10 ^ 12 \<and> \<bar>fst r - t\<bar> \<le> 300)"

lemma receive_verified:
  assumes "verify_request loads body headers secret 300 now = Inr event"
  shows "receive loads secret body headers now inbox =
    (if list_ex (\<lambda>r. in_event_id r = re_event_id event) inbox then (204, inbox)
     else (202, inbox @ [\<lparr>in_event_id = re_event_id event, in_event_type = re_event_type event, in_body = body\<rparr>]))"
  by (simp add: receive_def assms accept_once_def)

text \<open>
  C3: at-least-once sending and the receiver's inbox give exactly one acceptance.  However
  many attempts of a delivery reach the example receiver, with whatever attempt numbers and
  timestamps, each within the tolerance of its clock, the first is answered 202 and stored, with the exact
  envelope bytes, and every repetition is answered 204 and stores nothing.
\<close>

theorem delivered_once:
  assumes "loads (cd_canonical_envelope claim) = Some (json_sort_keys
      (event_envelope project (cd_event_public_id claim) (cd_event_type claim) payload mode created))"
    and "cd_event_public_id claim \<noteq> []" and "cd_event_type claim \<noteq> []"
    and "secret \<in> receiver_secrets cfg claim"
    and "\<forall>r \<in> set rs. attempt_at cfg claim r" and "rs \<noteq> []"
    and "\<forall>r \<in> set inbox. in_event_id r \<noteq> cd_event_public_id claim"
  shows "receive_all loads secret rs inbox =
    (202 # replicate (length rs - 1) 204,
     inbox @ [\<lparr>in_event_id = cd_event_public_id claim, in_event_type = cd_event_type claim,
               in_body = cd_canonical_envelope claim\<rparr>])"
proof -
  let ?row = "\<lparr>in_event_id = cd_event_public_id claim, in_event_type = cd_event_type claim,
    in_body = cd_canonical_envelope claim\<rparr>"
  obtain doc where doc: "loads (cd_canonical_envelope claim) = Some (JObject doc)"
    "map_of doc ''id'' = Some (JString (cd_event_public_id claim))"
    "map_of doc ''type'' = Some (JString (cd_event_type claim))"
    using envelope_fields [of project "cd_event_public_id claim" "cd_event_type claim" payload mode created] assms(1)
    by auto
  have step: "receive loads secret (rq_content rq) (rq_headers rq) now ib =
      (if list_ex (\<lambda>r. in_event_id r = cd_event_public_id claim) ib then (204, ib) else (202, ib @ [?row]))"
    if "attempt_at cfg claim (now, rq)" for now rq ib
  proof -
    from that obtain t ts signature n where
      a: "sign_attempt cfg (claim\<lparr>cd_attempt_number := n\<rparr>) t = Inr (ts, signature)"
        "rq = attempt_request (claim\<lparr>cd_attempt_number := n\<rparr>) ts signature" "0 \<le> t" "t < 10 ^ 12" "\<bar>now - t\<bar> \<le> 300"
      by (auto simp: attempt_at_def)
    have sec: "secret \<in> receiver_secrets cfg (claim\<lparr>cd_attempt_number := n\<rparr>)"
      using assms(4) by (simp add: receiver_secrets_def)
    have body: "rq_content rq = cd_canonical_envelope claim" by (simp add: a(2) attempt_request_def)
    have v: "verify_request loads (rq_content rq) (rq_headers rq) secret 300 now = Inr
      \<lparr>re_event_id = cd_event_public_id claim, re_event_type = cd_event_type claim, re_timestamp = t,
       re_body = doc, re_raw_body = cd_canonical_envelope claim\<rparr>"
      unfolding a(2) using doc assms(2,3) a(3-5)
      by (subst attempt_passes [where loads = loads and doc = doc, OF _ _ _ _ _ a(1) sec]) simp_all
    show ?thesis using receive_verified [OF v, of ib] by (simp add: body)
  qed
  have later: "receive_all loads secret qs (inbox @ [?row]) = (replicate (length qs) 204, inbox @ [?row])"
    if "\<forall>r \<in> set qs. attempt_at cfg claim r" for qs
    using that by (induction qs) (auto simp: step list_ex_iff)
  obtain now rq qs where rs: "rs = (now, rq) # qs" using assms(6) by (cases rs) auto
  have "\<not> list_ex (\<lambda>r. in_event_id r = cd_event_public_id claim) inbox"
    using assms(7) by (auto simp: list_ex_iff)
  with assms(5) step [of now rq inbox] later [of qs] show ?thesis by (simp add: rs)
qed

theorem delivered_once_witness:
  "\<exists>rs. length rs = 2 \<and> receive_all sample_loads (endpoint_secret (webhook_signing_key default_settings) ''e'' 1) rs []
     = ([202, 204], [\<lparr>in_event_id = ''v-1'', in_event_type = ''order.created'',
         in_body = cd_canonical_envelope (sample_signed Standard)\<rparr>])"
proof -
  let ?c = "sample_signed Standard"
  obtain ts signature where s: "sign_attempt default_settings ?c 1000 = Inr (ts, signature)"
    using sample_signs by blast
  let ?r = "(1200, attempt_request ?c ts signature) :: int \<times> http_request"
  have "?c\<lparr>cd_attempt_number := 1\<rparr> = ?c" by (simp add: sample_signed_def)
  with s have a: "attempt_at default_settings ?c ?r"
    unfolding attempt_at_def by (intro exI [of _ 1000] exI [of _ ts] exI [of _ signature] exI [of _ 1]) simp
  have ids: "cd_event_public_id ?c \<noteq> []" "cd_event_type ?c \<noteq> []" by (simp_all add: sample_ids)
  have env: "sample_loads (cd_canonical_envelope ?c) = Some (json_sort_keys
      (event_envelope sample_project_row (cd_event_public_id ?c) (cd_event_type ?c) JNull Native 0))"
    by (simp only: sample_ids sample_parses)
  from delivered_once [where loads = sample_loads and rs = "[?r, ?r]" and inbox = "[]", OF env ids sample_secret] a
  show ?thesis by (intro exI [of _ "[?r, ?r]"]) (simp add: sample_ids numeral_2_eq_2)
qed

end
