(* ===== verification/Http_Api.thy ===== *)
theory Http_Api
  imports Api_Keys Ingest Codecs
begin

text \<open>
  The HTTP edge of the platform: \<^verbatim>\<open>app/exception_handlers.py\<close> (errors to responses) with the
  attributes of \<^verbatim>\<open>app/exceptions.py\<close>, and the event endpoint of \<^verbatim>\<open>app/routers/webhooks.py\<close> with its
  request and response schemas.  What pydantic writes (a datetime, the list of its validation errors)
  is an argument; metrics and logging are left out.
\<close>

subsection \<open>Errors\<close>

record api_response =
  rs_status :: int
  rs_headers :: "(string \<times> string) list"
  rs_body :: json

fun exc_code :: "app_error \<Rightarrow> string" where
  "exc_code (NotFoundError _ _) = ''NOT_FOUND''"
| "exc_code (AlreadyExistsError _ _ _) = ''ALREADY_EXISTS''"
| "exc_code (ConflictError _) = ''CONFLICT''"
| "exc_code (ValidationError _ _) = ''VALIDATION_ERROR''"
| "exc_code (UnauthorizedError _ _) = ''UNAUTHORIZED''"
| "exc_code (ForbiddenError _) = ''FORBIDDEN''"
| "exc_code (QuotaExceededError _ _) = ''QUOTA_EXCEEDED''"
| "exc_code (SaturationError _) = ''SERVICE_SATURATED''"
| "exc_code _ = ''APP_ERROR''"

fun exc_message :: "app_error \<Rightarrow> string" where
  "exc_message (NotFoundError resource identifier) =
     resource @ '' with id '' @ [CHR 0x27] @ identifier @ [CHR 0x27] @ '' not found''"
| "exc_message (AlreadyExistsError resource field value) =
     resource @ '' with '' @ field @ '' '' @ [CHR 0x27] @ value @ [CHR 0x27] @ '' already exists''"
| "exc_message (ConflictError message) = message"
| "exc_message (ValidationError message _) = message"
| "exc_message (UnauthorizedError message _) = message"
| "exc_message (ForbiddenError message) = message"
| "exc_message (QuotaExceededError _ _) = ''Tenant quota temporarily exhausted''"
| "exc_message (SaturationError _) = ''Service is temporarily saturated''"
| "exc_message _ = []"

fun exc_details :: "app_error \<Rightarrow> (string \<times> json) list" where
  "exc_details (NotFoundError resource identifier) =
     [(''resource'', JString resource), (''identifier'', JString identifier)]"
| "exc_details (AlreadyExistsError resource field value) =
     [(''resource'', JString resource), (''field'', JString field), (''value'', JString value)]"
| "exc_details (ValidationError _ (Some field)) = (if field = [] then [] else [(''field'', JString field)])"
| "exc_details (QuotaExceededError quota _) = [(''quota'', JString quota)]"
| "exc_details (SaturationError reason) = [(''reason'', JString reason)]"
| "exc_details _ = []"

definition create_error_response ::
  "int \<Rightarrow> string \<Rightarrow> string \<Rightarrow> (string \<times> json) list \<Rightarrow> (string \<times> string) list \<Rightarrow> api_response"
where
  "create_error_response status_code code message details headers =
     \<lparr>rs_status = status_code, rs_headers = headers,
      rs_body = JObject [(''error'', JObject [(''code'', JString code), (''message'', JString message),
        (''details'', JObject details)])]\<rparr>"

fun status_map :: "app_error \<Rightarrow> int" where
  "status_map (NotFoundError _ _) = 404"
| "status_map (AlreadyExistsError _ _ _) = 409"
| "status_map (ConflictError _) = 409"
| "status_map (ValidationError _ _) = 400"
| "status_map (UnauthorizedError _ _) = 401"
| "status_map (ForbiddenError _) = 403"
| "status_map (QuotaExceededError _ _) = 429"
| "status_map (SaturationError _) = 503"
| "status_map _ = 500"

definition app_exception_handler :: "app_error \<Rightarrow> api_response" where
  "app_exception_handler exc =
     create_error_response (status_map exc) (exc_code exc) (exc_message exc) (exc_details exc)
       (case exc of
          UnauthorizedError _ auth_scheme \<Rightarrow> [(''WWW-Authenticate'', auth_scheme)]
        | QuotaExceededError _ retry_after_seconds \<Rightarrow> [(''Retry-After'', str_of_int retry_after_seconds)]
        | _ \<Rightarrow> [])"

text \<open>The errors pydantic reports: location, message and type.\<close>

definition validation_exception_handler :: "(string list \<times> string \<times> string) list \<Rightarrow> api_response" where
  "validation_exception_handler errors =
     create_error_response 422 ''VALIDATION_ERROR'' ''Request validation failed''
       [(''errors'', JArray (map (\<lambda>(loc, msg, typ). JObject
          [(''field'', JString (case loc of [] \<Rightarrow> [] | l # ls \<Rightarrow> l @ concat (map (\<lambda>x. ''.'' @ x) ls))),
           (''message'', JString msg), (''type'', JString typ)]) errors))] []"

definition sqlalchemy_exception_handler :: api_response where
  "sqlalchemy_exception_handler =
     create_error_response 500 ''DATABASE_ERROR'' ''A database error occurred'' [] []"

definition generic_exception_handler :: api_response where
  "generic_exception_handler =
     create_error_response 500 ''INTERNAL_ERROR'' ''An unexpected error occurred'' [] []"

text \<open>The handler an exception's class is registered with.\<close>

definition handle_exception :: "app_error \<Rightarrow> api_response" where
  "handle_exception exc =
     (case exc of
        DataError _ \<Rightarrow> sqlalchemy_exception_handler
      | IntegrityError _ \<Rightarrow> sqlalchemy_exception_handler
      | RuntimeError _ \<Rightarrow> generic_exception_handler
      | ValueError _ \<Rightarrow> generic_exception_handler
      | KeyError \<Rightarrow> generic_exception_handler
      | IndexError \<Rightarrow> generic_exception_handler
      | AttributeError _ \<Rightarrow> generic_exception_handler
      | TypeError _ \<Rightarrow> generic_exception_handler
      | _ \<Rightarrow> app_exception_handler exc)"

subsection \<open>The event endpoint\<close>

fun parse_envelope_mode :: "json option \<Rightarrow> envelope_mode option" where
  "parse_envelope_mode None = Some Native"
| "parse_envelope_mode (Some (JString m)) =
     (if m = ''native'' then Some Native else if m = ''cloudevents'' then Some Cloudevents else None)"
| "parse_envelope_mode (Some _) = None"

fun event_create :: "json \<Rightarrow> (string \<times> json \<times> envelope_mode) option" where
  "event_create (JObject body) =
     (if \<not> set (map fst body) \<subseteq> {''type'', ''payload'', ''envelope_mode''} then None
      else case (map_of body ''type'', map_of body ''payload'', parse_envelope_mode (map_of body ''envelope_mode'')) of
             (Some (JString type), Some payload, Some mode) \<Rightarrow>
               if 1 \<le> length type \<and> length type \<le> 150 then Some (type, payload, mode) else None
           | _ \<Rightarrow> None)"
| "event_create _ = None"

text \<open>What pydantic writes: a datetime, and its report on a request it refuses.\<close>

record pydantic =
  py_datetime :: "datetime \<Rightarrow> json"
  py_errors :: "string option \<Rightarrow> json \<Rightarrow> (string list \<times> string \<times> string) list"

definition event_out :: "pydantic \<Rightarrow> event \<Rightarrow> json" where
  "event_out py e = JObject
     [(''public_id'', JString (ev_public_id e)), (''idempotency_key'', JString (ev_idempotency_key e)),
      (''event_type'', JString (ev_event_type e)),
      (''envelope_mode'', JString (envelope_mode_value (ev_envelope_mode e))),
      (''payload'', case ev_payload e of None \<Rightarrow> JNull | Some v \<Rightarrow> v),
      (''payload_purged_at'', case ev_payload_purged_at e of None \<Rightarrow> JNull | Some t \<Rightarrow> py_datetime py t),
      (''created_at'', py_datetime py (ev_created_at e))]"

text \<open>
  \<^verbatim>\<open>POST /v1/events\<close>: the key is checked first, then the header and the body.  The tracker of key usage
  is told about the key even when the request fails afterwards.
\<close>

definition post_event ::
  "pydantic \<Rightarrow> request_ctx \<Rightarrow> string option \<Rightarrow> string option \<Rightarrow> json \<Rightarrow> string option \<Rightarrow> string option \<Rightarrow>
   usage_tracker \<times> db \<Rightarrow> api_response \<times> usage_tracker \<times> db"
where
  "post_event py cx api_key idempotency_key body traceparent tracestate st =
     (case st of (tracker, s) \<Rightarrow>
        case get_api_key_project (api_key_pepper (cx_settings cx)) (cx_now cx) api_key s of
          Inl e \<Rightarrow> (handle_exception e, tracker, s)
        | Inr (key_id, project) \<Rightarrow>
            (let tracker' = usage_record key_id (cx_now cx) tracker
             in case (idempotency_key, event_create body) of
                  (Some key, Some (type, payload, mode)) \<Rightarrow>
                    (case ingest_event cx project key type payload mode traceparent tracestate s of
                       Inl e \<Rightarrow> (handle_exception e, tracker', s)
                     | Inr (event, s') \<Rightarrow>
                         (\<lparr>rs_status = 202, rs_headers = [], rs_body = event_out py event\<rparr>, tracker', s'))
                | _ \<Rightarrow> (validation_exception_handler (py_errors py idempotency_key body), tracker', s)))"

end
