(* ===== verification/Outbox.thy ===== *)
theory Outbox
  imports Http_Api
begin

text \<open>
  The producing side of the SDK: \<^verbatim>\<open>producer.py\<close> (the client of the event endpoint) and \<^verbatim>\<open>outbox.py\<close>
  (the transactional outbox and its relay).  The network is an argument that maps a request and the
  state of the world to a response or an exception; the clock, the random numbers and the fresh
  identifiers are arguments too.  A transaction of the relay is atomic.
\<close>

subsection \<open>The producer\<close>

record client_request =
  cq_method :: string
  cq_path :: string
  cq_json :: "json option"
  cq_data :: "(string \<times> string) list"
  cq_headers :: "(string \<times> string) list"
  cq_params :: "(string \<times> string) list"

text \<open>\<open>cr_json\<close> is \<open>None\<close> where \<^verbatim>\<open>response.json()\<close> raises ValueError.\<close>

record client_response =
  cr_status :: int
  cr_headers :: "(string \<times> string) list"
  cr_json :: "json option"

datatype net_result =
    Net_response client_response
  | Net_http_error
  | Net_raised string

text \<open>The exceptions of the client; \<open>Uncaught\<close> is any other.\<close>

datatype send_error =
    TransportError
  | ApiError int string "int option"
  | Uncaught string

fun error_candidate :: "json option \<Rightarrow> json option" where
  "error_candidate (Some (JObject document)) =
     (case map_of document ''error'' of Some (JObject error) \<Rightarrow> map_of error ''code'' | _ \<Rightarrow> None)"
| "error_candidate _ = None"

definition safe_error :: "client_response \<Rightarrow> send_error" where
  "safe_error response =
     (let code = (case error_candidate (cr_json response) of
            Some (JString candidate) \<Rightarrow>
              if is_ascii candidate \<and> 1 \<le> length candidate \<and> length candidate \<le> 64
              then candidate else ''HTTP_ERROR''
          | _ \<Rightarrow> ''HTTP_ERROR'')
      in case map_of (map (\<lambda>(k, v). (lower k, v)) (cr_headers response)) ''retry-after'' of
           None \<Rightarrow> ApiError (cr_status response) code None
         | Some raw_retry_after \<Rightarrow>
             if \<not> is_digits raw_retry_after then ApiError (cr_status response) code None
             else case py_int raw_retry_after of
                    None \<Rightarrow> Uncaught ''ValueError''
                  | Some n \<Rightarrow> ApiError (cr_status response) code (Some (min n 86400)))"

definition client_request_json ::
  "(client_request \<Rightarrow> 'w \<Rightarrow> net_result \<times> 'w) \<Rightarrow> (string \<times> string) list \<Rightarrow> string \<Rightarrow> string \<Rightarrow>
   json option \<Rightarrow> (string \<times> string) list \<Rightarrow> (string \<times> string) list \<Rightarrow> (string \<times> string) list \<Rightarrow> 'w \<Rightarrow>
   (send_error + json option) \<times> 'w"
where
  "client_request_json net client_headers method path json data headers params w =
     (case net \<lparr>cq_method = method, cq_path = path, cq_json = json, cq_data = data,
                cq_headers = filter (\<lambda>(k, _). k \<notin> fst ` set headers) client_headers @ headers,
                cq_params = params\<rparr> w of
        (Net_http_error, w') \<Rightarrow> (Inl TransportError, w')
      | (Net_raised name, w') \<Rightarrow> (Inl (Uncaught name), w')
      | (Net_response response, w') \<Rightarrow>
          (if cr_status response \<notin> {200, 201, 202, 204} then Inl (safe_error response)
           else if cr_status response = 204 then Inr None
           else case cr_json response of
                  None \<Rightarrow> Inl (ApiError (cr_status response) ''INVALID_RESPONSE'' None)
                | Some document \<Rightarrow> Inr (Some document), w'))"

definition producer_init :: "string \<Rightarrow> (string \<times> string) list result" where
  "producer_init api_key =
     (if api_key = [] then Inl (ValueError ''api_key is required'')
      else Inr [(''X-API-Key'', api_key), (''User-Agent'', ''webhook-platform-python/0.1'')])"

definition send_event ::
  "(client_request \<Rightarrow> 'w \<Rightarrow> net_result \<times> 'w) \<Rightarrow> (string \<times> string) list \<Rightarrow> string \<Rightarrow> json \<Rightarrow> string \<Rightarrow> string \<Rightarrow>
   'w \<Rightarrow> (send_error + (string \<times> json) list) \<times> 'w"
where
  "send_event net client_headers event_type payload idempotency_key envelope_mode w =
     (if event_type = [] \<or> idempotency_key = [] then (Inl (Uncaught ''ValueError''), w)
      else case client_request_json net client_headers ''POST'' ''/v1/events''
               (Some (JObject [(''type'', JString event_type), (''payload'', payload),
                         (''envelope_mode'', JString envelope_mode)])) []
               [(''Idempotency-Key'', idempotency_key)] [] w of
             (Inl e, w') \<Rightarrow> (Inl e, w')
           | (Inr (Some (JObject document)), w') \<Rightarrow> (Inr document, w')
           | (Inr _, w') \<Rightarrow> (Inl (ApiError 202 ''INVALID_RESPONSE'' None), w'))"

subsection \<open>The outbox\<close>

record outbox_row =
  ob_id :: string
  ob_event_type :: string
  ob_payload :: json
  ob_idempotency_key :: string
  ob_envelope_mode :: string
  ob_lease_token :: "string option"
  ob_locked_until :: "datetime option"
  ob_attempt_count :: int
  ob_next_attempt_at :: "datetime option"
  ob_last_error_code :: "string option"
  ob_created_at :: datetime
  ob_sent_at :: "datetime option"
  ob_failed_at :: "datetime option"

record outbox_message =
  ms_id :: string
  ms_event_type :: string
  ms_payload :: json
  ms_idempotency_key :: string
  ms_envelope_mode :: string
  ms_lease_token :: string
  ms_attempt_number :: int

text \<open>
  \<open>uuid\<close> gives the identifiers of the call in the order the code draws them: the key's only where
  none is given.
\<close>

definition enqueue_outbox ::
  "datetime \<Rightarrow> (nat \<Rightarrow> string) \<Rightarrow> string \<Rightarrow> json \<Rightarrow> string option \<Rightarrow> string \<Rightarrow> outbox_row list
   \<Rightarrow> (string \<times> outbox_row list) result"
where
  "enqueue_outbox created_at uuid event_type payload idempotency_key envelope_mode rows =
     (if event_type = [] then Inl (ValueError ''event_type is required'')
      else if envelope_mode \<notin> {''native'', ''cloudevents''} then Inl (ValueError ''envelope_mode is invalid'')
      else
        let drawn = \<not> truthy idempotency_key;
            key = (if drawn then uuid 0 else the idempotency_key);
            row = \<lparr>ob_id = uuid (if drawn then 1 else 0), ob_event_type = event_type, ob_payload = payload,
              ob_idempotency_key = key, ob_envelope_mode = envelope_mode, ob_lease_token = None,
              ob_locked_until = None, ob_attempt_count = 0, ob_next_attempt_at = Some created_at,
              ob_last_error_code = None, ob_created_at = created_at, ob_sent_at = None, ob_failed_at = None\<rparr>
        in bindr (insert_unique ''webhook_outbox_pkey'' ob_id row rows) (\<lambda>_.
           bindr (insert_unique ''webhook_outbox_idempotency_key'' ob_idempotency_key row rows) (\<lambda>rows'.
           Inr (key, rows'))))"

record relay =
  rl_batch_size :: int
  rl_lease_seconds :: int
  rl_max_attempts :: int
  rl_retry_base_seconds :: rat
  rl_retry_cap_seconds :: rat

definition relay_init :: "int \<Rightarrow> int \<Rightarrow> int \<Rightarrow> rat \<Rightarrow> rat \<Rightarrow> relay result" where
  "relay_init batch_size lease_seconds max_attempts retry_base_seconds retry_cap_seconds =
     (if \<not> (1 \<le> batch_size \<and> batch_size \<le> 1000) then Inl (ValueError ''batch_size must be between 1 and 1000'')
      else if lease_seconds < 1 then Inl (ValueError ''lease_seconds must be positive'')
      else if max_attempts < 1 then Inl (ValueError ''max_attempts must be positive'')
      else if \<not> (0 \<le> retry_base_seconds \<and> retry_base_seconds \<le> retry_cap_seconds)
      then Inl (ValueError ''retry delay bounds are invalid'')
      else Inr \<lparr>rl_batch_size = batch_size, rl_lease_seconds = lease_seconds,
                rl_max_attempts = max_attempts, rl_retry_base_seconds = retry_base_seconds,
                rl_retry_cap_seconds = retry_cap_seconds\<rparr>)"

definition claimable_row :: "datetime \<Rightarrow> outbox_row \<Rightarrow> bool" where
  "claimable_row now r \<longleftrightarrow> ob_sent_at r = None \<and> ob_failed_at r = None
     \<and> opt_le (ob_next_attempt_at r) now
     \<and> (ob_locked_until r = None \<or> opt_le (ob_locked_until r) now)"

text \<open>The rows other transactions have locked are skipped.\<close>

definition claimable_rows :: "relay \<Rightarrow> datetime \<Rightarrow> (string \<Rightarrow> bool) \<Rightarrow> outbox_row list \<Rightarrow> outbox_row list" where
  "claimable_rows rl now skip rows =
     take (nat (rl_batch_size rl))
       (sort_key (\<lambda>r. (ob_created_at r, ob_id r))
         (filter (\<lambda>r. claimable_row now r \<and> \<not> skip (ob_id r)) rows))"

definition lease_row :: "relay \<Rightarrow> datetime \<Rightarrow> string \<Rightarrow> outbox_row \<Rightarrow> outbox_row" where
  "lease_row rl now token r = r\<lparr>ob_lease_token := Some token,
     ob_locked_until := Some (now + seconds (rl_lease_seconds rl)),
     ob_attempt_count := ob_attempt_count r + 1\<rparr>"

definition message_of :: "string \<Rightarrow> outbox_row \<Rightarrow> outbox_message" where
  "message_of token r =
     \<lparr>ms_id = ob_id r, ms_event_type = ob_event_type r, ms_payload = ob_payload r,
      ms_idempotency_key = ob_idempotency_key r, ms_envelope_mode = ob_envelope_mode r,
      ms_lease_token = token, ms_attempt_number = ob_attempt_count r + 1\<rparr>"

fun lease_rows ::
  "relay \<Rightarrow> datetime \<Rightarrow> (nat \<Rightarrow> string) \<Rightarrow> nat \<Rightarrow> outbox_row list \<Rightarrow> outbox_row list
   \<Rightarrow> outbox_message list \<times> outbox_row list"
where
  "lease_rows rl now tokens i [] rows = ([], rows)"
| "lease_rows rl now tokens i (r # rs) rows =
     (case lease_rows rl now tokens (Suc i) rs
         (update_where (\<lambda>x. ob_id x = ob_id r) (lease_row rl now (tokens i)) rows) of
        (messages, rows') \<Rightarrow> (message_of (tokens i) r # messages, rows'))"

definition claim_outbox ::
  "relay \<Rightarrow> datetime \<Rightarrow> (nat \<Rightarrow> string) \<Rightarrow> (string \<Rightarrow> bool) \<Rightarrow> outbox_row list
   \<Rightarrow> outbox_message list \<times> outbox_row list"
where
  "claim_outbox rl now tokens skip rows = lease_rows rl now tokens 0 (claimable_rows rl now skip rows) rows"

definition finish ::
  "outbox_message \<Rightarrow> datetime \<Rightarrow> bool \<Rightarrow> string option \<Rightarrow> datetime option \<Rightarrow> bool \<Rightarrow> outbox_row list
   \<Rightarrow> outbox_row list"
where
  "finish message now sent error_code retry_at terminal rows =
     update_where (\<lambda>r. ob_id r = ms_id message \<and> ob_lease_token r = Some (ms_lease_token message)
         \<and> ob_sent_at r = None)
       (\<lambda>r. let r1 = r\<lparr>ob_lease_token := None, ob_locked_until := None, ob_last_error_code := error_code,
                       ob_next_attempt_at := retry_at\<rparr>
             in if sent then r1\<lparr>ob_sent_at := Some now\<rparr>
                else if terminal then r1\<lparr>ob_failed_at := Some now\<rparr> else r1) rows"

text \<open>\<open>u\<close> is the random number of \<^verbatim>\<open>uniform\<close>; \<open>now\<close> and \<open>finished\<close> are the two readings of the clock.\<close>

definition record_failure ::
  "relay \<Rightarrow> rat \<Rightarrow> datetime \<Rightarrow> datetime \<Rightarrow> outbox_message \<Rightarrow> string \<Rightarrow> bool \<Rightarrow> int option \<Rightarrow> outbox_row list
   \<Rightarrow> outbox_row list"
where
  "record_failure rl u now finished message code retryable retry_after rows =
     (let terminal = (\<not> retryable \<or> ms_attempt_number message \<ge> rl_max_attempts rl);
          cap = min (rl_retry_cap_seconds rl)
                  (rl_retry_base_seconds rl * 2 ^ nat (ms_attempt_number message - 1));
          delay0 = cap * u;
          delay = (case retry_after of None \<Rightarrow> delay0
                   | Some n \<Rightarrow> max delay0 (min (of_int n) (rl_retry_cap_seconds rl)));
          retry_at = (if terminal then None else Some (now + seconds_float delay))
      in finish message finished False (Some (take 64 code)) retry_at terminal rows)"

text \<open>What the relay does with the outcome of a call, \<open>None\<close> where the exception leaves \<^verbatim>\<open>run_once\<close>.\<close>

definition settle ::
  "relay \<Rightarrow> rat \<Rightarrow> datetime \<Rightarrow> datetime \<Rightarrow> outbox_message \<Rightarrow> (send_error + (string \<times> json) list) \<Rightarrow>
   outbox_row list \<Rightarrow> outbox_row list option"
where
  "settle rl u now finished message outcome rows =
     (case outcome of
        Inl (ApiError status_code code retry_after) \<Rightarrow>
          Some (record_failure rl u now finished message code
                  (status_code \<in> {408, 425, 429, 503} \<or> status_code \<ge> 500) retry_after rows)
      | Inl TransportError \<Rightarrow>
          Some (record_failure rl u now finished message ''TransportError'' True None rows)
      | Inl (Uncaught _) \<Rightarrow> None
      | Inr _ \<Rightarrow> Some (finish message finished True None None False rows))"

text \<open>
  The loop of \<^verbatim>\<open>run_once\<close>.  The \<open>k\<close>-th message is sent through \<open>net k\<close> and settled at the times
  \<open>clock k\<close>; an exception that is not handled ends the run.
\<close>

fun relay_messages ::
  "relay \<Rightarrow> (nat \<Rightarrow> client_request \<Rightarrow> 'w \<Rightarrow> net_result \<times> 'w) \<Rightarrow> (string \<times> string) list \<Rightarrow> (nat \<Rightarrow> rat) \<Rightarrow>
   (nat \<Rightarrow> datetime \<times> datetime) \<Rightarrow> nat \<Rightarrow> outbox_message list \<Rightarrow> int \<times> int \<Rightarrow> outbox_row list \<Rightarrow> 'w \<Rightarrow>
   (int \<times> int) option \<times> outbox_row list \<times> 'w"
where
  "relay_messages rl net hs u clock k [] counts rows w = (Some counts, rows, w)"
| "relay_messages rl net hs u clock k (m # ms) counts rows w =
     (case send_event (net k) hs (ms_event_type m) (ms_payload m) (ms_idempotency_key m)
             (ms_envelope_mode m) w of
        (outcome, w') \<Rightarrow>
          (case settle rl (u k) (fst (clock k)) (snd (clock k)) m outcome rows of
             None \<Rightarrow> (None, rows, w')
           | Some rows' \<Rightarrow>
               relay_messages rl net hs u clock (Suc k) ms
                 (case outcome of Inr _ \<Rightarrow> (fst counts + 1, snd counts) | Inl _ \<Rightarrow> (fst counts, snd counts + 1))
                 rows' w'))"

definition relay_run_once ::
  "relay \<Rightarrow> (nat \<Rightarrow> client_request \<Rightarrow> 'w \<Rightarrow> net_result \<times> 'w) \<Rightarrow> (string \<times> string) list \<Rightarrow> datetime \<Rightarrow>
   (nat \<Rightarrow> string) \<Rightarrow> (string \<Rightarrow> bool) \<Rightarrow> (nat \<Rightarrow> rat) \<Rightarrow> (nat \<Rightarrow> datetime \<times> datetime) \<Rightarrow> outbox_row list \<Rightarrow> 'w \<Rightarrow>
   (int \<times> int) option \<times> outbox_row list \<times> 'w"
where
  "relay_run_once rl net hs now tokens skip u clock rows w =
     (case claim_outbox rl now tokens skip rows of
        (messages, rows') \<Rightarrow> relay_messages rl net hs u clock 0 messages (0, 0) rows' w)"

end
