(* ===== verification/Outbox_Safety.thy ===== *)
theory Outbox_Safety
  imports Outbox Ingest_Safety
begin

text \<open>
  The outbox against the platform.  Relays claim rows, call the event endpoint over a network that may
  lose a request or its response, and settle the outcome, in any interleaving; a crash is a relay that
  never takes its next step.
\<close>

subsection \<open>The network\<close>

datatype fate = Lost_request | Lost_response | Answered

text \<open>The event endpoint behind the network: the fate of the request decides what the client learns.\<close>

definition platform_net ::
  "pydantic \<Rightarrow> request_ctx \<Rightarrow> fate \<Rightarrow> string option \<Rightarrow> string option \<Rightarrow> client_request \<Rightarrow> usage_tracker \<times> db
   \<Rightarrow> net_result \<times> usage_tracker \<times> db"
where
  "platform_net py cx fate tp ts rq w =
     (if fate = Lost_request then (Net_http_error, w)
      else case post_event py cx (map_of (cq_headers rq) ''X-API-Key'')
                  (map_of (cq_headers rq) ''Idempotency-Key'') (case cq_json rq of None \<Rightarrow> JNull | Some b \<Rightarrow> b) tp ts w of
             (response, w') \<Rightarrow>
               (if fate = Lost_response then Net_http_error
                else Net_response \<lparr>cr_status = rs_status response, cr_headers = rs_headers response,
                       cr_json = Some (rs_body response)\<rparr>, w'))"

subsection \<open>Events\<close>

text \<open>The event of a message is in the platform: under its key, with its type, mode and payload.\<close>

definition delivered_event :: "string \<Rightarrow> json \<Rightarrow> string \<Rightarrow> string \<Rightarrow> db \<Rightarrow> bool" where
  "delivered_event event_type payload key mode s \<longleftrightarrow>
     (\<exists>pid m bytes e. mode = envelope_mode_value m \<and> canonical_json payload = Inr bytes
        \<and> find_idempotent pid key s = Some e \<and> ev_event_type e = event_type \<and> ev_envelope_mode e = m
        \<and> ev_payload_hash e = hexdigest (sha256 (fingerprint_material event_type m bytes)))"

text \<open>No two events of a project share a key.\<close>

definition unique_events :: "db \<Rightarrow> bool" where
  "unique_events s \<longleftrightarrow> distinct (map (\<lambda>e. (ev_project_id e, ev_idempotency_key e)) (db_events s))"

text \<open>A step of the platform that keeps its events, possibly without their payload.\<close>

definition keeps_events :: "db \<Rightarrow> db \<Rightarrow> bool" where
  "keeps_events s s' \<longleftrightarrow> (unique_events s \<longrightarrow> unique_events s')
     \<and> (\<forall>pid key e. find_idempotent pid key s = Some e \<longrightarrow>
          (\<exists>e'. find_idempotent pid key s' = Some e' \<and> ev_public_id e' = ev_public_id e
             \<and> ev_event_type e' = ev_event_type e \<and> ev_envelope_mode e' = ev_envelope_mode e
             \<and> ev_payload_hash e' = ev_payload_hash e))"

lemma keeps_events_refl [simp]: "keeps_events s s"
  by (auto simp: keeps_events_def)

lemma delivered_event_keeps:
  "delivered_event t p k m s \<Longrightarrow> keeps_events s s' \<Longrightarrow> delivered_event t p k m s'"
  unfolding delivered_event_def keeps_events_def by metis

lemma keeps_events_accept:
  assumes "db_events s' = db_events s @ [e]"
    and "find_idempotent (ev_project_id e) (ev_idempotency_key e) s = None"
  shows "keeps_events s s'"
  using assms by (auto simp: keeps_events_def unique_events_def find_idempotent_def find_append find_None_iff
    split: option.splits)

lemma ingest_delivers:
  assumes "ingest_event cx project key event_type payload mode tp ts s = Inr (e, s')"
  shows "keeps_events s s' \<and> delivered_event event_type payload key (envelope_mode_value mode) s'"
  using assms
proof (cases rule: ingest_event_cases)
  case (hit fp)
  obtain bytes where "canonical_json payload = Inr bytes"
    "fp = hexdigest (sha256 (fingerprint_material event_type mode bytes))"
    using hit(1) by (auto simp: request_fingerprint_def split: if_splits sum.splits)
  with hit show ?thesis unfolding delivered_event_def same_content_def by auto
next
  case (accept fp envelope)
  have ev: "db_events s' = db_events s @ [e]" using accept(3) by (simp add: accepted_def Let_def)
  have id: "ev_project_id e = prj_id project" "ev_idempotency_key e = key" "ev_event_type e = event_type"
    "ev_envelope_mode e = mode" "ev_payload_hash e = fp"
    by (simp_all add: accept(5) event_row_def)
  have "find_idempotent (prj_id project) key s' = Some e"
    by (rule find_idempotent_snoc [OF accept(2) ev id(1,2)])
  moreover obtain bytes where "canonical_json payload = Inr bytes"
    "fp = hexdigest (sha256 (fingerprint_material event_type mode bytes))"
    using accept(1) by (auto simp: request_fingerprint_def split: if_splits sum.splits)
  ultimately show ?thesis
    using keeps_events_accept [OF ev] accept(2) id by (auto simp: delivered_event_def)
qed

subsection \<open>A call\<close>

lemma handled_status: "rs_status (handle_exception e) \<notin> {200, 201, 202, 204}"
  by (cases e) (simp_all add: handle_exception_def app_exception_handler_def create_error_response_def
    sqlalchemy_exception_handler_def generic_exception_handler_def)

lemma parsed_mode: "parse_envelope_mode (Some (JString m)) = Some mode \<Longrightarrow> m = envelope_mode_value mode"
  by (auto split: if_splits)

lemma post_event_effect:
  assumes "post_event py cx api_key (Some key)
      (JObject [(''type'', JString event_type), (''payload'', payload), (''envelope_mode'', JString mode)])
      tp ts (t, s) = (response, t', s')"
  shows "keeps_events s s'
    \<and> (rs_status response \<in> {200, 201, 202, 204} \<longrightarrow> delivered_event event_type payload key mode s')"
proof (cases "get_api_key_project (api_key_pepper (cx_settings cx)) (cx_now cx) api_key s")
  case (Inl e)
  with assms handled_status [of e] show ?thesis by (auto simp: post_event_def)
next
  case (Inr kp)
  obtain i project where kp: "kp = (i, project)" by (cases kp)
  let ?body = "JObject [(''type'', JString event_type), (''payload'', payload), (''envelope_mode'', JString mode)]"
  show ?thesis
  proof (cases "event_create ?body")
    case None
    with assms Inr kp show ?thesis
      by (auto simp: post_event_def Let_def validation_exception_handler_def create_error_response_def
        simp del: event_create.simps)
  next
    case (Some c)
    then obtain md where c: "c = (event_type, payload, md)" "mode = envelope_mode_value md"
      using parsed_mode by (auto split: option.splits if_splits simp del: parse_envelope_mode.simps)
    show ?thesis
    proof (cases "ingest_event cx project key event_type payload md tp ts s")
      case (Inl e)
      with assms Inr kp Some c handled_status [of e] show ?thesis
        by (auto simp: post_event_def Let_def simp del: event_create.simps)
    next
      case (Inr es)
      obtain e s1 where es: "es = (e, s1)" by (cases es)
      from assms \<open>get_api_key_project _ _ _ _ = _\<close> kp Some c Inr es have "s' = s1"
        by (auto simp: post_event_def Let_def simp del: event_create.simps)
      with ingest_delivers [OF Inr [unfolded es]] c(2) show ?thesis by simp
    qed
  qed
qed

lemma send_event_effect:
  assumes "send_event (platform_net py cx fate tp ts) hs event_type payload key mode w = (outcome, w')"
  shows "keeps_events (snd w) (snd w')
    \<and> (\<forall>document. outcome = Inr document \<longrightarrow> delivered_event event_type payload key mode (snd w'))"
proof (cases "event_type = [] \<or> key = [] \<or> fate = Lost_request")
  case True
  with assms show ?thesis
    by (auto simp: send_event_def client_request_json_def platform_net_def split: if_splits)
next
  case False
  let ?hs = "filter (\<lambda>(k, _). k \<notin> fst ` set [(''Idempotency-Key'', key)]) hs @ [(''Idempotency-Key'', key)]"
  let ?body = "JObject [(''type'', JString event_type), (''payload'', payload), (''envelope_mode'', JString mode)]"
  have "''Idempotency-Key'' \<notin> fst ` set (filter (\<lambda>(k, _). k \<notin> fst ` set [(''Idempotency-Key'', key)]) hs)" by auto
  then have key: "map_of ?hs ''Idempotency-Key'' = Some key"
    by (simp only: map_of_append map_add_Some_iff) (simp add: map_of_eq_None_iff)
  obtain response t' s' where r: "post_event py cx (map_of ?hs ''X-API-Key'') (Some key) ?body tp ts w
      = (response, t', s')"
    by (metis prod_cases3)
  have e: "keeps_events (snd w) s'
      \<and> (rs_status response \<in> {200, 201, 202, 204} \<longrightarrow> delivered_event event_type payload key mode s')"
    using post_event_effect [of py cx "map_of ?hs ''X-API-Key''" key event_type payload mode tp ts "fst w" "snd w"] r
    by simp
  from assms False r key have "w' = (t', s')"
    and "\<And>document. outcome = Inr document \<Longrightarrow> rs_status response \<in> {200, 201, 202, 204}"
    by (auto simp: send_event_def client_request_json_def platform_net_def
      split: if_splits option.splits sum.splits json.splits)
  with e show ?thesis by auto
qed

subsection \<open>Relays\<close>

text \<open>
  The outbox with what its relays hold: the messages ever claimed, and the outcomes of calls, settled or
  not.  Other steps of the platform may happen in between, as long as they keep its events.
\<close>

type_synonym send_outcome = "send_error + (string \<times> json) list"

record outbox_state =
  os_rows :: "outbox_row list"
  os_claimed :: "outbox_message set"
  os_outcomes :: "(outbox_message \<times> send_outcome) set"
  os_world :: "usage_tracker \<times> db"

inductive outbox_step :: "pydantic \<Rightarrow> (string \<times> string) list \<Rightarrow> outbox_state \<Rightarrow> outbox_state \<Rightarrow> bool"
  for py :: pydantic and hs :: "(string \<times> string) list"
where
  Outbox_enqueue:
    "enqueue_outbox now uuid event_type payload key mode (os_rows st) = Inr (k, rows) \<Longrightarrow>
     outbox_step py hs st (st\<lparr>os_rows := rows\<rparr>)"
| Outbox_claim:
    "claim_outbox rl now tokens skip (os_rows st) = (ms, rows) \<Longrightarrow>
     outbox_step py hs st (st\<lparr>os_rows := rows, os_claimed := os_claimed st \<union> set ms\<rparr>)"
| Outbox_send:
    "m \<in> os_claimed st \<Longrightarrow>
     send_event (platform_net py cx fate tp ts) hs (ms_event_type m) (ms_payload m) (ms_idempotency_key m)
       (ms_envelope_mode m) (os_world st) = (outcome, w) \<Longrightarrow>
     outbox_step py hs st (st\<lparr>os_outcomes := insert (m, outcome) (os_outcomes st), os_world := w\<rparr>)"
| Outbox_settle:
    "(m, outcome) \<in> os_outcomes st \<Longrightarrow> settle rl u now finished m outcome (os_rows st) = Some rows \<Longrightarrow>
     outbox_step py hs st (st\<lparr>os_rows := rows\<rparr>)"
| Outbox_platform:
    "keeps_events (snd (os_world st)) (snd w) \<Longrightarrow> outbox_step py hs st (st\<lparr>os_world := w\<rparr>)"

definition outbox_start :: "usage_tracker \<times> db \<Rightarrow> outbox_state" where
  "outbox_start w = \<lparr>os_rows = [], os_claimed = {}, os_outcomes = {}, os_world = w\<rparr>"

subsection \<open>The invariant\<close>

definition row_content :: "outbox_row \<Rightarrow> string \<times> string \<times> json \<times> string \<times> string" where
  "row_content r = (ob_id r, ob_event_type r, ob_payload r, ob_idempotency_key r, ob_envelope_mode r)"

definition message_content :: "outbox_message \<Rightarrow> string \<times> string \<times> json \<times> string \<times> string" where
  "message_content m = (ms_id m, ms_event_type m, ms_payload m, ms_idempotency_key m, ms_envelope_mode m)"

definition content_delivered :: "string \<times> string \<times> json \<times> string \<times> string \<Rightarrow> db \<Rightarrow> bool" where
  "content_delivered c s = (case c of (_, event_type, payload, key, mode) \<Rightarrow> delivered_event event_type payload key mode s)"

definition row_sound :: "db \<Rightarrow> outbox_row \<Rightarrow> bool" where
  "row_sound s r \<longleftrightarrow> (ob_sent_at r = None \<and> ob_failed_at r = None \<longrightarrow> ob_next_attempt_at r \<noteq> None)
     \<and> (ob_sent_at r \<noteq> None \<longrightarrow> content_delivered (row_content r) s)"

definition outbox_inv :: "outbox_state \<Rightarrow> bool" where
  "outbox_inv st \<longleftrightarrow> distinct (map ob_id (os_rows st))
     \<and> (\<forall>r \<in> set (os_rows st). row_sound (snd (os_world st)) r)
     \<and> message_content ` os_claimed st \<subseteq> row_content ` set (os_rows st)
     \<and> (\<forall>(m, outcome) \<in> os_outcomes st. m \<in> os_claimed st
          \<and> (\<forall>d. outcome = Inr d \<longrightarrow> content_delivered (message_content m) (snd (os_world st))))
     \<and> unique_events (snd (os_world st))"

lemma content_delivered_keeps: "content_delivered c s \<Longrightarrow> keeps_events s s' \<Longrightarrow> content_delivered c s'"
  by (auto simp: content_delivered_def delivered_event_keeps split: prod.splits)

lemma outbox_inv_world:
  assumes "outbox_inv st" and "keeps_events (snd (os_world st)) (snd w)"
  shows "outbox_inv (st\<lparr>os_world := w\<rparr>)"
proof -
  note keep = content_delivered_keeps [OF _ assms(2)]
  have "row_sound (snd w) r" if "row_sound (snd (os_world st)) r" for r
    using that keep by (auto simp: row_sound_def)
  moreover have "unique_events (snd (os_world st)) \<Longrightarrow> unique_events (snd w)"
    using assms(2) by (simp add: keeps_events_def)
  moreover have "content_delivered (message_content m) (snd (os_world st)) \<Longrightarrow> content_delivered (message_content m) (snd w)"
    for m by (rule keep)
  ultimately show ?thesis using assms(1) by (auto simp: outbox_inv_def)
qed

lemma outbox_inv_rows:
  assumes inv: "outbox_inv st" and same: "map row_content rows = map row_content (os_rows st)"
    and sound: "\<And>r. r \<in> set rows \<Longrightarrow> row_sound (snd (os_world st)) r"
  shows "outbox_inv (st\<lparr>os_rows := rows\<rparr>)"
proof -
  have "map ob_id rows = map ob_id (os_rows st)"
    using arg_cong [OF same, of "map fst"] by (simp add: row_content_def comp_def)
  moreover have "row_content ` set rows = row_content ` set (os_rows st)"
    using arg_cong [OF same, of set] by simp
  ultimately show ?thesis using inv sound by (simp add: outbox_inv_def)
qed

lemma row_content_update:
  assumes "\<And>r. row_content (f r) = row_content r"
  shows "map row_content (update_where p f rows) = map row_content rows"
  using assms by (rule map_update_where)

lemma lease_rows_spec:
  assumes "lease_rows rl now tokens i rs rows = (ms, rows')"
  shows "map row_content rows' = map row_content rows
    \<and> map message_content ms = map row_content rs
    \<and> ((\<forall>r \<in> set rows. row_sound s r) \<longrightarrow> (\<forall>r \<in> set rows'. row_sound s r))"
  using assms
proof (induction rs arbitrary: i rows ms rows')
  case (Cons r rs)
  let ?rows = "update_where (\<lambda>x. ob_id x = ob_id r) (lease_row rl now (tokens i)) rows"
  obtain ms1 where m: "lease_rows rl now tokens (Suc i) rs ?rows = (ms1, rows')" "ms = message_of (tokens i) r # ms1"
    using Cons.prems by (auto split: prod.splits)
  have keep: "row_content (lease_row rl now t x) = row_content x" "row_sound s (lease_row rl now t x) = row_sound s x"
    for t and x :: outbox_row
    by (simp_all add: row_content_def lease_row_def row_sound_def)
  note ih = Cons.IH [OF m(1)]
  have "map row_content rows' = map row_content rows"
    using conjunct1 [OF ih] row_content_update [of "lease_row rl now (tokens i)", OF keep(1)] by (rule trans)
  moreover have "message_content (message_of (tokens i) r) = row_content r"
    by (simp add: message_of_def message_content_def row_content_def)
  moreover have "(\<forall>x \<in> set rows. row_sound s x) \<longrightarrow> (\<forall>x \<in> set ?rows. row_sound s x)"
    by (auto simp: set_update_where keep(2))
  ultimately show ?case using ih m(2) by simp
qed simp

lemma outbox_inv_claim:
  assumes "outbox_inv st" and c: "claim_outbox rl now tokens skip (os_rows st) = (ms, rows)"
  shows "outbox_inv (st\<lparr>os_rows := rows, os_claimed := os_claimed st \<union> set ms\<rparr>)"
proof -
  let ?rs = "claimable_rows rl now skip (os_rows st)"
  note spec = lease_rows_spec [OF c [unfolded claim_outbox_def], of "snd (os_world st)"]
  have "message_content ` set ms = row_content ` set ?rs"
    using arg_cong [OF conjunct1 [OF conjunct2 [OF spec]], of set] by simp
  also have "\<dots> \<subseteq> row_content ` set (os_rows st)"
    by (rule image_mono) (auto simp: claimable_rows_def dest: in_set_takeD)
  also have "\<dots> = row_content ` set rows"
    using arg_cong [OF conjunct1 [OF spec], of set] by simp
  finally have "message_content ` set ms \<subseteq> row_content ` set rows" .
  moreover have "outbox_inv (st\<lparr>os_rows := rows\<rparr>)"
    by (rule outbox_inv_rows [OF assms(1)]) (use spec assms(1) in \<open>auto simp: outbox_inv_def\<close>)
  ultimately show ?thesis by (auto simp: outbox_inv_def image_Un)
qed

lemma finish_content: "map row_content (finish m now sent code retry_at terminal rows) = map row_content rows"
  unfolding finish_def by (rule row_content_update) (simp add: row_content_def Let_def)

text \<open>What an update by the holder of a message does to the rows.\<close>

lemma finish_sound:
  assumes inv: "outbox_inv st" and m: "m \<in> os_claimed st"
    and sent: "sent \<Longrightarrow> content_delivered (message_content m) (snd (os_world st))"
    and retry: "\<not> sent \<Longrightarrow> \<not> terminal \<Longrightarrow> retry_at \<noteq> None"
  shows "outbox_inv (st\<lparr>os_rows := finish m now sent code retry_at terminal (os_rows st)\<rparr>)"
proof (rule outbox_inv_rows [OF inv])
  show "map row_content (finish m now sent code retry_at terminal (os_rows st)) = map row_content (os_rows st)"
    by (rule finish_content)
  obtain r0 where r0: "r0 \<in> set (os_rows st)" "message_content m = row_content r0"
    using inv m by (auto simp: outbox_inv_def)
  fix r assume "r \<in> set (finish m now sent code retry_at terminal (os_rows st))"
  then consider (other) "r \<in> set (os_rows st)" | (own) x where "x \<in> set (os_rows st)" "ob_id x = ms_id m"
      "ob_sent_at x = None" "ob_sent_at r = (if sent then Some now else None)"
      "ob_failed_at r = (if \<not> sent \<and> terminal then Some now else ob_failed_at x)"
      "ob_next_attempt_at r = retry_at" "row_content r = row_content x"
    unfolding finish_def set_update_where by (auto simp: Let_def row_content_def)
  then show "row_sound (snd (os_world st)) r"
  proof cases
    case other
    then show ?thesis using inv by (simp add: outbox_inv_def)
  next
    case own
    have "ob_id x = ob_id r0" using own(2) r0(2) by (simp add: message_content_def row_content_def)
    then have "x = r0" using inv own(1) r0(1) by (auto simp: outbox_inv_def distinct_map inj_on_def)
    with own r0 sent retry show ?thesis by (auto simp: row_sound_def)
  qed
qed

lemma outbox_inv_settle:
  assumes inv: "outbox_inv st" and o: "(m, outcome) \<in> os_outcomes st"
    and s: "settle rl u now finished m outcome (os_rows st) = Some rows"
  shows "outbox_inv (st\<lparr>os_rows := rows\<rparr>)"
proof -
  have m: "m \<in> os_claimed st" and d: "\<And>d. outcome = Inr d \<Longrightarrow> content_delivered (message_content m) (snd (os_world st))"
    using inv o by (auto simp: outbox_inv_def)
  have failed: "outbox_inv (st\<lparr>os_rows := record_failure rl u now finished m code b ra (os_rows st)\<rparr>)" for code b ra
    unfolding record_failure_def Let_def by (rule finish_sound [OF inv m]) auto
  show ?thesis
  proof (cases outcome)
    case (Inl e)
    with s failed show ?thesis by (cases e) (auto simp: settle_def)
  next
    case (Inr doc)
    then have "rows = finish m finished True None None False (os_rows st)" using s by (simp add: settle_def)
    with finish_sound [OF inv m, of True] d [OF Inr] show ?thesis by simp
  qed
qed

lemma outbox_inv_enqueue:
  assumes inv: "outbox_inv st"
    and e: "enqueue_outbox now uuid event_type payload key mode (os_rows st) = Inr (k, rows)"
  shows "outbox_inv (st\<lparr>os_rows := rows\<rparr>)"
proof -
  obtain r :: outbox_row where "rows = os_rows st @ [r]" "ob_id r \<notin> ob_id ` set (os_rows st)"
    "ob_next_attempt_at r \<noteq> None" "ob_sent_at r = None"
    using e by (auto simp: enqueue_outbox_def Let_def bindr_Inr_iff insert_unique_Inr split: if_splits)
  with inv show ?thesis by (auto simp: outbox_inv_def row_sound_def)
qed

lemma outbox_inv_step: "outbox_step py hs st st' \<Longrightarrow> outbox_inv st \<Longrightarrow> outbox_inv st'"
proof (induction rule: outbox_step.induct)
  case (Outbox_send m st cx fate tp ts outcome w)
  note e = send_event_effect [OF Outbox_send(2)]
  have "outbox_inv (st\<lparr>os_world := w\<rparr>)" by (rule outbox_inv_world [OF Outbox_send(3) conjunct1 [OF e]])
  with Outbox_send(1) e show ?case
    by (auto simp: outbox_inv_def content_delivered_def message_content_def)
qed (blast intro: outbox_inv_enqueue outbox_inv_claim outbox_inv_settle outbox_inv_world)+

interpretation outbox: step_invariant "outbox_step py hs" outbox_inv
  for py hs
  by unfold_locales (rule outbox_inv_step)

subsection \<open>A run of the relay\<close>

lemma settle_content: "settle rl u now finished m outcome rows = Some rows' \<Longrightarrow> map row_content rows' = map row_content rows"
  by (auto simp: settle_def record_failure_def finish_content Let_def split: sum.splits send_error.splits)

lemma relay_messages_steps:
  assumes "set ms \<subseteq> os_claimed st"
    and "relay_messages rl (\<lambda>k. platform_net py (cx k) (fate k) (tp k) (ts k)) hs u clock k ms counts (os_rows st) (os_world st)
      = (result, rows, w)"
  shows "map row_content rows = map row_content (os_rows st)
    \<and> (\<exists>st'. (outbox_step py hs)\<^sup>*\<^sup>* st st' \<and> os_rows st' = rows \<and> os_world st' = w)"
  using assms
proof (induction ms arbitrary: k counts st)
  case Nil
  then show ?case by auto
next
  case (Cons m ms)
  obtain outcome w1 where o: "send_event (platform_net py (cx k) (fate k) (tp k) (ts k)) hs (ms_event_type m) (ms_payload m)
      (ms_idempotency_key m) (ms_envelope_mode m) (os_world st) = (outcome, w1)" by (metis prod.collapse)
  let ?st1 = "st\<lparr>os_outcomes := insert (m, outcome) (os_outcomes st), os_world := w1\<rparr>"
  have s1: "outbox_step py hs st ?st1" by (rule Outbox_send [OF _ o]) (use Cons.prems(1) in simp)
  show ?case
  proof (cases "settle rl (u k) (fst (clock k)) (snd (clock k)) m outcome (os_rows st)")
    case None
    with Cons.prems(2) o have "rows = os_rows ?st1" "w = os_world ?st1" by simp_all
    with s1 show ?thesis by (auto intro!: exI [of _ ?st1])
  next
    case (Some rows1)
    let ?st2 = "?st1\<lparr>os_rows := rows1\<rparr>"
    have s2: "outbox_step py hs ?st1 ?st2" by (rule Outbox_settle) (use Some in simp_all)
    have ms: "set ms \<subseteq> os_claimed ?st2" using Cons.prems(1) by simp
    obtain counts' where r: "relay_messages rl (\<lambda>k. platform_net py (cx k) (fate k) (tp k) (ts k)) hs u clock (Suc k) ms counts'
        (os_rows ?st2) (os_world ?st2) = (result, rows, w)"
      using Cons.prems(2) o Some by simp
    from Cons.IH [OF ms r] obtain st' where "map row_content rows = map row_content rows1"
      "(outbox_step py hs)\<^sup>*\<^sup>* ?st2 st'" "os_rows st' = rows" "os_world st' = w"
      by auto
    moreover have "(outbox_step py hs)\<^sup>*\<^sup>* st ?st2"
      using s1 s2 by (rule converse_rtranclp_into_rtranclp [OF _ r_into_rtranclp])
    ultimately show ?thesis using settle_content [OF Some] by (auto intro: rtranclp_trans)
  qed
qed

lemma relay_run_once_steps:
  assumes "relay_run_once rl (\<lambda>k. platform_net py (cx k) (fate k) (tp k) (ts k)) hs now tokens skip u clock (os_rows st) (os_world st)
      = (result, rows, w)"
  shows "map row_content rows = map row_content (os_rows st)
    \<and> (\<exists>st'. (outbox_step py hs)\<^sup>*\<^sup>* st st' \<and> os_rows st' = rows \<and> os_world st' = w)"
proof -
  obtain ms rows1 where c: "claim_outbox rl now tokens skip (os_rows st) = (ms, rows1)" by (metis prod.collapse)
  let ?st1 = "st\<lparr>os_rows := rows1, os_claimed := os_claimed st \<union> set ms\<rparr>"
  have s1: "outbox_step py hs st ?st1" by (rule Outbox_claim [OF c])
  have same: "map row_content rows1 = map row_content (os_rows st)"
    using lease_rows_spec [OF c [unfolded claim_outbox_def]] by blast
  have ms: "set ms \<subseteq> os_claimed ?st1" by simp
  have r: "relay_messages rl (\<lambda>k. platform_net py (cx k) (fate k) (tp k) (ts k)) hs u clock 0 ms (0, 0) (os_rows ?st1) (os_world ?st1)
      = (result, rows, w)"
    using assms c by (simp add: relay_run_once_def)
  from relay_messages_steps [OF ms r] obtain st' where "map row_content rows = map row_content rows1"
    "(outbox_step py hs)\<^sup>*\<^sup>* ?st1 st'" "os_rows st' = rows" "os_world st' = w"
    by auto
  with same show ?thesis using s1 by (auto intro: converse_rtranclp_into_rtranclp)
qed

lemma pending_claimable:
  assumes "ob_sent_at r = None" and "ob_failed_at r = None" and "ob_next_attempt_at r \<noteq> None"
  shows "\<exists>t. \<forall>now \<ge> t. claimable_row now r"
proof -
  obtain n where "ob_next_attempt_at r = Some n" using assms(3) by auto
  with assms(1,2) show ?thesis
    by (cases "ob_locked_until r") (auto simp: claimable_row_def intro: exI [of _ n] exI [of _ "max n (the (ob_locked_until r))"])
qed

subsection \<open>Properties\<close>

text \<open>
  C8: the outbox delivers at least once and the platform keeps one.  Let relays, whose
  requests or responses may be lost and who may crash between any two steps, work on an outbox in
  any interleaving with new messages and other steps of the platform, and let a relay run once more.
  No message disappears.  A message marked sent has its event in the platform, under its key and with
  its type, envelope mode and payload, and no project has two events under one key.  A message neither
  sent nor failed is claimable again from some time on.
\<close>

theorem outbox_once:
  assumes "unique_events (snd w0)" and "(outbox_step py hs)\<^sup>*\<^sup>* (outbox_start w0) st"
    and "relay_run_once rl (\<lambda>k. platform_net py (cx k) (fate k) (tp k) (ts k)) hs now tokens skip u clock
        (os_rows st) (os_world st) = (result, rows, w)"
  shows "map ob_id rows = map ob_id (os_rows st)
    \<and> (\<forall>r \<in> set rows.
         (ob_sent_at r \<noteq> None \<longrightarrow>
            delivered_event (ob_event_type r) (ob_payload r) (ob_idempotency_key r) (ob_envelope_mode r) (snd w))
         \<and> (ob_sent_at r = None \<and> ob_failed_at r = None \<longrightarrow> (\<exists>t. \<forall>now' \<ge> t. claimable_row now' r)))
    \<and> unique_events (snd w)"
proof -
  obtain st' where same: "map row_content rows = map row_content (os_rows st)"
    and st': "(outbox_step py hs)\<^sup>*\<^sup>* st st'" "os_rows st' = rows" "os_world st' = w"
    using relay_run_once_steps [OF assms(3)] by auto
  have "outbox_inv (outbox_start w0)" using assms(1) by (simp add: outbox_inv_def outbox_start_def)
  with assms(2) st'(1) have inv: "outbox_inv st'" by (blast intro: outbox.steps_keep)
  have "map ob_id rows = map ob_id (os_rows st)"
    using arg_cong [OF same, of "map fst"] by (simp add: row_content_def comp_def)
  moreover have "row_sound (snd w) r" if "r \<in> set rows" for r
    using inv that st'(2,3) by (simp add: outbox_inv_def)
  moreover have "unique_events (snd w)" using inv st'(3) by (simp add: outbox_inv_def)
  ultimately show ?thesis
    by (auto simp: row_sound_def content_delivered_def row_content_def intro!: pending_claimable)
qed

subsubsection \<open>A sample run\<close>

definition sample_plaintext :: string where
  "sample_plaintext = ''whk_'' @ replicate 12 (CHR ''a'') @ ''_'' @ replicate 43 (CHR ''b'')"

definition sample_key_db :: "string \<Rightarrow> db" where
  "sample_key_db digest = sample_ingest_db\<lparr>db_api_keys :=
     [\<lparr>ak_id = 3, ak_public_id = ''key'', ak_project_id = 5, ak_name = ''k'',
       ak_key_prefix = replicate 12 (CHR ''a''), ak_key_digest = digest, ak_scopes = [''events:write''],
       ak_expires_at = None, ak_rotation_family_id = ''f'', ak_rotated_from_id = None, ak_is_active = True,
       ak_created_at = 0, ak_last_used_at = None, ak_revoked_at = None\<rparr>]\<rparr>"

definition sample_digest :: string where
  "sample_digest = digest_api_key sample_plaintext (api_key_pepper default_settings)"

definition sample_tracker :: usage_tracker where
  "sample_tracker = \<lparr>ut_max_entries = 10, ut_running = True, ut_pending = []\<rparr>"

definition sample_pydantic :: pydantic where
  "sample_pydantic = \<lparr>py_datetime = JInt, py_errors = (\<lambda>_ _. [])\<rparr>"

definition sample_row :: outbox_row where
  "sample_row = \<lparr>ob_id = ''row'', ob_event_type = ''order.created'', ob_payload = sample_payload,
     ob_idempotency_key = ''key-1'', ob_envelope_mode = ''native'', ob_lease_token = None,
     ob_locked_until = None, ob_attempt_count = 0, ob_next_attempt_at = Some 5, ob_last_error_code = None,
     ob_created_at = 5, ob_sent_at = None, ob_failed_at = None\<rparr>"

definition sample_relay :: relay where
  "sample_relay = \<lparr>rl_batch_size = 50, rl_lease_seconds = 60, rl_max_attempts = 20,
     rl_retry_base_seconds = 1, rl_retry_cap_seconds = 300\<rparr>"

definition sample_headers :: "(string \<times> string) list" where
  "sample_headers = [(''X-API-Key'', sample_plaintext), (''User-Agent'', ''webhook-platform-python/0.1'')]"

lemma sample_rows_prefix:
  "api_key_rows (replicate 12 (CHR ''a'')) (sample_key_db d) =
     [(hd (db_api_keys (sample_key_db d)), sample_project, hd (db_organizations sample_ingest_db))]"
  by code_simp

lemma sample_matches: "match_api_key sample_plaintext = Some (replicate 12 (CHR ''a''))"
  by code_simp

lemma sample_key_ok:
  "\<not> key_refused (cx_now sample_ctx) (hd (db_api_keys (sample_key_db d))) sample_project (hd (db_organizations sample_ingest_db))
   \<and> ak_key_digest (hd (db_api_keys (sample_key_db d))) = d \<and> ak_id (hd (db_api_keys (sample_key_db d))) = 3"
  by code_simp

lemma digest_pattern_api_key: "digest_pattern (digest_api_key plaintext pepper)"
  using hex64_hmac [of "utf8_encode pepper" "utf8_encode plaintext"]
  by (simp add: digest_pattern_def digest_api_key_def hex64_def hex_char_def [abs_def] Let_def)

lemma sample_authenticates:
  "get_api_key_project (api_key_pepper (cx_settings sample_ctx)) (cx_now sample_ctx) (Some sample_plaintext)
     (sample_key_db sample_digest) = Inr (3, sample_project)"
proof -
  have "api_key_pepper (cx_settings sample_ctx) = api_key_pepper default_settings" by (simp add: sample_ctx_def)
  then show ?thesis using sample_key_ok [of sample_digest] digest_pattern_api_key
    by (simp add: get_api_key_project_def sample_matches sample_rows_prefix verify_api_key_def compare_digest_def
      sample_digest_def)
qed

lemma sample_key_ingest:
  "\<exists>e s'. ingest_event sample_ctx sample_project ''key-1'' ''order.created'' sample_payload Native None None
      (sample_key_db d) = Inr (e, s')"
proof -
  obtain fp where fp: "request_fingerprint (cx_settings sample_ctx) ''key-1'' ''order.created'' sample_payload Native
      = Some fp"
    using sample_fingerprint by (auto simp: sample_ctx_def)
  have "case ingest_event sample_ctx sample_project ''key-1'' ''order.created'' sample_payload Native None None
      (sample_key_db d) of Inl _ \<Rightarrow> False | Inr (e, s') \<Rightarrow> True"
    unfolding ingest_valid [OF fp] by code_simp
  then show ?thesis by (auto split: sum.splits)
qed

lemma sample_post:
  "\<exists>e t s'. post_event sample_pydantic sample_ctx (Some sample_plaintext) (Some ''key-1'')
      (JObject [(''type'', JString ''order.created''), (''payload'', sample_payload), (''envelope_mode'', JString ''native'')])
      None None (sample_tracker, sample_key_db sample_digest)
    = (\<lparr>rs_status = 202, rs_headers = [], rs_body = event_out sample_pydantic e\<rparr>, t, s')"
proof -
  obtain e s' where i: "ingest_event sample_ctx sample_project ''key-1'' ''order.created'' sample_payload Native None None
      (sample_key_db sample_digest) = Inr (e, s')"
    using sample_key_ingest by blast
  have "event_create (JObject [(''type'', JString ''order.created''), (''payload'', sample_payload),
      (''envelope_mode'', JString ''native'')]) = Some (''order.created'', sample_payload, Native)"
    by (simp add: sample_payload_def)
  with i show ?thesis by (auto simp: post_event_def sample_authenticates)
qed

lemma sample_sends:
  "\<exists>doc w. send_event (platform_net sample_pydantic sample_ctx Answered None None) sample_headers ''order.created''
      sample_payload ''key-1'' ''native'' (sample_tracker, sample_key_db sample_digest) = (Inr doc, w)"
proof -
  have hs: "map_of (filter (\<lambda>(k, _). k \<notin> fst ` set [(''Idempotency-Key'', ''key-1'')]) sample_headers
      @ [(''Idempotency-Key'', ''key-1'')]) ''X-API-Key'' = Some sample_plaintext"
    "map_of (filter (\<lambda>(k, _). k \<notin> fst ` set [(''Idempotency-Key'', ''key-1'')]) sample_headers
      @ [(''Idempotency-Key'', ''key-1'')]) ''Idempotency-Key'' = Some ''key-1''"
    by (simp_all add: sample_headers_def)
  obtain e t s' where "post_event sample_pydantic sample_ctx (Some sample_plaintext) (Some ''key-1'')
      (JObject [(''type'', JString ''order.created''), (''payload'', sample_payload), (''envelope_mode'', JString ''native'')])
      None None (sample_tracker, sample_key_db sample_digest)
    = (\<lparr>rs_status = 202, rs_headers = [], rs_body = event_out sample_pydantic e\<rparr>, t, s')"
    using sample_post by blast
  with hs show ?thesis
    by (simp add: send_event_def client_request_json_def platform_net_def event_out_def)
qed

lemma sample_enqueue:
  "enqueue_outbox 5 (\<lambda>_. ''row'') ''order.created'' sample_payload (Some ''key-1'') ''native'' [] = Inr (''key-1'', [sample_row])"
  by (simp add: enqueue_outbox_def sample_row_def insert_unique_def Let_def)

theorem outbox_once_witness:
  "\<exists>st rows w r. (outbox_step sample_pydantic sample_headers)\<^sup>*\<^sup>*
      (outbox_start (sample_tracker, sample_key_db sample_digest)) st
    \<and> relay_run_once sample_relay (\<lambda>_. platform_net sample_pydantic sample_ctx Answered None None) sample_headers
        6 (\<lambda>_. ''token'') (\<lambda>_. False) (\<lambda>_. 0) (\<lambda>_. (7, 8)) (os_rows st) (os_world st) = (Some (1, 0), rows, w)
    \<and> rows = [r] \<and> ob_sent_at r = Some 8 \<and> unique_events (snd w)
    \<and> delivered_event ''order.created'' sample_payload ''key-1'' ''native'' (snd w)"
proof -
  let ?w0 = "(sample_tracker, sample_key_db sample_digest)"
  let ?st = "(outbox_start ?w0)\<lparr>os_rows := [sample_row]\<rparr>"
  let ?net = "\<lambda>_ :: nat. platform_net sample_pydantic sample_ctx Answered None None"
  have "outbox_step sample_pydantic sample_headers (outbox_start ?w0) ?st"
    by (rule Outbox_enqueue) (use sample_enqueue in \<open>simp add: outbox_start_def\<close>)
  then have reach: "(outbox_step sample_pydantic sample_headers)\<^sup>*\<^sup>* (outbox_start ?w0) ?st" by blast
  let ?m = "message_of ''token'' sample_row"
  let ?rows = "[lease_row sample_relay 6 ''token'' sample_row]"
  have claim: "claim_outbox sample_relay 6 (\<lambda>_. ''token'') (\<lambda>_. False) [sample_row] = ([?m], ?rows)"
    by (simp add: claim_outbox_def claimable_rows_def claimable_row_def sample_row_def sample_relay_def)
  obtain doc w where sent: "send_event (?net 0) sample_headers ''order.created'' sample_payload ''key-1'' ''native'' ?w0 = (Inr doc, w)"
    using sample_sends by blast
  obtain r where settled: "settle sample_relay 0 7 8 ?m (Inr doc) ?rows = Some [r]" and r: "ob_sent_at r = Some 8"
      "ob_event_type r = ''order.created''" "ob_payload r = sample_payload" "ob_idempotency_key r = ''key-1''"
      "ob_envelope_mode r = ''native''"
    by (simp add: settle_def finish_def message_of_def lease_row_def sample_row_def)
  have run: "relay_run_once sample_relay ?net sample_headers 6 (\<lambda>_. ''token'') (\<lambda>_. False) (\<lambda>_. 0) (\<lambda>_. (7, 8))
      (os_rows ?st) (os_world ?st) = (Some (1, 0), [r], w)"
    using claim sent settled by (simp add: relay_run_once_def outbox_start_def message_of_def sample_row_def)
  have u: "unique_events (snd ?w0)"
    by (simp add: unique_events_def sample_key_db_def sample_ingest_db_def sample_tenancy_def empty_db_def)
  from outbox_once [OF u reach run] r have "unique_events (snd w)"
    "delivered_event ''order.created'' sample_payload ''key-1'' ''native'' (snd w)"
    by auto
  with reach run r(1) show ?thesis by blast
qed

end
