(* ===== verification/Middleware.thy ===== *)
theory Middleware
  imports Http_Api
begin

text \<open>
  \<^verbatim>\<open>app/middleware.py\<close>: the limit on declared body sizes, the headers every response carries, and the
  fixed-window rate limiter of the unauthenticated endpoints.  The rest of the stack is an argument:
  \<open>call_next\<close> is its response or the exception it raises.  Readings of the monotonic clock are exact
  rationals.
\<close>

subsection \<open>Body sizes\<close>

definition body_limit_slack_bytes :: int where
  "body_limit_slack_bytes = 65536"

definition body_size_dispatch ::
  "settings \<Rightarrow> string option \<Rightarrow> api_response result \<Rightarrow> api_response result"
where
  "body_size_dispatch cfg declared call_next =
     (case declared of
        None \<Rightarrow> call_next
      | Some text \<Rightarrow>
          if \<not> is_digits text then call_next
          else case py_int text of
                 None \<Rightarrow> Inl (ValueError ''invalid literal for int()'')
               | Some n \<Rightarrow>
                   if n > webhook_payload_max_bytes cfg + body_limit_slack_bytes
                   then Inr \<lparr>rs_status = 413, rs_headers = [],
                     rs_body = JObject [(''error'', JObject [(''code'', JString ''PAYLOAD_TOO_LARGE''),
                       (''message'', JString ''Request body exceeds the configured limit'')])]\<rparr>
                   else call_next)"

subsection \<open>Request context\<close>

definition request_id_char :: "char \<Rightarrow> bool" where
  "request_id_char c \<longleftrightarrow> (let n = cp c
     in 65 \<le> n \<and> n \<le> 90 \<or> 97 \<le> n \<and> n \<le> 122 \<or> 48 \<le> n \<and> n \<le> 57 \<or> c \<in> {CHR ''.'', CHR ''_'', CHR ''-''})"

definition request_id_pattern :: "string \<Rightarrow> bool" where
  "request_id_pattern s \<longleftrightarrow> 1 \<le> length s \<and> length s \<le> 128 \<and> list_all request_id_char s"

text \<open>\<open>f"{x:.6f}"\<close> of a non-negative number.\<close>

definition format_6f :: "rat \<Rightarrow> string" where
  "format_6f x =
     (let n = round_half_even (x * 1000000); f = str_of_int (n mod 1000000)
      in str_of_int (n div 1000000) @ ''.'' @ replicate (6 - length f) (CHR ''0'') @ f)"

text \<open>\<open>set_header\<close> is the assignment to the header mapping of a response.\<close>

definition request_context_dispatch ::
  "(string \<Rightarrow> string \<Rightarrow> api_response \<Rightarrow> api_response) \<Rightarrow> string option \<Rightarrow> string \<Rightarrow> rat \<Rightarrow> api_response result \<Rightarrow> api_response result"
where
  "request_context_dispatch set_header supplied uuid elapsed call_next =
     (let supplied_id = (case supplied of None \<Rightarrow> [] | Some x \<Rightarrow> x);
          request_id = (if request_id_pattern supplied_id then supplied_id else uuid)
      in bindr call_next (\<lambda>response. Inr
           (set_header ''Referrer-Policy'' ''no-referrer''
           (set_header ''X-Frame-Options'' ''DENY''
           (set_header ''X-Content-Type-Options'' ''nosniff''
           (set_header ''X-Process-Time'' (format_6f elapsed)
           (set_header ''X-Request-ID'' request_id response)))))))"

subsection \<open>The rate limiter\<close>

text \<open>The table of a process, in insertion order: the start of the window and the count of a key.\<close>

type_synonym hits = "(string \<times> (rat \<times> int)) list"

record rate_limiter =
  rm_requests :: int
  rm_window :: int
  rm_max_entries :: int

text \<open>An argument that is missing or zero is taken from the settings.\<close>

definition rate_limiter_init :: "settings \<Rightarrow> int option \<Rightarrow> int option \<Rightarrow> int option \<Rightarrow> rate_limiter" where
  "rate_limiter_init cfg requests window_seconds max_entries =
     (let or_default = (\<lambda>x d. case x of None \<Rightarrow> d | Some n \<Rightarrow> if n = 0 then d else n)
      in \<lparr>rm_requests = or_default requests (rate_limit_requests cfg),
          rm_window = or_default window_seconds (rate_limit_window_seconds cfg),
          rm_max_entries = or_default max_entries (rate_limit_max_entries cfg)\<rparr>)"

text \<open>\<^verbatim>\<open>min\<close> over the keys of the table: the first of the keys whose window starts earliest.\<close>

fun oldest_key :: "hits \<Rightarrow> (string \<times> rat) option" where
  "oldest_key [] = None"
| "oldest_key ((key, (start, _)) # rest) =
     (case oldest_key rest of
        None \<Rightarrow> Some (key, start)
      | Some (key', start') \<Rightarrow> if start \<le> start' then Some (key, start) else Some (key', start'))"

definition make_room :: "rate_limiter \<Rightarrow> rat \<Rightarrow> string \<Rightarrow> hits \<Rightarrow> hits" where
  "make_room rm now incoming_key hits =
     (if incoming_key \<in> fst ` set hits \<or> int (length hits) < rm_max_entries rm then hits
      else
        let hits1 = filter (\<lambda>(_, (start, _)). \<not> now - start \<ge> of_int (rm_window rm)) hits
        in if int (length hits1) \<ge> rm_max_entries rm
           then case oldest_key hits1 of
                  None \<Rightarrow> hits1
                | Some (oldest, _) \<Rightarrow> AList.delete oldest hits1
           else hits1)"

text \<open>\<^verbatim>\<open>_check\<close>: whether the request may pass, the seconds to wait and the table afterwards.\<close>

definition rate_check :: "rate_limiter \<Rightarrow> rat \<Rightarrow> string \<Rightarrow> hits \<Rightarrow> (bool \<times> int) \<times> hits" where
  "rate_check rm now key hits =
     (case map_of hits key of
        None \<Rightarrow> ((True, 0), AList.update key (now, 1) (make_room rm now key hits))
      | Some (window_start, n) \<Rightarrow>
          if now - window_start \<ge> of_int (rm_window rm)
          then ((True, 0), AList.update key (now, 1) (make_room rm now key hits))
          else if n \<ge> rm_requests rm
          then ((False, max 1 \<lfloor>of_int (rm_window rm) - (now - window_start)\<rfloor>), hits)
          else ((True, 0), AList.update key (window_start, n + 1) hits))"

definition is_limited :: "string \<Rightarrow> string \<Rightarrow> bool" where
  "is_limited method path \<longleftrightarrow> method = ''POST'' \<and> path \<in> {''/auth/login'', ''/users/''}"

definition client_key :: "string option \<Rightarrow> string" where
  "client_key client = (case client of None \<Rightarrow> ''unknown'' | Some host \<Rightarrow> host)"

definition rate_limit_dispatch ::
  "rate_limiter \<Rightarrow> rat \<Rightarrow> string \<Rightarrow> string \<Rightarrow> string option \<Rightarrow> api_response result \<Rightarrow> hits \<Rightarrow>
   api_response result \<times> hits"
where
  "rate_limit_dispatch rm now method path client call_next hits =
     (if \<not> is_limited method path then (call_next, hits)
      else case rate_check rm now (client_key client @ '':'' @ path) hits of
             ((allowed, retry_after), hits') \<Rightarrow>
               (if \<not> allowed
                then Inr \<lparr>rs_status = 429, rs_headers = [(''Retry-After'', str_of_int retry_after)],
                  rs_body = JObject [(''error'', JObject [(''code'', JString ''RATE_LIMITED''),
                    (''message'', JString (''Too many requests. Try again in '' @ str_of_int retry_after @ ''s.'')),
                    (''details'', JObject [])])]\<rparr>
                else call_next, hits'))"

end
