(* ===== verification/Middleware_Safety.thy ===== *)
theory Middleware_Safety
  imports Middleware
begin

text \<open>
  The rate limiter over a run of requests: the table stays within its bound, and the requests of a key
  stay within the limit of its windows.
\<close>

subsection \<open>Runs\<close>

text \<open>The checks of a run, in order: which were allowed, and the table at the end.\<close>

fun check_all :: "rate_limiter \<Rightarrow> (rat \<times> string) list \<Rightarrow> hits \<Rightarrow> bool list \<times> hits" where
  "check_all rm [] hits = ([], hits)"
| "check_all rm ((now, key) # rs) hits =
     (case rate_check rm now key hits of
        ((allowed, _), hits') \<Rightarrow>
          (case check_all rm rs hits' of (bs, hits'') \<Rightarrow> (allowed # bs, hits'')))"

text \<open>The allowed requests of a key in the half-open span of a window's length from \<open>t0\<close>.\<close>

definition allowed_in :: "rate_limiter \<Rightarrow> string \<Rightarrow> rat \<Rightarrow> (rat \<times> string) list \<Rightarrow> bool list \<Rightarrow> int" where
  "allowed_in rm key t0 rs bs =
     int (length (filter (\<lambda>((now, k), b). b \<and> k = key \<and> t0 \<le> now \<and> now < t0 + of_int (rm_window rm)) (zip rs bs)))"

subsection \<open>The table\<close>

lemma length_delete_key: "k \<in> fst ` set xs \<Longrightarrow> length (AList.delete k xs) < length xs"
  unfolding AList.delete_eq by (auto intro!: length_filter_less)

lemma length_update_key:
  "length (AList.update k v xs) = (if k \<in> fst ` set xs then length xs else Suc (length xs))"
  by (induction xs) auto

lemma oldest_key_in: "oldest_key hits = Some (k, t) \<Longrightarrow> k \<in> fst ` set hits"
  by (induction hits arbitrary: k t rule: oldest_key.induct) (fastforce split: option.splits if_splits)+

lemma oldest_key_None [simp]: "oldest_key hits = None \<longleftrightarrow> hits = []"
  by (induction hits rule: oldest_key.induct) (auto split: option.splits)

lemma make_room_bound:
  assumes "int (length hits) \<le> rm_max_entries rm" and "1 \<le> rm_max_entries rm" and "key \<notin> fst ` set hits"
  shows "int (length (make_room rm now key hits)) < rm_max_entries rm"
proof -
  let ?h = "filter (\<lambda>(_, (start, _)). \<not> now - start \<ge> of_int (rm_window rm)) hits"
  have l: "length ?h \<le> length hits" by (rule length_filter_le)
  show ?thesis
  proof (cases "oldest_key ?h")
    case None
    with assms l show ?thesis by (auto simp: make_room_def Let_def)
  next
    case (Some kt)
    obtain k t where kt: "kt = (k, t)" by (cases kt)
    have "int (length (AList.delete k ?h)) < int (length hits)"
      using length_delete_key [OF oldest_key_in [OF Some [unfolded kt]]] l by linarith
    with assms Some kt show ?thesis by (auto simp: make_room_def Let_def)
  qed
qed

lemma make_room_sub: "set (make_room rm now key hits) \<subseteq> set hits"
  by (auto simp: make_room_def Let_def AList.delete_eq split: option.splits)

lemma distinct_make_room: "distinct (map fst hits) \<Longrightarrow> distinct (map fst (make_room rm now key hits))"
  by (auto simp: make_room_def Let_def distinct_map_filter distinct_delete split: option.splits)

lemma rate_check_table:
  assumes "rate_check rm now key hits = (r, hits')" and "int (length hits) \<le> rm_max_entries rm"
    and "1 \<le> rm_max_entries rm"
  shows "int (length hits') \<le> rm_max_entries rm"
proof (cases "map_of hits key")
  case None
  then have k: "key \<notin> fst ` set hits" by (simp add: map_of_eq_None_iff)
  moreover have "key \<notin> fst ` set (make_room rm now key hits)" using k make_room_sub by fastforce
  ultimately show ?thesis
    using make_room_bound [OF assms(2,3) k, of now] assms(1) None
    by (auto simp: rate_check_def length_update_key)
next
  case (Some v)
  then have k: "key \<in> fst ` set hits" by (metis map_of_eq_None_iff option.distinct(1))
  then have "length (AList.update key v' hits) = length hits" for v' by (simp only: length_update_key if_True)
  moreover have "make_room rm now key hits = hits" by (simp only: make_room_def k simp_thms if_True)
  ultimately show ?thesis using Some assms by (auto simp: rate_check_def split: if_splits prod.splits)
qed

lemma check_all_table:
  assumes "check_all rm rs hits = (bs, hits')" and "int (length hits) \<le> rm_max_entries rm"
    and "1 \<le> rm_max_entries rm"
  shows "int (length hits') \<le> rm_max_entries rm \<and> length bs = length rs"
  using assms
proof (induction rm rs hits arbitrary: bs hits' rule: check_all.induct)
  case (2 rm now key rs hits)
  obtain a n hits1 where c: "rate_check rm now key hits = ((a, n), hits1)" by (metis prod_cases3 prod.collapse)
  obtain bs1 where r: "check_all rm rs hits1 = (bs1, hits')" "bs = a # bs1"
    using 2(2) c by (auto split: prod.splits)
  show ?case using 2(1) [OF c [symmetric] refl r(1)] rate_check_table [OF c 2(3,4)] r(2) 2(4) by simp
qed simp

subsection \<open>Windows\<close>

text \<open>
  The table has room for the keys of the run, so that no entry is ever evicted: then the count of a key
  is the number of its allowed requests since its window began.
\<close>

definition roomy :: "rate_limiter \<Rightarrow> string set \<Rightarrow> hits \<Rightarrow> bool" where
  "roomy rm K hits \<longleftrightarrow> finite K \<and> int (card K) \<le> rm_max_entries rm \<and> fst ` set hits \<subseteq> K \<and> distinct (map fst hits)"

lemma make_room_roomy:
  assumes "roomy rm K hits" and "key \<in> K"
  shows "make_room rm now key hits = hits"
proof (cases "key \<in> fst ` set hits")
  case False
  have "fst ` set hits \<subset> K" using assms False by (auto simp: roomy_def)
  then have "card (fst ` set hits) < card K" using assms(1) by (intro psubset_card_mono) (auto simp: roomy_def)
  moreover have "card (fst ` set hits) = length hits"
    using assms(1) distinct_card [of "map fst hits"] by (simp add: roomy_def)
  ultimately show ?thesis using assms(1) by (auto simp: make_room_def roomy_def)
qed (simp add: make_room_def)

lemma update_roomy: "roomy rm K hits \<Longrightarrow> key \<in> K \<Longrightarrow> roomy rm K (AList.update key v hits)"
  by (simp add: roomy_def dom_update distinct_update)

lemma rate_check_roomy:
  assumes "roomy rm K hits" and "key \<in> K" and "rate_check rm now key hits = (r, hits')"
  shows "roomy rm K hits'"
  using assms update_roomy [OF assms(1,2)] make_room_roomy [OF assms(1,2), of now]
  by (auto simp: rate_check_def split: option.splits if_splits prod.splits)

text \<open>What the allowed requests in a span may amount to, given the current window of the key.\<close>

definition span_inv :: "rate_limiter \<Rightarrow> rat \<Rightarrow> rat \<Rightarrow> (rat \<times> int) option \<Rightarrow> int \<Rightarrow> bool" where
  "span_inv rm t0 now entry n \<longleftrightarrow> 0 \<le> n \<and> (now < t0 \<longrightarrow> n = 0) \<and>
     (case entry of
        None \<Rightarrow> n = 0
      | Some (start, c) \<Rightarrow> start \<le> now \<and> 1 \<le> c \<and> c \<le> rm_requests rm
          \<and> (if start < t0 then n \<le> c
             else if start < t0 + of_int (rm_window rm) then n \<le> rm_requests rm + c
             else n \<le> 2 * rm_requests rm))"

lemma span_step:
  assumes inv: "span_inv rm t0 t (map_of hits key) n" and "t \<le> now" and room: "roomy rm K hits" "k \<in> K"
    and chk: "rate_check rm now k hits = ((a, w), hits')" and "1 \<le> rm_requests rm"
  shows "span_inv rm t0 now (map_of hits' key)
    (n + (if a \<and> k = key \<and> t0 \<le> now \<and> now < t0 + of_int (rm_window rm) then 1 else 0))"
proof (cases "k = key")
  case False
  then have "map_of hits' key = map_of hits key"
    using chk make_room_roomy [OF room, of now]
    by (auto simp: rate_check_def update_conv' split: option.splits if_splits prod.splits)
  with inv False \<open>t \<le> now\<close> show ?thesis by (auto simp: span_inv_def split: option.splits)
next
  case True
  show ?thesis
  proof (cases "map_of hits key")
    case None
    with True chk inv assms(2,6) make_room_roomy [OF room, of now] show ?thesis
      by (auto simp: rate_check_def update_conv' span_inv_def)
  next
    case (Some sc)
    obtain start c where sc: "sc = (start, c)" by (cases sc)
    consider (fresh) "of_int (rm_window rm) \<le> now - start" | (refused) "now - start < of_int (rm_window rm)" "rm_requests rm \<le> c"
      | (counted) "now - start < of_int (rm_window rm)" "c < rm_requests rm" by linarith
    then show ?thesis
    proof cases
      case fresh
      then have "a" "map_of hits' key = Some (now, 1)"
        using True Some sc chk make_room_roomy [OF room, of now] by (auto simp: rate_check_def update_conv')
      with fresh inv Some sc True assms(2,6) show ?thesis by (auto simp: span_inv_def split: if_splits)
    next
      case refused
      then have "\<not> a" "hits' = hits" using True Some sc chk by (auto simp: rate_check_def)
      with inv Some sc True assms(2) show ?thesis by (auto simp: span_inv_def)
    next
      case counted
      then have "a" "map_of hits' key = Some (start, c + 1)"
        using True Some sc chk by (auto simp: rate_check_def update_conv')
      with counted inv Some sc True assms(2) show ?thesis by (auto simp: span_inv_def split: if_splits)
    qed
  qed
qed

lemma check_all_span:
  assumes "span_inv rm t0 t (map_of hits key) n" and "roomy rm K hits" and "snd ` set rs \<subseteq> K"
    and "sorted (t # map fst rs)" and "1 \<le> rm_requests rm" and "check_all rm rs hits = (bs, hits')"
  shows "n + allowed_in rm key t0 rs bs \<le> 2 * rm_requests rm"
  using assms
proof (induction rs arbitrary: t hits n bs)
  case Nil
  then show ?case by (auto simp: span_inv_def allowed_in_def split: option.splits if_splits)
next
  case (Cons r rs)
  obtain now k where r: "r = (now, k)" by (cases r)
  obtain a w hits1 where c: "rate_check rm now k hits = ((a, w), hits1)" by (metis prod.collapse)
  obtain bs1 where b: "check_all rm rs hits1 = (bs1, hits')" "bs = a # bs1"
    using Cons.prems(6) c r by (auto split: prod.splits)
  have k: "k \<in> K" using Cons.prems(3) r by auto
  let ?d = "if a \<and> k = key \<and> t0 \<le> now \<and> now < t0 + of_int (rm_window rm) then 1 else (0 :: int)"
  have "span_inv rm t0 now (map_of hits1 key) (n + ?d)"
    by (rule span_step [OF Cons.prems(1) _ Cons.prems(2) k c Cons.prems(5)]) (use Cons.prems(4) r in auto)
  from Cons.IH [OF this rate_check_roomy [OF Cons.prems(2) k c] _ _ Cons.prems(5) b(1)] Cons.prems(3,4) r
  have "n + ?d + allowed_in rm key t0 rs bs1 \<le> 2 * rm_requests rm" by auto
  moreover have "allowed_in rm key t0 (r # rs) bs = ?d + allowed_in rm key t0 rs bs1"
    by (simp add: allowed_in_def r b(2))
  ultimately show ?case by simp
qed

subsection \<open>Properties\<close>

text \<open>
  C31: the limiter bounds its memory and the requests it lets through.  From an empty
  table, whatever the requests, the table never holds more than its maximum of entries.  While it has
  room for the clients it sees, a client gets at most twice the configured number of requests to a path
  through in any span of a window's length (a fixed window may end and the next one begin inside it).
\<close>

theorem rate_limit_window:
  assumes "1 \<le> rm_requests rm" and "1 \<le> rm_max_entries rm" and "check_all rm rs [] = (bs, hits)"
  shows "int (length hits) \<le> rm_max_entries rm \<and> length bs = length rs
    \<and> (sorted (map fst rs) \<and> int (card (snd ` set rs)) \<le> rm_max_entries rm
         \<longrightarrow> allowed_in rm key t0 rs bs \<le> 2 * rm_requests rm)"
proof (intro conjI impI)
  show "int (length hits) \<le> rm_max_entries rm" "length bs = length rs"
    using check_all_table [OF assms(3) _ assms(2)] assms(2) by simp_all
next
  assume s: "sorted (map fst rs) \<and> int (card (snd ` set rs)) \<le> rm_max_entries rm"
  let ?t = "case rs of [] \<Rightarrow> 0 | r # _ \<Rightarrow> fst r"
  have "0 + allowed_in rm key t0 rs bs \<le> 2 * rm_requests rm"
    by (rule check_all_span [OF _ _ _ _ assms(1,3), of t0 ?t key 0 "snd ` set rs"])
      (use s in \<open>fastforce simp: span_inv_def roomy_def split: list.splits\<close>)+
  then show "allowed_in rm key t0 rs bs \<le> 2 * rm_requests rm" by simp
qed

theorem rate_limit_window_witness:
  "\<exists>bs hits. check_all \<lparr>rm_requests = 2, rm_window = 60, rm_max_entries = 2\<rparr>
      [(0, ''a''), (59, ''a''), (59, ''a''), (60, ''a''), (61, ''b''), (61, ''a''), (62, ''a'')] [] = (bs, hits)
    \<and> bs = [True, True, False, True, True, True, False]
    \<and> int (length hits) \<le> 2
    \<and> allowed_in \<lparr>rm_requests = 2, rm_window = 60, rm_max_entries = 2\<rparr> ''a'' 59
        [(0, ''a''), (59, ''a''), (59, ''a''), (60, ''a''), (61, ''b''), (61, ''a''), (62, ''a'')] bs \<le> 4"
proof -
  let ?rm = "\<lparr>rm_requests = 2, rm_window = 60, rm_max_entries = 2\<rparr>"
  let ?rs = "[(0, ''a''), (59, ''a''), (59, ''a''), (60, ''a''), (61, ''b''), (61, ''a''), (62, ''a'')] :: (rat \<times> string) list"
  have c: "check_all ?rm ?rs [] = ([True, True, False, True, True, True, False], [(''a'', (60, 2)), (''b'', (61, 1))])"
    by code_simp
  have "1 \<le> rm_requests ?rm" "1 \<le> rm_max_entries ?rm" "sorted (map fst ?rs)" "int (card (snd ` set ?rs)) \<le> rm_max_entries ?rm"
    by (simp_all add: card_insert_if)
  with rate_limit_window [OF _ _ c, of "''a''" 59] c show ?thesis by auto
qed

end
