(* ===== verification/Responses.thy ===== *)
theory Responses
  imports Http_Api Organization_Export Delivery_Admin Endpoints Py_Time
begin

text \<open>
  The response models of \<^verbatim>\<open>app/schemas/webhooks.py\<close>: for each, the JSON object a row is rendered as.
  Columns that a model does not name, such as the digest of an API key or the lease of a delivery,
  do not leave the service.  How pydantic writes a datetime is a parameter.
\<close>

subsection \<open>Literals\<close>

primrec lifecycle_state_value :: "lifecycle_state \<Rightarrow> string" where
  "lifecycle_state_value Active = ''active''"
| "lifecycle_state_value Deletion_pending = ''deletion_pending''"

primrec plan_value :: "plan \<Rightarrow> string" where
  "plan_value Free = ''free''"
| "plan_value Standard_plan = ''standard''"
| "plan_value Enterprise = ''enterprise''"

primrec signature_scheme_value :: "signature_scheme \<Rightarrow> string" where
  "signature_scheme_value Legacy = ''legacy''"
| "signature_scheme_value Standard = ''standard''"

primrec circuit_state_value :: "circuit_state \<Rightarrow> string" where
  "circuit_state_value Closed = ''closed''"
| "circuit_state_value Open = ''open''"
| "circuit_state_value Half_open = ''half_open''"

primrec operation_status_value :: "operation_status \<Rightarrow> string" where
  "operation_status_value Op_pending = ''pending''"
| "operation_status_value Op_running = ''running''"
| "operation_status_value Op_completed = ''completed''"
| "operation_status_value Op_canceled = ''canceled''"
| "operation_status_value Op_failed = ''failed''"

primrec replay_mode_value :: "replay_mode \<Rightarrow> string" where
  "replay_mode_value Single = ''single''"
| "replay_mode_value Bulk = ''bulk''"

primrec key_status_value :: "key_status \<Rightarrow> string" where
  "key_status_value Key_active = ''active''"
| "key_status_value Key_expired = ''expired''"
| "key_status_value Key_revoked = ''revoked''"

definition json_option :: "('a \<Rightarrow> json) \<Rightarrow> 'a option \<Rightarrow> json" where
  "json_option f x = (case x of None \<Rightarrow> JNull | Some v \<Rightarrow> f v)"

text \<open>Stored audit metadata; the sanitizer lets no \<open>AuOther\<close> in.\<close>

primrec audit_scalar_json :: "audit_scalar \<Rightarrow> json" where
  "audit_scalar_json AuNone = JNull"
| "audit_scalar_json (AuBool b) = JBool b"
| "audit_scalar_json (AuInt n) = JInt n"
| "audit_scalar_json (AuFloat fin x) = JFloat fin x"
| "audit_scalar_json (AuStr v) = JString v"
| "audit_scalar_json AuOther = JNull"

primrec audit_value_json :: "audit_value \<Rightarrow> json" where
  "audit_value_json (AuScalar x) = audit_scalar_json x"
| "audit_value_json (AuList xs) = JArray (map audit_scalar_json xs)"

subsection \<open>Models\<close>

definition organization_out :: "pydantic \<Rightarrow> organization \<Rightarrow> json" where
  "organization_out py o' = JObject
     [(''public_id'', JString (org_public_id o')), (''name'', JString (org_name o')),
      (''lifecycle_state'', JString (lifecycle_state_value (org_lifecycle_state o'))),
      (''deletion_requested_at'', json_option (py_datetime py) (org_deletion_requested_at o')),
      (''deletion_scheduled_at'', json_option (py_datetime py) (org_deletion_scheduled_at o')),
      (''created_at'', py_datetime py (org_created_at o'))]"

definition member_out :: "pydantic \<Rightarrow> organization_member \<Rightarrow> json" where
  "member_out py m = JObject
     [(''user_id'', JInt (om_user_id m)), (''role'', JString (organization_role_value (om_role m))),
      (''created_at'', py_datetime py (om_created_at m))]"

definition project_out :: "pydantic \<Rightarrow> project \<Rightarrow> json" where
  "project_out py p = JObject
     [(''public_id'', JString (prj_public_id p)), (''name'', JString (prj_name p)),
      (''is_active'', JBool (prj_is_active p)), (''created_at'', py_datetime py (prj_created_at p))]"

definition project_member_out :: "pydantic \<Rightarrow> project_member \<Rightarrow> json" where
  "project_member_out py m = JObject
     [(''user_id'', JInt (pm_user_id m)), (''role'', JString (project_role_value (pm_role m))),
      (''created_at'', py_datetime py (pm_created_at m))]"

definition api_key_fields :: "pydantic \<Rightarrow> api_key \<Rightarrow> (string \<times> json) list" where
  "api_key_fields py k =
     [(''public_id'', JString (ak_public_id k)), (''name'', JString (ak_name k)),
      (''key_prefix'', JString (ak_key_prefix k)), (''scopes'', JArray (map JString (ak_scopes k))),
      (''expires_at'', json_option (py_datetime py) (ak_expires_at k)),
      (''rotation_family_id'', JString (ak_rotation_family_id k)), (''is_active'', JBool (ak_is_active k)),
      (''created_at'', py_datetime py (ak_created_at k)),
      (''last_used_at'', json_option (py_datetime py) (ak_last_used_at k)),
      (''revoked_at'', json_option (py_datetime py) (ak_revoked_at k))]"

definition api_key_out :: "pydantic \<Rightarrow> api_key \<Rightarrow> json" where
  "api_key_out py k = JObject (api_key_fields py k)"

definition api_key_created :: "pydantic \<Rightarrow> api_key \<times> string \<Rightarrow> json" where
  "api_key_created py x =
     (case x of (k, plaintext) \<Rightarrow> JObject (api_key_fields py k @ [(''plaintext_key'', JString plaintext)]))"

definition endpoint_fields :: "pydantic \<Rightarrow> webhook_endpoint \<Rightarrow> (string \<times> json) list" where
  "endpoint_fields py e =
     [(''public_id'', JString (ep_public_id e)), (''url'', JString (ep_url e)),
      (''description'', json_option JString (ep_description e)),
      (''event_types'', json_option (\<lambda>ts. JArray (map JString ts)) (ep_event_types e)),
      (''signature_scheme'', JString (signature_scheme_value (ep_signature_scheme e))),
      (''is_active'', JBool (ep_is_active e)), (''secret_version'', JInt (ep_secret_version e)),
      (''created_at'', py_datetime py (ep_created_at e)), (''updated_at'', py_datetime py (ep_updated_at e))]"

definition endpoint_out :: "pydantic \<Rightarrow> webhook_endpoint \<Rightarrow> json" where
  "endpoint_out py e = JObject (endpoint_fields py e)"

definition endpoint_updated :: "pydantic \<Rightarrow> webhook_endpoint \<times> string option \<Rightarrow> json" where
  "endpoint_updated py x =
     (case x of (e, secret) \<Rightarrow> JObject (endpoint_fields py e @ [(''signing_secret'', json_option JString secret)]))"

definition endpoint_created :: "pydantic \<Rightarrow> webhook_endpoint \<times> string \<Rightarrow> json" where
  "endpoint_created py x =
     (case x of (e, secret) \<Rightarrow> JObject (endpoint_fields py e @ [(''signing_secret'', JString secret)]))"

definition endpoint_secret_rotated :: "pydantic \<Rightarrow> webhook_endpoint \<times> string \<times> datetime option \<Rightarrow> json" where
  "endpoint_secret_rotated py x =
     (case x of (e, secret, previous_valid_until) \<Rightarrow> JObject
        [(''public_id'', JString (ep_public_id e)), (''secret_version'', JInt (ep_secret_version e)),
         (''signing_secret'', JString secret),
         (''previous_valid_until'', json_option (py_datetime py) previous_valid_until)])"

definition delivery_fields :: "pydantic \<Rightarrow> delivery \<Rightarrow> (string \<times> json) list" where
  "delivery_fields py d =
     [(''public_id'', JString (dl_public_id d)), (''status'', JString (status_value (dl_status d))),
      (''attempt_count'', JInt (dl_attempt_count d)), (''next_attempt_at'', py_datetime py (dl_next_attempt_at d)),
      (''last_http_status'', json_option JInt (dl_last_http_status d)),
      (''last_error'', json_option JString (dl_last_error d)),
      (''replay_of_delivery_id'', json_option JInt (dl_replay_of_delivery_id d)),
      (''created_at'', py_datetime py (dl_created_at d)), (''updated_at'', py_datetime py (dl_updated_at d)),
      (''succeeded_at'', json_option (py_datetime py) (dl_succeeded_at d)),
      (''dead_at'', json_option (py_datetime py) (dl_dead_at d)),
      (''dead_reason'', json_option JString (dl_dead_reason d)),
      (''canceled_at'', json_option (py_datetime py) (dl_canceled_at d)),
      (''canceled_reason'', json_option JString (dl_canceled_reason d))]"

definition delivery_out :: "pydantic \<Rightarrow> delivery \<Rightarrow> json" where
  "delivery_out py d = JObject (delivery_fields py d)"

definition delivery_attempt_out :: "pydantic \<Rightarrow> delivery_attempt \<Rightarrow> json" where
  "delivery_attempt_out py a = JObject
     [(''attempt_number'', JInt (at_attempt_number a)), (''started_at'', py_datetime py (at_started_at a)),
      (''finished_at'', py_datetime py (at_finished_at a)), (''outcome'', JString (at_outcome a)),
      (''http_status'', json_option JInt (at_http_status a)), (''error'', json_option JString (at_error a)),
      (''response_body'', json_option JString (at_response_body a)),
      (''response_purged_at'', json_option (py_datetime py) (at_response_purged_at a))]"

definition delivery_detail :: "pydantic \<Rightarrow> delivery \<times> delivery_attempt list \<Rightarrow> json" where
  "delivery_detail py x =
     (case x of (d, attempts) \<Rightarrow>
        JObject (delivery_fields py d @ [(''attempts'', JArray (map (delivery_attempt_out py) attempts))]))"

definition replay_out :: "pydantic \<Rightarrow> delivery \<Rightarrow> json" where
  "replay_out py d = JObject
     [(''public_id'', JString (dl_public_id d)), (''status'', JString (status_value (dl_status d))),
      (''replay_of_delivery_id'', json_option JInt (dl_replay_of_delivery_id d)),
      (''created_at'', py_datetime py (dl_created_at d))]"

definition replay_operation_out :: "pydantic \<Rightarrow> replay_operation \<Rightarrow> json" where
  "replay_operation_out py r = JObject
     [(''public_id'', JString (ro_public_id r)), (''idempotency_key'', JString (ro_idempotency_key r)),
      (''mode'', JString (replay_mode_value (ro_mode r))), (''requested_count'', JInt (ro_requested_count r)),
      (''created_count'', JInt (ro_created_count r)),
      (''source_delivery_ids'', JArray (map JString (ro_source_delivery_ids r))),
      (''created_delivery_ids'', JArray (map JString (ro_created_delivery_ids r))),
      (''created_at'', py_datetime py (ro_created_at r))]"

definition endpoint_runtime_out :: "pydantic \<Rightarrow> runtime_view \<Rightarrow> json" where
  "endpoint_runtime_out py v = JObject
     [(''endpoint_id'', JString (rv_endpoint_id v)), (''paused'', JBool (rv_paused v)),
      (''pause_reason'', json_option JString (rv_pause_reason v)),
      (''circuit_state'', JString (circuit_state_value (rv_circuit_state v))),
      (''consecutive_failures'', JInt (rv_consecutive_failures v)),
      (''circuit_open_until'', json_option (py_datetime py) (rv_circuit_open_until v))]"

definition delivery_purge_out :: "pydantic \<Rightarrow> purge_view \<Rightarrow> json" where
  "delivery_purge_out py v = JObject
     [(''cutoff'', py_datetime py (pv_cutoff v)), (''matched'', JInt (pv_matched v)),
      (''purged'', JInt (pv_purged v)), (''dry_run'', JBool (pv_dry_run v))]"

definition organization_policy_out :: "pydantic \<Rightarrow> organization_policy \<Rightarrow> json" where
  "organization_policy_out py p = JObject
     [(''plan'', JString (plan_value (pol_plan p))),
      (''payload_retention_days'', JInt (pol_payload_retention_days p)),
      (''response_retention_days'', JInt (pol_response_retention_days p)),
      (''created_at'', py_datetime py (pol_created_at p)), (''updated_at'', py_datetime py (pol_updated_at p))]"

definition audit_event_out :: "pydantic \<Rightarrow> administrative_audit_event \<Rightarrow> json" where
  "audit_event_out py e = JObject
     [(''id'', JInt (au_id e)), (''public_id'', JString (au_public_id e)),
      (''organization_public_id'', JString (au_organization_public_id e)),
      (''project_public_id'', json_option JString (au_project_public_id e)),
      (''actor_user_id'', json_option JInt (au_actor_user_id e)), (''action'', JString (au_action e)),
      (''resource_type'', JString (au_resource_type e)),
      (''resource_public_id'', json_option JString (au_resource_public_id e)),
      (''sanitized_metadata'', JObject (map (\<lambda>(k, v). (k, audit_value_json v)) (au_sanitized_metadata e))),
      (''created_at'', py_datetime py (au_created_at e))]"

definition organization_lifecycle_out :: "pydantic \<Rightarrow> organization_lifecycle_operation \<Rightarrow> json" where
  "organization_lifecycle_out py op = JObject
     [(''public_id'', JString (lo_public_id op)), (''kind'', JString (lo_kind op)),
      (''status'', JString (operation_status_value (lo_status op))),
      (''scheduled_at'', py_datetime py (lo_scheduled_at op)), (''created_at'', py_datetime py (lo_created_at op)),
      (''completed_at'', json_option (py_datetime py) (lo_completed_at op)),
      (''error'', json_option JString (lo_error op))]"

definition export_project_out :: "pydantic \<Rightarrow> export_project \<Rightarrow> json" where
  "export_project_out py p = JObject
     [(''public_id'', JString (xp_public_id p)), (''name'', JString (xp_name p)),
      (''is_active'', JBool (xp_is_active p)), (''created_at'', py_datetime py (xp_created_at p))]"

definition export_api_key_out :: "pydantic \<Rightarrow> export_api_key \<Rightarrow> json" where
  "export_api_key_out py k = JObject
     [(''public_id'', JString (xk_public_id k)), (''project_public_id'', JString (xk_project_public_id k)),
      (''prefix'', JString (xk_prefix k)), (''scopes'', JArray (map JString (xk_scopes k))),
      (''expires_at'', json_option (py_datetime py) (xk_expires_at k)),
      (''status'', JString (key_status_value (xk_status k))), (''created_at'', py_datetime py (xk_created_at k))]"

definition export_endpoint_out :: "pydantic \<Rightarrow> export_endpoint \<Rightarrow> json" where
  "export_endpoint_out py e = JObject
     [(''public_id'', JString (xe_public_id e)), (''project_public_id'', JString (xe_project_public_id e)),
      (''description'', json_option JString (xe_description e)), (''is_active'', JBool (xe_is_active e)),
      (''signing_version'', JInt (xe_signing_version e)), (''created_at'', py_datetime py (xe_created_at e)),
      (''updated_at'', py_datetime py (xe_updated_at e))]"

definition export_counts_out :: "export_counts \<Rightarrow> json" where
  "export_counts_out c = JObject
     [(''members'', JInt (xc_members c)), (''projects'', JInt (xc_projects c)),
      (''project_members'', JInt (xc_project_members c)), (''api_keys'', JInt (xc_api_keys c)),
      (''endpoints'', JInt (xc_endpoints c)), (''events'', JInt (xc_events c)),
      (''deliveries'', JInt (xc_deliveries c)), (''attempts'', JInt (xc_attempts c))]"

definition organization_export_out :: "pydantic \<Rightarrow> organization_export \<Rightarrow> json" where
  "organization_export_out py x = JObject
     [(''generated_at'', py_datetime py (ex_generated_at x)),
      (''organization'', organization_out py (ex_organization x)),
      (''policy'', organization_policy_out py (ex_policy x)),
      (''lifecycle'', json_option (organization_lifecycle_out py) (ex_lifecycle x)),
      (''counts'', export_counts_out (ex_counts x)),
      (''members'', JArray (map (member_out py) (ex_members x))),
      (''projects'', JArray (map (export_project_out py) (ex_projects x))),
      (''api_keys'', JArray (map (export_api_key_out py) (ex_api_keys x))),
      (''endpoints'', JArray (map (export_endpoint_out py) (ex_endpoints x))),
      (''audit_events'', JArray (map (audit_event_out py) (ex_audit_events x))),
      (''truncated'', JBool (ex_truncated x))]"

subsection \<open>What the models hide\<close>

text \<open>Neither the digest of a key nor the lease of a delivery shows in a response.\<close>

lemma api_key_out_no_digest: "api_key_out py (k\<lparr>ak_key_digest := x, ak_id := i, ak_rotated_from_id := r\<rparr>) = api_key_out py k"
  by (simp add: api_key_out_def api_key_fields_def)

lemma delivery_out_no_lease:
  "delivery_out py (d\<lparr>dl_lease_token := x, dl_lease_expires_at := t, dl_signing_secret_version_snapshot := v\<rparr>)
   = delivery_out py d"
  by (simp add: delivery_out_def delivery_fields_def)

end
