(* ===== verification/Accounts.thy ===== *)
theory Accounts
  imports Login_Throttle Authorization Codecs Service_Base
begin

text \<open>
  User accounts: \<^verbatim>\<open>app/security.py\<close> (passwords and access tokens), \<^verbatim>\<open>app/services/user_service.py\<close>,
  \<^verbatim>\<open>app/auth.py\<close> (who the caller is) and the routes of \<^verbatim>\<open>app/routers/auth.py\<close> and
  \<^verbatim>\<open>app/routers/users.py\<close>.  The password library and the token library are arguments.
\<close>

subsection \<open>The libraries\<close>

text \<open>
  passlib's bcrypt context: \<open>None\<close> is a ValueError.  A salt is drawn inside \<open>pc_hash\<close>.
\<close>

record pwd_context =
  pc_hash :: "string \<Rightarrow> string option"
  pc_verify :: "string \<Rightarrow> string \<Rightarrow> bool option"
  pc_needs_update :: "string \<Rightarrow> bool option"

datatype claim = Claim_text string | Claim_time datetime | Claim_json json

text \<open>
  PyJWT: the token of a payload, a key and an algorithm; and at a time, for a token, a key, the accepted
  algorithms and the required claims, \<open>None\<close> for an InvalidTokenError or else the \<^verbatim>\<open>sub\<close> claim, which is a
  string if it is there.
\<close>

record jwt_lib =
  jw_encode :: "(string \<times> claim) list \<Rightarrow> string \<Rightarrow> string \<Rightarrow> string"
  jw_decode :: "datetime \<Rightarrow> string \<Rightarrow> string \<Rightarrow> string list \<Rightarrow> string list \<Rightarrow> string option option"

subsection \<open>Passwords\<close>

definition legacy_sha256_prefix :: string where
  "legacy_sha256_prefix = ''sha256$''"

definition validate_password_length :: "string \<Rightarrow> unit result" where
  "validate_password_length password =
     (if password = [] then Inl (ValueError ''Password must not be empty'')
      else if length (utf8_encode password) > 72
      then Inl (ValueError ''Password must be at most 72 bytes; bcrypt truncates beyond that'')
      else Inr ())"

definition hash_password :: "pwd_context \<Rightarrow> string \<Rightarrow> string result" where
  "hash_password pc password =
     bindr (validate_password_length password) (\<lambda>_. some_or (ValueError ''hash'') (pc_hash pc password))"

definition is_legacy :: "string \<Rightarrow> bool" where
  "is_legacy stored \<longleftrightarrow> startswith stored legacy_sha256_prefix
     \<or> length stored = 64 \<and> list_all (\<lambda>c. c \<in> set ''0123456789abcdef'') (lower stored)"

text \<open>\<^verbatim>\<open>hmac.compare_digest\<close> on strings refuses characters outside ASCII.\<close>

definition verify_password :: "pwd_context \<Rightarrow> string \<Rightarrow> string \<Rightarrow> bool result" where
  "verify_password pc plain stored =
     (if stored = [] then Inr False
      else if is_legacy stored then
        (let expected = (if startswith stored legacy_sha256_prefix
               then drop (length legacy_sha256_prefix) stored else stored);
             candidate = hexdigest (sha256 (utf8_encode plain))
         in if \<not> is_ascii expected then Inl (TypeError ''compare_digest'')
            else Inr (compare_digest candidate expected))
      else case pc_verify pc plain stored of None \<Rightarrow> Inr False | Some b \<Rightarrow> Inr b)"

definition needs_rehash :: "pwd_context \<Rightarrow> string \<Rightarrow> bool" where
  "needs_rehash pc stored \<longleftrightarrow>
     stored = [] \<or> is_legacy stored
     \<or> (case pc_needs_update pc stored of None \<Rightarrow> True | Some b \<Rightarrow> b)"

subsection \<open>Access tokens\<close>

definition reserved_claims :: "string list" where
  "reserved_claims = [''sub'', ''iat'', ''nbf'', ''exp'', ''jti'']"

text \<open>A lifetime of zero is replaced by the configured one, as None is.\<close>

definition create_access_token ::
  "jwt_lib \<Rightarrow> settings \<Rightarrow> datetime \<Rightarrow> string \<Rightarrow> int \<Rightarrow> int option \<Rightarrow> (string \<times> json) list \<Rightarrow> string"
where
  "create_access_token jw cfg now jti subject expires_delta extra_claims =
     (let lifetime = (case expires_delta of
            None \<Rightarrow> seconds (60 * access_token_expire_minutes cfg)
          | Some d \<Rightarrow> if d = 0 then seconds (60 * access_token_expire_minutes cfg) else d);
          payload = [(''sub'', Claim_text (str_of_int subject)), (''iat'', Claim_time now),
            (''nbf'', Claim_time now), (''exp'', Claim_time (now + lifetime)), (''jti'', Claim_text jti)]
      in jw_encode jw
           (payload @ map (\<lambda>(k, v). (k, Claim_json v))
              (filter (\<lambda>(k, _). k \<notin> set reserved_claims) extra_claims))
           (secret_key cfg) ''HS256'')"

definition decode_access_token :: "jwt_lib \<Rightarrow> settings \<Rightarrow> datetime \<Rightarrow> string \<Rightarrow> string option option" where
  "decode_access_token jw cfg now token =
     jw_decode jw now token (secret_key cfg) [''HS256''] [''exp'', ''sub'']"

subsection \<open>The user service\<close>

definition normalize_email :: "string \<Rightarrow> string" where
  "normalize_email email = lower (strip email)"

definition get_by_id :: "int \<Rightarrow> db \<Rightarrow> user option result" where
  "get_by_id user_id s = one_or_none (filter (\<lambda>u. u_id u = user_id) (db_users s))"

definition get_by_id_or_raise :: "int \<Rightarrow> db \<Rightarrow> user result" where
  "get_by_id_or_raise user_id s =
     bindr (get_by_id user_id s) (some_or (NotFoundError ''User'' (str_of_int user_id)))"

definition get_by_email :: "string \<Rightarrow> db \<Rightarrow> user option result" where
  "get_by_email email s = one_or_none (filter (\<lambda>u. u_email u = normalize_email email) (db_users s))"

definition get_all_users :: "nat \<Rightarrow> nat \<Rightarrow> db \<Rightarrow> user list" where
  "get_all_users skip limit s = page_rows skip limit (sort_key u_id (db_users s))"

definition put_user :: "user \<Rightarrow> db \<Rightarrow> db" where
  "put_user u s = s\<lparr>db_users := update_where (\<lambda>r. u_id r = u_id u) (\<lambda>_. u) (db_users s)\<rparr>"

definition create_account ::
  "pwd_context \<Rightarrow> datetime \<Rightarrow> string \<Rightarrow> string \<Rightarrow> string \<Rightarrow> db \<Rightarrow> (user \<times> db) result"
where
  "create_account pc now email0 name password s =
     (let email = normalize_email email0
      in bindr (get_by_email email s) (\<lambda>existing.
         if existing \<noteq> None then Inl (AlreadyExistsError ''User'' ''email'' email)
         else bindr (hash_password pc password) (\<lambda>hashed.
           let u = \<lparr>u_id = db_seq s T_users, u_email = email, u_name = name, u_hashed_password = hashed,
                    u_is_active = True, u_created_at = now\<rparr>
           in case insert_unique ''users.email'' u_email u (db_users s) of
                Inl _ \<Rightarrow> Inl (AlreadyExistsError ''User'' ''email'' email)
              | Inr users \<Rightarrow> Inr (u, bump_seq T_users 1 (s\<lparr>db_users := users\<rparr>)))))"

text \<open>
  The check of the decoy hash for an unknown address takes its time and changes nothing.
\<close>

definition authenticate ::
  "pwd_context \<Rightarrow> string \<Rightarrow> string \<Rightarrow> db \<Rightarrow> (user option \<times> db) result"
where
  "authenticate pc email password s =
     bindr (get_by_email email s) (\<lambda>found.
     case found of
       None \<Rightarrow> Inr (None, s)
     | Some u \<Rightarrow>
         bindr (verify_password pc password (u_hashed_password u)) (\<lambda>ok.
         if \<not> ok then Inr (None, s)
         else if needs_rehash pc (u_hashed_password u)
         then bindr (hash_password pc password) (\<lambda>hashed.
           let u' = u\<lparr>u_hashed_password := hashed\<rparr> in Inr (Some u', put_user u' s))
         else Inr (Some u, s)))"

text \<open>The fields of the request that are set: the address and the name.\<close>

definition update_account ::
  "int \<Rightarrow> string option \<Rightarrow> string option \<Rightarrow> db \<Rightarrow> (user option \<times> db) result"
where
  "update_account user_id email name s =
     bindr (get_by_id user_id s) (\<lambda>found.
     case found of
       None \<Rightarrow> Inr (None, s)
     | Some u \<Rightarrow>
         let email' = map_option normalize_email email;
             u1 = (case email' of None \<Rightarrow> u | Some e \<Rightarrow> u\<lparr>u_email := e\<rparr>);
             u2 = (case name of None \<Rightarrow> u1 | Some n \<Rightarrow> u1\<lparr>u_name := n\<rparr>)
         in if list_ex (\<lambda>r. u_id r \<noteq> user_id \<and> u_email r = u_email u2) (db_users s)
            then Inl (AlreadyExistsError ''User'' ''email'' (u_email u2))
            else Inr (Some u2, put_user u2 s))"

definition update_or_raise ::
  "int \<Rightarrow> string option \<Rightarrow> string option \<Rightarrow> db \<Rightarrow> (user \<times> db) result"
where
  "update_or_raise user_id email name s =
     bindr (update_account user_id email name s) (\<lambda>(found, s').
     bindr (some_or (NotFoundError ''User'' (str_of_int user_id)) found) (\<lambda>u. Inr (u, s')))"

text \<open>
  Deleting the row of a user takes the memberships along, through the cascades of the schema; the
  references of replay and lifecycle operations become NULL.
\<close>

definition delete_user_row :: "int \<Rightarrow> db \<Rightarrow> db" where
  "delete_user_row uid s =
     s\<lparr>db_users := delete_where (\<lambda>u. u_id u = uid) (db_users s),
       db_org_members := delete_where (\<lambda>m. om_user_id m = uid) (db_org_members s),
       db_project_members := delete_where (\<lambda>m. pm_user_id m = uid) (db_project_members s),
       db_replay_operations := update_where (\<lambda>r. ro_actor_user_id r = Some uid)
         (\<lambda>r. r\<lparr>ro_actor_user_id := None\<rparr>) (db_replay_operations s),
       db_lifecycle_operations := update_where (\<lambda>r. lo_requested_by_user_id r = Some uid)
         (\<lambda>r. r\<lparr>lo_requested_by_user_id := None\<rparr>) (db_lifecycle_operations s)\<rparr>"

definition delete_account :: "int \<Rightarrow> db \<Rightarrow> (bool \<times> db) result" where
  "delete_account user_id s =
     bindr (get_by_id user_id s) (\<lambda>found.
     case found of None \<Rightarrow> Inr (False, s) | Some u \<Rightarrow> Inr (True, delete_user_row (u_id u) s))"

definition delete_or_raise :: "int \<Rightarrow> db \<Rightarrow> db result" where
  "delete_or_raise user_id s =
     bindr (delete_account user_id s) (\<lambda>(ok, s').
     if \<not> ok then Inl (NotFoundError ''User'' (str_of_int user_id)) else Inr s')"

definition deactivate_account :: "int \<Rightarrow> db \<Rightarrow> (user option \<times> db) result" where
  "deactivate_account user_id s =
     bindr (get_by_id user_id s) (\<lambda>found.
     case found of
       None \<Rightarrow> Inr (None, s)
     | Some u \<Rightarrow> let u' = u\<lparr>u_is_active := False\<rparr> in Inr (Some u', put_user u' s))"

definition deactivate_or_raise :: "int \<Rightarrow> db \<Rightarrow> (user \<times> db) result" where
  "deactivate_or_raise user_id s =
     bindr (deactivate_account user_id s) (\<lambda>(found, s').
     bindr (some_or (NotFoundError ''User'' (str_of_int user_id)) found) (\<lambda>u. Inr (u, s')))"

subsection \<open>The caller\<close>

text \<open>\<^verbatim>\<open>int(s)\<close>: surrounding whitespace, a sign, and digits with single underscores between them.\<close>

definition py_int_literal :: "string \<Rightarrow> int option" where
  "py_int_literal text =
     (let t = strip text;
          negative = (take 1 t = ''-'');
          body = (if take 1 t = ''-'' \<or> take 1 t = ''+'' then drop 1 t else t);
          parts = split_on (\<lambda>c. c = CHR ''_'') body
      in if list_all (\<lambda>p. p \<noteq> [] \<and> list_all is_ascii_digit p) parts \<and> length (concat parts) \<le> 4300
         then Some (if negative then - int_of_digits (concat parts) else int_of_digits (concat parts))
         else None)"

definition invalid_token :: app_error where
  "invalid_token = UnauthorizedError ''Invalid or expired token'' ''Bearer''"

definition get_current_user :: "jwt_lib \<Rightarrow> settings \<Rightarrow> datetime \<Rightarrow> string option \<Rightarrow> db \<Rightarrow> user result" where
  "get_current_user jw cfg now token s =
     (if \<not> truthy token then Inl (UnauthorizedError ''Not authenticated'' ''Bearer'')
      else case decode_access_token jw cfg now (the token) of
             None \<Rightarrow> Inl invalid_token
           | Some None \<Rightarrow> Inl invalid_token
           | Some (Some subject) \<Rightarrow>
               bindr (some_or invalid_token (py_int_literal subject)) (\<lambda>user_id.
               some_or invalid_token (List.find (\<lambda>u. u_id u = user_id) (db_users s))))"

definition get_current_active_user ::
  "jwt_lib \<Rightarrow> settings \<Rightarrow> datetime \<Rightarrow> string option \<Rightarrow> db \<Rightarrow> user result"
where
  "get_current_active_user jw cfg now token s =
     bindr (get_current_user jw cfg now token s) (\<lambda>u.
     if \<not> u_is_active u then Inl (ForbiddenError ''Account is deactivated'') else Inr u)"

subsection \<open>Routes\<close>

text \<open>
  \<^verbatim>\<open>POST /auth/login\<close>.  The throttle's transaction and the rehash are committed on their own, so the
  database changes even where the request fails.
\<close>

definition login ::
  "pwd_context \<Rightarrow> jwt_lib \<Rightarrow> settings \<Rightarrow> datetime \<Rightarrow> string \<Rightarrow> string \<Rightarrow> string \<Rightarrow> db \<Rightarrow> string result \<times> db"
where
  "login pc jw cfg now jti username password s =
     (case check_login_allowed now username s of
        Inl e \<Rightarrow> (Inl e, s)
      | Inr _ \<Rightarrow>
      case authenticate pc username password s of
        Inl e \<Rightarrow> (Inl e, s)
      | Inr (None, s1) \<Rightarrow>
          (Inl (UnauthorizedError ''Incorrect email or password'' ''Bearer''),
           record_login_failure cfg now username s1)
      | Inr (Some u, s1) \<Rightarrow>
          if \<not> u_is_active u then (Inl (ForbiddenError ''Account is deactivated''), s1)
          else (Inr (create_access_token jw cfg now jti (u_id u) None []), record_login_success username s1))"

definition own_record_or_404 :: "int \<Rightarrow> user \<Rightarrow> unit result" where
  "own_record_or_404 user_id current_user =
     (if user_id \<noteq> u_id current_user then Inl (NotFoundError ''User'' (str_of_int user_id)) else Inr ())"

text \<open>The check of the password in the request of a registration.\<close>

definition validate_new_password :: "string \<Rightarrow> bool" where
  "validate_new_password value \<longleftrightarrow> 8 \<le> length (utf8_encode value) \<and> length (utf8_encode value) \<le> 72"

definition create_user ::
  "pwd_context \<Rightarrow> settings \<Rightarrow> datetime \<Rightarrow> string \<Rightarrow> string \<Rightarrow> string \<Rightarrow> db \<Rightarrow> (user \<times> db) result"
where
  "create_user pc cfg now email name password s =
     (if \<not> registration_enabled cfg then Inl (ForbiddenError ''Registration is disabled on this deployment'')
      else create_account pc now email name password s)"

definition get_user :: "int \<Rightarrow> user \<Rightarrow> db \<Rightarrow> user result" where
  "get_user user_id current_user s =
     bindr (own_record_or_404 user_id current_user) (\<lambda>_. get_by_id_or_raise user_id s)"

definition update_user ::
  "int \<Rightarrow> string option \<Rightarrow> string option \<Rightarrow> user \<Rightarrow> db \<Rightarrow> (user \<times> db) result"
where
  "update_user user_id email name current_user s =
     bindr (own_record_or_404 user_id current_user) (\<lambda>_. update_or_raise user_id email name s)"

definition delete_user :: "int \<Rightarrow> user \<Rightarrow> db \<Rightarrow> db result" where
  "delete_user user_id current_user s =
     bindr (own_record_or_404 user_id current_user) (\<lambda>_. delete_or_raise user_id s)"

definition deactivate_user :: "int \<Rightarrow> user \<Rightarrow> db \<Rightarrow> (user \<times> db) result" where
  "deactivate_user user_id current_user s =
     bindr (own_record_or_404 user_id current_user) (\<lambda>_. deactivate_or_raise user_id s)"

end
