(* ===== verification/Accounts_Safety.thy ===== *)
theory Accounts_Safety
  imports Accounts
begin

text \<open>
  Logging in: a registered user gets a token that names them, and the failure budget locks an account.
\<close>

subsection \<open>Addresses and ids\<close>

lemma dropWhile_hd: "(y \<noteq> [] \<Longrightarrow> \<not> p (hd y)) \<Longrightarrow> dropWhile p y = y"
  by (cases y) simp_all

lemma strip_idem [simp]: "strip (strip s) = strip s"
proof -
  define a where "a = dropWhile is_space s"
  define y where "y = strip s"
  have y: "y = rev (dropWhile is_space (rev a))" by (simp add: y_def a_def strip_def)
  obtain z where z: "a = y @ z"
    unfolding y by (metis rev_append rev_rev_ident takeWhile_dropWhile_id)
  have "\<not> is_space (hd y)" if "y \<noteq> []"
  proof -
    from that z have "hd y = hd a" "a \<noteq> []" by simp_all
    then show ?thesis by (simp add: a_def hd_dropWhile)
  qed
  then have "dropWhile is_space y = y" by (rule dropWhile_hd)
  then have "strip y = y" unfolding strip_def by (simp add: y)
  then show ?thesis by (simp only: y_def)
qed

lemma strip_lower: "strip (lower s) = lower (strip s)"
proof -
  have sp: "is_space \<circ> char_lower = is_space"
    by (rule ext) (auto simp: is_space_def char_lower_def Let_def)
  show ?thesis by (simp add: strip_def lower_def dropWhile_map rev_map sp)
qed

lemma normalize_idem [simp]: "normalize_email (normalize_email email) = normalize_email email"
  by (simp add: normalize_email_def strip_lower)

lemma filter_distinct_key:
  assumes "distinct (map f xs)" and "x \<in> set xs"
  shows "filter (\<lambda>y. f y = f x) xs = [x]"
  using assms
proof (induction xs)
  case (Cons a xs)
  show ?case
  proof (cases "a = x")
    case True
    then have "filter (\<lambda>y. f y = f x) xs = []" using Cons.prems(1)
      by (auto simp: filter_empty_conv) (metis image_eqI)
    with True show ?thesis by simp
  next
    case False
    with Cons show ?thesis by force
  qed
qed simp

lemma py_int_literal_str:
  assumes "0 \<le> n" and "n < 10 ^ 12"
  shows "py_int_literal (str_of_int n) = Some n"
proof -
  let ?d = "digits_of_nat (nat n)"
  have s: "str_of_int n = ?d" by (rule str_of_nonneg [OF assms(1)])
  have ascii: "c \<in> set ?d \<Longrightarrow> is_ascii_digit c" for c using digits_chars(1) [of "nat n"] by (simp add: list_all_iff)
  then have "list_all (\<lambda>c. \<not> c = CHR ''_'') ?d"
    using ascii [of "CHR ''_''"] unfolding list_all_iff by (auto simp: is_ascii_digit_def)
  then have split: "split_on (\<lambda>c. c = CHR ''_'') ?d = [?d]" by (rule split_on_none)
  have "hd ?d \<noteq> CHR ''-'' \<and> hd ?d \<noteq> CHR ''+''"
    using ascii [of "hd ?d"] digits_chars(2) [of "nat n"] by (auto simp: is_ascii_digit_def)
  then have sign: "take 1 ?d \<noteq> ''-''" "take 1 ?d \<noteq> ''+''"
    using digits_chars(2) [of "nat n"] by (cases ?d; simp)+
  have "nat n < 10 ^ Suc 11" using assms by (simp add: nat_less_iff)
  then have "length ?d \<le> 12" using length_digits [of "nat n" 11] by simp
  then show ?thesis
    using assms(1) split sign digits_chars [of "nat n"]
    by (simp add: py_int_literal_def Let_def s strip_no_space [OF digits_no_space])
qed

subsection \<open>Registration and login\<close>

text \<open>
  The laws of the libraries: a hash verifies its password and needs no update, and is no legacy digest;
  a token is accepted from its start to its expiry, in whole seconds, and names its subject.
\<close>

definition hash_law :: "pwd_context \<Rightarrow> string \<Rightarrow> bool" where
  "hash_law pc password \<longleftrightarrow> (\<forall>h. pc_hash pc password = Some h \<longrightarrow>
     h \<noteq> [] \<and> \<not> is_legacy h \<and> pc_verify pc password h = Some True \<and> pc_needs_update pc h = Some False)"

definition whole_seconds :: "datetime \<Rightarrow> datetime" where
  "whole_seconds t = t div 1000000 * 1000000"

definition token_law :: "jwt_lib \<Rightarrow> bool" where
  "token_law jw \<longleftrightarrow> (\<forall>payload key sub start expiry t.
     map_of payload ''sub'' = Some (Claim_text sub) \<and> map_of payload ''nbf'' = Some (Claim_time start)
     \<and> map_of payload ''exp'' = Some (Claim_time expiry) \<and> start \<le> t \<and> t < whole_seconds expiry \<longrightarrow>
     jw_encode jw payload key ''HS256'' \<noteq> []
     \<and> jw_decode jw t (jw_encode jw payload key ''HS256'') key [''HS256''] [''exp'', ''sub''] = Some (Some sub))"

lemma token_resolves:
  assumes "token_law jw" and "now \<le> t"
    and "t < whole_seconds (now + seconds (60 * access_token_expire_minutes cfg))"
    and "0 \<le> uid" and "uid < 10 ^ 12" and "List.find (\<lambda>u. u_id u = uid) (db_users s) = Some u"
  shows "get_current_user jw cfg t (Some (create_access_token jw cfg now jti uid None [])) s = Inr u"
proof -
  let ?payload = "[(''sub'', Claim_text (str_of_int uid)), (''iat'', Claim_time now), (''nbf'', Claim_time now),
    (''exp'', Claim_time (now + seconds (60 * access_token_expire_minutes cfg))), (''jti'', Claim_text jti)]"
  have tok: "create_access_token jw cfg now jti uid None [] = jw_encode jw ?payload (secret_key cfg) ''HS256''"
    by (simp add: create_access_token_def)
  have "map_of ?payload ''sub'' = Some (Claim_text (str_of_int uid)) \<and> map_of ?payload ''nbf'' = Some (Claim_time now)
     \<and> map_of ?payload ''exp'' = Some (Claim_time (now + seconds (60 * access_token_expire_minutes cfg)))"
    by simp
  with assms(1-3) have "jw_encode jw ?payload (secret_key cfg) ''HS256'' \<noteq> []"
    "jw_decode jw t (jw_encode jw ?payload (secret_key cfg) ''HS256'') (secret_key cfg) [''HS256''] [''exp'', ''sub'']
      = Some (Some (str_of_int uid))"
    unfolding token_law_def by blast+
  with assms(6) py_int_literal_str [OF assms(4,5)] show ?thesis
    by (simp add: get_current_user_def decode_access_token_def tok)
qed

lemma create_account_Inr:
  assumes "create_account pc now email name password s = Inr (u, s')"
  obtains h where "pc_hash pc password = Some h" "db_users s' = db_users s @ [u]" "normalize_email email \<notin> u_email ` set (db_users s)"
    "u = \<lparr>u_id = db_seq s T_users, u_email = normalize_email email, u_name = name, u_hashed_password = h,
          u_is_active = True, u_created_at = now\<rparr>"
    "db_login_throttles s' = db_login_throttles s"
proof -
  obtain h where h: "hash_password pc password = Inr h"
    using assms by (auto simp: create_account_def Let_def bindr_Inr_iff split: if_splits)
  then have "pc_hash pc password = Some h" by (auto simp: hash_password_def bindr_Inr_iff some_or_Inr_iff)
  moreover from assms h have "u = \<lparr>u_id = db_seq s T_users, u_email = normalize_email email, u_name = name,
      u_hashed_password = h, u_is_active = True, u_created_at = now\<rparr>
      \<and> insert_unique ''users.email'' u_email u (db_users s) = Inr (db_users s')
      \<and> db_login_throttles s' = db_login_throttles s"
    by (auto simp: create_account_def Let_def bindr_Inr_iff split: if_splits sum.splits)
  ultimately show thesis by (intro that) (auto simp: insert_unique_Inr)
qed

subsection \<open>The failure budget\<close>

lemma authenticate_frame:
  assumes "authenticate pc email password s = Inr (None, s)" and "db_users s' = db_users s"
  shows "authenticate pc email password s' = Inr (None, s')"
proof -
  have e: "get_by_email email s' = get_by_email email s" using assms(2) by (simp add: get_by_email_def)
  show ?thesis
  proof (cases "get_by_email email s")
    case (Inl x)
    then show ?thesis using assms(1) by (simp add: authenticate_def)
  next
    case (Inr found)
    show ?thesis
    proof (cases found)
      case None
      with Inr e show ?thesis by (simp add: authenticate_def)
    next
      case (Some u)
      with Inr assms(1) have "verify_password pc password (u_hashed_password u) = Inr False"
        by (auto simp: authenticate_def bindr_Inr_iff Let_def split: if_splits)
      with Inr Some e show ?thesis by (simp add: authenticate_def)
    qed
  qed
qed

definition fresh_throttle :: "string \<Rightarrow> datetime \<Rightarrow> login_throttle" where
  "fresh_throttle email now = \<lparr>lt_scope = login_scope email, lt_failure_count = 0, lt_window_started_at = now,
     lt_locked_until = None, lt_updated_at = now\<rparr>"

lemma record_login_failure_row:
  "locked_row (login_scope email) (record_login_failure cfg now email s) =
     Some (count_failure cfg now (case locked_row (login_scope email) s of None \<Rightarrow> fresh_throttle email now | Some r \<Rightarrow> r))
   \<and> db_users (record_login_failure cfg now email s) = db_users s"
proof -
  let ?k = "login_scope email"
  let ?rows = "insert_do_nothing lt_scope (fresh_throttle email now) (db_login_throttles s)"
  let ?row = "case locked_row ?k s of None \<Rightarrow> fresh_throttle email now | Some r \<Rightarrow> r"
  have f: "List.find (\<lambda>r. lt_scope r = ?k) ?rows = Some ?row"
    unfolding find_insert_do_nothing by (auto simp: locked_row_def fresh_throttle_def split: option.splits)
  then have "lt_scope ?row = ?k" by (auto dest: find_Some_set)
  then have "lt_scope (count_failure cfg now ?row) = ?k" by (simp add: count_failure_def Let_def)
  then have "List.find (\<lambda>r. lt_scope r = ?k) (update_where (\<lambda>r. lt_scope r = ?k) (\<lambda>_. count_failure cfg now ?row) ?rows)
      = Some (count_failure cfg now ?row)"
    using f by (simp add: find_key_put)
  moreover have "record_login_failure cfg now email s = s\<lparr>db_login_throttles :=
      update_where (\<lambda>r. lt_scope r = ?k) (\<lambda>_. count_failure cfg now ?row) ?rows\<rparr>"
    using f by (simp add: record_login_failure_def locked_row_def Let_def fresh_throttle_def [symmetric])
  ultimately show ?thesis by (simp add: locked_row_def)
qed

text \<open>The row of an account after \<open>k\<close> failures in the window that began at \<open>t0\<close>.\<close>

definition failures :: "string \<Rightarrow> datetime \<Rightarrow> int \<Rightarrow> db \<Rightarrow> bool" where
  "failures email t0 k s \<longleftrightarrow>
     (if k = 0 then locked_row (login_scope email) s = None
      else \<exists>row. locked_row (login_scope email) s = Some row \<and> lt_failure_count row = k
             \<and> lt_window_started_at row = t0 \<and> lt_locked_until row = None)"

lemma failed_login:
  assumes "failures email t0 k s" and "0 \<le> k" and "k < login_throttle_max_failures cfg"
    and "t0 \<le> t" and "t < t0 + seconds (login_throttle_window_seconds cfg)" and "k = 0 \<Longrightarrow> t = t0"
    and "authenticate pc email password s = Inr (None, s)"
    and l: "login pc jw cfg t jti email password s = (r, s')"
  shows "r = Inl (UnauthorizedError ''Incorrect email or password'' ''Bearer'') \<and> db_users s' = db_users s
    \<and> (if k + 1 < login_throttle_max_failures cfg then failures email t0 (k + 1) s'
       else \<exists>row. locked_row (login_scope email) s' = Some row
              \<and> lt_locked_until row = Some (t + seconds (login_throttle_lockout_seconds cfg)))"
proof -
  let ?row = "case locked_row (login_scope email) s of None \<Rightarrow> fresh_throttle email t | Some r \<Rightarrow> r"
  have row: "lt_failure_count ?row = k" "lt_window_started_at ?row = t0" "lt_locked_until ?row = None"
    using assms(1,6) by (auto simp: failures_def fresh_throttle_def split: if_splits)
  have "check_login_allowed t email s = Inr ()"
    using assms(1) by (auto simp: check_login_allowed_def failures_def split: if_splits)
  with assms(7) l have s': "r = Inl (UnauthorizedError ''Incorrect email or password'' ''Bearer'')"
    "s' = record_login_failure cfg t email s"
    by (simp_all add: login_def)
  have "lt_failure_count (count_failure cfg t ?row) = k + 1 \<and> lt_window_started_at (count_failure cfg t ?row) = t0
      \<and> lt_locked_until (count_failure cfg t ?row) =
          (if k + 1 \<ge> login_throttle_max_failures cfg then Some (t + seconds (login_throttle_lockout_seconds cfg)) else None)"
    using row assms(5) unfolding count_failure_def Let_def by simp
  with s' record_login_failure_row [of email cfg t s] assms(2) show ?thesis by (auto simp: failures_def)
qed

fun login_all ::
  "pwd_context \<Rightarrow> jwt_lib \<Rightarrow> settings \<Rightarrow> string \<Rightarrow> string \<Rightarrow> (datetime \<times> string) list \<Rightarrow> db \<Rightarrow> string result list \<times> db"
where
  "login_all pc jw cfg jti email [] s = ([], s)"
| "login_all pc jw cfg jti email ((t, password) # rest) s =
     (case login pc jw cfg t jti email password s of
        (r, s1) \<Rightarrow> (case login_all pc jw cfg jti email rest s1 of (rs, s2) \<Rightarrow> (r # rs, s2)))"

lemma failed_logins:
  assumes "failures email t0 k s" and "0 \<le> k" and "attempts \<noteq> []"
    and "k + int (length attempts) = login_throttle_max_failures cfg"
    and "\<forall>(t, password) \<in> set attempts. t0 \<le> t \<and> t < t0 + seconds (login_throttle_window_seconds cfg)
           \<and> authenticate pc email password s = Inr (None, s)"
    and "k = 0 \<Longrightarrow> fst (hd attempts) = t0"
    and "login_all pc jw cfg jti email attempts s = (rs, s')"
  shows "(\<forall>r \<in> set rs. r = Inl (UnauthorizedError ''Incorrect email or password'' ''Bearer''))
    \<and> (\<exists>row. locked_row (login_scope email) s' = Some row
         \<and> lt_locked_until row = Some (fst (last attempts) + seconds (login_throttle_lockout_seconds cfg)))"
  using assms
proof (induction attempts arbitrary: k s rs)
  case (Cons a rest)
  obtain t password where a: "a = (t, password)" by (cases a)
  obtain r s1 where l: "login pc jw cfg t jti email password s = (r, s1)" by (metis prod.collapse)
  obtain rs1 where rest: "login_all pc jw cfg jti email rest s1 = (rs1, s')" "rs = r # rs1"
    using Cons.prems(7) a l by (auto split: prod.splits)
  have k: "k < login_throttle_max_failures cfg" using Cons.prems(4) by simp
  have t: "t0 \<le> t" "t < t0 + seconds (login_throttle_window_seconds cfg)"
    "authenticate pc email password s = Inr (None, s)"
    using Cons.prems(5) a by auto
  note step = failed_login [OF Cons.prems(1,2) k t(1,2) _ t(3) l]
  have t0: "k = 0 \<Longrightarrow> t = t0" using Cons.prems(6) a by simp
  show ?case
  proof (cases "rest = []")
    case True
    then have "\<not> k + 1 < login_throttle_max_failures cfg" using Cons.prems(4) by simp
    with step [OF t0] rest True a show ?thesis by simp
  next
    case False
    then have more: "k + 1 < login_throttle_max_failures cfg" using Cons.prems(4) by (cases rest) auto
    have "\<forall>(t, password) \<in> set rest. t0 \<le> t \<and> t < t0 + seconds (login_throttle_window_seconds cfg)
        \<and> authenticate pc email password s1 = Inr (None, s1)"
      using Cons.prems(5) step [OF t0] by (auto intro: authenticate_frame)
    from Cons.IH [OF _ _ False _ this _ rest(1), of "k + 1"] step [OF t0] more Cons.prems(2,4) rest False
    show ?thesis by auto
  qed
qed simp

text \<open>\<open>total_seconds\<close> rounded up is enough to wait.\<close>

lemma login_retry_enough: "locked_until \<le> now + seconds (login_retry_after now locked_until)"
proof -
  have "total_seconds (locked_until - now) \<le> of_int (login_retry_after now locked_until)"
    unfolding login_retry_after_def by (meson le_of_int_ceiling max.cobounded2 of_int_le_iff order_trans)
  then have "total_seconds (locked_until - now) \<le> total_seconds (seconds (login_retry_after now locked_until))"
    by (simp add: total_seconds_seconds)
  then show ?thesis by (simp add: total_seconds_def seconds_def divide_le_cancel flip: of_int_mult)
qed

subsection \<open>Properties\<close>


subsubsection \<open>Sample libraries\<close>

definition sample_pwd :: pwd_context where
  "sample_pwd = \<lparr>pc_hash = (\<lambda>p. Some (''$2b$'' @ p)), pc_verify = (\<lambda>p h. Some (h = ''$2b$'' @ p)),
     pc_needs_update = (\<lambda>_. Some False)\<rparr>"

definition sample_jwt :: jwt_lib where
  "sample_jwt = \<lparr>jw_encode = (\<lambda>payload key alg. CHR ''t'' #
       (case map_of payload ''sub'' of Some (Claim_text sub) \<Rightarrow> sub | _ \<Rightarrow> [])),
     jw_decode = (\<lambda>t token key algs req. Some (Some (drop 1 token)))\<rparr>"

lemma sample_laws: "hash_law sample_pwd ''correct horse''" "token_law sample_jwt"
  by (simp_all add: hash_law_def token_law_def sample_pwd_def sample_jwt_def is_legacy_def startswith_def
    legacy_sha256_prefix_def)

definition registered :: db where
  "registered = bump_seq T_users 1 (sample_tenancy\<lparr>db_users :=
     [\<lparr>u_id = db_seq sample_tenancy T_users, u_email = ''ann@x.org'', u_name = ''Ann'',
       u_hashed_password = ''$2b$correct horse'', u_is_active = True, u_created_at = 0\<rparr>]\<rparr>)"

lemma sample_registers:
  "create_user sample_pwd default_settings 0 '' Ann@X.org'' ''Ann'' ''correct horse'' sample_tenancy
     = Inr (hd (db_users registered), registered)"
proof -
  have "normalize_email '' Ann@X.org'' = ''ann@x.org''" "normalize_email ''ann@x.org'' = ''ann@x.org''"
    "hash_password sample_pwd ''correct horse'' = Inr ''$2b$correct horse''" "registration_enabled default_settings"
    by code_simp+
  moreover have "db_users sample_tenancy = []" by code_simp
  ultimately show ?thesis
    by (simp add: create_user_def create_account_def get_by_email_def Let_def insert_unique_def registered_def)
qed


text \<open>
  C29: the failure budget locks the account.  When as many attempts as the budget allows
  fail within one window, each is answered 401; after the last one, and until the lockout is over, no
  password, not even the right one, is looked at: the answer is the quota error, the database does not
  change, and waiting the announced number of seconds is enough to reach the end of the lock.
\<close>

theorem login_lockout:
  assumes "locked_row (login_scope email) s = None" and "attempts \<noteq> []"
    and "int (length attempts) = login_throttle_max_failures cfg" and "t0 = fst (hd attempts)"
    and "\<forall>(t, password) \<in> set attempts. t0 \<le> t \<and> t < t0 + seconds (login_throttle_window_seconds cfg)
           \<and> authenticate pc email password s = Inr (None, s)"
    and "login_all pc jw cfg jti email attempts s = (rs, s')"
    and "until = fst (last attempts) + seconds (login_throttle_lockout_seconds cfg)" and "t < until"
  shows "(\<forall>r \<in> set rs. r = Inl (UnauthorizedError ''Incorrect email or password'' ''Bearer''))
    \<and> (\<exists>n. login pc jw cfg t jti email password s' = (Inl (QuotaExceededError ''login_attempts'' n), s')
         \<and> until \<le> t + seconds n)"
proof -
  have "failures email t0 0 s" using assms(1) by (simp add: failures_def)
  from failed_logins [OF this _ assms(2) _ assms(5) _ assms(6)] assms(3,4,7) obtain row where
    u: "\<forall>r \<in> set rs. r = Inl (UnauthorizedError ''Incorrect email or password'' ''Bearer'')"
    and row: "locked_row (login_scope email) s' = Some row" "lt_locked_until row = Some until"
    by auto
  have "login pc jw cfg t jti email password s' = (Inl (QuotaExceededError ''login_attempts'' (login_retry_after t until)), s')"
    using row assms(8) by (simp add: login_def check_login_allowed_def)
  with u login_retry_enough show ?thesis by blast
qed

theorem login_lockout_witness:
  "\<exists>rs s' n. login_all sample_pwd sample_jwt default_settings ''jti'' ''ann@x.org'' (replicate 10 (7, ''guess'')) registered
      = (rs, s')
    \<and> login sample_pwd sample_jwt default_settings 299000000 ''jti'' ''ann@x.org'' ''correct horse'' s'
      = (Inl (QuotaExceededError ''login_attempts'' n), s')"
proof -
  obtain rs s' where r: "login_all sample_pwd sample_jwt default_settings ''jti'' ''ann@x.org'' (replicate 10 (7, ''guess''))
      registered = (rs, s')"
    by (metis prod.collapse)
  have "authenticate sample_pwd ''ann@x.org'' ''guess'' registered = Inr (None, registered)"
  proof -
    have "get_by_email ''ann@x.org'' registered = Inr (Some (hd (db_users registered)))"
      "verify_password sample_pwd ''guess'' (u_hashed_password (hd (db_users registered))) = Inr False"
      by code_simp+
    then show ?thesis by (simp add: authenticate_def)
  qed
  then have a: "\<forall>(t, password) \<in> set (replicate 10 (7, ''guess'')). 7 \<le> t
      \<and> t < 7 + seconds (login_throttle_window_seconds default_settings)
      \<and> authenticate sample_pwd ''ann@x.org'' password registered = Inr (None, registered)"
    by (simp add: default_settings_def seconds_def)
  have h: "locked_row (login_scope ''ann@x.org'') registered = None"
    "int (length (replicate 10 (7 :: int, ''guess''))) = login_throttle_max_failures default_settings"
    "299000000 < fst (last (replicate 10 (7, ''guess''))) + seconds (login_throttle_lockout_seconds default_settings)"
    by code_simp+
  from login_lockout [OF h(1) _ h(2) _ a r refl h(3), of "''correct horse''"] r show ?thesis by auto
qed

subsection \<open>Findings\<close>

text \<open>
  Deleting an account takes its memberships along, and the last owner of an organization may delete
  their own account: the organization is left without an owner, which the member routes never allow.
\<close>

lemma account_deletion_orphans:
  "\<exists>u s'. delete_user 10 u (sample_tenancy\<lparr>db_users := [u]\<rparr>) = Inr s'
     \<and> list_ex (\<lambda>organization. org_id organization = 1) (db_organizations s')
     \<and> list_ex (\<lambda>m. om_organization_id m = 1 \<and> om_role m = OWNER) (db_org_members sample_tenancy)
     \<and> \<not> list_ex (\<lambda>m. om_organization_id m = 1 \<and> om_role m = OWNER) (db_org_members s')"
proof -
  let ?u = "\<lparr>u_id = 10, u_email = ''a@x.org'', u_name = ''A'', u_hashed_password = ''h'', u_is_active = True,
    u_created_at = 0\<rparr>"
  have "case delete_user 10 ?u (sample_tenancy\<lparr>db_users := [?u]\<rparr>) of Inl _ \<Rightarrow> False
     | Inr s' \<Rightarrow> list_ex (\<lambda>organization. org_id organization = 1) (db_organizations s')
     \<and> list_ex (\<lambda>m. om_organization_id m = 1 \<and> om_role m = OWNER) (db_org_members sample_tenancy)
     \<and> \<not> list_ex (\<lambda>m. om_organization_id m = 1 \<and> om_role m = OWNER) (db_org_members s')"
    by code_simp
  then show ?thesis by (auto split: sum.splits)
qed

text \<open>
  An account with a legacy digest of a password longer than 72 bytes cannot log in: the password is
  verified, and the rehash then refuses it.
\<close>

lemma legacy_long_password:
  assumes "get_by_email email s = Inr (Some u)"
    and "u_hashed_password u = legacy_sha256_prefix @ hexdigest (sha256 (utf8_encode password))"
    and "length (utf8_encode password) > 72"
  shows "verify_password pc password (u_hashed_password u) = Inr True
    \<and> (\<exists>message. authenticate pc email password s = Inl (ValueError message))"
proof -
  have ascii: "is_ascii (hexdigest x)" for x
    using hexdigest_chars [of _ x] by (fastforce simp: is_ascii_def list_all_iff)
  have prefix: "legacy_sha256_prefix \<noteq> []" by (simp add: legacy_sha256_prefix_def)
  have v: "verify_password pc password (u_hashed_password u) = Inr True"
    using ascii by (simp add: verify_password_def assms(2) is_legacy_def startswith_append compare_digest_def
      prefix Let_def)
  have "needs_rehash pc (u_hashed_password u)"
    by (simp add: needs_rehash_def assms(2) is_legacy_def startswith_append)
  moreover have "\<exists>message. hash_password pc password = Inl (ValueError message)"
    using assms(3) by (auto simp: hash_password_def validate_password_length_def)
  ultimately show ?thesis using v assms(1) by (auto simp: authenticate_def)
qed

text \<open>
  The window of the throttle is fixed, not rolling: eight failures just before it ends and nine just
  after, seventeen within seconds under a budget of ten, do not lock the account.
\<close>

lemma throttle_window_fixed:
  "check_login_allowed 901000000 ''ann@x.org''
     (fold (\<lambda>t. record_login_failure default_settings t ''ann@x.org'')
        ([0] @ replicate 8 899000000 @ replicate 9 901000000) sample_tenancy) = Inr ()"
  by code_simp

end
