(* ===== verification/Schemas.thy ===== *)
theory Schemas
  imports Endpoints Organizations Codecs
begin

text \<open>
  \<^verbatim>\<open>app/schemas/webhooks.py\<close>: what the bodies of management requests must satisfy.  A body that is
  refused is an error value, as the ValueError pydantic reports with status 422.  The normal form of an
  endpoint's subscription list is proved at the end.
\<close>

subsection \<open>Subscription lists\<close>

definition filter_stem :: "string \<Rightarrow> string" where
  "filter_stem candidate = (if endswith candidate ''.*'' then take (length candidate - 2) candidate else candidate)"

fun normalize_filters :: "string list \<Rightarrow> string list \<Rightarrow> string list result" where
  "normalize_filters [] normalized = Inr normalized"
| "normalize_filters (entry # filters) normalized =
     (let candidate = strip entry; stem = filter_stem candidate
      in if \<not> (1 \<le> length candidate \<and> length candidate \<le> 150)
         then Inl (ValueError ''each event type filter must be 1-150 characters'')
         else if list_ex is_space candidate
         then Inl (ValueError ''event type filters cannot contain whitespace'')
         else if CHR ''*'' \<in> set stem \<or> stem = []
         then Inl (ValueError ''* is only allowed as a trailing .* wildcard with a non-empty prefix'')
         else normalize_filters filters
                (if candidate \<in> set normalized then normalized else normalized @ [candidate]))"

definition validate_event_type_filters :: "string list \<Rightarrow> string list result" where
  "validate_event_type_filters filters =
     (if filters = [] then Inl (ValueError ''event_types must contain at least one entry; omit the field to receive every event'')
      else if length filters > 100 then Inl (ValueError ''event_types cannot exceed 100 entries'')
      else bindr (normalize_filters filters []) (\<lambda>normalized. Inr (sort normalized)))"

subsection \<open>Bodies\<close>

text \<open>A field of a partial update: not set, or set to a value that may be null.\<close>

type_synonym 'a field = "'a option option"

definition bounded_string :: "nat \<Rightarrow> nat \<Rightarrow> string \<Rightarrow> bool" where
  "bounded_string lo hi s \<longleftrightarrow> lo \<le> length s \<and> length s \<le> hi"

definition organization_create :: "string \<Rightarrow> bool" where
  "organization_create name \<longleftrightarrow> bounded_string 1 120 name"

definition project_create :: "string \<Rightarrow> bool" where
  "project_create name \<longleftrightarrow> bounded_string 1 120 name"

definition member_create :: "int \<Rightarrow> bool" where
  "member_create user_id \<longleftrightarrow> 0 < user_id"

definition api_key_create :: "string \<Rightarrow> string list option \<Rightarrow> int option \<Rightarrow> (string \<times> string list \<times> int option) result" where
  "api_key_create name scopes0 expires_in_days =
     (let scopes = (case scopes0 of None \<Rightarrow> [''events:write''] | Some xs \<Rightarrow> xs)
      in if \<not> bounded_string 1 120 name then Inl (ValueError ''name'')
         else if \<not> (1 \<le> length scopes \<and> length scopes \<le> 16 \<and> set scopes \<subseteq> {''events:write''})
         then Inl (ValueError ''scopes'')
         else if (case expires_in_days of None \<Rightarrow> False | Some n \<Rightarrow> \<not> (1 \<le> n \<and> n \<le> 3650))
         then Inl (ValueError ''expires_in_days'')
         else if card (set scopes) \<noteq> length scopes then Inl (ValueError ''scopes must be unique'')
         else Inr (name, scopes, expires_in_days))"

definition api_key_rotate :: "int option \<Rightarrow> bool" where
  "api_key_rotate overlap_seconds \<longleftrightarrow>
     (case overlap_seconds of None \<Rightarrow> True | Some n \<Rightarrow> 1 \<le> n \<and> n \<le> 86400)"

definition optional_string :: "nat \<Rightarrow> string option \<Rightarrow> bool" where
  "optional_string hi s \<longleftrightarrow> (case s of None \<Rightarrow> True | Some x \<Rightarrow> length x \<le> hi)"

text \<open>The URL has passed pydantic's \<^verbatim>\<open>HttpUrl\<close>.\<close>

definition endpoint_create ::
  "string \<Rightarrow> string option \<Rightarrow> string list option \<Rightarrow> signature_scheme option \<Rightarrow>
   (string \<times> string option \<times> string list option \<times> signature_scheme) result"
where
  "endpoint_create url description event_types signature_scheme =
     (if \<not> optional_string 500 description then Inl (ValueError ''description'')
      else bindr (case event_types of None \<Rightarrow> Inr None
                  | Some filters \<Rightarrow> bindr (validate_event_type_filters filters) (\<lambda>f. Inr (Some f))) (\<lambda>types.
           Inr (url, description, types, case signature_scheme of None \<Rightarrow> Standard | Some x \<Rightarrow> x)))"

record endpoint_update_body =
  eu_url :: "string field"
  eu_description :: "string field"
  eu_is_active :: "bool field"
  eu_event_types :: "string list field"
  eu_signature_scheme :: "signature_scheme field"

text \<open>The changes of a valid update, in the order of the fields.\<close>

definition endpoint_update :: "endpoint_update_body \<Rightarrow> endpoint_change list result" where
  "endpoint_update b =
     (if (case eu_description b of Some d \<Rightarrow> \<not> optional_string 500 d | None \<Rightarrow> False)
      then Inl (ValueError ''description'')
      else if eu_url b = None \<and> eu_description b = None \<and> eu_is_active b = None \<and> eu_event_types b = None
          \<and> eu_signature_scheme b = None
      then Inl (ValueError ''at least one field must be provided'')
      else if eu_url b = Some None then Inl (ValueError ''url cannot be null'')
      else if eu_is_active b = Some None then Inl (ValueError ''is_active cannot be null'')
      else if eu_signature_scheme b = Some None then Inl (ValueError ''signature_scheme cannot be null'')
      else bindr (case eu_event_types b of
                    Some (Some filters) \<Rightarrow> bindr (validate_event_type_filters filters) (\<lambda>f. Inr [Change_event_types (Some f)])
                  | Some None \<Rightarrow> Inr [Change_event_types None]
                  | None \<Rightarrow> Inr []) (\<lambda>types.
           Inr ((case eu_url b of Some (Some v) \<Rightarrow> [Change_url v] | _ \<Rightarrow> [])
              @ (case eu_description b of Some v \<Rightarrow> [Change_description v] | None \<Rightarrow> [])
              @ (case eu_is_active b of Some (Some v) \<Rightarrow> [Change_is_active v] | _ \<Rightarrow> [])
              @ types
              @ (case eu_signature_scheme b of Some (Some v) \<Rightarrow> [Change_signature_scheme v] | _ \<Rightarrow> []))))"

definition replay_batch_request :: "string list \<Rightarrow> bool" where
  "replay_batch_request delivery_ids \<longleftrightarrow> 1 \<le> length delivery_ids \<and> length delivery_ids \<le> 1000
     \<and> card (set delivery_ids) = length delivery_ids"

definition reason_request :: "string option \<Rightarrow> bool" where
  "reason_request reason \<longleftrightarrow> optional_string 200 reason"

definition purge_request :: "int \<Rightarrow> bool" where
  "purge_request max_records \<longleftrightarrow> 1 \<le> max_records \<and> max_records \<le> 10000"

record policy_update_body =
  pu_plan :: "plan field"
  pu_payload_retention_days :: "int field"
  pu_response_retention_days :: "int field"

definition retention_field :: "int field \<Rightarrow> bool" where
  "retention_field v \<longleftrightarrow> (case v of Some (Some n) \<Rightarrow> 1 \<le> n \<and> n \<le> 3650 | _ \<Rightarrow> True)"

definition policy_update :: "policy_update_body \<Rightarrow> policy_change list result" where
  "policy_update b =
     (if \<not> retention_field (pu_payload_retention_days b) \<or> \<not> retention_field (pu_response_retention_days b)
      then Inl (ValueError ''retention_days'')
      else if pu_plan b = None \<and> pu_payload_retention_days b = None \<and> pu_response_retention_days b = None
      then Inl (ValueError ''at least one field must be provided'')
      else if pu_plan b = Some None \<or> pu_payload_retention_days b = Some None \<or> pu_response_retention_days b = Some None
      then Inl (ValueError ''field cannot be null'')
      else Inr ((case pu_plan b of Some (Some v) \<Rightarrow> [Change_plan v] | _ \<Rightarrow> [])
              @ (case pu_payload_retention_days b of Some (Some n) \<Rightarrow> [Change_payload_retention_days n] | _ \<Rightarrow> [])
              @ (case pu_response_retention_days b of Some (Some n) \<Rightarrow> [Change_response_retention_days n] | _ \<Rightarrow> [])))"

subsection \<open>Accounts\<close>

text \<open>
  \<^verbatim>\<open>app/schemas/user.py\<close>.  \<open>email_str\<close> is the validator library's check of an address, which returns it with its
  domain in lower case.
\<close>

definition user_name :: "string \<Rightarrow> string option" where
  "user_name raw = (let name = strip raw in if bounded_string 1 100 name then Some name else None)"

definition user_base :: "(string \<Rightarrow> string option) \<Rightarrow> string \<Rightarrow> string \<Rightarrow> (string \<times> string) option" where
  "user_base email_str email name =
     (case (email_str email, user_name name) of (Some e, Some n) \<Rightarrow> Some (e, n) | _ \<Rightarrow> None)"

record user_update_body =
  uu_email :: "string field"
  uu_name :: "string field"

definition user_update_ok :: "(string \<Rightarrow> string option) \<Rightarrow> user_update_body \<Rightarrow> user_update_body option" where
  "user_update_ok email_str b =
     (if uu_email b = Some None \<or> uu_name b = Some None then None
      else if uu_email b = None \<and> uu_name b = None then None
      else case (case uu_email b of Some (Some v) \<Rightarrow> map_option (Some \<circ> Some) (email_str v) | _ \<Rightarrow> Some None) of
             None \<Rightarrow> None
           | Some email \<Rightarrow>
           case (case uu_name b of Some (Some v) \<Rightarrow> map_option (Some \<circ> Some) (user_name v) | _ \<Rightarrow> Some None) of
             None \<Rightarrow> None
           | Some name \<Rightarrow> Some (b\<lparr>uu_email := email, uu_name := name\<rparr>))"

subsection \<open>The normal form\<close>

text \<open>What an entry of a subscription list must be.\<close>

definition filter_ok :: "string \<Rightarrow> bool" where
  "filter_ok f \<longleftrightarrow> 1 \<le> length f \<and> length f \<le> 150 \<and> \<not> list_ex is_space f
     \<and> CHR ''*'' \<notin> set (filter_stem f) \<and> filter_stem f \<noteq> []"

lemma normalize_filters_Inr:
  "normalize_filters filters acc = Inr out \<Longrightarrow> distinct acc \<Longrightarrow>
   distinct out \<and> set out = set acc \<union> strip ` set filters \<and> (\<forall>f \<in> set filters. filter_ok (strip f))
   \<and> length out \<le> length acc + length filters"
proof (induction filters arbitrary: acc)
  case (Cons entry filters)
  let ?acc = "if strip entry \<in> set acc then acc else acc @ [strip entry]"
  from Cons.prems(1) have ok: "filter_ok (strip entry)" and rest: "normalize_filters filters ?acc = Inr out"
    by (auto simp: filter_ok_def Let_def split: if_splits)
  with Cons.IH [OF rest] Cons.prems(2) show ?case by (auto split: if_splits)
qed simp

lemma normalize_filters_total:
  "\<forall>f \<in> set filters. filter_ok (strip f) \<Longrightarrow> \<exists>out. normalize_filters filters acc = Inr out"
  by (induction filters arbitrary: acc) (auto simp: filter_ok_def Let_def)

lemma filter_ok_strip: "filter_ok f \<Longrightarrow> strip f = f"
  by (rule strip_no_space) (simp add: filter_ok_def no_space_def list_ex_iff list_all_iff)

lemma validate_filters_iff:
  "(\<exists>out. validate_event_type_filters filters = Inr out) \<longleftrightarrow>
     filters \<noteq> [] \<and> length filters \<le> 100 \<and> (\<forall>f \<in> set filters. filter_ok (strip f))"
  using normalize_filters_total [of filters "[]"] normalize_filters_Inr [of filters "[]"]
  by (auto simp: validate_event_type_filters_def bindr_Inr_iff)

lemma validate_filters_Inr:
  assumes "validate_event_type_filters filters = Inr out"
  shows "sorted out \<and> distinct out \<and> set out = strip ` set filters \<and> out \<noteq> [] \<and> length out \<le> 100
    \<and> (\<forall>f \<in> set out. filter_ok f)"
proof -
  obtain n where n: "normalize_filters filters [] = Inr n" "out = sort n" and b: "filters \<noteq> []" "length filters \<le> 100"
    using assms by (auto simp: validate_event_type_filters_def bindr_Inr_iff split: if_splits)
  note spec = normalize_filters_Inr [OF n(1)]
  then have "set out = strip ` set filters" "distinct out" "length out \<le> 100" "\<forall>f \<in> set filters. filter_ok (strip f)"
    using n(2) b(2) by auto
  moreover from this(1) b(1) have "out \<noteq> []" by auto
  ultimately show ?thesis using n(2) by auto
qed

text \<open>
  C38: a stored subscription list is in normal form and means what was asked
  for.  A list is accepted exactly when it has between 1 and 100 entries and each, stripped, is an exact
  type or a prefix wildcard of 1 to 150 characters without whitespace.  The result is sorted, without
  duplicates, and holds the stripped entries; validating it again changes nothing; and an event matches
  it if and only if it matches one of the entries that were given.
\<close>

theorem event_type_filters_normal:
  "((\<exists>out. validate_event_type_filters filters = Inr out) \<longleftrightarrow>
      filters \<noteq> [] \<and> length filters \<le> 100 \<and> (\<forall>f \<in> set filters. filter_ok (strip f)))
   \<and> (\<forall>out. validate_event_type_filters filters = Inr out \<longrightarrow>
        sorted out \<and> distinct out \<and> set out = strip ` set filters \<and> (\<forall>f \<in> set out. filter_ok f)
        \<and> validate_event_type_filters out = Inr out
        \<and> (\<forall>event_type. event_type_matches event_type (filter_json (Some out)) \<longleftrightarrow>
             (\<exists>f \<in> set filters. pattern_matches event_type (JString (strip f)))))"
proof (intro conjI allI impI)
  show "(\<exists>out. validate_event_type_filters filters = Inr out) \<longleftrightarrow>
      filters \<noteq> [] \<and> length filters \<le> 100 \<and> (\<forall>f \<in> set filters. filter_ok (strip f))"
    by (rule validate_filters_iff)
next
  fix out assume v: "validate_event_type_filters filters = Inr out"
  note spec = validate_filters_Inr [OF v]
  then show "sorted out" "distinct out" "set out = strip ` set filters" "\<forall>f \<in> set out. filter_ok f" by auto
  have same: "strip ` set out = set out" using spec filter_ok_strip by auto
  obtain out' where v': "validate_event_type_filters out = Inr out'"
    using validate_filters_iff [of out] spec filter_ok_strip by auto
  have "set out' = set out" "sorted out'" "distinct out'" using validate_filters_Inr [OF v'] same by auto
  then have "out' = out" using spec by (metis sorted_distinct_set_unique)
  with v' show "validate_event_type_filters out = Inr out" by simp
  show "event_type_matches event_type (filter_json (Some out)) \<longleftrightarrow>
      (\<exists>f \<in> set filters. pattern_matches event_type (JString (strip f)))" for event_type
    using spec by (auto simp: filter_json_def list_ex_iff simp del: pattern_matches.simps)
qed

theorem event_type_filters_normal_witness:
  "validate_event_type_filters [''user.*'', '' order.created'', ''user.*''] = Inr [''order.created'', ''user.*'']
   \<and> sorted [''order.created'', ''user.*'']
   \<and> event_type_matches ''user.deleted'' (filter_json (Some [''order.created'', ''user.*'']))"
proof -
  have v: "validate_event_type_filters [''user.*'', '' order.created'', ''user.*''] = Inr [''order.created'', ''user.*'']"
    by code_simp
  have m: "pattern_matches ''user.deleted'' (JString (strip ''user.*''))" by code_simp
  note n = event_type_filters_normal [of "[''user.*'', '' order.created'', ''user.*'']", THEN conjunct2, rule_format, OF v]
  then have "event_type_matches ''user.deleted'' (filter_json (Some [''order.created'', ''user.*'']))"
    using m by (metis list.set_intros(1))
  with n v show ?thesis by blast
qed

end
