(* ===== verification/Routes.thy ===== *)
theory Routes
  imports Responses Accounts_Safety Schemas Commands
begin

text \<open>
  \<^verbatim>\<open>app/routers/webhooks.py\<close>: the management routes.  A route resolves the bearer token to an active
  account, then checks what pydantic has parsed of the request, then calls the service.  The bodies and query
  parameters of a request are given as pydantic parses them, with the defaults filled in, or \<open>None\<close> where
  it cannot; \<open>api_errors\<close> is its report then.  \<^verbatim>\<open>POST /v1/events\<close> is in \<open>Http_Api\<close>.
\<close>

subsection \<open>Requests\<close>

record api =
  api_jwt :: jwt_lib
  api_net :: net_env
  api_pydantic :: pydantic
  api_errors :: "(string list \<times> string \<times> string) list"

definition checked :: "('b \<Rightarrow> bool) \<Rightarrow> 'b option \<Rightarrow> 'b option" where
  "checked p body = (case body of None \<Rightarrow> None | Some b \<Rightarrow> if p b then Some b else None)"

definition accepted :: "('b \<Rightarrow> 'c result) \<Rightarrow> 'b option \<Rightarrow> 'c option" where
  "accepted f body = (case body of None \<Rightarrow> None | Some b \<Rightarrow> (case f b of Inl _ \<Rightarrow> None | Inr x \<Rightarrow> Some x))"

definition both :: "'b option \<Rightarrow> 'c option \<Rightarrow> ('b \<times> 'c) option" where
  "both x y = (case (x, y) of (Some b, Some c) \<Rightarrow> Some (b, c) | _ \<Rightarrow> None)"

definition with_header :: "string option \<Rightarrow> 'b option \<Rightarrow> (string \<times> 'b) option" where
  "with_header header body = both header body"

text \<open>
  The dependencies come first, so a bad token is reported before a bad body; a 204 response has no
  content.  Where the service raises, its transaction is rolled back.
\<close>

definition as_user ::
  "api \<Rightarrow> request_ctx \<Rightarrow> string option \<Rightarrow> 'b option \<Rightarrow> int \<Rightarrow> (user \<Rightarrow> 'b \<Rightarrow> db \<Rightarrow> (json \<times> db) result) \<Rightarrow> db \<Rightarrow>
   api_response \<times> db"
where
  "as_user api cx token body status handler s =
     (case get_current_active_user (api_jwt api) (cx_settings cx) (cx_now cx) token s of
        Inl e \<Rightarrow> (handle_exception e, s)
      | Inr user \<Rightarrow>
          (case body of
             None \<Rightarrow> (validation_exception_handler (api_errors api), s)
           | Some b \<Rightarrow>
               (case handler user b s of
                  Inl e \<Rightarrow> (handle_exception e, s)
                | Inr (out, s') \<Rightarrow> (\<lparr>rs_status = status, rs_headers = [], rs_body = out\<rparr>, s'))))"

definition writes :: "('x \<Rightarrow> json) \<Rightarrow> ('x \<times> db) result \<Rightarrow> (json \<times> db) result" where
  "writes out r = (case r of Inl e \<Rightarrow> Inl e | Inr (x, s') \<Rightarrow> Inr (out x, s'))"

definition reads :: "('x \<Rightarrow> json) \<Rightarrow> db \<Rightarrow> 'x result \<Rightarrow> (json \<times> db) result" where
  "reads out s r = (case r of Inl e \<Rightarrow> Inl e | Inr x \<Rightarrow> Inr (out x, s))"

definition page :: "int \<times> int \<Rightarrow> bool" where
  "page p \<longleftrightarrow> (case p of (offset, limit) \<Rightarrow> 0 \<le> offset \<and> 1 \<le> limit \<and> limit \<le> 100)"

definition audit_query :: "string option \<times> string option \<times> int \<times> datetime option \<times> int option \<Rightarrow> bool" where
  "audit_query q \<longleftrightarrow> (case q of (action, resource_type, limit, before_created_at, before_id) \<Rightarrow>
     optional_string 100 action \<and> optional_string 100 resource_type \<and> 1 \<le> limit \<and> limit \<le> 1000
     \<and> (case before_id of None \<Rightarrow> True | Some i \<Rightarrow> 0 < i))"

definition dead_query :: "string option \<times> string option \<times> int option \<Rightarrow> bool" where
  "dead_query q \<longleftrightarrow> (case q of (endpoint_id, reason, minimum_age_seconds) \<Rightarrow>
     optional_string 64 reason \<and> (case minimum_age_seconds of None \<Rightarrow> True | Some n \<Rightarrow> 0 \<le> n))"

subsection \<open>The routes\<close>

definition create_organization_route ::
  "api \<Rightarrow> request_ctx \<Rightarrow> string option \<Rightarrow> string option \<Rightarrow> db \<Rightarrow> api_response \<times> db"
where
  "create_organization_route api cx token body s =
     as_user api cx token (checked organization_create body) 201 (\<lambda>user name s.
       writes (organization_out (api_pydantic api)) (create_organization cx (u_id user) name s)) s"

definition list_organizations_route ::
  "api \<Rightarrow> request_ctx \<Rightarrow> string option \<Rightarrow> (int \<times> int) option \<Rightarrow> db \<Rightarrow> api_response \<times> db"
where
  "list_organizations_route api cx token pagination s =
     as_user api cx token (checked page pagination) 200 (\<lambda>user (offset, limit) s.
       reads (JArray \<circ> map (organization_out (api_pydantic api))) s (list_organizations (u_id user) (nat offset) (nat limit) s)) s"

definition add_member_route ::
  "api \<Rightarrow> request_ctx \<Rightarrow> string option \<Rightarrow> string \<Rightarrow> (int \<times> organization_role) option \<Rightarrow> db \<Rightarrow> api_response \<times> db"
where
  "add_member_route api cx token organization_id body s =
     as_user api cx token (checked (member_create \<circ> fst) body) 201 (\<lambda>user (member_user_id, role) s.
       writes (member_out (api_pydantic api)) (add_member cx (u_id user) organization_id member_user_id role s)) s"

definition list_members_route ::
  "api \<Rightarrow> request_ctx \<Rightarrow> string option \<Rightarrow> string \<Rightarrow> (int \<times> int) option \<Rightarrow> db \<Rightarrow> api_response \<times> db"
where
  "list_members_route api cx token organization_id pagination s =
     as_user api cx token (checked page pagination) 200 (\<lambda>user (offset, limit) s.
       reads (JArray \<circ> map (member_out (api_pydantic api))) s (list_members (u_id user) organization_id (nat offset) (nat limit) s)) s"

definition update_member_route ::
  "api \<Rightarrow> request_ctx \<Rightarrow> string option \<Rightarrow> string \<Rightarrow> int \<Rightarrow> organization_role option \<Rightarrow> db \<Rightarrow> api_response \<times> db"
where
  "update_member_route api cx token organization_id member_user_id body s =
     as_user api cx token body 200 (\<lambda>user role s.
       writes (member_out (api_pydantic api)) (update_member cx (u_id user) organization_id member_user_id role s)) s"

definition remove_member_route ::
  "api \<Rightarrow> request_ctx \<Rightarrow> string option \<Rightarrow> string \<Rightarrow> int \<Rightarrow> db \<Rightarrow> api_response \<times> db"
where
  "remove_member_route api cx token organization_id member_user_id s =
     as_user api cx token (Some ()) 204 (\<lambda>user _ s.
       writes (\<lambda>_. JNull) (remove_member cx (u_id user) organization_id member_user_id s)) s"

definition get_policy_route ::
  "api \<Rightarrow> request_ctx \<Rightarrow> string option \<Rightarrow> string \<Rightarrow> db \<Rightarrow> api_response \<times> db"
where
  "get_policy_route api cx token organization_id s =
     as_user api cx token (Some ()) 200 (\<lambda>user _ s.
       reads (organization_policy_out (api_pydantic api)) s (get_policy (u_id user) organization_id s)) s"

definition update_policy_route ::
  "api \<Rightarrow> request_ctx \<Rightarrow> string option \<Rightarrow> string \<Rightarrow> policy_update_body option \<Rightarrow> db \<Rightarrow> api_response \<times> db"
where
  "update_policy_route api cx token organization_id body s =
     as_user api cx token (accepted policy_update body) 200 (\<lambda>user changes s.
       writes (organization_policy_out (api_pydantic api)) (update_policy cx (u_id user) organization_id changes s)) s"

definition list_audit_events_route ::
  "api \<Rightarrow> request_ctx \<Rightarrow> string option \<Rightarrow> string \<Rightarrow> (string option \<times> string option \<times> int \<times> datetime option \<times> int option) option \<Rightarrow> db \<Rightarrow> api_response \<times> db"
where
  "list_audit_events_route api cx token organization_id query s =
     as_user api cx token (checked audit_query query) 200 (\<lambda>user (action, resource_type, limit, before_created_at, before_id) s.
       reads (JArray \<circ> map (audit_event_out (api_pydantic api))) s (list_audit_events (u_id user) organization_id action resource_type limit before_created_at before_id s)) s"

definition export_organization_route ::
  "api \<Rightarrow> request_ctx \<Rightarrow> string option \<Rightarrow> string \<Rightarrow> int option \<Rightarrow> db \<Rightarrow> api_response \<times> db"
where
  "export_organization_route api cx token organization_id query s =
     as_user api cx token (checked (\<lambda>limit. 1 \<le> limit \<and> limit \<le> 1000) query) 200 (\<lambda>user limit s.
       reads (organization_export_out (api_pydantic api)) s (export_organization cx (u_id user) organization_id limit s)) s"

definition request_organization_deletion_route ::
  "api \<Rightarrow> request_ctx \<Rightarrow> string option \<Rightarrow> string \<Rightarrow> db \<Rightarrow> api_response \<times> db"
where
  "request_organization_deletion_route api cx token organization_id s =
     as_user api cx token (Some ()) 202 (\<lambda>user _ s.
       writes (organization_lifecycle_out (api_pydantic api)) (request_organization_deletion cx (u_id user) organization_id s)) s"

definition get_organization_deletion_route ::
  "api \<Rightarrow> request_ctx \<Rightarrow> string option \<Rightarrow> string \<Rightarrow> db \<Rightarrow> api_response \<times> db"
where
  "get_organization_deletion_route api cx token organization_id s =
     as_user api cx token (Some ()) 200 (\<lambda>user _ s.
       reads (organization_lifecycle_out (api_pydantic api)) s (get_organization_deletion (u_id user) organization_id s)) s"

definition cancel_organization_deletion_route ::
  "api \<Rightarrow> request_ctx \<Rightarrow> string option \<Rightarrow> string \<Rightarrow> db \<Rightarrow> api_response \<times> db"
where
  "cancel_organization_deletion_route api cx token organization_id s =
     as_user api cx token (Some ()) 200 (\<lambda>user _ s.
       writes (organization_lifecycle_out (api_pydantic api)) (cancel_organization_deletion cx (u_id user) organization_id s)) s"

definition create_project_route ::
  "api \<Rightarrow> request_ctx \<Rightarrow> string option \<Rightarrow> string \<Rightarrow> string option \<Rightarrow> db \<Rightarrow> api_response \<times> db"
where
  "create_project_route api cx token organization_id body s =
     as_user api cx token (checked project_create body) 201 (\<lambda>user name s.
       writes (project_out (api_pydantic api)) (create_project cx (u_id user) organization_id name s)) s"

definition list_projects_route ::
  "api \<Rightarrow> request_ctx \<Rightarrow> string option \<Rightarrow> string \<Rightarrow> (int \<times> int) option \<Rightarrow> db \<Rightarrow> api_response \<times> db"
where
  "list_projects_route api cx token organization_id pagination s =
     as_user api cx token (checked page pagination) 200 (\<lambda>user (offset, limit) s.
       reads (JArray \<circ> map (project_out (api_pydantic api))) s (list_projects (u_id user) organization_id (nat offset) (nat limit) s)) s"

definition deactivate_project_route ::
  "api \<Rightarrow> request_ctx \<Rightarrow> string option \<Rightarrow> string \<Rightarrow> db \<Rightarrow> api_response \<times> db"
where
  "deactivate_project_route api cx token project_id s =
     as_user api cx token (Some ()) 200 (\<lambda>user _ s.
       writes (project_out (api_pydantic api)) (deactivate_project cx (u_id user) project_id s)) s"

definition add_project_member_route ::
  "api \<Rightarrow> request_ctx \<Rightarrow> string option \<Rightarrow> string \<Rightarrow> (int \<times> project_role) option \<Rightarrow> db \<Rightarrow> api_response \<times> db"
where
  "add_project_member_route api cx token project_id body s =
     as_user api cx token (checked (member_create \<circ> fst) body) 201 (\<lambda>user (member_user_id, role) s.
       writes (project_member_out (api_pydantic api)) (add_project_member cx (u_id user) project_id member_user_id role s)) s"

definition list_project_members_route ::
  "api \<Rightarrow> request_ctx \<Rightarrow> string option \<Rightarrow> string \<Rightarrow> (int \<times> int) option \<Rightarrow> db \<Rightarrow> api_response \<times> db"
where
  "list_project_members_route api cx token project_id pagination s =
     as_user api cx token (checked page pagination) 200 (\<lambda>user (offset, limit) s.
       reads (JArray \<circ> map (project_member_out (api_pydantic api))) s (list_project_members (u_id user) project_id (nat offset) (nat limit) s)) s"

definition upsert_project_member_route ::
  "api \<Rightarrow> request_ctx \<Rightarrow> string option \<Rightarrow> string \<Rightarrow> int \<Rightarrow> project_role option \<Rightarrow> db \<Rightarrow> api_response \<times> db"
where
  "upsert_project_member_route api cx token project_id member_user_id body s =
     as_user api cx token body 200 (\<lambda>user role s.
       writes (project_member_out (api_pydantic api)) (upsert_project_member cx (u_id user) project_id member_user_id role s)) s"

definition update_project_member_route ::
  "api \<Rightarrow> request_ctx \<Rightarrow> string option \<Rightarrow> string \<Rightarrow> int \<Rightarrow> project_role option \<Rightarrow> db \<Rightarrow> api_response \<times> db"
where
  "update_project_member_route api cx token project_id member_user_id body s =
     as_user api cx token body 200 (\<lambda>user role s.
       writes (project_member_out (api_pydantic api)) (update_project_member cx (u_id user) project_id member_user_id role s)) s"

definition remove_project_member_route ::
  "api \<Rightarrow> request_ctx \<Rightarrow> string option \<Rightarrow> string \<Rightarrow> int \<Rightarrow> db \<Rightarrow> api_response \<times> db"
where
  "remove_project_member_route api cx token project_id member_user_id s =
     as_user api cx token (Some ()) 204 (\<lambda>user _ s.
       writes (\<lambda>_. JNull) (remove_project_member cx (u_id user) project_id member_user_id s)) s"

definition create_api_key_route ::
  "api \<Rightarrow> request_ctx \<Rightarrow> string option \<Rightarrow> string \<Rightarrow> (string \<times> string list option \<times> int option) option \<Rightarrow> db \<Rightarrow> api_response \<times> db"
where
  "create_api_key_route api cx token project_id body s =
     as_user api cx token (accepted (\<lambda>(name, scopes, days). api_key_create name scopes days) body) 201 (\<lambda>user (name, scopes, expires_in_days) s.
       writes (api_key_created (api_pydantic api)) (create_api_key cx (u_id user) project_id name (Some scopes) expires_in_days s)) s"

definition list_api_keys_route ::
  "api \<Rightarrow> request_ctx \<Rightarrow> string option \<Rightarrow> string \<Rightarrow> (int \<times> int) option \<Rightarrow> db \<Rightarrow> api_response \<times> db"
where
  "list_api_keys_route api cx token project_id pagination s =
     as_user api cx token (checked page pagination) 200 (\<lambda>user (offset, limit) s.
       reads (JArray \<circ> map (api_key_out (api_pydantic api))) s (list_api_keys (u_id user) project_id (nat offset) (nat limit) s)) s"

definition revoke_api_key_route ::
  "api \<Rightarrow> request_ctx \<Rightarrow> string option \<Rightarrow> string \<Rightarrow> string \<Rightarrow> db \<Rightarrow> api_response \<times> db"
where
  "revoke_api_key_route api cx token project_id key_id s =
     as_user api cx token (Some ()) 200 (\<lambda>user _ s.
       writes (api_key_out (api_pydantic api)) (revoke_api_key cx (u_id user) project_id key_id s)) s"

definition rotate_api_key_route ::
  "api \<Rightarrow> request_ctx \<Rightarrow> string option \<Rightarrow> string \<Rightarrow> string \<Rightarrow> int option option \<Rightarrow> db \<Rightarrow> api_response \<times> db"
where
  "rotate_api_key_route api cx token project_id key_id body s =
     as_user api cx token (checked api_key_rotate body) 201 (\<lambda>user overlap_seconds s.
       writes (api_key_created (api_pydantic api)) (rotate_api_key cx (u_id user) project_id key_id overlap_seconds s)) s"

definition create_endpoint_route ::
  "api \<Rightarrow> request_ctx \<Rightarrow> string option \<Rightarrow> string \<Rightarrow> (string \<times> string option \<times> string list option \<times> signature_scheme option) option \<Rightarrow> db \<Rightarrow> api_response \<times> db"
where
  "create_endpoint_route api cx token project_id body s =
     as_user api cx token (accepted (\<lambda>(url, descr, types, scheme). endpoint_create url descr types scheme) body) 201 (\<lambda>user (url, descr, types, scheme) s.
       writes (endpoint_created (api_pydantic api)) (create_endpoint (api_net api) cx (u_id user) project_id url descr types scheme s)) s"

definition list_endpoints_route ::
  "api \<Rightarrow> request_ctx \<Rightarrow> string option \<Rightarrow> string \<Rightarrow> (int \<times> int) option \<Rightarrow> db \<Rightarrow> api_response \<times> db"
where
  "list_endpoints_route api cx token project_id pagination s =
     as_user api cx token (checked page pagination) 200 (\<lambda>user (offset, limit) s.
       reads (JArray \<circ> map (endpoint_out (api_pydantic api))) s (list_endpoints (u_id user) project_id (nat offset) (nat limit) s)) s"

definition update_endpoint_route ::
  "api \<Rightarrow> request_ctx \<Rightarrow> string option \<Rightarrow> string \<Rightarrow> string \<Rightarrow> endpoint_update_body option \<Rightarrow> db \<Rightarrow> api_response \<times> db"
where
  "update_endpoint_route api cx token project_id endpoint_id body s =
     as_user api cx token (accepted endpoint_update body) 200 (\<lambda>user changes s.
       writes (endpoint_updated (api_pydantic api)) (update_endpoint (api_net api) cx (u_id user) project_id endpoint_id changes s)) s"

definition deactivate_endpoint_route ::
  "api \<Rightarrow> request_ctx \<Rightarrow> string option \<Rightarrow> string \<Rightarrow> string \<Rightarrow> db \<Rightarrow> api_response \<times> db"
where
  "deactivate_endpoint_route api cx token project_id endpoint_id s =
     as_user api cx token (Some ()) 200 (\<lambda>user _ s.
       writes (endpoint_out (api_pydantic api)) (deactivate_endpoint cx (u_id user) project_id endpoint_id s)) s"

definition rotate_endpoint_secret_route ::
  "api \<Rightarrow> request_ctx \<Rightarrow> string option \<Rightarrow> string \<Rightarrow> string \<Rightarrow> db \<Rightarrow> api_response \<times> db"
where
  "rotate_endpoint_secret_route api cx token project_id endpoint_id s =
     as_user api cx token (Some ()) 200 (\<lambda>user _ s.
       writes (endpoint_secret_rotated (api_pydantic api)) (rotate_endpoint_secret cx (u_id user) project_id endpoint_id s)) s"

definition list_events_route ::
  "api \<Rightarrow> request_ctx \<Rightarrow> string option \<Rightarrow> string \<Rightarrow> (int \<times> int) option \<Rightarrow> db \<Rightarrow> api_response \<times> db"
where
  "list_events_route api cx token project_id pagination s =
     as_user api cx token (checked page pagination) 200 (\<lambda>user (offset, limit) s.
       reads (JArray \<circ> map (event_out (api_pydantic api))) s (list_events (u_id user) project_id (nat offset) (nat limit) s)) s"

definition get_event_route ::
  "api \<Rightarrow> request_ctx \<Rightarrow> string option \<Rightarrow> string \<Rightarrow> string \<Rightarrow> db \<Rightarrow> api_response \<times> db"
where
  "get_event_route api cx token project_id event_id s =
     as_user api cx token (Some ()) 200 (\<lambda>user _ s.
       reads (event_out (api_pydantic api)) s (get_event (u_id user) project_id event_id s)) s"

definition list_deliveries_route ::
  "api \<Rightarrow> request_ctx \<Rightarrow> string option \<Rightarrow> string \<Rightarrow> (int \<times> int) option \<Rightarrow> db \<Rightarrow> api_response \<times> db"
where
  "list_deliveries_route api cx token project_id pagination s =
     as_user api cx token (checked page pagination) 200 (\<lambda>user (offset, limit) s.
       reads (JArray \<circ> map (delivery_out (api_pydantic api))) s (list_deliveries (u_id user) project_id (nat offset) (nat limit) s)) s"

definition get_delivery_route ::
  "api \<Rightarrow> request_ctx \<Rightarrow> string option \<Rightarrow> string \<Rightarrow> string \<Rightarrow> db \<Rightarrow> api_response \<times> db"
where
  "get_delivery_route api cx token project_id delivery_id s =
     as_user api cx token (Some ()) 200 (\<lambda>user _ s.
       reads (delivery_detail (api_pydantic api)) s (get_delivery (u_id user) project_id delivery_id s)) s"

definition replay_delivery_route ::
  "api \<Rightarrow> request_ctx \<Rightarrow> string option \<Rightarrow> string \<Rightarrow> string \<Rightarrow> db \<Rightarrow> api_response \<times> db"
where
  "replay_delivery_route api cx token project_id delivery_id s =
     as_user api cx token (Some ()) 201 (\<lambda>user _ s.
       writes (replay_out (api_pydantic api)) (replay_delivery cx (u_id user) project_id delivery_id s)) s"

definition replay_deliveries_route ::
  "api \<Rightarrow> request_ctx \<Rightarrow> string option \<Rightarrow> string \<Rightarrow> string list option \<Rightarrow> string option \<Rightarrow> db \<Rightarrow> api_response \<times> db"
where
  "replay_deliveries_route api cx token project_id body idempotency_key s =
     as_user api cx token (with_header idempotency_key (checked replay_batch_request body)) 201 (\<lambda>user (key, delivery_ids) s.
       writes (replay_operation_out (api_pydantic api)) (replay_deliveries cx (u_id user) project_id delivery_ids key s)) s"

definition list_dead_deliveries_route ::
  "api \<Rightarrow> request_ctx \<Rightarrow> string option \<Rightarrow> string \<Rightarrow> (string option \<times> string option \<times> int option) option \<Rightarrow> (int \<times> int) option \<Rightarrow> db \<Rightarrow> api_response \<times> db"
where
  "list_dead_deliveries_route api cx token project_id query pagination s =
     as_user api cx token (both (checked dead_query query) (checked page pagination)) 200 (\<lambda>user ((endpoint_id, reason, minimum_age_seconds), offset, limit) s.
       reads (JArray \<circ> map (delivery_out (api_pydantic api))) s (list_dead_deliveries cx (u_id user) project_id (nat offset) (nat limit) endpoint_id reason minimum_age_seconds s)) s"

definition pause_endpoint_route ::
  "api \<Rightarrow> request_ctx \<Rightarrow> string option \<Rightarrow> string \<Rightarrow> string \<Rightarrow> string option option \<Rightarrow> db \<Rightarrow> api_response \<times> db"
where
  "pause_endpoint_route api cx token project_id endpoint_id body s =
     as_user api cx token (checked reason_request body) 200 (\<lambda>user reason s.
       writes (endpoint_runtime_out (api_pydantic api)) (pause_endpoint cx (u_id user) project_id endpoint_id reason s)) s"

definition resume_endpoint_route ::
  "api \<Rightarrow> request_ctx \<Rightarrow> string option \<Rightarrow> string \<Rightarrow> string \<Rightarrow> db \<Rightarrow> api_response \<times> db"
where
  "resume_endpoint_route api cx token project_id endpoint_id s =
     as_user api cx token (Some ()) 200 (\<lambda>user _ s.
       writes (endpoint_runtime_out (api_pydantic api)) (resume_endpoint cx (u_id user) project_id endpoint_id s)) s"

definition recover_endpoint_circuit_route ::
  "api \<Rightarrow> request_ctx \<Rightarrow> string option \<Rightarrow> string \<Rightarrow> string \<Rightarrow> db \<Rightarrow> api_response \<times> db"
where
  "recover_endpoint_circuit_route api cx token project_id endpoint_id s =
     as_user api cx token (Some ()) 200 (\<lambda>user _ s.
       writes (endpoint_runtime_out (api_pydantic api)) (recover_endpoint_circuit cx (u_id user) project_id endpoint_id s)) s"

definition cancel_delivery_route ::
  "api \<Rightarrow> request_ctx \<Rightarrow> string option \<Rightarrow> string \<Rightarrow> string \<Rightarrow> string option option \<Rightarrow> db \<Rightarrow> api_response \<times> db"
where
  "cancel_delivery_route api cx token project_id delivery_id body s =
     as_user api cx token (checked reason_request body) 200 (\<lambda>user reason s.
       writes (delivery_out (api_pydantic api)) (cancel_delivery cx (u_id user) project_id delivery_id reason s)) s"

definition purge_terminal_deliveries_route ::
  "api \<Rightarrow> request_ctx \<Rightarrow> string option \<Rightarrow> string \<Rightarrow> (bool \<times> int) option \<Rightarrow> db \<Rightarrow> api_response \<times> db"
where
  "purge_terminal_deliveries_route api cx token project_id body s =
     as_user api cx token (checked (purge_request \<circ> snd) body) 200 (\<lambda>user (dry_run, max_records) s.
       writes (delivery_purge_out (api_pydantic api)) (purge_terminal_deliveries cx (u_id user) project_id dry_run max_records s)) s"

subsection \<open>The export of dead deliveries\<close>

datatype cell = Cell_none | Cell_int int | Cell_str string

definition csv_cell :: "cell \<Rightarrow> cell" where
  "csv_cell value =
     (case value of
        Cell_str v \<Rightarrow>
          if v \<noteq> [] \<and> hd v \<in> {CHR ''='', CHR ''+'', CHR ''-'', CHR ''@'', CHR 0x09, CHR 0x0D}
          then Cell_str (CHR 0x27 # v) else value
      | _ \<Rightarrow> value)"

text \<open>What \<^verbatim>\<open>csv.writer\<close> writes with its defaults: quotes only where a field needs them.\<close>

definition csv_text :: "cell \<Rightarrow> string" where
  "csv_text value = (case value of Cell_none \<Rightarrow> [] | Cell_int n \<Rightarrow> str_of_int n | Cell_str v \<Rightarrow> v)"

definition csv_field :: "string \<Rightarrow> string" where
  "csv_field v =
     (if list_ex (\<lambda>c. c \<in> {CHR '','', CHR 0x22, CHR 0x0A, CHR 0x0D}) v
      then [CHR 0x22] @ concat (map (\<lambda>c. if c = CHR 0x22 then [c, c] else [c]) v) @ [CHR 0x22]
      else v)"

primrec csv_join :: "string list \<Rightarrow> string" where
  "csv_join [] = []"
| "csv_join (f # fs) = f @ (if fs = [] then [] else CHR '','' # csv_join fs)"

definition csv_row :: "cell list \<Rightarrow> string" where
  "csv_row cells = csv_join (map (csv_field \<circ> csv_text) cells) @ [CHR 0x0D, CHR 0x0A]"

definition dead_delivery_cells :: "delivery \<Rightarrow> cell list" where
  "dead_delivery_cells d = map csv_cell
     [Cell_str (dl_public_id d), Cell_str (dl_endpoint_public_id_snapshot d),
      (case dl_dead_reason d of None \<Rightarrow> Cell_none | Some r \<Rightarrow> Cell_str r), Cell_int (dl_attempt_count d),
      (case dl_last_http_status d of None \<Rightarrow> Cell_none | Some n \<Rightarrow> Cell_int n),
      (case dl_dead_at d of None \<Rightarrow> Cell_str [] | Some t \<Rightarrow> Cell_str (isoformat t))]"

definition dead_deliveries_csv :: "delivery list \<Rightarrow> string" where
  "dead_deliveries_csv deliveries =
     csv_row (map Cell_str [''delivery_id'', ''endpoint_id'', ''dead_reason'', ''attempt_count'',
       ''last_http_status'', ''dead_at'']) @ concat (map (csv_row \<circ> dead_delivery_cells) deliveries)"

definition export_dead_deliveries_route ::
  "api \<Rightarrow> request_ctx \<Rightarrow> string option \<Rightarrow> string \<Rightarrow> ((string option \<times> string option \<times> int option) \<times> int) option \<Rightarrow> db \<Rightarrow>
   api_response \<times> db"
where
  "export_dead_deliveries_route api cx token project_id query s =
     (case as_user api cx token (checked (\<lambda>(q, limit). dead_query q \<and> 1 \<le> limit \<and> limit \<le> 1000) query) 200
        (\<lambda>user ((endpoint_id, reason, minimum_age_seconds), limit) s.
          reads (JString \<circ> dead_deliveries_csv) s
            (export_dead_deliveries cx (u_id user) project_id endpoint_id reason minimum_age_seconds (nat limit) s)) s of
        (r, s') \<Rightarrow>
          (if rs_status r = 200
           then r\<lparr>rs_headers := [(''Content-Disposition'',
                  ''attachment; filename='' @ [CHR 0x22] @ ''dead-deliveries-'' @ project_id @ ''.csv'' @ [CHR 0x22])]\<rparr>
           else r, s'))"

subsection \<open>The router\<close>

datatype api_call =
    Call_create_organization "string option"
  | Call_list_organizations "(int \<times> int) option"
  | Call_add_member string "(int \<times> organization_role) option"
  | Call_list_members string "(int \<times> int) option"
  | Call_update_member string int "organization_role option"
  | Call_remove_member string int
  | Call_get_policy string
  | Call_update_policy string "policy_update_body option"
  | Call_list_audit_events string "(string option \<times> string option \<times> int \<times> datetime option \<times> int option) option"
  | Call_export_organization string "int option"
  | Call_request_organization_deletion string
  | Call_get_organization_deletion string
  | Call_cancel_organization_deletion string
  | Call_create_project string "string option"
  | Call_list_projects string "(int \<times> int) option"
  | Call_deactivate_project string
  | Call_add_project_member string "(int \<times> project_role) option"
  | Call_list_project_members string "(int \<times> int) option"
  | Call_upsert_project_member string int "project_role option"
  | Call_update_project_member string int "project_role option"
  | Call_remove_project_member string int
  | Call_create_api_key string "(string \<times> string list option \<times> int option) option"
  | Call_list_api_keys string "(int \<times> int) option"
  | Call_revoke_api_key string string
  | Call_rotate_api_key string string "int option option"
  | Call_create_endpoint string "(string \<times> string option \<times> string list option \<times> signature_scheme option) option"
  | Call_list_endpoints string "(int \<times> int) option"
  | Call_update_endpoint string string "endpoint_update_body option"
  | Call_deactivate_endpoint string string
  | Call_rotate_endpoint_secret string string
  | Call_list_events string "(int \<times> int) option"
  | Call_get_event string string
  | Call_list_deliveries string "(int \<times> int) option"
  | Call_get_delivery string string
  | Call_replay_delivery string string
  | Call_replay_deliveries string "string list option" "string option"
  | Call_list_dead_deliveries string "(string option \<times> string option \<times> int option) option" "(int \<times> int) option"
  | Call_pause_endpoint string string "string option option"
  | Call_resume_endpoint string string
  | Call_recover_endpoint_circuit string string
  | Call_cancel_delivery string string "string option option"
  | Call_purge_terminal_deliveries string "(bool \<times> int) option"
  | Call_export_dead_deliveries string "((string option \<times> string option \<times> int option) \<times> int) option"

primrec serve :: "api \<Rightarrow> request_ctx \<Rightarrow> string option \<Rightarrow> api_call \<Rightarrow> db \<Rightarrow> api_response \<times> db" where
  "serve api cx token (Call_create_organization body) s = create_organization_route api cx token body s"
| "serve api cx token (Call_list_organizations pagination) s = list_organizations_route api cx token pagination s"
| "serve api cx token (Call_add_member organization_id body) s = add_member_route api cx token organization_id body s"
| "serve api cx token (Call_list_members organization_id pagination) s = list_members_route api cx token organization_id pagination s"
| "serve api cx token (Call_update_member organization_id member_user_id body) s = update_member_route api cx token organization_id member_user_id body s"
| "serve api cx token (Call_remove_member organization_id member_user_id) s = remove_member_route api cx token organization_id member_user_id s"
| "serve api cx token (Call_get_policy organization_id) s = get_policy_route api cx token organization_id s"
| "serve api cx token (Call_update_policy organization_id body) s = update_policy_route api cx token organization_id body s"
| "serve api cx token (Call_list_audit_events organization_id query) s = list_audit_events_route api cx token organization_id query s"
| "serve api cx token (Call_export_organization organization_id query) s = export_organization_route api cx token organization_id query s"
| "serve api cx token (Call_request_organization_deletion organization_id) s = request_organization_deletion_route api cx token organization_id s"
| "serve api cx token (Call_get_organization_deletion organization_id) s = get_organization_deletion_route api cx token organization_id s"
| "serve api cx token (Call_cancel_organization_deletion organization_id) s = cancel_organization_deletion_route api cx token organization_id s"
| "serve api cx token (Call_create_project organization_id body) s = create_project_route api cx token organization_id body s"
| "serve api cx token (Call_list_projects organization_id pagination) s = list_projects_route api cx token organization_id pagination s"
| "serve api cx token (Call_deactivate_project project_id) s = deactivate_project_route api cx token project_id s"
| "serve api cx token (Call_add_project_member project_id body) s = add_project_member_route api cx token project_id body s"
| "serve api cx token (Call_list_project_members project_id pagination) s = list_project_members_route api cx token project_id pagination s"
| "serve api cx token (Call_upsert_project_member project_id member_user_id body) s = upsert_project_member_route api cx token project_id member_user_id body s"
| "serve api cx token (Call_update_project_member project_id member_user_id body) s = update_project_member_route api cx token project_id member_user_id body s"
| "serve api cx token (Call_remove_project_member project_id member_user_id) s = remove_project_member_route api cx token project_id member_user_id s"
| "serve api cx token (Call_create_api_key project_id body) s = create_api_key_route api cx token project_id body s"
| "serve api cx token (Call_list_api_keys project_id pagination) s = list_api_keys_route api cx token project_id pagination s"
| "serve api cx token (Call_revoke_api_key project_id key_id) s = revoke_api_key_route api cx token project_id key_id s"
| "serve api cx token (Call_rotate_api_key project_id key_id body) s = rotate_api_key_route api cx token project_id key_id body s"
| "serve api cx token (Call_create_endpoint project_id body) s = create_endpoint_route api cx token project_id body s"
| "serve api cx token (Call_list_endpoints project_id pagination) s = list_endpoints_route api cx token project_id pagination s"
| "serve api cx token (Call_update_endpoint project_id endpoint_id body) s = update_endpoint_route api cx token project_id endpoint_id body s"
| "serve api cx token (Call_deactivate_endpoint project_id endpoint_id) s = deactivate_endpoint_route api cx token project_id endpoint_id s"
| "serve api cx token (Call_rotate_endpoint_secret project_id endpoint_id) s = rotate_endpoint_secret_route api cx token project_id endpoint_id s"
| "serve api cx token (Call_list_events project_id pagination) s = list_events_route api cx token project_id pagination s"
| "serve api cx token (Call_get_event project_id event_id) s = get_event_route api cx token project_id event_id s"
| "serve api cx token (Call_list_deliveries project_id pagination) s = list_deliveries_route api cx token project_id pagination s"
| "serve api cx token (Call_get_delivery project_id delivery_id) s = get_delivery_route api cx token project_id delivery_id s"
| "serve api cx token (Call_replay_delivery project_id delivery_id) s = replay_delivery_route api cx token project_id delivery_id s"
| "serve api cx token (Call_replay_deliveries project_id body idempotency_key) s = replay_deliveries_route api cx token project_id body idempotency_key s"
| "serve api cx token (Call_list_dead_deliveries project_id query pagination) s = list_dead_deliveries_route api cx token project_id query pagination s"
| "serve api cx token (Call_pause_endpoint project_id endpoint_id body) s = pause_endpoint_route api cx token project_id endpoint_id body s"
| "serve api cx token (Call_resume_endpoint project_id endpoint_id) s = resume_endpoint_route api cx token project_id endpoint_id s"
| "serve api cx token (Call_recover_endpoint_circuit project_id endpoint_id) s = recover_endpoint_circuit_route api cx token project_id endpoint_id s"
| "serve api cx token (Call_cancel_delivery project_id delivery_id body) s = cancel_delivery_route api cx token project_id delivery_id body s"
| "serve api cx token (Call_purge_terminal_deliveries project_id body) s = purge_terminal_deliveries_route api cx token project_id body s"
| "serve api cx token (Call_export_dead_deliveries project_id query) s = export_dead_deliveries_route api cx token project_id query s"

lemmas route_defs = create_organization_route_def list_organizations_route_def add_member_route_def list_members_route_def update_member_route_def remove_member_route_def get_policy_route_def update_policy_route_def list_audit_events_route_def export_organization_route_def request_organization_deletion_route_def get_organization_deletion_route_def cancel_organization_deletion_route_def create_project_route_def list_projects_route_def deactivate_project_route_def add_project_member_route_def list_project_members_route_def upsert_project_member_route_def update_project_member_route_def remove_project_member_route_def create_api_key_route_def list_api_keys_route_def revoke_api_key_route_def rotate_api_key_route_def create_endpoint_route_def list_endpoints_route_def update_endpoint_route_def deactivate_endpoint_route_def rotate_endpoint_secret_route_def list_events_route_def get_event_route_def list_deliveries_route_def get_delivery_route_def replay_delivery_route_def replay_deliveries_route_def list_dead_deliveries_route_def pause_endpoint_route_def resume_endpoint_route_def recover_endpoint_circuit_route_def cancel_delivery_route_def purge_terminal_deliveries_route_def export_dead_deliveries_route_def

subsection \<open>What a request may do\<close>

lemma as_user_refused:
  assumes "get_current_active_user (api_jwt api) (cx_settings cx) (cx_now cx) token s = Inl e"
  shows "as_user api cx token body status handler s = (handle_exception e, s)"
  using assms by (simp add: as_user_def)

lemma as_user_effect:
  assumes "as_user api cx token body status handler s = (r, s')"
  shows "s' = s \<or> (\<exists>user b out. get_current_active_user (api_jwt api) (cx_settings cx) (cx_now cx) token s = Inr user
    \<and> body = Some b \<and> handler user b s = Inr (out, s'))"
  using assms by (auto simp: as_user_def split: sum.splits option.splits)

lemma reads_keeps: "reads out s r = Inr (x, s') \<Longrightarrow> s' = s"
  by (auto simp: reads_def split: sum.splits)

lemma writes_state: "writes out r = Inr (x, s') \<longleftrightarrow> (\<exists>y. r = Inr (y, s') \<and> x = out y)"
  by (auto simp: writes_def split: sum.splits)

text \<open>A change of the database is a command of the account the token names.\<close>

definition by_account :: "api \<Rightarrow> request_ctx \<Rightarrow> string option \<Rightarrow> db \<Rightarrow> db \<Rightarrow> bool" where
  "by_account api cx token s s' \<longleftrightarrow> s' = s
     \<or> (\<exists>user cmd. get_current_active_user (api_jwt api) (cx_settings cx) (cx_now cx) token s = Inr user
          \<and> run_command (api_net api) cx (u_id user) cmd s = Inr s')"

lemma as_user_reads:
  assumes "as_user api cx token body status handler s = (r, s')"
    and "\<And>user b. \<exists>out x. handler user b s = reads out s x"
  shows "by_account api cx token s s'"
  using as_user_effect [OF assms(1)] assms(2) reads_keeps unfolding by_account_def by metis

lemma as_user_writes:
  assumes "as_user api cx token body status handler s = (r, s')"
    and "\<And>user b. \<exists>cmd. map_sum id snd (handler user b s) = run_command (api_net api) cx (u_id user) cmd s"
  shows "by_account api cx token s s'"
proof -
  have "\<exists>cmd. run_command (api_net api) cx (u_id user) cmd s = Inr s'" if "handler user b s = Inr (out, s')" for user b out
    using assms(2) [of user b] that by (metis map_sum.simps(2) snd_conv)
  then show ?thesis using as_user_effect [OF assms(1)] unfolding by_account_def by metis
qed

lemma map_sum_writes: "map_sum id snd (writes out r) = map_sum id snd r"
  by (cases r) (auto simp: writes_def)

lemma export_dead_keeps: "export_dead_deliveries_route api cx token project_id query s = (r, s') \<Longrightarrow> s' = s"
  unfolding export_dead_deliveries_route_def
  by (auto simp: as_user_def reads_def split: sum.splits option.splits prod.splits if_splits)

lemma serve_by_account:
  "serve api cx token call s = (r, s') \<Longrightarrow> \<nexists>project_id query. call = Call_export_dead_deliveries project_id query \<Longrightarrow>
   by_account api cx token s s'"
  by ((cases call; hypsubst; simp only: serve.simps route_defs),
      (erule as_user_reads, (auto split: prod.splits; fail)
       | erule as_user_writes, (auto simp: map_sum_writes split: prod.splits intro: run_command.simps [symmetric]; fail)
       | (simp; fail))+)

lemma current_user_refused:
  assumes "get_current_active_user jw cfg now token s = Inl e"
  shows "rs_status (handle_exception e) = 401 \<or> rs_status (handle_exception e) = 403"
  using assms
  by (auto simp: get_current_active_user_def get_current_user_def bindr_Inl_iff some_or_def invalid_token_def
      handle_exception_def app_exception_handler_def create_error_response_def split: if_splits option.splits)

lemma serve_refused:
  assumes "get_current_active_user (api_jwt api) (cx_settings cx) (cx_now cx) token s = Inl e"
  shows "serve api cx token call s = (handle_exception e, s)"
  using assms current_user_refused [OF assms] by (cases call) (auto simp: route_defs as_user_refused)

text \<open>
  C27: whatever a management route changes, the account named by the token ordered.  A request
  whose token does not resolve to an active account is answered 401 or 403 and changes nothing.  Any
  other request either leaves the database as it is, or its effect is exactly one command of the
  service, run under the id of that account, so that every property of the commands holds of the routes.
\<close>

theorem management_by_account:
  assumes "serve api cx token call s = (r, s')"
  shows "(\<forall>e. get_current_active_user (api_jwt api) (cx_settings cx) (cx_now cx) token s = Inl e \<longrightarrow>
        s' = s \<and> (rs_status r = 401 \<or> rs_status r = 403))
    \<and> (s' = s \<or> (\<exists>user cmd. get_current_active_user (api_jwt api) (cx_settings cx) (cx_now cx) token s = Inr user
         \<and> u_is_active user \<and> run_command (api_net api) cx (u_id user) cmd s = Inr s'))"
proof (intro conjI allI impI)
  fix e assume e: "get_current_active_user (api_jwt api) (cx_settings cx) (cx_now cx) token s = Inl e"
  show "s' = s" "rs_status r = 401 \<or> rs_status r = 403"
    using serve_refused [OF e, of call] assms current_user_refused [OF e] by auto
next
  have "by_account api cx token s s'"
  proof (cases "\<exists>project_id query. call = Call_export_dead_deliveries project_id query")
    case True
    then show ?thesis using assms export_dead_keeps by (auto simp: by_account_def)
  next
    case False
    then show ?thesis using assms serve_by_account by blast
  qed
  then show "s' = s \<or> (\<exists>user cmd. get_current_active_user (api_jwt api) (cx_settings cx) (cx_now cx) token s = Inr user
         \<and> u_is_active user \<and> run_command (api_net api) cx (u_id user) cmd s = Inr s')"
    unfolding by_account_def by (auto simp: get_current_active_user_def bindr_Inr_iff split: if_splits)
qed

definition sample_api :: api where
  "sample_api = \<lparr>api_jwt = sample_jwt, api_net = sample_net,
     api_pydantic = \<lparr>py_datetime = JInt, py_errors = (\<lambda>_ _. [])\<rparr>, api_errors = []\<rparr>"

theorem management_by_account_witness:
  "\<exists>r s' user cmd. serve sample_api sample_ctx (Some ''t1'') (Call_create_organization (Some ''New'')) registered = (r, s')
     \<and> rs_status r = 201
     \<and> get_current_active_user sample_jwt default_settings (cx_now sample_ctx) (Some ''t1'') registered = Inr user
     \<and> run_command sample_net sample_ctx (u_id user) cmd registered = Inr s'"
proof -
  obtain r s' where e: "serve sample_api sample_ctx (Some ''t1'') (Call_create_organization (Some ''New'')) registered = (r, s')"
    by fastforce
  have "case serve sample_api sample_ctx (Some ''t1'') (Call_create_organization (Some ''New'')) registered of
      (r, s') \<Rightarrow> rs_status r = 201 \<and> length (db_organizations s') \<noteq> length (db_organizations registered)"
    by code_simp
  then have "rs_status r = 201" "s' \<noteq> registered" using e by auto
  then show ?thesis using management_by_account [OF e] e by (auto simp: sample_api_def sample_ctx_def)
qed


end
