(* ===== verification/Items.thy ===== *)
theory Items
  imports Routes
begin

text \<open>
  The item resource: \<^verbatim>\<open>app/schemas/item.py\<close>, \<^verbatim>\<open>app/services/item_service.py\<close> and \<^verbatim>\<open>app/routers/items.py\<close>.  Its table
  is separate from the platform's: the rows and the next key.  A price is the decimal number that the float's
  shortest notation denotes.
\<close>

record item =
  it_id :: int
  it_title :: string
  it_description :: "string option"
  it_price :: rat
  it_owner_id :: int
  it_created_at :: datetime

record item_table =
  tb_items :: "item list"
  tb_next :: int

subsection \<open>Schemas\<close>

definition validate_money :: "rat \<Rightarrow> bool" where
  "validate_money value \<longleftrightarrow> \<bar>value\<bar> < 10000000000 \<and> value * 100 = of_int \<lfloor>value * 100\<rfloor>"

definition item_title :: "string \<Rightarrow> string option" where
  "item_title raw = (let title = strip raw in if bounded_string 1 200 title then Some title else None)"

record item_create =
  ic_title :: string
  ic_description :: "string option"
  ic_price :: rat

definition item_create_ok :: "item_create \<Rightarrow> item_create option" where
  "item_create_ok b =
     (case item_title (ic_title b) of
        None \<Rightarrow> None
      | Some title \<Rightarrow>
          if optional_string 2000 (ic_description b) \<and> validate_money (ic_price b) then Some (b\<lparr>ic_title := title\<rparr>) else None)"

record item_update =
  iu_title :: "string field"
  iu_description :: "string field"
  iu_price :: "rat field"

definition item_update_ok :: "item_update \<Rightarrow> item_update option" where
  "item_update_ok b =
     (if iu_title b = Some None \<or> iu_price b = Some None then None
      else if (case iu_description b of Some d \<Rightarrow> \<not> optional_string 2000 d | None \<Rightarrow> False) then None
      else if (case iu_price b of Some (Some v) \<Rightarrow> \<not> validate_money v | _ \<Rightarrow> False) then None
      else if iu_title b = None \<and> iu_description b = None \<and> iu_price b = None then None
      else case iu_title b of
             Some (Some raw) \<Rightarrow>
               (case item_title raw of None \<Rightarrow> None | Some title \<Rightarrow> Some (b\<lparr>iu_title := Some (Some title)\<rparr>))
           | _ \<Rightarrow> Some b)"

subsection \<open>The service\<close>

definition item_by_id :: "int \<Rightarrow> item_table \<Rightarrow> item option" where
  "item_by_id item_id t = List.find (\<lambda>i. it_id i = item_id) (tb_items t)"

definition all_items :: "nat \<Rightarrow> nat \<Rightarrow> item_table \<Rightarrow> item list" where
  "all_items skip limit t = take limit (drop skip (sort_key it_id (tb_items t)))"

definition items_by_owner :: "int \<Rightarrow> nat \<Rightarrow> nat \<Rightarrow> item_table \<Rightarrow> item list" where
  "items_by_owner owner_id skip limit t =
     take limit (drop skip (sort_key it_id (filter (\<lambda>i. it_owner_id i = owner_id) (tb_items t))))"

definition negative_price :: app_error where
  "negative_price = ValidationError ''Price cannot be negative'' (Some ''price'')"

definition create_item :: "datetime \<Rightarrow> item_create \<Rightarrow> int \<Rightarrow> item_table \<Rightarrow> (item \<times> item_table) result" where
  "create_item now b owner_id t =
     (if ic_price b < 0 then Inl negative_price
      else
        let item = \<lparr>it_id = tb_next t, it_title = ic_title b, it_description = ic_description b, it_price = ic_price b,
              it_owner_id = owner_id, it_created_at = now\<rparr>
        in Inr (item, t\<lparr>tb_items := tb_items t @ [item], tb_next := tb_next t + 1\<rparr>))"

definition apply_update :: "item_update \<Rightarrow> item \<Rightarrow> item" where
  "apply_update b i =
     i\<lparr>it_title := (case iu_title b of Some (Some v) \<Rightarrow> v | _ \<Rightarrow> it_title i),
       it_description := (case iu_description b of Some d \<Rightarrow> d | None \<Rightarrow> it_description i),
       it_price := (case iu_price b of Some (Some v) \<Rightarrow> v | _ \<Rightarrow> it_price i)\<rparr>"

definition update_item :: "int \<Rightarrow> item_update \<Rightarrow> int \<Rightarrow> item_table \<Rightarrow> (item option \<times> item_table) result" where
  "update_item item_id b owner_id t =
     (case item_by_id item_id t of
        None \<Rightarrow> Inr (None, t)
      | Some i \<Rightarrow>
          if it_owner_id i \<noteq> owner_id then Inr (None, t)
          else if (case iu_price b of Some (Some v) \<Rightarrow> v < 0 | _ \<Rightarrow> False) then Inl negative_price
          else Inr (Some (apply_update b i),
                 t\<lparr>tb_items := update_where (\<lambda>r. it_id r = item_id) (apply_update b) (tb_items t)\<rparr>))"

definition delete_item :: "int \<Rightarrow> int \<Rightarrow> item_table \<Rightarrow> bool \<times> item_table" where
  "delete_item item_id owner_id t =
     (case item_by_id item_id t of
        None \<Rightarrow> (False, t)
      | Some i \<Rightarrow>
          if it_owner_id i \<noteq> owner_id then (False, t)
          else (True, t\<lparr>tb_items := delete_where (\<lambda>r. it_id r = item_id) (tb_items t)\<rparr>))"

subsection \<open>The routes\<close>

text \<open>The account has been resolved; the path parameter is at least 1 and the body is valid.\<close>

definition item_not_found :: "int \<Rightarrow> app_error" where
  "item_not_found item_id = NotFoundError ''Item'' (str_of_int item_id)"

definition create_item_route :: "datetime \<Rightarrow> user \<Rightarrow> item_create \<Rightarrow> item_table \<Rightarrow> (item \<times> item_table) result" where
  "create_item_route now current_user b t = create_item now b (u_id current_user) t"

definition get_items_route :: "user \<Rightarrow> nat \<Rightarrow> nat \<Rightarrow> item_table \<Rightarrow> item list" where
  "get_items_route current_user skip limit t = items_by_owner (u_id current_user) skip limit t"

definition get_item_route :: "user \<Rightarrow> int \<Rightarrow> item_table \<Rightarrow> item result" where
  "get_item_route current_user item_id t =
     (case item_by_id item_id t of
        None \<Rightarrow> Inl (item_not_found item_id)
      | Some i \<Rightarrow> if it_owner_id i \<noteq> u_id current_user then Inl (item_not_found item_id) else Inr i)"

definition update_item_route :: "user \<Rightarrow> int \<Rightarrow> item_update \<Rightarrow> item_table \<Rightarrow> (item \<times> item_table) result" where
  "update_item_route current_user item_id b t =
     bindr (update_item item_id b (u_id current_user) t) (\<lambda>(found, t').
     case found of None \<Rightarrow> Inl (item_not_found item_id) | Some i \<Rightarrow> Inr (i, t'))"

definition delete_item_route :: "user \<Rightarrow> int \<Rightarrow> item_table \<Rightarrow> item_table result" where
  "delete_item_route current_user item_id t =
     (case delete_item item_id (u_id current_user) t of
        (deleted, t') \<Rightarrow> if deleted then Inr t' else Inl (item_not_found item_id))"

subsection \<open>Ownership\<close>

text \<open>Keys are unique and below the next one, and prices are not negative.\<close>

definition item_inv :: "item_table \<Rightarrow> bool" where
  "item_inv t \<longleftrightarrow> distinct (map it_id (tb_items t)) \<and> (\<forall>i \<in> set (tb_items t). it_id i < tb_next t \<and> 0 \<le> it_price i)"

lemma apply_update_key [simp]: "it_id (apply_update b i) = it_id i" "it_owner_id (apply_update b i) = it_owner_id i"
  by (simp_all add: apply_update_def)

lemma create_item_inv: "create_item now b o' t = Inr (i, t') \<Longrightarrow> item_inv t \<Longrightarrow> item_inv t'"
  by (fastforce simp: create_item_def item_inv_def Let_def image_iff split: if_splits)

lemma apply_update_price:
  "\<not> (case iu_price b of Some (Some v) \<Rightarrow> v < 0 | _ \<Rightarrow> False) \<Longrightarrow> 0 \<le> it_price i \<Longrightarrow> 0 \<le> it_price (apply_update b i)"
  by (auto simp: apply_update_def split: option.splits)

lemma update_item_inv:
  assumes "update_item item_id b o' t = Inr (i, t')" and "item_inv t"
  shows "item_inv t'"
proof -
  consider "t' = t" | "\<not> (case iu_price b of Some (Some v) \<Rightarrow> v < 0 | _ \<Rightarrow> False)"
      "tb_items t' = update_where (\<lambda>r. it_id r = item_id) (apply_update b) (tb_items t)" "tb_next t' = tb_next t"
    using assms(1) by (auto simp: update_item_def split: option.splits if_splits)
  then show ?thesis
  proof cases
    case 2
    have "it_id r < tb_next t' \<and> 0 \<le> it_price r" if "r \<in> set (tb_items t')" for r
      using that assms(2) apply_update_price [OF 2(1)] unfolding 2(2,3) by (auto simp: update_where_def item_inv_def)
    moreover have "distinct (map it_id (tb_items t'))"
      unfolding 2(2) by (rule Prelude.distinct_update) (use assms(2) in \<open>simp_all add: item_inv_def\<close>)
    ultimately show ?thesis by (simp add: item_inv_def)
  qed (use assms(2) in simp)
qed

text \<open>Nobody reads, changes or deletes an item of another account, and cannot tell it from one that does not exist.\<close>

lemma foreign_item:
  assumes "item_by_id item_id t = Some i" and "it_owner_id i \<noteq> u_id current_user"
  shows "get_item_route current_user item_id t = Inl (item_not_found item_id)"
    "update_item_route current_user item_id b t = Inl (item_not_found item_id)"
    "delete_item_route current_user item_id t = Inl (item_not_found item_id)"
    "i \<notin> set (get_items_route current_user skip limit t)"
proof -
  show "get_item_route current_user item_id t = Inl (item_not_found item_id)"
    "update_item_route current_user item_id b t = Inl (item_not_found item_id)"
    "delete_item_route current_user item_id t = Inl (item_not_found item_id)"
    using assms by (simp_all add: get_item_route_def update_item_route_def update_item_def delete_item_route_def
      delete_item_def)
  have "set (get_items_route current_user skip limit t) \<subseteq> {i. it_owner_id i = u_id current_user}"
    using set_take_subset set_drop_subset by (fastforce simp: get_items_route_def items_by_owner_def)
  then show "i \<notin> set (get_items_route current_user skip limit t)" using assms(2) by auto
qed

end
