(* ===== verification/Deletion.thy ===== *)
theory Deletion
  imports Lifecycle Samples
begin

text \<open>
  The deletion of an organization ends.  A maintenance pass takes one bounded step of the oldest due
  deletion: it cancels a batch of deliveries, deletes a batch of deliveries or of events, or deletes
  the emptied organization.  Once the leases of its workers have run out and nothing new comes in, every
  pass makes progress in a measure, so that finitely many passes delete every organization that is due.
\<close>

subsection \<open>The measure\<close>

definition cleanup_measure :: "db \<Rightarrow> nat" where
  "cleanup_measure s =
     length (filter (\<lambda>d. \<not> terminal_status (dl_status d)) (db_deliveries s)) + length (db_deliveries s)
     + length (db_events s) + length (filter open_operation (db_lifecycle_operations s))"

text \<open>
  What is assumed of the database: leases end by the time \<open>T\<close>, a delivery belongs to the organization
  that owns its event's project, ids are unique, and public ids are such that the audit log takes them.
\<close>

definition quiet :: "datetime \<Rightarrow> db \<Rightarrow> bool" where
  "quiet T s \<longleftrightarrow>
     (\<forall>d \<in> set (db_deliveries s). dl_status d = Processing \<longrightarrow> \<not> opt_gt (dl_lease_expires_at d) T)
     \<and> (\<forall>d \<in> set (db_deliveries s). \<forall>e \<in> set (db_events s). \<forall>oid. dl_event_id d = ev_id e
          \<and> org_owns_project oid (ev_project_id e) s \<longrightarrow> dl_organization_id d = oid)
     \<and> distinct (map org_id (db_organizations s)) \<and> distinct (map lo_id (db_lifecycle_operations s))
     \<and> (\<forall>organization \<in> set (db_organizations s). org_public_id organization \<noteq> []
          \<and> length (org_public_id organization) \<le> 36)
     \<and> (\<forall>op \<in> set (db_lifecycle_operations s). scalar_safe (AuStr (lo_public_id op)))"

definition due_deletion :: "datetime \<Rightarrow> db \<Rightarrow> int \<Rightarrow> bool" where
  "due_deletion T s oid \<longleftrightarrow>
     (\<exists>op \<in> set (db_lifecycle_operations s). lo_kind op = ''deletion'' \<and> open_operation op \<and> lo_scheduled_at op \<le> T
        \<and> lo_organization_id op = oid)
     \<and> (\<exists>organization \<in> set (db_organizations s). org_id organization = oid
          \<and> org_lifecycle_state organization = Deletion_pending)"

definition gone :: "db \<Rightarrow> int \<Rightarrow> bool" where
  "gone s oid \<longleftrightarrow> oid \<notin> org_id ` set (db_organizations s)"

definition keeps_due :: "datetime \<Rightarrow> db \<Rightarrow> db \<Rightarrow> bool" where
  "keeps_due T s s' \<longleftrightarrow> (\<forall>oid. (due_deletion T s oid \<longrightarrow> due_deletion T s' oid \<or> gone s' oid)
     \<and> (gone s oid \<longrightarrow> gone s' oid))"

subsection \<open>Counting\<close>

lemma length_filter_update_le:
  assumes "\<And>x. x \<in> set xs \<Longrightarrow> q x \<Longrightarrow> P (f x) \<Longrightarrow> P x"
  shows "length (filter P (update_where q f xs)) \<le> length (filter P xs)"
  using assms by (induction xs) (auto simp: le_SucI)

lemma length_filter_update_less:
  assumes "\<And>x. q x \<Longrightarrow> \<not> P (f x)" and "x \<in> set xs" and "q x" and "P x"
  shows "length (filter P (update_where q f xs)) < length (filter P xs)"
  using assms(2)
proof (induction xs)
  case (Cons a xs)
  have le: "length (filter P (update_where q f xs)) \<le> length (filter P xs)"
    by (rule length_filter_update_le) (use assms(1) in blast)
  show ?case
  proof (cases "a = x")
    case True
    with assms le show ?thesis by simp
  next
    case False
    with Cons assms(1) show ?thesis by auto
  qed
qed simp

lemma length_filter_sub_le: "length (filter P (filter Q xs)) \<le> length (filter P xs)"
  by (induction xs) auto

lemma quiet_sub:
  assumes "quiet T s"
    and "\<forall>d' \<in> set (db_deliveries s'). \<exists>d \<in> set (db_deliveries s). dl_event_id d' = dl_event_id d
          \<and> dl_organization_id d' = dl_organization_id d
          \<and> (dl_status d' = Processing \<longrightarrow> dl_status d = Processing \<and> dl_lease_expires_at d' = dl_lease_expires_at d)"
    and "\<forall>e' \<in> set (db_events s'). \<exists>e \<in> set (db_events s). ev_id e' = ev_id e \<and> ev_project_id e' = ev_project_id e"
    and "set (db_projects s') \<subseteq> set (db_projects s)"
    and "distinct (map org_id (db_organizations s'))" "set (db_organizations s') \<subseteq> set (db_organizations s)"
    and "distinct (map lo_id (db_lifecycle_operations s'))"
    and "\<forall>op' \<in> set (db_lifecycle_operations s'). \<exists>op \<in> set (db_lifecycle_operations s). lo_public_id op' = lo_public_id op"
  shows "quiet T s'"
proof -
  have owns: "org_owns_project oid p s' \<Longrightarrow> org_owns_project oid p s" for oid p
    using assms(4) by (auto simp: org_owns_project_def list_ex_iff)
  have "dl_status d' = Processing \<longrightarrow> \<not> opt_gt (dl_lease_expires_at d') T" if "d' \<in> set (db_deliveries s')" for d'
    using bspec [OF assms(2) that] assms(1) unfolding quiet_def by metis
  moreover have "dl_organization_id d' = oid"
    if "d' \<in> set (db_deliveries s')" "e' \<in> set (db_events s')" "dl_event_id d' = ev_id e'"
      "org_owns_project oid (ev_project_id e') s'" for d' e' oid
    using bspec [OF assms(2) that(1)] bspec [OF assms(3) that(2)] that(3) owns [OF that(4)] assms(1)
    unfolding quiet_def by metis
  moreover have "scalar_safe (AuStr (lo_public_id op'))" if "op' \<in> set (db_lifecycle_operations s')" for op'
    using bspec [OF assms(8) that] assms(1) unfolding quiet_def by metis
  ultimately show ?thesis using assms(1,5-7) unfolding quiet_def by blast
qed

text \<open>A step that keeps what is due and moves the measure down, or at least not up.\<close>

definition keeps :: "datetime \<Rightarrow> db \<Rightarrow> db \<Rightarrow> bool" where
  "keeps T s s' \<longleftrightarrow> quiet T s' \<and> cleanup_measure s' \<le> cleanup_measure s \<and> keeps_due T s s'"

definition advances :: "datetime \<Rightarrow> db \<Rightarrow> db \<Rightarrow> bool" where
  "advances T s s' \<longleftrightarrow> quiet T s' \<and> cleanup_measure s' < cleanup_measure s \<and> keeps_due T s s'"

lemma keeps_due_trans: "keeps_due T s s' \<Longrightarrow> keeps_due T s' s'' \<Longrightarrow> keeps_due T s s''"
  unfolding keeps_due_def by blast

lemma keeps_advances: "keeps T s s' \<Longrightarrow> advances T s' s'' \<Longrightarrow> advances T s s''"
  unfolding keeps_def advances_def using keeps_due_trans by (metis order_less_le_trans)

lemma keeps_due_same:
  "db_organizations s' = db_organizations s \<Longrightarrow> db_lifecycle_operations s' = db_lifecycle_operations s \<Longrightarrow>
   keeps_due T s s'"
  by (simp add: keeps_due_def due_deletion_def gone_def)

lemma claimable_Nil:
  "1 \<le> lifecycle_cleanup_batch_size cfg \<Longrightarrow> claimable cfg (\<lambda>_. False) k rows = [] \<longleftrightarrow> rows = []"
  by (cases rows) (auto simp: claimable_def)

lemma set_claimable: "set (claimable cfg skip k rows) \<subseteq> set rows"
  unfolding claimable_def using set_take_subset by fastforce

lemma quiet_no_live: "quiet T s \<Longrightarrow> T \<le> now \<Longrightarrow> \<not> has_live_delivery now oid s"
  by (auto simp: has_live_delivery_def list_ex_iff is_live_def quiet_def opt_gt_def split: option.splits)

subsection \<open>The steps of a cleanup\<close>

lemma put_running_keeps:
  fixes op :: organization_lifecycle_operation and s :: db
  defines "op' \<equiv> op\<lparr>lo_status := Op_running, lo_error := None\<rparr>"
  assumes q: "quiet T s" and op: "op \<in> set (db_lifecycle_operations s)" "open_operation op"
  shows "keeps T s (put_operation op' s)"
proof -
  have dist: "distinct (map lo_id (db_lifecycle_operations s))" using q by (simp add: quiet_def)
  have one: "r = op" if "r \<in> set (db_lifecycle_operations s)" "lo_id r = lo_id op'" for r
    using row_unique [OF dist that(1) op(1)] that(2) by (simp add: op'_def)
  let ?ops = "update_where (\<lambda>r. lo_id r = lo_id op') (\<lambda>_. op') (db_lifecycle_operations s)"
  have ops: "db_lifecycle_operations (put_operation op' s) = ?ops" by (simp add: put_operation_def)
  have same: "db_deliveries (put_operation op' s) = db_deliveries s" "db_events (put_operation op' s) = db_events s"
    "db_projects (put_operation op' s) = db_projects s"
    "db_organizations (put_operation op' s) = db_organizations s"
    by (simp_all add: put_operation_def)
  have "length (filter open_operation ?ops) \<le> length (filter open_operation (db_lifecycle_operations s))"
    by (rule length_filter_update_le) (use one op in blast)
  then have le: "cleanup_measure (put_operation op' s) \<le> cleanup_measure s"
    unfolding cleanup_measure_def ops same by simp
  have "\<forall>r \<in> set ?ops. \<exists>r' \<in> set (db_lifecycle_operations s). lo_public_id r = lo_public_id r'"
    using op(1) by (auto simp: update_where_def op'_def)
  then have "quiet T (put_operation op' s)"
    using q by (intro quiet_sub [OF q]) (auto simp: same ops distinct_put [OF dist] quiet_def)
  moreover have fields: "lo_kind op' = lo_kind op" "open_operation op'" "lo_scheduled_at op' = lo_scheduled_at op"
    "lo_organization_id op' = lo_organization_id op"
    by (simp_all add: op'_def open_operation_def)
  have "r \<in> set ?ops \<or> r = op \<and> op' \<in> set ?ops" if "r \<in> set (db_lifecycle_operations s)" for r
    using that one by (force simp: update_where_def)
  then have "\<exists>r' \<in> set ?ops. lo_kind r' = lo_kind r \<and> open_operation r' \<and> lo_scheduled_at r' = lo_scheduled_at r
      \<and> lo_organization_id r' = lo_organization_id r"
    if "r \<in> set (db_lifecycle_operations s)" "open_operation r" for r
    using that fields by metis
  then have "due_deletion T s oid \<Longrightarrow> due_deletion T (put_operation op' s) oid" for oid
    unfolding due_deletion_def same ops by metis
  then have "keeps_due T s (put_operation op' s)" by (auto simp: keeps_due_def gone_def same)
  ultimately show ?thesis using le by (simp add: keeps_def)
qed

lemma cancel_advances:
  assumes q: "quiet T s" and c: "cancel_inactive_deliveries cfg now skip oid s = (n, s')" and n: "n \<noteq> 0"
  shows "advances T s s'"
proof -
  let ?rows = "claimable cfg skip dl_id (sort_key dl_id (filter (\<lambda>d. dl_organization_id d = oid \<and> cancellable now d)
    (db_deliveries s)))"
  let ?ds = "update_where (\<lambda>d. dl_id d \<in> set (map dl_id ?rows)) (lifecycle_cancel_row now) (db_deliveries s)"
  have s': "s' = s\<lparr>db_deliveries := ?ds\<rparr>" and "?rows \<noteq> []"
    using c n by (auto simp: cancel_inactive_deliveries_def Let_def)
  then obtain d where "d \<in> set ?rows" by (metis list.set_intros(1) neq_Nil_conv)
  moreover from this have "d \<in> set (db_deliveries s)" "cancellable now d" using set_claimable by fastforce+
  ultimately have less: "length (filter (\<lambda>d. \<not> terminal_status (dl_status d)) ?ds)
      < length (filter (\<lambda>d. \<not> terminal_status (dl_status d)) (db_deliveries s))"
    by (intro length_filter_update_less [where x = d])
      (auto simp: lifecycle_cancel_row_def terminal_status_def cancellable_def queued_status_def)
  have "\<forall>d' \<in> set ?ds. \<exists>d \<in> set (db_deliveries s). dl_event_id d' = dl_event_id d
      \<and> dl_organization_id d' = dl_organization_id d
      \<and> (dl_status d' = Processing \<longrightarrow> dl_status d = Processing \<and> dl_lease_expires_at d' = dl_lease_expires_at d)"
    by (auto simp: update_where_def lifecycle_cancel_row_def)
  then have "quiet T s'" using q by (intro quiet_sub [OF q]) (auto simp: s' quiet_def)
  with less show ?thesis by (simp add: advances_def s' cleanup_measure_def keeps_due_same)
qed

lemma cancel_none:
  assumes "cancel_inactive_deliveries cfg now (\<lambda>_. False) oid s = (0, s')" and "1 \<le> lifecycle_cleanup_batch_size cfg"
  shows "s' = s" and "\<And>d. d \<in> set (db_deliveries s) \<Longrightarrow> dl_organization_id d = oid \<Longrightarrow> \<not> cancellable now d"
proof -
  let ?ds = "filter (\<lambda>d. dl_organization_id d = oid \<and> cancellable now d) (db_deliveries s)"
  have none: "claimable cfg (\<lambda>_. False) dl_id (sort_key dl_id ?ds) = []"
    using assms(1) by (simp add: cancel_inactive_deliveries_def Let_def)
  then show "s' = s" using assms(1)
    by (auto simp: cancel_inactive_deliveries_def Let_def update_where_def)
  have "sort_key dl_id ?ds = []" using none claimable_Nil [OF assms(2)] by blast
  then have "set (sort_key dl_id ?ds) = {}" by (simp only: list.set)
  then show "\<And>d. d \<in> set (db_deliveries s) \<Longrightarrow> dl_organization_id d = oid \<Longrightarrow> \<not> cancellable now d"
    by auto
qed

text \<open>Deleting deliveries, in general.\<close>

lemma delete_deliveries_view:
  "db_events (delete_deliveries ids s) = db_events s" "db_projects (delete_deliveries ids s) = db_projects s"
  "db_organizations (delete_deliveries ids s) = db_organizations s"
  "db_lifecycle_operations (delete_deliveries ids s) = db_lifecycle_operations s"
  by (simp_all add: delete_deliveries_def)

lemma delete_deliveries_rows:
  "\<forall>d' \<in> set (db_deliveries (delete_deliveries ids s)). \<exists>d \<in> set (db_deliveries s). dl_event_id d' = dl_event_id d
     \<and> dl_organization_id d' = dl_organization_id d
     \<and> (dl_status d' = Processing \<longrightarrow> dl_status d = Processing \<and> dl_lease_expires_at d' = dl_lease_expires_at d)"
  by (force simp: delete_deliveries_def delete_where_def split: option.splits if_splits)

lemma delete_deliveries_length:
  "length (db_deliveries (delete_deliveries ids s)) = length (filter (\<lambda>d. dl_id d \<notin> ids) (db_deliveries s))"
  by (simp add: delete_deliveries_def delete_where_def)

lemma delete_deliveries_open:
  "length (filter (\<lambda>d. \<not> terminal_status (dl_status d)) (db_deliveries (delete_deliveries ids s)))
   \<le> length (filter (\<lambda>d. \<not> terminal_status (dl_status d)) (db_deliveries s))"
proof -
  let ?f = "\<lambda>d :: delivery. case dl_replay_of_delivery_id d of
      Some i \<Rightarrow> if i \<in> ids then d\<lparr>dl_replay_of_delivery_id := None\<rparr> else d | None \<Rightarrow> d"
  let ?open = "\<lambda>d :: delivery. \<not> terminal_status (dl_status d)"
  have "length (filter ?open (map ?f xs)) = length (filter ?open xs)" for xs :: "delivery list"
    by (induction xs) (auto split: option.splits)
  moreover have "db_deliveries (delete_deliveries ids s) = map ?f (filter (\<lambda>d. dl_id d \<notin> ids) (db_deliveries s))"
    by (simp add: delete_deliveries_def delete_where_def)
  ultimately show ?thesis by (simp only: length_filter_sub_le)
qed

lemma delete_batch_advances:
  assumes q: "quiet T s" and c: "delete_delivery_batch cfg skip oid s = (n, s')" and n: "n \<noteq> 0"
  shows "advances T s s'"
proof -
  let ?ids = "claimable cfg skip id (sort (map dl_id (filter (\<lambda>d. dl_organization_id d = oid) (db_deliveries s))))"
  have s': "s' = delete_deliveries (set ?ids) s" and "?ids \<noteq> []"
    using c n by (auto simp: delete_delivery_batch_def Let_def split: if_splits)
  then obtain i where "i \<in> set ?ids" by (metis list.set_intros(1) neq_Nil_conv)
  moreover from this have "i \<in> set (map dl_id (filter (\<lambda>d. dl_organization_id d = oid) (db_deliveries s)))"
    using set_claimable by fastforce
  ultimately obtain d where "d \<in> set (db_deliveries s)" "dl_id d \<in> set ?ids" by auto
  then have "length (db_deliveries s') < length (db_deliveries s)"
    unfolding s' delete_deliveries_length by (intro length_filter_less) auto
  then have "cleanup_measure s' < cleanup_measure s"
    using delete_deliveries_open [of "set ?ids" s]
    unfolding cleanup_measure_def s' delete_deliveries_view by linarith
  moreover have "quiet T s'"
    using q delete_deliveries_rows unfolding s'
    by (intro quiet_sub [OF q]) (auto simp: delete_deliveries_view quiet_def)
  ultimately show ?thesis by (simp add: advances_def keeps_due_same s' delete_deliveries_view)
qed

lemma delete_batch_none:
  assumes "delete_delivery_batch cfg (\<lambda>_. False) oid s = (0, s')" and "1 \<le> lifecycle_cleanup_batch_size cfg"
  shows "s' = s" and "\<And>d. d \<in> set (db_deliveries s) \<Longrightarrow> dl_organization_id d \<noteq> oid"
proof -
  let ?ids = "sort (map dl_id (filter (\<lambda>d. dl_organization_id d = oid) (db_deliveries s)))"
  have none: "claimable cfg (\<lambda>_. False) id ?ids = []" and s': "s' = s"
    using assms(1) by (auto simp: delete_delivery_batch_def Let_def split: if_splits)
  show "s' = s" by (rule s')
  have "?ids = []" using none claimable_Nil [OF assms(2)] by blast
  then have "set ?ids = {}" by (simp only: list.set)
  then show "\<And>d. d \<in> set (db_deliveries s) \<Longrightarrow> dl_organization_id d \<noteq> oid" by auto
qed

lemma event_batch_advances:
  assumes q: "quiet T s" and c: "delete_orphan_event_batch cfg skip oid s = (n, s')" and n: "n \<noteq> 0"
  shows "advances T s s'"
proof -
  let ?orphans = "map ev_id (filter (\<lambda>e. \<not> list_ex (\<lambda>d. dl_event_id d = ev_id e) (db_deliveries s))
    (organization_events oid s))"
  let ?ids = "claimable cfg skip id (sort ?orphans)"
  let ?dids = "set (map dl_id (filter (\<lambda>d. dl_event_id d \<in> set ?ids) (db_deliveries s)))"
  have "s' = delete_events (set ?ids) s" and "?ids \<noteq> []"
    using c n by (auto simp: delete_orphan_event_batch_def Let_def split: if_splits)
  then have view: "db_deliveries s' = db_deliveries (delete_deliveries ?dids s)"
    "db_events s' = filter (\<lambda>e. ev_id e \<notin> set ?ids) (db_events s)" "db_projects s' = db_projects s"
    "db_organizations s' = db_organizations s" "db_lifecycle_operations s' = db_lifecycle_operations s"
    by (simp_all add: delete_events_def Let_def delete_deliveries_view delete_where_def)
  obtain i where "i \<in> set ?ids" using \<open>?ids \<noteq> []\<close> by (metis list.set_intros(1) neq_Nil_conv)
  moreover from this have "i \<in> set ?orphans" using set_claimable by fastforce
  ultimately obtain e where "e \<in> set (db_events s)" "ev_id e \<in> set ?ids" by (auto simp: organization_events_def)
  then have "length (db_events s') < length (db_events s)" unfolding view by (intro length_filter_less) auto
  moreover have "length (db_deliveries s') \<le> length (db_deliveries s)" unfolding view delete_deliveries_length by simp
  ultimately have "cleanup_measure s' < cleanup_measure s"
    using delete_deliveries_open [of ?dids s] unfolding cleanup_measure_def view by linarith
  moreover have "quiet T s'"
    using q delete_deliveries_rows [of ?dids s] by (intro quiet_sub [OF q]) (auto simp: view quiet_def)
  ultimately show ?thesis by (simp add: advances_def keeps_due_same view)
qed

lemma event_batch_none:
  assumes "delete_orphan_event_batch cfg (\<lambda>_. False) oid s = (0, s')" and "1 \<le> lifecycle_cleanup_batch_size cfg"
    and q: "quiet T s" and no: "\<And>d. d \<in> set (db_deliveries s) \<Longrightarrow> dl_organization_id d \<noteq> oid"
  shows "s' = s" and "organization_events oid s = []"
proof -
  let ?orphans = "map ev_id (filter (\<lambda>e. \<not> list_ex (\<lambda>d. dl_event_id d = ev_id e) (db_deliveries s))
    (organization_events oid s))"
  have none: "claimable cfg (\<lambda>_. False) id (sort ?orphans) = []" and s': "s' = s"
    using assms(1) by (auto simp: delete_orphan_event_batch_def Let_def split: if_splits)
  show "s' = s" by (rule s')
  have "sort ?orphans = []" using none claimable_Nil [OF assms(2)] by blast
  then have "set (sort ?orphans) = {}" by (simp only: list.set)
  then have "\<exists>d \<in> set (db_deliveries s). dl_event_id d = ev_id e" if "e \<in> set (organization_events oid s)" for e
    using that by (auto simp: list_ex_iff)
  moreover have "dl_event_id d \<noteq> ev_id e" if "d \<in> set (db_deliveries s)" "e \<in> set (organization_events oid s)" for d e
    using q no [OF that(1)] that unfolding quiet_def organization_events_def by auto
  ultimately have "set (organization_events oid s) = {}" by (metis equals0I)
  then show "organization_events oid s = []" by simp
qed

lemma key_safe_operation: "key_safe ''operation_public_id''"
  unfolding key_safe_def contains_iff [symmetric] by code_simp

lemma delete_organization_view:
  "\<exists>ids. db_deliveries (delete_organization oid s) = db_deliveries (delete_deliveries ids s)"
  "\<exists>pids. db_events (delete_organization oid s) = filter (\<lambda>e. ev_project_id e \<notin> pids) (db_events s)"
  "db_projects (delete_organization oid s) = filter (\<lambda>p. prj_organization_id p \<noteq> oid) (db_projects s)"
  "db_organizations (delete_organization oid s) = filter (\<lambda>o'. org_id o' \<noteq> oid) (db_organizations s)"
  "db_lifecycle_operations (delete_organization oid s)
   = filter (\<lambda>r. lo_organization_id r \<noteq> oid) (db_lifecycle_operations s)"
  unfolding delete_organization_def Let_def
  by (simp_all add: delete_deliveries_view delete_where_def) (rule exI, rule refl)+

lemma filter_put_dropped:
  assumes "\<And>r. r \<in> set rows \<Longrightarrow> k r = k q \<Longrightarrow> \<not> P r" and "\<not> P q"
  shows "filter P (update_where (\<lambda>r. k r = k q) (\<lambda>_. q) rows) = filter P rows"
  using assms by (induction rows) auto

lemma delete_completed_advances:
  fixes op :: organization_lifecycle_operation and s s2 :: db and now :: datetime
  defines "op' \<equiv> op\<lparr>lo_status := Op_completed, lo_completed_at := Some now\<rparr>"
  assumes q: "quiet T s" and op: "op \<in> set (db_lifecycle_operations s)" "open_operation op" "lo_organization_id op = oid"
    and same: "db_deliveries s2 = db_deliveries s" "db_events s2 = db_events s" "db_projects s2 = db_projects s"
      "db_organizations s2 = db_organizations s"
      "db_lifecycle_operations s2
       = update_where (\<lambda>r. lo_id r = lo_id op') (\<lambda>_. op') (db_lifecycle_operations s)"
  shows "advances T s (delete_organization oid s2)"
proof -
  let ?s' = "delete_organization oid s2"
  have dist: "distinct (map lo_id (db_lifecycle_operations s))" using q by (simp add: quiet_def)
  have "\<not> lo_organization_id r \<noteq> oid" if "r \<in> set (db_lifecycle_operations s)" "lo_id r = lo_id op'" for r
    using row_unique [OF dist that(1) op(1)] that(2) op(3) by (simp add: op'_def)
  then have kept: "filter (\<lambda>r. lo_organization_id r \<noteq> oid) (db_lifecycle_operations s2)
      = filter (\<lambda>r. lo_organization_id r \<noteq> oid) (db_lifecycle_operations s)"
    unfolding same using op(3) by (intro filter_put_dropped) (auto simp: op'_def)
  obtain ids pids where "db_deliveries ?s' = db_deliveries (delete_deliveries ids s2)"
    "db_events ?s' = filter (\<lambda>e. ev_project_id e \<notin> pids) (db_events s2)"
    using delete_organization_view(1,2) by metis
  note v = this delete_organization_view(3-5) [of oid s2]
  note view = v [unfolded kept same(1-4)]
  have "length (filter open_operation (filter (\<lambda>r. lo_organization_id r \<noteq> oid) xs)) < length (filter open_operation xs)"
    if "op \<in> set xs" for xs
    using that op(2,3) length_filter_sub_le by (induction xs) (fastforce simp: less_Suc_eq_le simp del: filter_filter)+
  from this [OF op(1)] have "cleanup_measure ?s' < cleanup_measure s"
    using delete_deliveries_open [of ids s2, unfolded same(1)] delete_deliveries_length [of ids s2, unfolded same(1)]
      length_filter_le [of "\<lambda>e. ev_project_id e \<notin> pids" "db_events s"]
      length_filter_le [of "\<lambda>d. dl_id d \<notin> ids" "db_deliveries s"]
    unfolding cleanup_measure_def view by linarith
  moreover have "quiet T ?s'"
    using q delete_deliveries_rows [of ids s2] same(1)
    by (intro quiet_sub [OF q]) (auto simp: view quiet_def distinct_map_filter)
  moreover have "keeps_due T s ?s'"
    by (auto simp: keeps_due_def due_deletion_def gone_def view)
  ultimately show ?thesis by (simp add: advances_def)
qed

lemma delete_organization_advances:
  fixes op organization clock uuid
  defines "oid \<equiv> org_id organization"
  assumes q: "quiet T s" and op: "op \<in> set (db_lifecycle_operations s)" "open_operation op" "lo_organization_id op = oid"
    and org: "organization \<in> set (db_organizations s)"
    and no: "\<And>d. d \<in> set (db_deliveries s) \<Longrightarrow> dl_organization_id d \<noteq> oid" "organization_events oid s = []"
  shows "\<exists>r s'. delete_empty_organization now clock uuid op organization s = Inr (r, s') \<and> advances T s s'"
proof -
  let ?op = "op\<lparr>lo_status := Op_completed, lo_completed_at := Some now\<rparr>"
  have safe: "metadata_safe [(''operation_public_id'', AuScalar (AuStr (lo_public_id op)))]"
    using q op(1) key_safe_operation by (simp add: metadata_safe_def quiet_def del: scalar_safe.simps)
  obtain a where audit: "append_audit clock uuid (lo_requested_by_user_id op) (org_public_id organization)
      ''organization.deleted'' ''organization'' (Some (org_public_id organization)) None
      (Some [(''operation_public_id'', AuScalar (AuStr (lo_public_id op)))]) (put_operation ?op s)
    = Inr (a, bump_seq T_audit_events 1 ((put_operation ?op s)\<lparr>db_audit_events :=
        db_audit_events (put_operation ?op s) @ [a]\<rparr>))"
    using q org sanitize_metadata_iff [of "Some [(''operation_public_id'', AuScalar (AuStr (lo_public_id op)))]"] safe
    by (auto simp: append_audit_def quiet_def Let_def bindr_Inr_iff)
  let ?s2 = "bump_seq T_audit_events 1 ((put_operation ?op s)\<lparr>db_audit_events :=
        db_audit_events (put_operation ?op s) @ [a]\<rparr>)"
  have "\<not> list_ex (\<lambda>d. dl_organization_id d = org_id organization) (db_deliveries s)"
    using no(1) by (auto simp: list_ex_iff oid_def)
  then have ret: "delete_empty_organization now clock uuid op organization s
      = Inr (no_result\<lparr>lr_organizations_deleted := 1\<rparr>, delete_organization oid ?s2)"
    using no(2) audit by (simp add: delete_empty_organization_def Let_def oid_def)
  moreover have "advances T s (delete_organization oid ?s2)"
    by (rule delete_completed_advances [OF q op, where now = now])
      (simp_all add: put_operation_def bump_seq_def)
  ultimately show ?thesis by blast
qed

text \<open>The environment of a pass with no other worker at the rows.\<close>

definition alone :: "datetime \<Rightarrow> lifecycle_env \<Rightarrow> bool" where
  "alone T env \<longleftrightarrow> T \<le> le_now env \<and> le_skip_operation env = (\<lambda>_. False) \<and> le_skip_organization env = (\<lambda>_. False)
     \<and> le_skip_delivery env = (\<lambda>_. False) \<and> le_skip_event env = (\<lambda>_. False)"

lemma case_head_Some: "(case xs of [] \<Rightarrow> None | x # _ \<Rightarrow> Some x) = Some y \<Longrightarrow> y \<in> set xs"
  by (cases xs) auto

lemma case_head_None: "(case xs of [] \<Rightarrow> None | x # _ \<Rightarrow> Some x) = None \<longleftrightarrow> set xs = {}"
  by (cases xs) auto

lemma claim_operation_Some:
  assumes "claim_operation now skip s = Some op"
  shows "op \<in> set (db_lifecycle_operations s)" "open_operation op"
    "\<exists>o' \<in> set (db_organizations s). org_id o' = lo_organization_id op \<and> org_lifecycle_state o' = Deletion_pending"
proof -
  let ?rows = "filter (\<lambda>op. lo_kind op = ''deletion'' \<and> open_operation op \<and> lo_scheduled_at op \<le> now
      \<and> list_ex (\<lambda>o'. org_id o' = lo_organization_id op \<and> org_lifecycle_state o' = Deletion_pending)
          (db_organizations s)) (db_lifecycle_operations s)"
  have "op \<in> set (filter (\<lambda>op. \<not> skip (lo_id op)) (sort_key (\<lambda>op. (lo_scheduled_at op, lo_id op)) ?rows))"
    using assms unfolding claim_operation_def by (rule case_head_Some)
  then have "op \<in> set ?rows" by simp
  then show "op \<in> set (db_lifecycle_operations s)" "open_operation op"
    "\<exists>o' \<in> set (db_organizations s). org_id o' = lo_organization_id op \<and> org_lifecycle_state o' = Deletion_pending"
    by (auto simp: list_ex_iff)
qed

lemma claim_operation_due:
  assumes "due_deletion T s oid" and "T \<le> now"
  shows "claim_operation now (\<lambda>_. False) s \<noteq> None"
proof -
  obtain op where "op \<in> set (db_lifecycle_operations s)" "lo_kind op = ''deletion''" "open_operation op"
      "lo_scheduled_at op \<le> T" "lo_organization_id op = oid"
    and org: "\<exists>organization \<in> set (db_organizations s). org_id organization = oid
      \<and> org_lifecycle_state organization = Deletion_pending"
    using assms(1) unfolding due_deletion_def by blast
  moreover from org have "list_ex (\<lambda>o'. org_id o' = oid \<and> org_lifecycle_state o' = Deletion_pending) (db_organizations s)"
    unfolding list_ex_iff .
  ultimately show ?thesis
    using assms(2) unfolding claim_operation_def case_head_None set_filter set_sort
    by (auto intro!: exI [of _ op])
qed

lemma cleanup_idle:
  "claim_operation (le_now env) (le_skip_operation env) s = None \<Longrightarrow>
   cleanup_due_organization cfg env s = Inr (no_result, s)"
  by (simp add: cleanup_due_organization_def Let_def)

lemma find_claimed_organization:
  assumes q: "quiet T s" and o: "o' \<in> set (db_organizations s)" "org_id o' = oid"
  shows "List.find (\<lambda>x. org_id x = oid \<and> \<not> (\<lambda>_. False) (org_id x)) (db_organizations s) = Some o'"
  using find_key [of org_id "db_organizations s" o'] q o by (simp add: quiet_def)

text \<open>What follows the claim, with no row locked by another worker.\<close>

definition cleanup_claimed ::
  "settings \<Rightarrow> lifecycle_env \<Rightarrow> organization_lifecycle_operation \<Rightarrow> organization \<Rightarrow> db \<Rightarrow> (run_result \<times> db) result"
where
  "cleanup_claimed cfg env op organization s =
     (let (canceled, s2) = cancel_inactive_deliveries cfg (le_now env) (\<lambda>_. False) (org_id organization) s
      in if canceled \<noteq> 0 then Inr (no_result\<lparr>lr_deliveries_canceled := canceled\<rparr>, s2)
         else if has_live_delivery (le_now env) (org_id organization) s2 then Inr (no_result, s2)
         else
           let (deleted, s3) = delete_delivery_batch cfg (\<lambda>_. False) (org_id organization) s2
           in if deleted \<noteq> 0 then Inr (no_result\<lparr>lr_deliveries_deleted := deleted\<rparr>, s3)
              else
                let (events_deleted, s4) = delete_orphan_event_batch cfg (\<lambda>_. False) (org_id organization) s3
                in if events_deleted \<noteq> 0 then Inr (no_result\<lparr>lr_events_deleted := events_deleted\<rparr>, s4)
                   else delete_empty_organization (le_now env) (le_clock env) (le_uuid env) op organization s4)"

lemma cleanup_eq_claimed:
  assumes "quiet T s" and "alone T env" and "claim_operation (le_now env) (\<lambda>_. False) s = Some op"
    and "o' \<in> set (db_organizations s)" "org_id o' = lo_organization_id op" "org_lifecycle_state o' = Deletion_pending"
  shows "cleanup_due_organization cfg env s =
    cleanup_claimed cfg env (op\<lparr>lo_status := Op_running, lo_error := None\<rparr>) o'
      (put_operation (op\<lparr>lo_status := Op_running, lo_error := None\<rparr>) s)"
proof -
  have skips: "le_skip_operation env = (\<lambda>_. False)" "le_skip_organization env = (\<lambda>_. False)"
    "le_skip_delivery env = (\<lambda>_. False)" "le_skip_event env = (\<lambda>_. False)"
    using assms(2) by (simp_all add: alone_def)
  show ?thesis
    using find_claimed_organization [OF assms(1,4,5)] assms(3,6)
    unfolding cleanup_due_organization_def cleanup_claimed_def skips by (simp add: Let_def)
qed

lemma cleanup_claimed_advances:
  assumes q: "quiet T s" and T: "T \<le> le_now env" and b: "1 \<le> lifecycle_cleanup_batch_size cfg"
    and op: "op \<in> set (db_lifecycle_operations s)" "open_operation op" "lo_organization_id op = org_id o'"
    and o': "o' \<in> set (db_organizations s)"
  shows "\<exists>r s'. cleanup_claimed cfg env op o' s = Inr (r, s') \<and> advances T s s'"
proof -
  obtain n s2 where s2: "cancel_inactive_deliveries cfg (le_now env) (\<lambda>_. False) (org_id o') s = (n, s2)" by fastforce
  obtain m s3 where s3: "delete_delivery_batch cfg (\<lambda>_. False) (org_id o') s2 = (m, s3)" by fastforce
  obtain k s4 where s4: "delete_orphan_event_batch cfg (\<lambda>_. False) (org_id o') s3 = (k, s4)" by fastforce
  note eval = cleanup_claimed_def s2
  consider "n \<noteq> 0" | "n = 0" "m \<noteq> 0" | "n = 0" "m = 0" "k \<noteq> 0" | "n = 0" "m = 0" "k = 0" by blast
  then show ?thesis
  proof cases
    case 1
    then show ?thesis using cancel_advances [OF q s2] by (simp add: eval)
  next
    case n: 2
    note z = cancel_none [OF s2 [unfolded n(1)] b]
    have "\<not> has_live_delivery (le_now env) (org_id o') s" by (rule quiet_no_live [OF q T])
    then show ?thesis using delete_batch_advances [OF q s3 [unfolded z(1)]] n z(1) s3 [unfolded z(1)]
      by (simp add: eval)
  next
    case n: 3
    note z = cancel_none [OF s2 [unfolded n(1)] b]
    note y = delete_batch_none [OF s3 [unfolded z(1) n(2)] b]
    have "\<not> has_live_delivery (le_now env) (org_id o') s" by (rule quiet_no_live [OF q T])
    then show ?thesis using event_batch_advances [OF q s4 [unfolded y(1)]] n z(1) y(1)
      s3 [unfolded z(1)] s4 [unfolded y(1)] by (simp add: eval)
  next
    case n: 4
    note z = cancel_none [OF s2 [unfolded n(1)] b]
    note y = delete_batch_none [OF s3 [unfolded z(1) n(2)] b]
    note x = event_batch_none [OF s4 [unfolded y(1) n(3)] b q y(2)]
    have "\<not> has_live_delivery (le_now env) (org_id o') s" by (rule quiet_no_live [OF q T])
    then show ?thesis
      using delete_organization_advances [OF q op o' y(2) x(2), of "le_now env" "le_clock env" "le_uuid env"]
        n z(1) y(1) x(1) s3 [unfolded z(1)] s4 [unfolded y(1)] by (simp add: eval)
  qed
qed

lemma cleanup_advances:
  assumes q: "quiet T s" and a: "alone T env" and b: "1 \<le> lifecycle_cleanup_batch_size cfg"
    and c: "claim_operation (le_now env) (\<lambda>_. False) s = Some op"
  shows "\<exists>r s'. cleanup_due_organization cfg env s = Inr (r, s') \<and> advances T s s'"
proof -
  let ?op = "op\<lparr>lo_status := Op_running, lo_error := None\<rparr>"
  let ?s1 = "put_operation ?op s"
  note op = claim_operation_Some [OF c]
  obtain o' where o': "o' \<in> set (db_organizations s)" "org_id o' = lo_organization_id op"
    "org_lifecycle_state o' = Deletion_pending" using op(3) by blast
  have k: "keeps T s ?s1" by (rule put_running_keeps [OF q op(1,2)])
  have op1: "?op \<in> set (db_lifecycle_operations ?s1)" "open_operation ?op" "lo_organization_id ?op = org_id o'"
    using op(1) o'(2) by (force simp: put_operation_def update_where_def open_operation_def)+
  have o1: "o' \<in> set (db_organizations ?s1)" using o'(1) by (simp add: put_operation_def)
  have "\<exists>r s'. cleanup_claimed cfg env ?op o' ?s1 = Inr (r, s') \<and> advances T ?s1 s'"
    using k a by (intro cleanup_claimed_advances [OF _ _ b op1 o1]) (simp_all add: keeps_def alone_def)
  then show ?thesis
    unfolding cleanup_eq_claimed [OF q a c o'] using keeps_advances [OF k] by blast
qed

text \<open>The purges before the cleanup touch nothing the deletion depends on.\<close>

lemma purges_keep:
  assumes "quiet T s"
  shows "keeps T s (snd (purge_responses cfg dia now skip s))"
    "keeps T s (snd (purge_event_payloads cfg dia now skip' s s))"
    "keeps T s (snd (purge_stale_login_throttles cfg now skip'' s))"
proof -
  have k: "keeps T s s'"
    if "db_deliveries s' = db_deliveries s" "db_projects s' = db_projects s" "db_organizations s' = db_organizations s"
      "db_lifecycle_operations s' = db_lifecycle_operations s" "length (db_events s') = length (db_events s)"
      "\<forall>e' \<in> set (db_events s'). \<exists>e \<in> set (db_events s). ev_id e' = ev_id e \<and> ev_project_id e' = ev_project_id e" for s'
    using that assms keeps_due_same [of s' s] quiet_sub [OF assms, of s']
    by (auto simp: keeps_def cleanup_measure_def quiet_def)
  show "keeps T s (snd (purge_responses cfg dia now skip s))"
    by (rule k) (auto simp: purge_responses_def Let_def)
  show "keeps T s (snd (purge_event_payloads cfg dia now skip' s s))"
    by (rule k) (auto simp: purge_event_payloads_def Let_def update_where_def, metis)
  show "keeps T s (snd (purge_stale_login_throttles cfg now skip'' s))"
    by (rule k) (auto simp: purge_stale_login_throttles_def Let_def)
qed

subsection \<open>The maintenance loop\<close>

text \<open>
  \<^verbatim>\<open>run_lifecycle_loop\<close>, a pass for each environment until the worker is stopped.  A pass that raises is
  logged and the loop goes on, so only the database it leaves behind counts.
\<close>

fun run_lifecycle_loop ::
  "settings \<Rightarrow> dialect \<Rightarrow> (lifecycle_env \<times> (int \<Rightarrow> bool) \<times> (string \<Rightarrow> bool)) list \<Rightarrow> db \<Rightarrow> db"
where
  "run_lifecycle_loop cfg dia [] s = s"
| "run_lifecycle_loop cfg dia ((env, skip_attempt, skip_throttle) # passes) s =
     run_lifecycle_loop cfg dia passes (snd (run_once cfg dia env skip_attempt skip_throttle s))"

lemma keeps_trans: "keeps T s s' \<Longrightarrow> keeps T s' s'' \<Longrightarrow> keeps T s s''"
  unfolding keeps_def using keeps_due_trans by (metis order_trans)

lemma run_once_cleanup:
  assumes "quiet T s"
  obtains s3 where "keeps T s s3"
    "snd (run_once cfg dia env ska skt s)
     = (case cleanup_due_organization cfg env s3 of Inl e \<Rightarrow> s3 | Inr (r, s4) \<Rightarrow> s4)"
proof -
  let ?s1 = "snd (purge_responses cfg dia (le_now env) ska s)"
  let ?s2 = "snd (purge_event_payloads cfg dia (le_now env) (le_skip_event env) ?s1 ?s1)"
  let ?s3 = "snd (purge_stale_login_throttles cfg (le_now env) skt ?s2)"
  have k1: "keeps T s ?s1" by (rule purges_keep(1) [OF assms])
  then have k2: "keeps T ?s1 ?s2" by (intro purges_keep(2)) (simp add: keeps_def)
  then have k3: "keeps T ?s2 ?s3" by (intro purges_keep(3)) (simp add: keeps_def)
  have "keeps T s ?s3" by (rule keeps_trans [OF k1 keeps_trans [OF k2 k3]])
  moreover have "snd (run_once cfg dia env ska skt s)
     = (case cleanup_due_organization cfg env ?s3 of Inl e \<Rightarrow> ?s3 | Inr (r, s4) \<Rightarrow> s4)"
    unfolding run_once_def Let_def by (auto split: prod.splits sum.splits)
  ultimately show ?thesis by (rule that)
qed

text \<open>A pass deletes something, or nothing was due; what was due stays so until it is gone.\<close>

lemma run_once_progress:
  fixes ska :: "int \<Rightarrow> bool" and skt :: "string \<Rightarrow> bool" and dia :: dialect
  assumes "quiet T s" and "alone T env" and b: "1 \<le> lifecycle_cleanup_batch_size cfg"
  defines "s' \<equiv> snd (run_once cfg dia env ska skt s)"
  shows "keeps T s s'" and "cleanup_measure s' < cleanup_measure s \<or> (\<forall>oid. \<not> due_deletion T s oid \<or> gone s' oid)"
proof -
  obtain s3 where k: "keeps T s s3"
    and s': "s' = (case cleanup_due_organization cfg env s3 of Inl e \<Rightarrow> s3 | Inr (r, s4) \<Rightarrow> s4)"
    unfolding s'_def using run_once_cleanup [OF assms(1)] by metis
  then have q: "quiet T s3" by (simp add: keeps_def)
  have now: "T \<le> le_now env" and skip: "le_skip_operation env = (\<lambda>_. False)" using assms(2) by (simp_all add: alone_def)
  have "keeps T s s' \<and> (cleanup_measure s' < cleanup_measure s \<or> (\<forall>oid. \<not> due_deletion T s oid \<or> gone s' oid))"
  proof (cases "claim_operation (le_now env) (\<lambda>_. False) s3")
    case None
    then have "s' = s3" by (simp add: s' cleanup_idle skip)
    moreover have "\<not> due_deletion T s3 oid" for oid using claim_operation_due [OF _ now] None by blast
    ultimately show ?thesis using k by (auto simp: keeps_def keeps_due_def)
  next
    case (Some op)
    obtain r s4 where "cleanup_due_organization cfg env s3 = Inr (r, s4)" "advances T s3 s4"
      using cleanup_advances [OF q assms(2) b Some] by blast
    then have "advances T s s'" using keeps_advances [OF k] by (simp add: s')
    then show ?thesis by (simp add: advances_def keeps_def)
  qed
  then show "keeps T s s'" "cleanup_measure s' < cleanup_measure s \<or> (\<forall>oid. \<not> due_deletion T s oid \<or> gone s' oid)"
    by simp_all
qed

lemma loop_keeps:
  assumes "quiet T s" and "\<forall>p \<in> set passes. alone T (fst p)" and "1 \<le> lifecycle_cleanup_batch_size cfg"
  shows "keeps T s (run_lifecycle_loop cfg dia passes s)"
  using assms(1,2)
proof (induction passes arbitrary: s)
  case Nil
  then show ?case by (simp add: keeps_def keeps_due_def)
next
  case (Cons e passes)
  obtain env ska skt where e: "e = (env, ska, skt)" by (cases e)
  have k: "keeps T s (snd (run_once cfg dia env ska skt s))"
    using Cons.prems assms(3) by (intro run_once_progress(1)) (simp_all add: e)
  then have "keeps T (snd (run_once cfg dia env ska skt s))
      (run_lifecycle_loop cfg dia passes (snd (run_once cfg dia env ska skt s)))"
    using Cons.prems(2) by (intro Cons.IH) (simp_all add: keeps_def)
  then show ?case using keeps_trans [OF k] by (simp add: e)
qed

text \<open>
  C26: the deletion of organizations ends.  Let every lease have run out by the time \<open>T\<close>,
  and let maintenance passes run at or after \<open>T\<close> with nothing else at work on the rows.  After as
  many passes as there are deliveries (unfinished ones counted twice), events and open lifecycle
  operations, every organization whose deletion was due at \<open>T\<close> is gone from the database.
\<close>

theorem deletion_terminates:
  assumes "quiet T s" and "\<forall>p \<in> set passes. alone T (fst p)" and "1 \<le> lifecycle_cleanup_batch_size cfg"
    and "cleanup_measure s \<le> length passes" and "due_deletion T s oid"
  shows "oid \<notin> org_id ` set (db_organizations (run_lifecycle_loop cfg dia passes s))"
proof -
  have "due_deletion T s oid \<or> gone s oid \<Longrightarrow> gone (run_lifecycle_loop cfg dia passes s) oid"
    using assms(1,2,4)
  proof (induction passes arbitrary: s)
    case Nil
    then have "filter open_operation (db_lifecycle_operations s) = []" by (simp add: cleanup_measure_def)
    then show ?case using Nil by (auto simp: due_deletion_def filter_empty_conv)
  next
    case (Cons e passes)
  obtain env ska skt where e: "e = (env, ska, skt)" by (cases e)
    let ?s' = "snd (run_once cfg dia env ska skt s)"
    have k: "keeps T s ?s'"
      and m: "cleanup_measure ?s' < cleanup_measure s \<or> (\<forall>oid. \<not> due_deletion T s oid \<or> gone ?s' oid)"
      using run_once_progress [OF Cons.prems(2) _ assms(3)] Cons.prems(3) by (simp_all add: e)
    from k m have next': "due_deletion T ?s' oid \<or> gone ?s' oid" using Cons.prems(1) by (auto simp: keeps_def keeps_due_def)
    have q: "quiet T ?s'" and l: "\<forall>p \<in> set passes. alone T (fst p)" using k Cons.prems(3) by (simp_all add: keeps_def)
    show ?case
    proof (cases "gone ?s' oid")
      case True
      then show ?thesis using loop_keeps [OF q l assms(3), of dia] by (simp add: keeps_def keeps_due_def e)
    next
      case False
      then have "cleanup_measure ?s' \<le> length passes"
        using m Cons.prems(1,4) k by (auto simp: keeps_def keeps_due_def)
      with Cons.IH [OF next' q l] show ?thesis by (simp add: e)
    qed
  qed
  then show ?thesis using assms(5) by (simp add: gone_def)
qed

text \<open>An organization with one event, a pending delivery and a deletion that is due.\<close>

definition sample_deletion :: db where
  "sample_deletion = empty_db
     \<lparr>db_organizations := [\<lparr>org_id = 1, org_public_id = ''org-a'', org_name = ''A'',
         org_lifecycle_state = Deletion_pending, org_deletion_requested_at = Some 0,
         org_deletion_scheduled_at = Some 5, org_created_at = 0\<rparr>],
      db_projects := [\<lparr>prj_id = 1, prj_public_id = ''prj-a'', prj_organization_id = 1,
         prj_name = ''p'', prj_is_active = True, prj_created_at = 0\<rparr>],
      db_events := [sample_event], db_deliveries := [sample_delivery 1 1 1 Pending 0 0],
      db_lifecycle_operations := [\<lparr>lo_id = 1, lo_public_id = ''op-1'', lo_organization_id = 1,
         lo_requested_by_user_id = None, lo_kind = ''deletion'', lo_status = Op_pending, lo_scheduled_at = 5,
         lo_created_at = 0, lo_completed_at = None, lo_error = None\<rparr>]\<rparr>"

definition sample_pass :: lifecycle_env where
  "sample_pass = \<lparr>le_now = 10, le_clock = 10, le_uuid = ''u'', le_skip_operation = (\<lambda>_. False),
     le_skip_organization = (\<lambda>_. False), le_skip_delivery = (\<lambda>_. False), le_skip_event = (\<lambda>_. False)\<rparr>"

lemma sample_public_id_safe: "scalar_safe (AuStr ''op-1'')"
  unfolding scalar_safe.simps contains_iff [symmetric] by code_simp

theorem deletion_terminates_witness:
  "quiet 10 sample_deletion \<and> alone 10 sample_pass \<and> cleanup_measure sample_deletion = 4
   \<and> due_deletion 10 sample_deletion 1
   \<and> 1 \<notin> org_id ` set (db_organizations (run_lifecycle_loop default_settings Sqlite
       (replicate 4 (sample_pass, \<lambda>_. False, \<lambda>_. False)) sample_deletion))"
proof -
  have q: "quiet 10 sample_deletion"
    using sample_public_id_safe
    by (simp add: quiet_def sample_deletion_def empty_db_def sample_delivery_def sample_event_def org_owns_project_def
        del: scalar_safe.simps)
  moreover have a: "alone 10 sample_pass" by (simp add: alone_def sample_pass_def)
  moreover have m: "cleanup_measure sample_deletion = 4"
    by (simp add: cleanup_measure_def sample_deletion_def empty_db_def sample_delivery_def terminal_status_def
        open_operation_def)
  moreover have d: "due_deletion 10 sample_deletion 1"
    by (simp add: due_deletion_def sample_deletion_def empty_db_def open_operation_def)
  moreover have "1 \<le> lifecycle_cleanup_batch_size default_settings" by (simp add: default_settings_def)
  ultimately show ?thesis
    using deletion_terminates [OF q _ _ _ d, of "replicate 4 (sample_pass, \<lambda>_. False, \<lambda>_. False)" default_settings Sqlite]
    by simp
qed

end
