(* ===== verification/Worker.thy ===== *)
theory Worker
  imports Delivery_Service
begin

text \<open>
  \<^verbatim>\<open>app/worker.py\<close> with \<^verbatim>\<open>deliver\<close>, \<^verbatim>\<open>_deliver_with_heartbeat\<close> and \<^verbatim>\<open>_heartbeat\<close> of
  \<^verbatim>\<open>app/services/delivery_service.py\<close>: the delivery loop of a worker, its concurrent tasks and its
  shutdown, as a step relation.  A step of it is what runs between two awaits that touch the database
  or another task; other processes change the database in between.
\<close>

subsection \<open>A task\<close>

text \<open>
  The task of a claim.  \<open>Attempting\<close>: the HTTP attempt and the heartbeat run.  \<open>Attempted\<close>: the
  attempt has its result, which is to be finalized.  \<open>Failing\<close>: an exception escaped \<^verbatim>\<open>deliver\<close>
  and the claim is being released; \<open>Canceling\<close>: the same after a cancellation, shielded from another.
\<close>

datatype claim_task =
    Attempting
  | Attempted datetime attempt_result
  | Failing
  | Canceling
  | Ended

inductive task_step ::
  "settings \<Rightarrow> dialect \<Rightarrow> claimed_delivery \<Rightarrow> datetime \<Rightarrow> db \<times> claim_task \<Rightarrow> db \<times> claim_task \<Rightarrow> bool"
  for cfg :: settings and dia :: dialect and claim :: claimed_delivery and now :: datetime
where
  Task_renewed:
    "t = Attempting \<or> t = Attempted started res \<Longrightarrow> renew_lease cfg now claim s = (True, s') \<Longrightarrow>
     task_step cfg dia claim now (s, t) (s', t)"
| Task_lease_lost:
    "t = Attempting \<or> t = Attempted started res \<Longrightarrow> renew_lease cfg now claim s = (False, s') \<Longrightarrow>
     task_step cfg dia claim now (s, t) (s', Ended)"
| Task_attempted:
    "perform_attempt cfg env claim = Inr res \<Longrightarrow>
     task_step cfg dia claim now (s, Attempting) (s, Attempted started res)"
| Task_attempt_raises:
    "perform_attempt cfg env claim = Inl e \<Longrightarrow> task_step cfg dia claim now (s, Attempting) (s, Failing)"
| Task_finalized:
    "finalize cfg dia now r claim started res s = Inr (b, s') \<Longrightarrow>
     task_step cfg dia claim now (s, Attempted started res) (s', Ended)"
| Task_finalize_raises:
    "finalize cfg dia now r claim started res s = Inl e \<Longrightarrow>
     task_step cfg dia claim now (s, Attempted started res) (s, Failing)"
| Task_raises:
    "t = Attempting \<or> t = Attempted started res \<Longrightarrow> task_step cfg dia claim now (s, t) (s, Failing)"
| Task_released:
    "t = Failing \<or> t = Canceling \<Longrightarrow> release_claim now claim s = (b, s') \<Longrightarrow>
     task_step cfg dia claim now (s, t) (s', Ended)"

subsection \<open>The loop\<close>

text \<open>
  Where \<^verbatim>\<open>run_delivery_loop\<close> is: at the head of the loop, in \<^verbatim>\<open>claim_due\<close> for a number of slots, giving
  back claims that came in after the stop, waiting for a task or the poll interval, in the grace period
  of the shutdown, waiting for the tasks it canceled, or past its end.
\<close>

datatype worker_phase =
    At_head
  | Claiming int
  | Handing_back "claimed_delivery list"
  | Waiting
  | Draining
  | Gathering
  | Returned

record worker =
  wk_phase :: worker_phase
  wk_stop :: bool
  wk_now :: datetime
  wk_in_flight :: "(claimed_delivery \<times> claim_task) list"
  wk_db :: db
  wk_held :: "claimed_delivery set"
  wk_abandoned :: "claimed_delivery set"

definition worker_start :: "datetime \<Rightarrow> db \<Rightarrow> worker" where
  "worker_start now s = \<lparr>wk_phase = At_head, wk_stop = False, wk_now = now, wk_in_flight = [], wk_db = s,
     wk_held = {}, wk_abandoned = {}\<rparr>"

text \<open>
  The cancellation of the tasks still pending after the grace period.  A task that was releasing its
  claim after an exception is not shielded: it may end with the claim unreleased.
\<close>

primrec cancel_task :: "claim_task \<Rightarrow> claim_task" where
  "cancel_task Attempting = Canceling"
| "cancel_task (Attempted started res) = Canceling"
| "cancel_task Failing = Ended"
| "cancel_task Canceling = Canceling"
| "cancel_task Ended = Ended"

text \<open>
  What other processes may do to the rows of a worker's claims: take them away, but not extend their
  leases or lease another row under their tokens, which are fresh random values.
\<close>

definition leases_kept :: "claimed_delivery set \<Rightarrow> db \<Rightarrow> db \<Rightarrow> bool" where
  "leases_kept C s s' \<longleftrightarrow>
     (\<forall>c \<in> C. \<forall>d' \<in> set (db_deliveries s'). owned c d' \<longrightarrow>
        (\<exists>d \<in> set (db_deliveries s). owned c d \<and> dl_lease_expires_at d = dl_lease_expires_at d'))"

inductive worker_step :: "settings \<Rightarrow> dialect \<Rightarrow> worker \<Rightarrow> worker \<Rightarrow> bool"
  for cfg :: settings and dia :: dialect
where
  Signal_stop: "worker_step cfg dia w (w\<lparr>wk_stop := True\<rparr>)"
| Other_process:
    "wk_now w \<le> now \<Longrightarrow> leases_kept (wk_held w) (wk_db w) s' \<Longrightarrow>
     worker_step cfg dia w (w\<lparr>wk_now := now, wk_db := s'\<rparr>)"
| Run_task:
    "wk_now w \<le> now \<Longrightarrow> i < length (wk_in_flight w) \<Longrightarrow> wk_in_flight w ! i = (c, t) \<Longrightarrow>
     task_step cfg dia c now (wk_db w, t) (s', t') \<Longrightarrow>
     worker_step cfg dia w (w\<lparr>wk_now := now, wk_db := s', wk_in_flight := (wk_in_flight w)[i := (c, t')]\<rparr>)"
| Head_stopped:
    "wk_phase w = At_head \<Longrightarrow> wk_stop w \<Longrightarrow> worker_step cfg dia w (w\<lparr>wk_phase := Draining\<rparr>)"
| Head:
    "wk_phase w = At_head \<Longrightarrow> \<not> wk_stop w \<Longrightarrow>
     tasks = filter (\<lambda>(c, t). t \<noteq> Ended) (wk_in_flight w) \<Longrightarrow>
     available = worker_concurrency cfg - int (length tasks) \<Longrightarrow>
     worker_step cfg dia w (w\<lparr>wk_in_flight := tasks,
       wk_phase := (if available > 0 then Claiming (min (worker_batch_size cfg) available) else Waiting)\<rparr>)"
| Claim:
    "wk_phase w = Claiming n \<Longrightarrow> \<not> wk_stop w \<Longrightarrow> wk_now w \<le> now \<Longrightarrow>
     claim_due cfg now tokens n skip scan (wk_db w) = Inr (claims, s') \<Longrightarrow>
     inj tokens \<Longrightarrow> (\<forall>c \<in> wk_held w. cd_lease_token c \<notin> range tokens) \<Longrightarrow>
     worker_step cfg dia w (w\<lparr>wk_now := now, wk_db := s', wk_held := wk_held w \<union> set claims,
       wk_in_flight := wk_in_flight w @ map (\<lambda>c. (c, Attempting)) claims,
       wk_phase := (if claims \<noteq> [] then At_head else Waiting)\<rparr>)"
| Claim_stopped:
    "wk_phase w = Claiming n \<Longrightarrow> wk_stop w \<Longrightarrow> wk_now w \<le> now \<Longrightarrow>
     claim_due cfg now tokens n skip scan (wk_db w) = Inr (claims, s') \<Longrightarrow>
     inj tokens \<Longrightarrow> (\<forall>c \<in> wk_held w. cd_lease_token c \<notin> range tokens) \<Longrightarrow>
     worker_step cfg dia w (w\<lparr>wk_now := now, wk_db := s', wk_held := wk_held w \<union> set claims,
       wk_phase := Handing_back claims\<rparr>)"
| Claim_raises:
    "wk_phase w = Claiming n \<Longrightarrow> claim_due cfg now tokens n skip scan (wk_db w) = Inl e \<Longrightarrow>
     worker_step cfg dia w (w\<lparr>wk_phase := Draining\<rparr>)"
| Hand_back:
    "wk_phase w = Handing_back claims \<Longrightarrow> c \<in> set claims \<Longrightarrow> wk_now w \<le> now \<Longrightarrow>
     release_claim now c (wk_db w) = (b, s') \<Longrightarrow>
     worker_step cfg dia w (w\<lparr>wk_now := now, wk_db := s', wk_phase := Handing_back (removeAll c claims)\<rparr>)"
| Handed_back:
    "wk_phase w = Handing_back [] \<Longrightarrow> worker_step cfg dia w (w\<lparr>wk_phase := Draining\<rparr>)"
| Wake: "wk_phase w = Waiting \<Longrightarrow> worker_step cfg dia w (w\<lparr>wk_phase := At_head\<rparr>)"
| Grace_over:
    "wk_phase w = Draining \<Longrightarrow>
     worker_step cfg dia w (w\<lparr>wk_phase := Gathering,
       wk_in_flight := map (\<lambda>(c, t). (c, cancel_task t)) (wk_in_flight w),
       wk_abandoned := {c. (c, Failing) \<in> set (wk_in_flight w)}\<rparr>)"
| Return:
    "wk_phase w = Draining \<or> wk_phase w = Gathering \<Longrightarrow> \<forall>(c, t) \<in> set (wk_in_flight w). t = Ended \<Longrightarrow>
     worker_step cfg dia w (w\<lparr>wk_phase := Returned\<rparr>)"

inductive_cases task_stepE: "task_step cfg dia c now (s, t) (s', t')"

subsection \<open>What the operations do to the leases of claims\<close>

lemma leases_kept_refl: "leases_kept C s s"
  unfolding leases_kept_def by blast

lemma set_put_delivery: "d' \<in> set (db_deliveries (put_delivery d s)) \<Longrightarrow>
    d' = d \<or> d' \<in> set (db_deliveries s) \<and> dl_id d' \<noteq> dl_id d"
  by (auto simp: put_delivery_def update_where_def)

lemma put_kept:
  assumes "\<And>c. c \<in> C \<Longrightarrow> \<not> owned c d" shows "leases_kept C s (put_delivery d s)"
  unfolding leases_kept_def
proof (intro ballI impI)
  fix c d' assume "c \<in> C" "d' \<in> set (db_deliveries (put_delivery d s))" "owned c d'"
  then have "d' \<in> set (db_deliveries s)" using assms set_put_delivery by blast
  with \<open>owned c d'\<close> show "\<exists>d \<in> set (db_deliveries s). owned c d \<and> dl_lease_expires_at d = dl_lease_expires_at d'" by blast
qed

lemma not_processing_unowned: "dl_status d \<noteq> Processing \<Longrightarrow> \<not> owned c d"
  by (simp add: owned_def)

lemma put_frees:
  assumes "dl_id d = cd_id c" and "dl_status d \<noteq> Processing" and "d' \<in> set (db_deliveries (put_delivery d s))"
  shows "\<not> owned c d'"
  using set_put_delivery [OF assms(3)] assms(1,2) by (auto simp: owned_def)

lemma release_kept:
  assumes "release_claim now c s = (b, s')"
  shows "leases_kept C s s'" and "d \<in> set (db_deliveries s') \<Longrightarrow> \<not> owned c d"
proof -
  have "leases_kept C s s' \<and> (d \<in> set (db_deliveries s') \<longrightarrow> \<not> owned c d)"
  proof (cases "List.find (owned c) (db_deliveries s)")
    case None
    then have "s' = s" using assms by (simp add: release_claim_def)
    then show ?thesis using None leases_kept_refl by (simp add: find_None_iff)
  next
    case (Some r)
    then have r: "dl_id r = cd_id c" using find_Some_set [OF Some] by (simp add: owned_def)
    let ?r = "r\<lparr>dl_status := Retry_scheduled, dl_next_attempt_at := now, dl_lease_token := None,
      dl_lease_expires_at := None, dl_updated_at := now\<rparr>"
    have s': "s' = put_delivery ?r s" using assms Some by (simp add: release_claim_def)
    show ?thesis unfolding s'
      using put_kept [of C ?r s] put_frees [of ?r c d s] r by (simp add: not_processing_unowned)
  qed
  then show "leases_kept C s s'" "d \<in> set (db_deliveries s') \<Longrightarrow> \<not> owned c d" by simp_all
qed

lemma finalized_not_processing: "dl_status (finalize_row cfg finished r n res d) \<noteq> Processing"
  "dl_id (finalize_row cfg finished r n res d) = dl_id d"
  by (simp_all add: finalize_row_def Let_def)

lemma finalize_kept:
  assumes "finalize cfg dia now r c started res s = Inr (b, s')"
  shows "leases_kept C s s'" and "d \<in> set (db_deliveries s') \<Longrightarrow> \<not> leased c now d"
proof -
  have "leases_kept C s s' \<and> (d \<in> set (db_deliveries s') \<longrightarrow> \<not> leased c now d)"
  proof (cases "List.find (leased c now) (db_deliveries s)")
    case None
    then have "s' = s" using assms by (simp add: finalize_def)
    then show ?thesis using None leases_kept_refl by (simp add: find_None_iff)
  next
    case (Some x)
    let ?x = "finalize_row cfg now r (cd_attempt_number c) res x"
    have x: "dl_id x = cd_id c" using find_Some_set [OF Some] by (simp add: leased_def owned_def)
    have s': "db_deliveries s' = db_deliveries (put_delivery ?x s)"
      using assms Some
      by (auto simp: finalize_def Let_def bindr_Inr_iff insert_attempt_def put_delivery_def put_endpoint_quota_def
          bump_seq_def split: option.splits if_splits)
    have "leases_kept C s s'" using put_kept [of C ?x s] finalized_not_processing(1)
      unfolding leases_kept_def s' by (simp add: not_processing_unowned)
    moreover have "d \<in> set (db_deliveries s') \<Longrightarrow> \<not> owned c d"
      unfolding s' using put_frees [of ?x c d s] finalized_not_processing x by simp
    ultimately show ?thesis by (auto simp: leased_def)
  qed
  then show "leases_kept C s s'" "d \<in> set (db_deliveries s') \<Longrightarrow> \<not> leased c now d" by simp_all
qed

lemma renew_kept:
  assumes "renew_lease cfg now c s = (b, s')" and "\<And>c'. c' \<in> C \<Longrightarrow> cd_lease_token c' \<noteq> cd_lease_token c"
  shows "leases_kept C s s'" and "\<not> b \<Longrightarrow> s' = s" and "\<not> b \<Longrightarrow> d \<in> set (db_deliveries s') \<Longrightarrow> \<not> leased c now d"
proof -
  have "leases_kept C s s' \<and> (\<not> b \<longrightarrow> s' = s) \<and> (\<not> b \<longrightarrow> d \<in> set (db_deliveries s') \<longrightarrow> \<not> leased c now d)"
  proof (cases "List.find (leased c now) (db_deliveries s)")
    case None
    then have "s' = s" using assms(1) by (simp add: renew_lease_def)
    then show ?thesis using None leases_kept_refl by (simp add: find_None_iff)
  next
    case (Some x)
    let ?x = "x\<lparr>dl_lease_expires_at := Some (now + seconds (worker_lease_seconds cfg)), dl_updated_at := now\<rparr>"
    have x: "dl_lease_token x = Some (cd_lease_token c)"
      using find_Some_set [OF Some] by (simp add: leased_def owned_def)
    have "\<not> owned c' ?x" if "c' \<in> C" for c' using assms(2) [OF that] x by (auto simp: owned_def)
    then show ?thesis using assms(1) Some put_kept [of C ?x s] by (auto simp: renew_lease_def)
  qed
  then show "leases_kept C s s'" "\<not> b \<Longrightarrow> s' = s" "\<not> b \<Longrightarrow> d \<in> set (db_deliveries s') \<Longrightarrow> \<not> leased c now d"
    by simp_all
qed

lemma selected_length:
  "select_fair_deliveries cfg now requested skip scan s = Inr (ds, s') \<Longrightarrow> 0 \<le> requested \<Longrightarrow>
   int (length ds) \<le> requested \<and> db_deliveries s' = db_deliveries s"
  by (cases rule: select_fair_deliveries_eq [of cfg now requested s skip scan])
    (auto simp: loop_inv_def count_inv_def capacity_left_def)

lemma claim_rows_kept:
  assumes "claim_rows cfg now tokens i ds s = Inr (claims, s')" and "\<And>c. c \<in> C \<Longrightarrow> cd_lease_token c \<notin> range tokens"
  shows "leases_kept C s s' \<and> map cd_lease_token claims = map tokens [i..<i + length claims] \<and> length claims = length ds"
  using assms(1)
proof (induction ds arbitrary: i s claims)
  case Nil
  then show ?case by (simp add: leases_kept_refl)
next
  case (Cons d ds)
  let ?d = "claim_row cfg now (tokens i) d"
  obtain c cs where c: "claim_of (tokens i) ?d s = Inr c" "claims = c # cs"
    and r: "claim_rows cfg now tokens (Suc i) ds (put_delivery ?d s) = Inr (cs, s')"
    using Cons.prems by (auto simp: Let_def bindr_Inr_iff)
  have "leases_kept C s (put_delivery ?d s)"
    by (rule put_kept) (use assms(2) in \<open>auto simp: owned_def claim_row_def, metis rangeI\<close>)
  moreover have "leases_kept C s a \<Longrightarrow> leases_kept C a b \<Longrightarrow> leases_kept C s b" for a b
    unfolding leases_kept_def by metis
  moreover have "cd_lease_token c = tokens i" using c(1) by (auto simp: claim_of_def some_or_def split: option.splits)
  ultimately show ?case using Cons.IH [OF r] c(2) by (auto simp: upt_conv_Cons simp del: upt_Suc)
qed

lemma claim_due_kept:
  assumes "claim_due cfg now tokens n skip scan s = Inr (claims, s')" and "inj tokens"
    and "\<forall>c \<in> C. cd_lease_token c \<notin> range tokens" and "0 < n"
  shows "leases_kept C s s'" "inj_on cd_lease_token (set claims)" "int (length claims) \<le> n"
    "cd_lease_token ` set claims \<subseteq> range tokens"
proof -
  obtain ds s1 where sel: "select_fair_deliveries cfg now n skip scan s = Inr (ds, s1)"
    and cl: "claim_rows cfg now tokens 0 ds s1 = Inr (claims, s')"
    using assms(1,4) by (auto simp: claim_due_def bindr_Inr_iff)
  note len = selected_length [OF sel less_imp_le [OF assms(4)]]
  have k: "leases_kept C s1 s'" "map cd_lease_token claims = map tokens [0..<length claims]"
    "length claims = length ds"
    using claim_rows_kept [OF cl, of C] assms(3) by simp_all
  show "leases_kept C s s'" using k(1) len by (simp add: leases_kept_def)
  show "int (length claims) \<le> n" using k(3) len by simp
  show "cd_lease_token ` set claims \<subseteq> range tokens" using arg_cong [OF k(2), of set] by auto
  have "distinct (map cd_lease_token claims)"
    unfolding k(2) using assms(2) by (simp add: distinct_map inj_on_def)
  then show "inj_on cd_lease_token (set claims)" by (simp add: distinct_map)
qed

subsection \<open>The invariant\<close>

definition handing :: "worker \<Rightarrow> claimed_delivery list" where
  "handing w = (case wk_phase w of Handing_back claims \<Rightarrow> claims | _ \<Rightarrow> [])"

text \<open>A claim that may still be leased is in the hands of a task, is being given back, or was abandoned.\<close>

definition in_hands :: "worker \<Rightarrow> claimed_delivery \<Rightarrow> bool" where
  "in_hands w c \<longleftrightarrow> (\<exists>t. (c, t) \<in> set (wk_in_flight w) \<and> t \<noteq> Ended) \<or> c \<in> set (handing w) \<or> c \<in> wk_abandoned w"

definition slots_inv :: "settings \<Rightarrow> worker \<Rightarrow> bool" where
  "slots_inv cfg w \<longleftrightarrow> int (length (wk_in_flight w)) \<le> worker_concurrency cfg
     \<and> (\<forall>n. wk_phase w = Claiming n \<longrightarrow> 0 < n \<and> n \<le> worker_batch_size cfg
          \<and> int (length (wk_in_flight w)) + n \<le> worker_concurrency cfg)"

definition claims_inv :: "worker \<Rightarrow> bool" where
  "claims_inv w \<longleftrightarrow> inj_on cd_lease_token (wk_held w) \<and> fst ` set (wk_in_flight w) \<subseteq> wk_held w
     \<and> set (handing w) \<subseteq> wk_held w
     \<and> (wk_phase w = Returned \<longrightarrow> (\<forall>(c, t) \<in> set (wk_in_flight w). t = Ended))
     \<and> (wk_phase w \<noteq> Gathering \<and> wk_phase w \<noteq> Returned \<longrightarrow> wk_abandoned w = {})"

definition leases_inv :: "worker \<Rightarrow> bool" where
  "leases_inv w \<longleftrightarrow> (\<forall>c \<in> wk_held w. \<forall>d \<in> set (db_deliveries (wk_db w)). leased c (wk_now w) d \<longrightarrow> in_hands w c)"

definition worker_inv :: "settings \<Rightarrow> worker \<Rightarrow> bool" where
  "worker_inv cfg w \<longleftrightarrow> slots_inv cfg w \<and> claims_inv w \<and> leases_inv w"

lemma slots_step:
  assumes "worker_step cfg dia w w'" and "slots_inv cfg w" and "1 \<le> worker_batch_size cfg"
  shows "slots_inv cfg w'"
  using assms(1)
proof cases
  case (Head tasks available)
  have "length tasks \<le> length (wk_in_flight w)" unfolding Head(4) by simp
  then show ?thesis using assms(2,3) Head(1,5) by (auto simp: slots_inv_def)
next
  case (Claim n now tokens skip scan claims s')
  have "0 < n" using assms(2) Claim(2) by (simp add: slots_inv_def)
  then have "int (length claims) \<le> n" using claim_due_kept(3) [OF Claim(5,6,7)] by simp
  then show ?thesis using assms(2) Claim(1,2) by (auto simp: slots_inv_def)
qed (use assms(2) in \<open>auto simp: slots_inv_def\<close>)

lemma task_not_ended: "task_step cfg dia c now (s, t) (s', t') \<Longrightarrow> t \<noteq> Ended"
  by (erule task_stepE) auto

lemma fst_set_update: "xs ! i = (c, t) \<Longrightarrow> i < length xs \<Longrightarrow> fst ` set (xs[i := (c, t')]) \<subseteq> fst ` set xs"
  by (metis fst_conv list_update_id map_update order_refl set_map)

lemma tokens_extend:
  assumes "inj_on f A" and "inj_on f B" and "f ` B \<subseteq> R" and "\<forall>c \<in> A. f c \<notin> R"
  shows "inj_on f (A \<union> B)"
  using assms unfolding inj_on_def by (metis Un_iff image_subset_iff)

lemma claims_step:
  assumes "worker_step cfg dia w w'" and "claims_inv w" and "slots_inv cfg w"
  shows "claims_inv w'"
  using assms(1)
proof cases
  case (Run_task now i c t s' t')
  have "wk_phase w \<noteq> Returned"
    using task_not_ended [OF Run_task(5)] assms(2) nth_mem [OF Run_task(3)] unfolding Run_task(4) claims_inv_def by auto
  then show ?thesis using assms(2) fst_set_update [OF Run_task(4,3), of t']
    unfolding claims_inv_def Run_task(1) handing_def by auto
next
  case (Claim n now tokens skip scan claims s')
  have n: "0 < n" using assms(3) Claim(2) by (simp add: slots_inv_def)
  note k = claim_due_kept [OF Claim(5,6,7) n]
  have "inj_on cd_lease_token (wk_held w \<union> set claims)"
    using tokens_extend [OF _ k(2,4) Claim(7)] assms(2) by (simp add: claims_inv_def)
  then show ?thesis using assms(2) Claim(1,2) by (auto simp: claims_inv_def handing_def)
next
  case (Claim_stopped n now tokens skip scan claims s')
  have n: "0 < n" using assms(3) Claim_stopped(2) by (simp add: slots_inv_def)
  note k = claim_due_kept [OF Claim_stopped(5,6,7) n]
  have "inj_on cd_lease_token (wk_held w \<union> set claims)"
    using tokens_extend [OF _ k(2,4) Claim_stopped(7)] assms(2) by (simp add: claims_inv_def)
  then show ?thesis using assms(2) Claim_stopped(1,2) by (auto simp: claims_inv_def handing_def)
next
  case (Head tasks available)
  then show ?thesis using assms(2) by (auto simp: claims_inv_def handing_def)
next
  case (Grace_over)
  then show ?thesis using assms(2) by (force simp: claims_inv_def handing_def)
qed (use assms(2) in \<open>auto simp: claims_inv_def handing_def\<close>)

text \<open>Leases carry over a change of the database that keeps them, as time goes on.\<close>

lemma leases_carry:
  assumes "leases_inv w" and "leases_kept C (wk_db w) s'" and "wk_now w \<le> now"
    and "c \<in> C" "c \<in> wk_held w" "d \<in> set (db_deliveries s')" "leased c now d"
  shows "in_hands w c"
proof -
  obtain d0 where "d0 \<in> set (db_deliveries (wk_db w))" "owned c d0" "dl_lease_expires_at d0 = dl_lease_expires_at d"
    using assms(2,4,6,7) unfolding leases_kept_def leased_def by metis
  moreover from this have "leased c (wk_now w) d0" using assms(3,7) by (auto simp: leased_def opt_gt_iff)
  ultimately show ?thesis using assms(1,5) by (auto simp: leases_inv_def)
qed

text \<open>What a step of a task does: the other claims keep their leases, and an ended task holds none.\<close>

lemma task_step_kept:
  assumes "task_step cfg dia c now (s, t) (s', t')" and "\<And>c'. c' \<in> C \<Longrightarrow> cd_lease_token c' \<noteq> cd_lease_token c"
  shows "leases_kept C s s' \<and> (t' = Ended \<longrightarrow> (\<forall>d \<in> set (db_deliveries s'). \<not> leased c now d))"
  using assms(1)
proof cases
  case Task_renewed
  then show ?thesis using renew_kept(1) [OF _ assms(2)] by auto
next
  case Task_lease_lost
  then show ?thesis using renew_kept(1,3) [of cfg now c s False s' C] assms(2) by blast
next
  case Task_finalized
  then show ?thesis using finalize_kept by auto
next
  case Task_released
  then show ?thesis using release_kept by (auto simp: leased_def)
qed (auto simp: leases_kept_refl)

lemma in_hands_other:
  assumes "in_hands w c'" and "i < length (wk_in_flight w)" and "wk_in_flight w ! i = (c, t)" and "c' \<noteq> c"
  shows "in_hands (w\<lparr>wk_now := now, wk_db := s', wk_in_flight := (wk_in_flight w)[i := (c, t')]\<rparr>) c'"
proof -
  have "(c', u) \<in> set ((wk_in_flight w)[i := (c, t')])" if m: "(c', u) \<in> set (wk_in_flight w)" for u
  proof -
    obtain j where j: "j < length (wk_in_flight w)" "wk_in_flight w ! j = (c', u)" using m unfolding in_set_conv_nth by blast
    then have "j \<noteq> i" using assms(3,4) by auto
    then have "(wk_in_flight w)[i := (c, t')] ! j = (c', u)" using j(2) by simp
    then show ?thesis using nth_mem [of j "(wk_in_flight w)[i := (c, t')]"] j(1) by simp
  qed
  then show ?thesis using assms(1) by (auto simp: in_hands_def handing_def)
qed

lemma leases_run_task:
  assumes "leases_inv w" and "claims_inv w" and "wk_now w \<le> now" and i: "i < length (wk_in_flight w)"
    "wk_in_flight w ! i = (c, t)" and step: "task_step cfg dia c now (wk_db w, t) (s', t')"
  shows "leases_inv (w\<lparr>wk_now := now, wk_db := s', wk_in_flight := (wk_in_flight w)[i := (c, t')]\<rparr>)"
  unfolding leases_inv_def
proof (intro ballI impI)
  let ?w = "w\<lparr>wk_now := now, wk_db := s', wk_in_flight := (wk_in_flight w)[i := (c, t')]\<rparr>"
  fix c' d assume h: "c' \<in> wk_held ?w" "d \<in> set (db_deliveries (wk_db ?w))" "leased c' (wk_now ?w) d"
  have inj: "inj_on cd_lease_token (wk_held w)" and c: "c \<in> wk_held w"
    using assms(2) nth_mem [OF i(1)] i(2) by (auto simp: claims_inv_def image_subset_iff)
  have "cd_lease_token x \<noteq> cd_lease_token c" if "x \<in> wk_held w - {c}" for x
    using that inj c by (auto dest: inj_onD)
  note k = task_step_kept [OF step, of "wk_held w - {c}", OF this]
  show "in_hands ?w c'"
  proof (cases "c' = c")
    case True
    then have "t' \<noteq> Ended" using k h(2,3) by auto
    moreover have "(c, t') \<in> set ((wk_in_flight w)[i := (c, t')])" using i(1) by (simp add: set_update_memI)
    ultimately show ?thesis using True by (auto simp: in_hands_def)
  next
    case False
    then show ?thesis
      using in_hands_other [OF _ i] leases_carry [OF assms(1) conjunct1 [OF k] assms(3)] h by auto
  qed
qed

lemma leases_step:
  assumes "worker_step cfg dia w w'" and "leases_inv w" and "claims_inv w" and "slots_inv cfg w"
  shows "leases_inv w'"
  using assms(1)
proof cases
  case Signal_stop
  then show ?thesis using assms(2) by (simp add: leases_inv_def in_hands_def handing_def)
next
  case (Other_process now s')
  then show ?thesis using leases_carry [OF assms(2) Other_process(3,2)]
    by (auto simp: leases_inv_def in_hands_def handing_def)
next
  case (Run_task now i c t s' t')
  then show ?thesis using leases_run_task [OF assms(2,3) Run_task(2-5)] by simp
next
  case (Claim n now tokens skip scan claims s')
  have n: "0 < n" using assms(4) Claim(2) by (simp add: slots_inv_def)
  note k = claim_due_kept(1) [OF Claim(5,6,7) n]
  show ?thesis using leases_carry [OF assms(2) k Claim(4)] unfolding Claim(1)
    by (fastforce simp: leases_inv_def in_hands_def handing_def Claim(2))
next
  case (Claim_stopped n now tokens skip scan claims s')
  have n: "0 < n" using assms(4) Claim_stopped(2) by (simp add: slots_inv_def)
  note k = claim_due_kept(1) [OF Claim_stopped(5,6,7) n]
  show ?thesis using leases_carry [OF assms(2) k Claim_stopped(4)] unfolding Claim_stopped(1)
    by (fastforce simp: leases_inv_def in_hands_def handing_def Claim_stopped(2))
next
  case (Hand_back claims c now b s')
  note k = release_kept [OF Hand_back(5)]
  show ?thesis using leases_carry [OF assms(2) k(1) Hand_back(4)] k(2) unfolding Hand_back(1)
    by (fastforce simp: leases_inv_def in_hands_def handing_def leased_def Hand_back(2))
next
  case Grace_over
  have "cancel_task t \<noteq> Ended \<or> t = Failing" if "t \<noteq> Ended" for t using that by (cases t) auto
  then show ?thesis using assms(2,3) unfolding Grace_over(1)
    by (fastforce simp: leases_inv_def in_hands_def handing_def claims_inv_def Grace_over(2))
qed (use assms(2) in \<open>force simp: leases_inv_def in_hands_def handing_def\<close>)+

lemma worker_inv_start: "0 \<le> worker_concurrency cfg \<Longrightarrow> worker_inv cfg (worker_start now s)"
  by (simp add: worker_inv_def worker_start_def slots_inv_def claims_inv_def leases_inv_def handing_def)

interpretation delivery_loop: step_invariant "worker_step cfg dia"
  "\<lambda>w. 1 \<le> worker_batch_size cfg \<and> worker_inv cfg w" for cfg dia
  by unfold_locales (auto simp: worker_inv_def intro: slots_step claims_step leases_step)


text \<open>A worker that is stopped during its first claim gives the claims back and returns.\<close>

lemma hand_back_all:
  "wk_phase w = Handing_back claims \<Longrightarrow>
   \<exists>w'. (worker_step cfg dia)\<^sup>*\<^sup>* w w' \<and> wk_phase w' = Draining \<and> wk_in_flight w' = wk_in_flight w
     \<and> wk_held w' = wk_held w \<and> wk_abandoned w' = wk_abandoned w"
proof (induction "length claims" arbitrary: w claims rule: less_induct)
  case less
  show ?case
  proof (cases claims)
    case Nil
    then have "worker_step cfg dia w (w\<lparr>wk_phase := Draining\<rparr>)" using less.prems by (simp add: Handed_back)
    then show ?thesis by (intro exI [of _ "w\<lparr>wk_phase := Draining\<rparr>"]) auto
  next
    case (Cons c cs)
    obtain b s' where r: "release_claim (wk_now w) c (wk_db w) = (b, s')" by fastforce
    let ?w = "w\<lparr>wk_now := wk_now w, wk_db := s', wk_phase := Handing_back (removeAll c claims)\<rparr>"
    have step: "worker_step cfg dia w ?w" by (rule Hand_back [OF less.prems _ _ r]) (simp_all add: Cons)
    have "length (removeAll c claims) < length claims" by (simp add: Cons le_imp_less_Suc removeAll_filter_not_eq)
    then obtain w' where w': "(worker_step cfg dia)\<^sup>*\<^sup>* ?w w'" "wk_phase w' = Draining" "wk_in_flight w' = wk_in_flight ?w"
        "wk_held w' = wk_held ?w" "wk_abandoned w' = wk_abandoned ?w"
      using less.hyps [of "removeAll c claims" ?w] by auto
    then show ?thesis using converse_rtranclp_into_rtranclp [OF step w'(1)] by auto
  qed
qed

lemma sample_claim_first:
  obtains c cs s' where "claim_due default_settings 10 (\<lambda>n. replicate n (CHR ''t'')) 10 (\<lambda>_. False)
    sample_db sample_db = Inr (c # cs, s')"
proof -
  have "case claim_due default_settings 10 (\<lambda>n. replicate n (CHR ''t'')) 10 (\<lambda>_. False) sample_db sample_db
      of Inl _ \<Rightarrow> False | Inr (cs, s') \<Rightarrow> cs \<noteq> []"
    by code_simp
  then show thesis using that by (auto split: sum.splits simp: neq_Nil_conv)
qed

lemma sample_tokens_inj: "inj (\<lambda>n. replicate n (CHR ''t''))"
  by (simp add: inj_def replicate_eq_replicate)

lemma sample_slots: "worker_concurrency default_settings = 10" "worker_batch_size default_settings = 50"
  by (simp_all add: default_settings_def)

lemma sample_run:
  "\<exists>w c. (worker_step default_settings Sqlite)\<^sup>*\<^sup>* (worker_start 10 sample_db) w \<and> wk_phase w = Returned
     \<and> c \<in> wk_held w \<and> wk_abandoned w = {}"
proof -
  let ?step = "worker_step default_settings Sqlite"
  obtain c cs s' where c: "claim_due default_settings 10 (\<lambda>n. replicate n (CHR ''t'')) 10 (\<lambda>_. False)
    sample_db sample_db = Inr (c # cs, s')" by (rule sample_claim_first)
  let ?w1 = "\<lparr>wk_phase = Claiming 10, wk_stop = False, wk_now = 10, wk_in_flight = [], wk_db = sample_db,
     wk_held = {}, wk_abandoned = {}\<rparr>"
  let ?w2 = "\<lparr>wk_phase = Claiming 10, wk_stop = True, wk_now = 10, wk_in_flight = [], wk_db = sample_db,
     wk_held = {}, wk_abandoned = {}\<rparr>"
  let ?w3 = "\<lparr>wk_phase = Handing_back (c # cs), wk_stop = True, wk_now = 10, wk_in_flight = [], wk_db = s',
     wk_held = insert c (set cs), wk_abandoned = {}\<rparr>"
  have "?step (worker_start 10 sample_db) ((worker_start 10 sample_db)\<lparr>wk_in_flight := [], wk_phase :=
      (if (10 :: int) > 0 then Claiming (min (worker_batch_size default_settings) 10) else Waiting)\<rparr>)"
    by (rule Head) (simp_all add: worker_start_def sample_slots)
  then have s1: "?step (worker_start 10 sample_db) ?w1" by (simp add: worker_start_def sample_slots)
  have s2: "?step ?w1 ?w2" using Signal_stop [of default_settings Sqlite ?w1] by simp
  have s3: "?step ?w2 ?w3"
    using Claim_stopped [of ?w2 10 10 default_settings "\<lambda>n. replicate n (CHR ''t'')" "\<lambda>_. False" sample_db "c # cs" s' Sqlite]
      c by (simp add: sample_tokens_inj)
  have "wk_phase ?w3 = Handing_back (c # cs)" by simp
  then obtain w where w: "?step\<^sup>*\<^sup>* ?w3 w" "wk_phase w = Draining" "wk_in_flight w = wk_in_flight ?w3"
      "wk_held w = wk_held ?w3" "wk_abandoned w = wk_abandoned ?w3"
    using hand_back_all by metis
  have "?step w (w\<lparr>wk_phase := Returned\<rparr>)" by (rule Return) (simp_all add: w)
  then have "?step\<^sup>*\<^sup>* ?w3 (w\<lparr>wk_phase := Returned\<rparr>)" by (rule rtranclp.rtrancl_into_rtrancl [OF w(1)])
  then have "?step\<^sup>*\<^sup>* ?w2 (w\<lparr>wk_phase := Returned\<rparr>)" by (rule converse_rtranclp_into_rtranclp [of ?step, OF s3])
  then have "?step\<^sup>*\<^sup>* ?w1 (w\<lparr>wk_phase := Returned\<rparr>)" by (rule converse_rtranclp_into_rtranclp [of ?step, OF s2])
  then have steps: "?step\<^sup>*\<^sup>* (worker_start 10 sample_db) (w\<lparr>wk_phase := Returned\<rparr>)"
    by (rule converse_rtranclp_into_rtranclp [of ?step, OF s1])
  show ?thesis using steps w(4,5) by (intro exI [of _ "w\<lparr>wk_phase := Returned\<rparr>"] exI [of _ c]) simp
qed


end
