(* ===== verification/Divergences.thy ===== *)
theory Divergences
  imports Commands Http_Api Organization_Export
begin

text \<open>
  Runs of the model on concrete databases that show where the code does not do what it means to.
\<close>

subsection \<open>A released probe blocks its endpoint\<close>

text \<open>
  The circuit of endpoint 2 has been open long enough; two deliveries wait for it.  A claim takes the first
  one as the probe of the half-open circuit.  The worker shuts down and releases it, which makes it due at the
  time of the release, behind the other one.  From then on the head of the queue is not the probe, and no claim
  takes anything for the endpoint, however late.
\<close>

definition probe_db :: db where
  "probe_db = empty_db\<lparr>db_events := [sample_event],
     db_deliveries := [sample_delivery 1 1 2 Pending 0 0, sample_delivery 2 1 2 Pending 0 1],
     db_endpoint_quotas := [sample_endpoint_quota 2 5 5 Open]\<rparr>"

definition claimed_at :: "datetime \<Rightarrow> db \<Rightarrow> (claimed_delivery list \<times> db)" where
  "claimed_at now s = (case claim_due default_settings now (\<lambda>n. replicate n (CHR ''t'')) 5 (\<lambda>_. False) s s of
     Inl e \<Rightarrow> ([], s) | Inr r \<Rightarrow> r)"

lemma released_probe_blocks:
  "case claimed_at 10 probe_db of (cs, s1) \<Rightarrow> map cd_id cs = [1]
     \<and> (case release_claim 20 (hd cs) s1 of (b, s2) \<Rightarrow>
          b \<and> map dl_status (db_deliveries s2) = [Retry_scheduled, Pending]
          \<and> fst (claimed_at 1000000 s2) = [] \<and> fst (claimed_at 1000000000000000 s2) = [])"
  by code_simp

subsection \<open>A retry without a token blocks the first attempts behind it\<close>

text \<open>
  The retry bucket of endpoint 1 is empty.  A retry is due before a delivery that was never attempted; only the
  head of the endpoint's queue is looked at, so the first attempt waits for the retry's token.  Alone, it
  is claimed.
\<close>

definition starved_quota :: endpoint_quota_state where
  "starved_quota = (sample_endpoint_quota 1 5 0 Closed)\<lparr>eq_refilled_at := 10, eq_retry_refilled_at := 10\<rparr>"

definition starved_db :: "delivery list \<Rightarrow> db" where
  "starved_db retries = empty_db\<lparr>db_events := [sample_event],
     db_deliveries := retries @ [sample_delivery 2 1 1 Pending 0 1], db_endpoint_quotas := [starved_quota]\<rparr>"

lemma retry_blocks_first_attempt:
  "fst (claimed_at 10 (starved_db [sample_delivery 1 1 1 Retry_scheduled 1 0])) = []
   \<and> map cd_id (fst (claimed_at 10 (starved_db []))) = [2]"
  by code_simp

subsection \<open>A delivery that is canceled during a claim\<close>

text \<open>
  The scan finds the delivery pending, a cancellation commits, and the row is locked by its id alone: the claim
  takes the canceled delivery and makes it \<^verbatim>\<open>processing\<close>.
\<close>

definition scanned_db :: "delivery_status \<Rightarrow> db" where
  "scanned_db status = empty_db\<lparr>db_events := [sample_event], db_deliveries := [sample_delivery 1 1 1 status 0 0]\<rparr>"

lemma canceled_row_claimed:
  "case claim_due default_settings 10 (\<lambda>n. replicate n (CHR ''t'')) 5 (\<lambda>_. False) (scanned_db Pending) (scanned_db Canceled) of
     Inl _ \<Rightarrow> False
   | Inr (cs, s') \<Rightarrow> map cd_id cs = [1] \<and> map dl_status (db_deliveries s') = [Processing]"
  by code_simp

subsection \<open>A project name that is taken\<close>

text \<open>The unique constraint fails in the flush, before the handler that would make it a conflict.\<close>

lemma duplicate_project_is_500:
  "case create_project sample_ctx 10 ''org-a'' ''p'' sample_tenancy of
     Inl e \<Rightarrow> rs_status (handle_exception e) = 500 | Inr _ \<Rightarrow> False"
  by code_simp

subsection \<open>A null payload\<close>

text \<open>
  An accepted event whose payload is the JSON null reads back as None, and its deliveries cannot be replayed: the
  answer is that the payload has been purged.
\<close>

lemma null_payload_not_replayable:
  assumes "find_event (dl_event_id d) s = Some (event\<lparr>ev_payload := payload_column JNull\<rparr>)"
  shows "ensure_replayable d now s = Inl (ConflictError ''Delivery event payload has been purged'')"
  using assms by (simp add: ensure_replayable_def payload_column_def)

subsection \<open>The limit of the usage tracker\<close>

text \<open>What a failed flush puts back is not held against the limit.\<close>

lemma usage_restore_over_limit:
  "let t = \<lparr>ut_max_entries = 1, ut_running = True, ut_pending = [(1, 5)]\<rparr>;
       (pending, t1) = usage_take t; t2 = usage_record 2 6 t1; t3 = usage_restore pending t2
   in length (ut_pending t3) = 2"
  by code_simp

subsection \<open>A full export\<close>

text \<open>
  With the largest limit an export that leaves out audit events, and nothing else, is not marked truncated:
  the read of the audit log stops at the limit, so that its length cannot exceed it.
\<close>

lemma full_export_hides_cut:
  assumes "list_audit org None None (min (1000 + 1) 1000) None None s = Inr audit_events"
  shows "\<not> int (length audit_events) > 1000"
  using assms by (auto simp: list_audit_def split: if_splits)

end
