(* ===== verification/Sdk_Clients.thy ===== *)
theory Sdk_Clients
  imports Outbox Responses
begin

text \<open>
  The other clients of \<^verbatim>\<open>producer.py\<close>: \<^verbatim>\<open>AuthClient\<close> registers accounts and logs in, \<^verbatim>\<open>ManagementClient\<close> calls the
  management routes with a bearer token.  They share the request path of the producer.
\<close>

type_synonym 'w network = "client_request \<Rightarrow> 'w \<Rightarrow> net_result \<times> 'w"

type_synonym client_headers = "(string \<times> string) list"

subsection \<open>Accounts\<close>

definition auth_client_headers :: client_headers where
  "auth_client_headers = [(''User-Agent'', ''webhook-platform-python/0.1'')]"

definition client_register ::
  "'w network \<Rightarrow> string \<Rightarrow> string \<Rightarrow> string \<Rightarrow> 'w \<Rightarrow> (send_error + (string \<times> json) list) \<times> 'w"
where
  "client_register net email name password w =
     (case client_request_json net auth_client_headers ''POST'' ''/users/''
             (Some (JObject [(''email'', JString email), (''name'', JString name), (''password'', JString password)]))
             [] [] [] w of
        (Inl e, w') \<Rightarrow> (Inl e, w')
      | (Inr (Some (JObject document)), w') \<Rightarrow> (Inr document, w')
      | (Inr _, w') \<Rightarrow> (Inl (ApiError 201 ''INVALID_RESPONSE'' None), w'))"

definition client_login :: "'w network \<Rightarrow> string \<Rightarrow> string \<Rightarrow> 'w \<Rightarrow> (send_error + string) \<times> 'w" where
  "client_login net email password w =
     (case client_request_json net auth_client_headers ''POST'' ''/auth/login'' None
             [(''username'', email), (''password'', password)] [] [] w of
        (Inl e, w') \<Rightarrow> (Inl e, w')
      | (Inr result, w') \<Rightarrow>
          (case (case result of Some (JObject document) \<Rightarrow> map_of document ''access_token'' | _ \<Rightarrow> None) of
             Some (JString token) \<Rightarrow>
               (if token = [] then Inl (ApiError 200 ''INVALID_RESPONSE'' None) else Inr token, w')
           | _ \<Rightarrow> (Inl (ApiError 200 ''INVALID_RESPONSE'' None), w')))"

subsection \<open>Management\<close>

definition management_init :: "string \<Rightarrow> client_headers result" where
  "management_init token =
     (if token = [] then Inl (ValueError ''token is required'')
      else Inr [(''Authorization'', ''Bearer '' @ token), (''User-Agent'', ''webhook-platform-python/0.1'')])"

definition client_list_organizations ::
  "'w network \<Rightarrow> client_headers \<Rightarrow> 'w \<Rightarrow> (send_error + json option) \<times> 'w"
where
  "client_list_organizations net headers w =
     client_request_json net headers ''GET'' ''/v1/organizations'' None [] [] [] w"

definition client_create_organization ::
  "'w network \<Rightarrow> client_headers \<Rightarrow> string \<Rightarrow> 'w \<Rightarrow> (send_error + json option) \<times> 'w"
where
  "client_create_organization net headers name w =
     client_request_json net headers ''POST'' ''/v1/organizations'' (Some (JObject [(''name'', JString name)])) [] [] [] w"

definition client_list_projects ::
  "'w network \<Rightarrow> client_headers \<Rightarrow> string \<Rightarrow> 'w \<Rightarrow> (send_error + json option) \<times> 'w"
where
  "client_list_projects net headers organization_id w =
     client_request_json net headers ''GET'' (''/v1/organizations/'' @ organization_id @ ''/projects'') None [] [] [] w"

definition client_create_project ::
  "'w network \<Rightarrow> client_headers \<Rightarrow> string \<Rightarrow> string \<Rightarrow> 'w \<Rightarrow> (send_error + json option) \<times> 'w"
where
  "client_create_project net headers organization_id name w =
     client_request_json net headers ''POST'' (''/v1/organizations/'' @ organization_id @ ''/projects'') (Some (JObject [(''name'', JString name)])) [] [] [] w"

definition client_list_api_keys ::
  "'w network \<Rightarrow> client_headers \<Rightarrow> string \<Rightarrow> 'w \<Rightarrow> (send_error + json option) \<times> 'w"
where
  "client_list_api_keys net headers project_id w =
     client_request_json net headers ''GET'' (''/v1/projects/'' @ project_id @ ''/api-keys'') None [] [] [] w"

definition client_create_api_key ::
  "'w network \<Rightarrow> client_headers \<Rightarrow> string \<Rightarrow> string \<Rightarrow> int option \<Rightarrow> 'w \<Rightarrow> (send_error + json option) \<times> 'w"
where
  "client_create_api_key net headers project_id name expires_in_days w =
     client_request_json net headers ''POST'' (''/v1/projects/'' @ project_id @ ''/api-keys'') (Some (JObject [(''name'', JString name), (''scopes'', JArray [JString ''events:write'']),
       (''expires_in_days'', json_option JInt expires_in_days)])) [] [] [] w"

definition client_revoke_api_key ::
  "'w network \<Rightarrow> client_headers \<Rightarrow> string \<Rightarrow> string \<Rightarrow> 'w \<Rightarrow> (send_error + json option) \<times> 'w"
where
  "client_revoke_api_key net headers project_id api_key_id w =
     client_request_json net headers ''DELETE'' (''/v1/projects/'' @ project_id @ ''/api-keys/'' @ api_key_id) None [] [] [] w"

definition client_list_endpoints ::
  "'w network \<Rightarrow> client_headers \<Rightarrow> string \<Rightarrow> 'w \<Rightarrow> (send_error + json option) \<times> 'w"
where
  "client_list_endpoints net headers project_id w =
     client_request_json net headers ''GET'' (''/v1/projects/'' @ project_id @ ''/endpoints'') None [] [] [] w"

definition client_create_endpoint ::
  "'w network \<Rightarrow> client_headers \<Rightarrow> string \<Rightarrow> string \<Rightarrow> string option \<Rightarrow> string list option \<Rightarrow> string option \<Rightarrow> 'w \<Rightarrow> (send_error + json option) \<times> 'w"
where
  "client_create_endpoint net headers project_id url description event_types signature_scheme w =
     client_request_json net headers ''POST'' (''/v1/projects/'' @ project_id @ ''/endpoints'') (Some (JObject ([(''url'', JString url), (''description'', json_option JString description)]
       @ (case event_types of None \<Rightarrow> [] | Some ts \<Rightarrow> [(''event_types'', JArray (map JString ts))])
       @ (case signature_scheme of None \<Rightarrow> [] | Some x \<Rightarrow> [(''signature_scheme'', JString x)])))) [] [] [] w"

definition client_list_deliveries ::
  "'w network \<Rightarrow> client_headers \<Rightarrow> string \<Rightarrow> int \<Rightarrow> int \<Rightarrow> 'w \<Rightarrow> (send_error + json option) \<times> 'w"
where
  "client_list_deliveries net headers project_id offset limit w =
     client_request_json net headers ''GET'' (''/v1/projects/'' @ project_id @ ''/deliveries'') None [] [] [(''offset'', str_of_int offset), (''limit'', str_of_int limit)] w"

definition client_get_delivery ::
  "'w network \<Rightarrow> client_headers \<Rightarrow> string \<Rightarrow> string \<Rightarrow> 'w \<Rightarrow> (send_error + json option) \<times> 'w"
where
  "client_get_delivery net headers project_id delivery_id w =
     client_request_json net headers ''GET'' (''/v1/projects/'' @ project_id @ ''/deliveries/'' @ delivery_id) None [] [] [] w"

definition client_replay_delivery ::
  "'w network \<Rightarrow> client_headers \<Rightarrow> string \<Rightarrow> string \<Rightarrow> 'w \<Rightarrow> (send_error + json option) \<times> 'w"
where
  "client_replay_delivery net headers project_id delivery_id w =
     client_request_json net headers ''POST'' (''/v1/projects/'' @ project_id @ ''/deliveries/'' @ delivery_id @ ''/replay'') None [] [] [] w"

definition client_replay_deliveries ::
  "'w network \<Rightarrow> client_headers \<Rightarrow> string \<Rightarrow> string list \<Rightarrow> string \<Rightarrow> 'w \<Rightarrow> (send_error + json option) \<times> 'w"
where
  "client_replay_deliveries net headers project_id delivery_ids idempotency_key w =
     client_request_json net headers ''POST'' (''/v1/projects/'' @ project_id @ ''/replays'') (Some (JObject [(''delivery_ids'', JArray (map JString delivery_ids))])) [] [(''Idempotency-Key'', idempotency_key)] [] w"

text \<open>The fields of a partial update that were passed.\<close>

definition endpoint_changes ::
  "string option \<Rightarrow> string option option \<Rightarrow> bool option \<Rightarrow> string list option option \<Rightarrow> string option \<Rightarrow> (string \<times> json) list"
where
  "endpoint_changes url description is_active event_types signature_scheme =
     (case url of None \<Rightarrow> [] | Some v \<Rightarrow> [(''url'', JString v)])
     @ (case description of None \<Rightarrow> [] | Some v \<Rightarrow> [(''description'', json_option JString v)])
     @ (case is_active of None \<Rightarrow> [] | Some v \<Rightarrow> [(''is_active'', JBool v)])
     @ (case event_types of None \<Rightarrow> [] | Some v \<Rightarrow> [(''event_types'', json_option (\<lambda>ts. JArray (map JString ts)) v)])
     @ (case signature_scheme of None \<Rightarrow> [] | Some v \<Rightarrow> [(''signature_scheme'', JString v)])"

definition client_update_endpoint ::
  "'w network \<Rightarrow> client_headers \<Rightarrow> string \<Rightarrow> string \<Rightarrow> (string \<times> json) list \<Rightarrow> 'w \<Rightarrow> (send_error + json option) \<times> 'w"
where
  "client_update_endpoint net headers project_id endpoint_id changes w =
     (if changes = [] then (Inl (Uncaught ''ValueError''), w)
      else client_request_json net headers ''PATCH'' (''/v1/projects/'' @ project_id @ ''/endpoints/'' @ endpoint_id)
             (Some (JObject changes)) [] [] [] w)"

subsection \<open>Requests\<close>

text \<open>
  One request at most leaves a client for each call, whatever comes back; it carries the client's headers, and an
  error never shows the response's text beyond a short ASCII code.
\<close>

lemma client_request_once:
  "\<exists>rq. snd (client_request_json net hs method path json data headers params w) = snd (net rq w)
     \<and> cq_method rq = method \<and> cq_path rq = path
     \<and> (\<forall>k v. map_of hs k = Some v \<and> k \<notin> fst ` set headers \<longrightarrow> map_of (cq_headers rq) k = Some v)"
proof -
  let ?rq = "\<lparr>cq_method = method, cq_path = path, cq_json = json, cq_data = data,
    cq_headers = filter (\<lambda>(k, _). k \<notin> fst ` set headers) hs @ headers, cq_params = params\<rparr>"
  have "snd (client_request_json net hs method path json data headers params w) = snd (net ?rq w)"
    by (auto simp: client_request_json_def split: prod.splits net_result.splits)
  moreover have "map_of (filter (\<lambda>(k, _). k \<notin> fst ` set headers) hs) k = map_of hs k" if "k \<notin> fst ` set headers" for k
    using that by (induction hs) (force split: prod.splits)+
  ultimately show ?thesis by (intro exI [of _ ?rq]) (auto simp: map_add_Some_iff)
qed

lemma safe_error_code:
  "safe_error response = ApiError status code retry_after \<Longrightarrow>
   status = cr_status response \<and> is_ascii code \<and> length code \<le> 64 \<and> (\<forall>n. retry_after = Some n \<longrightarrow> n \<le> 86400)"
  by (auto simp: safe_error_def Let_def is_ascii_def split: option.splits json.splits if_splits)

end
