(* ===== verification/Decorators.thy ===== *)
theory Decorators
  imports Prelude
begin

text \<open>
  \<^verbatim>\<open>app/decorators/retry.py\<close> and \<^verbatim>\<open>app/decorators/auth.py\<close>.  The decorated function is an argument that takes the
  state of the world to a result or an exception; \<open>'e\<close> are the exceptions.
\<close>

subsection \<open>Retry\<close>

text \<open>
  The loop from a given attempt on: the outcome, the times it slept and the world it leaves.  \<open>None\<close> as the
  exception is the TypeError of \<^verbatim>\<open>raise None\<close>, when no attempt is allowed at all.
\<close>

function retry_from ::
  "int \<Rightarrow> rat \<Rightarrow> ('e \<Rightarrow> bool) \<Rightarrow> ('w \<Rightarrow> ('e + 'a) \<times> 'w) \<Rightarrow> int \<Rightarrow> 'e option \<Rightarrow> 'w \<Rightarrow> ('e option + 'a) \<times> rat list \<times> 'w"
where
  "retry_from max_attempts delay exceptions func attempt last_exception w =
     (if attempt > max_attempts then (Inl last_exception, [], w)
      else case func w of
             (Inr x, w') \<Rightarrow> (Inr x, [], w')
           | (Inl e, w') \<Rightarrow>
               if \<not> exceptions e then (Inl (Some e), [], w')
               else
                 let (r, waits, w'') = retry_from max_attempts delay exceptions func (attempt + 1) (Some e) w'
                 in (r, (if attempt < max_attempts then [delay * 2 ^ nat (attempt - 1)] else []) @ waits, w''))"
  by pat_completeness auto
termination by (relation "measure (\<lambda>(max_attempts, _, _, _, attempt, _, _). nat (max_attempts + 1 - attempt))") auto

declare retry_from.simps [simp del]

definition retry ::
  "int \<Rightarrow> rat \<Rightarrow> ('e \<Rightarrow> bool) \<Rightarrow> ('w \<Rightarrow> ('e + 'a) \<times> 'w) \<Rightarrow> 'w \<Rightarrow> ('e option + 'a) \<times> rat list \<times> 'w"
where
  "retry max_attempts delay exceptions func w = retry_from max_attempts delay exceptions func 1 None w"

text \<open>
  The waits are the delay doubled from attempt to attempt, fewer than the attempts allowed, and a success needs no
  further call.
\<close>

lemma retry_from_waits:
  assumes "retry_from m delay p func a l w = (r, waits, w')" and "1 \<le> a"
  shows "waits = map (\<lambda>k. delay * 2 ^ (nat (a - 1) + k)) [0..<length waits] \<and> int (length waits) \<le> max 0 (m - a)"
  using assms
proof (induction m delay p func a l w arbitrary: r waits w' rule: retry_from.induct)
  case (1 m delay p func a l w)
  show ?case
  proof (cases "a > m \<or> (\<exists>x w1. func w = (Inr x, w1)) \<or> (\<exists>e w1. func w = (Inl e, w1) \<and> \<not> p e)")
    case True
    then have "waits = []" using 1(2) by (auto simp: retry_from.simps [of m] split: if_splits)
    then show ?thesis by simp
  next
    case False
    then obtain e w1 where f: "func w = (Inl e, w1)" "p e" and a: "a \<le> m"
      by (metis not_le old.sum.exhaust surj_pair)
    obtain r1 waits1 w2 where rec: "retry_from m delay p func (a + 1) (Some e) w1 = (r1, waits1, w2)"
      by (metis surj_pair)
    have ws: "waits = (if a < m then [delay * 2 ^ nat (a - 1)] else []) @ waits1"
      using 1(2) f a rec by (simp add: retry_from.simps [of m])
    have IH: "waits1 = map (\<lambda>k. delay * 2 ^ (nat a + k)) [0..<length waits1]" "int (length waits1) \<le> max 0 (m - (a + 1))"
      using 1(1) [OF _ f(1) [symmetric] refl _ rec] a f(2) 1(3) by simp_all
    have s: "nat a = Suc (nat (a - 1))" using 1(3) by simp
    show ?thesis
    proof (cases "a < m")
      case True
      have "waits1 = map (\<lambda>k. delay * 2 ^ (nat (a - 1) + k)) [1..<Suc (length waits1)]"
        by (subst IH(1)) (simp add: s map_Suc_upt [symmetric] del: upt_Suc)
      then show ?thesis using True ws IH(2) by (simp add: upt_conv_Cons del: upt_Suc)
    next
      case False
      then have "waits1 = []" using IH(2) a by simp
      then show ?thesis using False ws by simp
    qed
  qed
qed

subsection \<open>Required roles\<close>

datatype auth_failure = Authentication_required | Required_roles "string list"

definition require_auth ::
  "string list \<Rightarrow> string list option \<Rightarrow> ('e + 'a) \<Rightarrow> (auth_failure + 'e) + 'a"
where
  "require_auth roles user_roles result =
     (case user_roles of
        None \<Rightarrow> Inl (Inl Authentication_required)
      | Some held \<Rightarrow>
          if roles \<noteq> [] \<and> \<not> list_ex (\<lambda>role. role \<in> set held) roles then Inl (Inl (Required_roles roles))
          else map_sum Inr id result)"

end
