(* ===== verification/Spec2Isabelle.thy ===== *)
theory Spec2Isabelle
  imports Delivery_Safety Admission_Safety Membership Organization_Export Platform_Safety Receiver_Safety
    Outbox_Safety Middleware_Safety Items Deletion Worker Divergences Sdk_Clients Decorators
begin

text \<open>
  A verification of the webhook delivery platform under \<^verbatim>\<open>src/\<close>.

  \<^bold>\<open>The program.\<close>  Producers post events to an HTTP service.  The service stores each event once under its
  idempotency key and creates a delivery for every endpoint subscribed to it.  Workers claim due deliveries under a
  lease, send them signed to the endpoints, and record the outcome: success, a retry later, or the end.  Accounts
  manage organizations, projects, keys, endpoints and deliveries through management routes.  A maintenance loop in
  the worker enforces retention and deletes organizations.  An SDK holds the clients, a transactional outbox for
  producers and the verification of signatures for receivers.  The parts meet in one relational database, which is
  the state of the model.

  \<^bold>\<open>How the model is built.\<close>
  \<^item> The database is the record \<open>db\<close> of \<open>Models\<close>: a list of rows for every table, a record for every mapped class of
    \<^verbatim>\<open>app/models.py\<close>, and the sequences of the integer keys.  An operation takes the database to its successor and
    returns \<open>app_error + _\<close>, with a constructor for every exception; an operation that raises is rolled back.
  \<^item> A transaction is atomic.  Rows that others have locked and \<^verbatim>\<open>SKIP LOCKED\<close> leaves out are a predicate \<open>skip\<close>; where
    the code reads twice in one transaction, the second read may see another database (\<open>scan\<close> of \<open>claim_due\<close>, the two
    databases of \<open>purge_event_payloads\<close>).
  \<^item> Times are microseconds as \<open>int\<close>, floats exact rationals, strings lists of characters up to 255, SHA-256 works on
    32-bit words.  The clock, random values and fresh identifiers are arguments.
  \<^item> What is not in the repository is a parameter: URL splitting, address parsing and name resolution, the HTTP client,
    bcrypt, JSON web tokens, pydantic's rendering of datetimes and its error reports, the JSON parser of the receiver.
    \<open>hash_law\<close> and \<open>token_law\<close> are the only laws assumed of them, and only of passwords and tokens.
  \<^item> Loops are structural recursion or have a termination proof; there is no fuel anywhere.

  \<^bold>\<open>Foundations.\<close>  \<open>Prelude\<close>: time, the error monad, tables, the locale \<open>step_invariant\<close>.  \<open>Py_Strings\<close>, \<open>Py_Time\<close>,
  \<open>Hashing\<close>, \<open>Codecs\<close>: the parts of the standard library the code uses.  \<open>Config\<close>: \<^verbatim>\<open>app/config.py\<close>, with all the checks of a
  configuration.  \<open>Samples\<close>: rows for the witnesses.

  \<^bold>\<open>Delivery.\<close>
  \<^item> \<open>Admission\<close>, \<open>Admission_Safety\<close>: \<^verbatim>\<open>app/admission.py\<close>.  Token buckets through the locale \<open>token_bucket\<close>, interpreted
    on \<open>consume_tokens\<close>: the long-run rate, the announced waiting time, the limits an admitted event respects.
  \<^item> \<open>Scheduling\<close>, \<open>Fair_Selection\<close>: \<^verbatim>\<open>app/scheduling.py\<close>, the ranking of candidates and the selection loop.  The locales
    \<open>sched_invariant\<close> and \<open>sched_total\<close> carry the loop; a selection completes, respects every concurrency limit, is first
    in first out for each endpoint, pays its tokens, probes circuits once, and leaves work only where a limit holds it.
  \<^item> \<open>Retry_Policy\<close>, \<open>Webhook_Security\<close>: \<^verbatim>\<open>app/retry_policy.py\<close>, \<^verbatim>\<open>app/webhook_security.py\<close>.  Backoff and Retry-After, keys and
    secrets, canonical JSON, both signature schemes, the egress check, which lets global addresses through only.
  \<^item> \<open>Delivery_Service\<close>, \<open>Delivery_Safety\<close>: \<^verbatim>\<open>app/services/delivery_service.py\<close>.  Claims, leases, the attempt with every
    exception it handles, finalization.  A claim takes due deliveries once under a fresh lease, only the holder of a
    live lease records an outcome, the outcome table, the bounds of a retry, the circuit breaker.
  \<^item> \<open>Worker\<close>: \<^verbatim>\<open>app/worker.py\<close> with \<^verbatim>\<open>_deliver_with_heartbeat\<close>, as a step relation of the loop, its tasks, the stop signal and
    other processes.  Bounded concurrency, and no live lease left behind when the loop returns.
  \<^item> \<open>Lifecycle\<close>, \<open>Deletion\<close>: \<^verbatim>\<open>app/lifecycle.py\<close>.  Finitely many passes delete every organization that is due: the measure
    \<open>cleanup_measure\<close> bounds their number.

  \<^bold>\<open>Ingestion.\<close>  \<open>Ingest\<close>, \<open>Ingest_Safety\<close>: \<^verbatim>\<open>WebhookService.ingest_event\<close>, its fan-out and idempotency.  \<open>Api_Keys\<close>:
  \<^verbatim>\<open>app/api_key_auth.py\<close>, \<^verbatim>\<open>app/api_key_usage.py\<close> and the management of keys.  \<open>Http_Api\<close>: \<^verbatim>\<open>app/exceptions.py\<close>,
  \<^verbatim>\<open>app/exception_handlers.py\<close> and \<^verbatim>\<open>POST /v1/events\<close>.  \<open>Middleware\<close>, \<open>Middleware_Safety\<close>: \<^verbatim>\<open>app/middleware.py\<close>, the body limit, the
  request context and the rate limiter with its bounds.

  \<^bold>\<open>Management.\<close>
  \<^item> \<open>Authorization\<close>: \<^verbatim>\<open>app/authorization.py\<close>; the project gate is exactly the specification \<open>project_access\<close> of the roles.
  \<^item> \<open>Audit_Log\<close>: \<^verbatim>\<open>app/audit.py\<close>; the sanitizer is exactly \<open>metadata_safe\<close>, a page of the log is complete.
  \<^item> \<open>Service_Base\<close>, \<open>Organizations\<close>, \<open>Organization_Export\<close>, \<open>Projects\<close>, \<open>Endpoints\<close>, \<open>Delivery_Admin\<close>: the methods of
    \<^verbatim>\<open>app/services/webhook_service.py\<close>.  \<open>Commands\<close> has a constructor for each one that changes state and what it leaves alone.
  \<^item> \<open>Membership\<close>: over any session of commands the audit trail is complete and an organization keeps an owner whom only
    owners change (locales \<open>service_invariant\<close> and \<open>audit_trail\<close>, interpreted on \<open>execute\<close>).
  \<^item> \<open>Login_Throttle\<close>, \<open>Accounts\<close>, \<open>Accounts_Safety\<close>: \<^verbatim>\<open>app/login_throttle.py\<close>, \<^verbatim>\<open>app/security.py\<close>, \<^verbatim>\<open>app/auth.py\<close>,
    \<^verbatim>\<open>app/services/user_service.py\<close>, \<^verbatim>\<open>app/routers/auth.py\<close>, \<^verbatim>\<open>app/routers/users.py\<close>.  Who registers can log in, the token names
    them, and the failure budget locks the account.
  \<^item> \<open>Schemas\<close>, \<open>Responses\<close>, \<open>Routes\<close>: \<^verbatim>\<open>app/schemas/webhooks.py\<close>, \<^verbatim>\<open>app/schemas/user.py\<close>, \<^verbatim>\<open>app/routers/webhooks.py\<close>, one definition
    for every route.  What a route changes is one command of the active account its token names.
  \<^item> \<open>Items\<close>, \<open>Decorators\<close>: the item resource and \<^verbatim>\<open>app/decorators\<close>.

  \<^bold>\<open>The whole.\<close>  \<open>Platform\<close> is the transition system of every transaction on the database: claims, renewals, releases,
  outcomes, ingestion, commands, maintenance, logins.  \<open>Platform_Safety\<close> shows its invariant over every interleaving
  (\<open>step_invariant\<close>, interpreted on \<open>platform_step\<close>), that the queue refines the abstract life of a delivery, and that no
  stored row makes a claim or a finalization fail.  Its steps read and write one database at a time.

  \<^bold>\<open>The SDK.\<close>  \<open>Receiver\<close>, \<open>Receiver_Safety\<close>: \<^verbatim>\<open>receiver.py\<close> and \<^verbatim>\<open>examples/receiver/app.py\<close>; what the platform signs verifies,
  what verifies was signed, and however often a delivery arrives its event is accepted once.  \<open>Outbox\<close>, \<open>Outbox_Safety\<close>:
  \<^verbatim>\<open>producer.py\<close> and \<^verbatim>\<open>outbox.py\<close> against the event endpoint over a network that loses requests and responses: a message marked
  sent has its one event, and none is lost.  \<open>Sdk_Clients\<close>: the account and management clients.

  \<^bold>\<open>Where the code falls short.\<close>  \<open>Divergences\<close>, and lemmas at the end of \<open>Accounts_Safety\<close> and \<open>Delivery_Safety\<close>, hold
  concrete runs: a released probe blocks its endpoint, a starved retry blocks first attempts, a delivery canceled during
  a claim is sent, deleting an account can leave an organization without an owner, and others.

  \<^bold>\<open>Not modelled.\<close>
  \<^item> \<^verbatim>\<open>app/observability.py\<close> and the counters in \<^verbatim>\<open>app/security_observability.py\<close>: metrics and spans do not influence the state.
  \<^item> \<^verbatim>\<open>app/main.py\<close>, \<^verbatim>\<open>app/db.py\<close>, \<^verbatim>\<open>app/dependencies.py\<close>, \<^verbatim>\<open>app/services/factory.py\<close>, \<^verbatim>\<open>app/services/base.py\<close>, \<^verbatim>\<open>run_worker\<close>: wiring of
    frameworks, engine and process.
  \<^item> \<^verbatim>\<open>migrations\<close>: they create the tables and constraints that \<^verbatim>\<open>app/models.py\<close> declares, which the model has.
  \<^item> \<^verbatim>\<open>app/portal\<close>, \<^verbatim>\<open>cli.py\<close>, \<^verbatim>\<open>scripts\<close>, \<^verbatim>\<open>deploy\<close>: front ends, benchmarks, release and deployment tools outside the service.
  \<^item> Failures of the database connection itself, apart from a failed flush of key usage and errors inside a worker's task.
\<close>

end
